(* ===== verification/Prelude.thy ===== *)
theory Prelude
  imports Main "HOL-Library.Word"
begin

text \<open>
  Shared vocabulary of the development: the collections of facts the components
  extend, and the rendering of numbers as text.
\<close>

named_theorems step_simps \<open>what one step of a reconcile function does\<close>
named_theorems keeps \<open>preservation facts of reconcile steps\<close>

section \<open>Numbers as text\<close>

text \<open>\<open>fmt.Sprintf("%d", n)\<close> of the Go standard library.\<close>

definition digit_char :: "nat \<Rightarrow> char" where
  "digit_char d = char_of (48 + d)"

fun string_of_nat :: "nat \<Rightarrow> string" where
  "string_of_nat n = (if n < 10 then [digit_char n]
                      else string_of_nat (n div 10) @ [digit_char (n mod 10)])"

declare string_of_nat.simps [simp del]

definition string_of_int :: "int \<Rightarrow> string" where
  "string_of_int i = (if i < 0 then CHR ''-'' # string_of_nat (nat (- i))
                      else string_of_nat (nat i))"

definition char_digit :: "char \<Rightarrow> nat" where
  "char_digit c = of_char c - 48"

lemma of_char_digit [simp]: "d < 10 \<Longrightarrow> of_char (digit_char d) = 48 + d"
  by (simp add: digit_char_def)

lemma char_digit_digit_char [simp]: "d < 10 \<Longrightarrow> char_digit (digit_char d) = d"
  by (simp add: char_digit_def)

definition nat_of_string :: "string \<Rightarrow> nat" where
  "nat_of_string = foldl (\<lambda>a c. 10 * a + char_digit c) 0"

lemma nat_of_string_snoc: "nat_of_string (s @ [c]) = 10 * nat_of_string s + char_digit c"
  by (simp add: nat_of_string_def)

lemma nat_of_string_of_nat [simp]: "nat_of_string (string_of_nat n) = n"
proof (induction n rule: string_of_nat.induct)
  case (1 n)
  show ?case
  proof (cases "n < 10")
    case True
    then show ?thesis
      by (simp add: string_of_nat.simps [of n] nat_of_string_def)
  next
    case False
    then show ?thesis
      using 1 by (simp add: string_of_nat.simps [of n] nat_of_string_snoc)
  qed
qed

lemma string_of_nat_inject [simp]: "string_of_nat m = string_of_nat n \<longleftrightarrow> m = n"
  by (metis nat_of_string_of_nat)

section \<open>Lists\<close>

lemma list_all_mono: "list_all A xs \<Longrightarrow> (\<And>x. A x \<Longrightarrow> B x) \<Longrightarrow> list_all B xs"
  by (auto simp: list_all_iff)

end
