(* ===== verification/Actions.thy ===== *)
theory Actions
  imports Prelude
begin

text \<open>
  The shape of a Go reconcile function as a computation with state, log and
  early return, and the rules the controller proofs are made of: what running
  a step gives, which calls a computation can log (\<open>emits\<close>), which part of the
  object it leaves alone (\<open>leaves\<close>), and postconditions of both ways to end
  (\<open>valid\<close>).
\<close>

section \<open>Reconcile functions\<close>

text \<open>
  A Go function of a controller threads the object it reconciles and the log
  of the calls it makes to the outside (the Kubernetes API and the libraries
  that talk to it). What the outside answers is a function of that log, so an
  environment may remember everything it was asked. The function either goes
  on with a value or returns early.
\<close>

record ('o, 'c) st =
  obj :: 'o
  calls :: "'c list"

datatype ('r, 'a) step = Continue 'a | Return 'r

type_synonym ('o, 'c, 'r, 'a) act = "('o, 'c) st \<Rightarrow> ('r, 'a) step \<times> ('o, 'c) st"

definition ret :: "'a \<Rightarrow> ('o, 'c, 'r, 'a) act" where
  "ret x = (\<lambda>s. (Continue x, s))"

definition exit :: "'r \<Rightarrow> ('o, 'c, 'r, 'a) act" where
  "exit r = (\<lambda>s. (Return r, s))"

definition bnd :: "('o, 'c, 'r, 'a) act \<Rightarrow> ('a \<Rightarrow> ('o, 'c, 'r, 'b) act) \<Rightarrow> ('o, 'c, 'r, 'b) act" where
  "bnd m f = (\<lambda>s. case m s of
      (Continue x, s') \<Rightarrow> f x s'
    | (Return r, s') \<Rightarrow> (Return r, s'))"

definition thn :: "('o, 'c, 'r, unit) act \<Rightarrow> ('o, 'c, 'r, 'b) act \<Rightarrow> ('o, 'c, 'r, 'b) act" where
  "thn m n = bnd m (\<lambda>_. n)"

definition getObj :: "('o, 'c, 'r, 'o) act" where
  "getObj = (\<lambda>s. (Continue (obj s), s))"

definition modObj :: "('o \<Rightarrow> 'o) \<Rightarrow> ('o, 'c, 'r, unit) act" where
  "modObj f = (\<lambda>s. (Continue (), s\<lparr>obj := f (obj s)\<rparr>))"

text \<open>A call to the outside: it is logged, and the answer may depend on the
  whole log before it.\<close>

definition ask :: "'c \<Rightarrow> ('c list \<Rightarrow> 'a) \<Rightarrow> ('o, 'c, 'r, 'a) act" where
  "ask c f = (\<lambda>s. (Continue (f (calls s)), s\<lparr>calls := calls s @ [c]\<rparr>))"

text \<open>A Go function call: an early return of the callee is its result.\<close>

definition func :: "('o, 'c, 'a, 'a) act \<Rightarrow> ('o, 'c, 'r, 'a) act" where
  "func m = (\<lambda>s. case m s of
      (Continue x, s') \<Rightarrow> (Continue x, s')
    | (Return x, s') \<Rightarrow> (Continue x, s'))"

definition whenM :: "bool \<Rightarrow> ('o, 'c, 'r, unit) act \<Rightarrow> ('o, 'c, 'r, unit) act" where
  "whenM b m = (if b then m else ret ())"

primrec foreach :: "'x list \<Rightarrow> 'a \<Rightarrow> ('x \<Rightarrow> 'a \<Rightarrow> ('o, 'c, 'r, 'a) act) \<Rightarrow> ('o, 'c, 'r, 'a) act" where
  "foreach [] acc f = ret acc"
| "foreach (x # xs) acc f = bnd (f x acc) (\<lambda>acc'. foreach xs acc' f)"

text \<open>The value of a computation, and the state it leaves.\<close>

definition outcome :: "('o, 'c, 'r, 'a) act \<Rightarrow> ('o, 'c) st \<Rightarrow> ('r, 'a) step" where
  "outcome m s = fst (m s)"

definition final :: "('o, 'c, 'r, 'a) act \<Rightarrow> ('o, 'c) st \<Rightarrow> ('o, 'c) st" where
  "final m s = snd (m s)"

lemmas act_defs = ret_def exit_def bnd_def thn_def getObj_def modObj_def ask_def func_def
  whenM_def

subsection \<open>Running a computation\<close>

lemma run_ret [step_simps]: "ret x s = (Continue x, s)"
  by (simp add: ret_def)

lemma run_exit [step_simps]: "exit r s = (Return r, s)"
  by (simp add: exit_def)

lemma run_getObj [step_simps]: "getObj s = (Continue (obj s), s)"
  by (simp add: getObj_def)

lemma run_modObj [step_simps]: "modObj f s = (Continue (), s\<lparr>obj := f (obj s)\<rparr>)"
  by (simp add: modObj_def)

lemma run_ask [step_simps]:
  "ask c f s = (Continue (f (calls s)), s\<lparr>calls := calls s @ [c]\<rparr>)"
  by (simp add: ask_def)

lemma run_bnd_Continue: "m s = (Continue x, s') \<Longrightarrow> bnd m f s = f x s'"
  by (simp add: bnd_def)

lemma run_bnd_Return: "m s = (Return r, s') \<Longrightarrow> bnd m f s = (Return r, s')"
  by (simp add: bnd_def)

lemma bnd_ret [step_simps]: "bnd (ret x) f = f x"
  by (simp add: bnd_def ret_def)

lemma bnd_exit [step_simps]: "bnd (exit r) f = exit r"
  by (simp add: bnd_def exit_def fun_eq_iff)

lemma bnd_getObj [step_simps]: "bnd getObj f s = f (obj s) s"
  by (simp add: bnd_def getObj_def)

lemma bnd_modObj [step_simps]: "bnd (modObj g) f s = f () (s\<lparr>obj := g (obj s)\<rparr>)"
  by (simp add: bnd_def modObj_def)

lemma bnd_ask [step_simps]: "bnd (ask c g) f s = f (g (calls s)) (s\<lparr>calls := calls s @ [c]\<rparr>)"
  by (simp add: bnd_def ask_def)

lemma bnd_assoc [step_simps]: "bnd (bnd m f) g = bnd m (\<lambda>x. bnd (f x) g)"
  by (simp add: bnd_def fun_eq_iff split: prod.split step.split)

lemma bnd_if [step_simps]: "bnd (if b then m else n) f = (if b then bnd m f else bnd n f)"
  by simp

lemma whenM_True [step_simps]: "whenM True m = m"
  by (simp add: whenM_def)

lemma whenM_False [step_simps]: "whenM False m = ret ()"
  by (simp add: whenM_def)

lemma thn_eq [step_simps]: "thn m n = bnd m (\<lambda>_. n)"
  by (simp add: thn_def)

subsection \<open>What a computation logs and keeps\<close>

text \<open>\<open>emits A m\<close>: every call \<open>m\<close> adds to the log satisfies \<open>A\<close>.\<close>

definition emits :: "('c \<Rightarrow> bool) \<Rightarrow> ('o, 'c, 'r, 'a) act \<Rightarrow> bool" where
  "emits A m \<longleftrightarrow> (\<forall>s. \<exists>cs. calls (snd (m s)) = calls s @ cs \<and> list_all A cs)"

text \<open>\<open>leaves F m\<close>: the part \<open>F\<close> of the object is not changed.\<close>

definition leaves :: "('o \<Rightarrow> 'b) \<Rightarrow> ('o, 'c, 'r, 'a) act \<Rightarrow> bool" where
  "leaves F m \<longleftrightarrow> (\<forall>s. F (obj (snd (m s))) = F (obj s))"

lemma emitsD: "emits A m \<Longrightarrow> \<exists>cs. calls (snd (m s)) = calls s @ cs \<and> list_all A cs"
  by (simp add: emits_def)

lemma leavesD: "leaves F m \<Longrightarrow> F (obj (snd (m s))) = F (obj s)"
  by (simp add: leaves_def)

lemma emits_ret [keeps]: "emits A (ret x)"
  by (simp add: emits_def ret_def)

lemma emits_exit [keeps]: "emits A (exit x)"
  by (simp add: emits_def exit_def)

lemma emits_getObj [keeps]: "emits A getObj"
  by (simp add: emits_def getObj_def)

lemma emits_modObj [keeps]: "emits A (modObj f)"
  by (simp add: emits_def modObj_def)

lemma emits_ask [keeps]: "A c \<Longrightarrow> emits A (ask c f)"
  by (simp add: emits_def ask_def)

lemma emits_bnd [keeps]:
  assumes "emits A m" and "\<And>x. emits A (f x)"
  shows "emits A (bnd m f)"
  unfolding emits_def
proof
  fix s
  obtain cs where cs: "calls (snd (m s)) = calls s @ cs" "list_all A cs"
    using emitsD [OF assms(1)] by blast
  show "\<exists>cs. calls (snd (bnd m f s)) = calls s @ cs \<and> list_all A cs"
  proof (cases "m s")
    case (Pair r s')
    show ?thesis
    proof (cases r)
      case (Return q)
      with Pair cs show ?thesis by (auto simp: bnd_def)
    next
      case (Continue x)
      obtain ds where "calls (snd (f x s')) = calls s' @ ds" "list_all A ds"
        using emitsD [OF assms(2)] by blast
      with Pair Continue cs show ?thesis
        by (intro exI [of _ "cs @ ds"]) (auto simp: bnd_def)
    qed
  qed
qed

lemma emits_thn [keeps]: "emits A m \<Longrightarrow> emits A n \<Longrightarrow> emits A (thn m n)"
  by (simp add: thn_def emits_bnd)

lemma emits_whenM [keeps]: "(b \<Longrightarrow> emits A m) \<Longrightarrow> emits A (whenM b m)"
  by (simp add: whenM_def emits_ret)

lemma emits_func [keeps]: "emits A m \<Longrightarrow> emits A (func m)"
  by (auto simp: emits_def func_def split: prod.splits step.splits)
     (metis prod.inject snd_conv)+

lemma emits_if [keeps]: "(b \<Longrightarrow> emits A m) \<Longrightarrow> (\<not> b \<Longrightarrow> emits A n) \<Longrightarrow> emits A (if b then m else n)"
  by simp

lemma emits_foreach [keeps]: "(\<And>x a. emits A (f x a)) \<Longrightarrow> emits A (foreach xs acc f)"
  by (induction xs arbitrary: acc) (simp_all add: keeps)

lemma emits_mono: "emits A m \<Longrightarrow> (\<And>c. A c \<Longrightarrow> B c) \<Longrightarrow> emits B m"
  unfolding emits_def by (meson list.pred_mono_strong)

lemma leaves_ret [keeps]: "leaves F (ret x)"
  by (simp add: leaves_def ret_def)

lemma leaves_exit [keeps]: "leaves F (exit x)"
  by (simp add: leaves_def exit_def)

lemma leaves_getObj [keeps]: "leaves F getObj"
  by (simp add: leaves_def getObj_def)

lemma leaves_modObj [keeps]: "(\<And>ob. F (f ob) = F ob) \<Longrightarrow> leaves F (modObj f)"
  by (simp add: leaves_def modObj_def)

lemma leaves_ask [keeps]: "leaves F (ask c f)"
  by (simp add: leaves_def ask_def)

lemma leaves_bnd [keeps]:
  "leaves F m \<Longrightarrow> (\<And>x. leaves F (f x)) \<Longrightarrow> leaves F (bnd m f)"
  by (auto simp: leaves_def bnd_def split: prod.splits step.splits) (metis snd_conv)+

lemma leaves_thn [keeps]: "leaves F m \<Longrightarrow> leaves F n \<Longrightarrow> leaves F (thn m n)"
  by (simp add: thn_def leaves_bnd)

lemma leaves_whenM [keeps]: "(b \<Longrightarrow> leaves F m) \<Longrightarrow> leaves F (whenM b m)"
  by (simp add: whenM_def leaves_ret)

lemma leaves_func [keeps]: "leaves F m \<Longrightarrow> leaves F (func m)"
  by (auto simp: leaves_def func_def split: prod.splits step.splits) (metis snd_conv)+

lemma leaves_if [keeps]: "(b \<Longrightarrow> leaves F m) \<Longrightarrow> (\<not> b \<Longrightarrow> leaves F n) \<Longrightarrow> leaves F (if b then m else n)"
  by simp

lemma leaves_foreach [keeps]: "(\<And>x a. leaves F (f x a)) \<Longrightarrow> leaves F (foreach xs acc f)"
  by (induction xs arbitrary: acc) (simp_all add: keeps)

text \<open>The same through the case distinctions and bindings of a function body.\<close>

lemma emits_option [keeps]:
  "(x = None \<Longrightarrow> emits A m) \<Longrightarrow> (\<And>y. x = Some y \<Longrightarrow> emits A (f y)) \<Longrightarrow>
     emits A (case x of None \<Rightarrow> m | Some y \<Rightarrow> f y)"
  by (cases x) simp_all

lemma emits_sum [keeps]:
  "(\<And>y. x = Inl y \<Longrightarrow> emits A (f y)) \<Longrightarrow> (\<And>y. x = Inr y \<Longrightarrow> emits A (g y)) \<Longrightarrow>
     emits A (case x of Inl y \<Rightarrow> f y | Inr y \<Rightarrow> g y)"
  by (cases x) simp_all

lemma emits_prod [keeps]:
  "(\<And>y z. x = (y, z) \<Longrightarrow> emits A (f y z)) \<Longrightarrow> emits A (case x of (y, z) \<Rightarrow> f y z)"
  by (cases x) simp

lemma emits_prod_app [keeps]:
  "(\<And>y z. x = (y, z) \<Longrightarrow> emits A (f y z w)) \<Longrightarrow> emits A ((case x of (y, z) \<Rightarrow> f y z) w)"
  by (cases x) simp

lemma leaves_prod_app [keeps]:
  "(\<And>y z. leaves F (f y z w)) \<Longrightarrow> leaves F ((case x of (y, z) \<Rightarrow> f y z) w)"
  by (cases x) simp

lemma emits_let [keeps]: "(\<And>x. x = a \<Longrightarrow> emits A (f x)) \<Longrightarrow> emits A (let x = a in f x)"
  by simp

lemma leaves_option [keeps]:
  "leaves F m \<Longrightarrow> (\<And>y. leaves F (f y)) \<Longrightarrow> leaves F (case x of None \<Rightarrow> m | Some y \<Rightarrow> f y)"
  by (cases x) simp_all

lemma leaves_sum [keeps]:
  "(\<And>y. leaves F (f y)) \<Longrightarrow> (\<And>y. leaves F (g y)) \<Longrightarrow>
     leaves F (case x of Inl y \<Rightarrow> f y | Inr y \<Rightarrow> g y)"
  by (cases x) simp_all

lemma leaves_prod [keeps]:
  "(\<And>y z. leaves F (f y z)) \<Longrightarrow> leaves F (case x of (y, z) \<Rightarrow> f y z)"
  by (cases x) simp

lemma leaves_let [keeps]: "(\<And>x. leaves F (f x)) \<Longrightarrow> leaves F (let x = a in f x)"
  by simp

subsection \<open>Postconditions\<close>

text \<open>\<open>valid P m Q R\<close>: from a state with \<open>P\<close>, the computation goes on with \<open>Q\<close> of its
  value and state, or returns early with \<open>R\<close> of its result and state.\<close>

definition valid ::
  "(('o, 'c) st \<Rightarrow> bool) \<Rightarrow> ('o, 'c, 'r, 'a) act \<Rightarrow> ('a \<Rightarrow> ('o, 'c) st \<Rightarrow> bool) \<Rightarrow>
   ('r \<Rightarrow> ('o, 'c) st \<Rightarrow> bool) \<Rightarrow> bool" where
  "valid P m Q R \<longleftrightarrow> (\<forall>s. P s \<longrightarrow> (case m s of (Continue x, s') \<Rightarrow> Q x s' | (Return r, s') \<Rightarrow> R r s'))"

named_theorems wp \<open>rules for the postconditions of a computation\<close>

lemma validD_Continue: "valid P m Q R \<Longrightarrow> P s \<Longrightarrow> m s = (Continue x, s') \<Longrightarrow> Q x s'"
  by (force simp: valid_def)

lemma validD_Return: "valid P m Q R \<Longrightarrow> P s \<Longrightarrow> m s = (Return r, s') \<Longrightarrow> R r s'"
  by (force simp: valid_def)

lemma valid_weaken:
  "valid P' m Q' R' \<Longrightarrow> (\<And>s. P s \<Longrightarrow> P' s) \<Longrightarrow> (\<And>x s. Q' x s \<Longrightarrow> Q x s) \<Longrightarrow>
     (\<And>r s. R' r s \<Longrightarrow> R r s) \<Longrightarrow> valid P m Q R"
  by (fastforce simp: valid_def split: prod.splits step.splits)

lemma valid_bnd [wp]:
  "valid P m (\<lambda>x. Q' x) R \<Longrightarrow> (\<And>x. valid (Q' x) (f x) Q R) \<Longrightarrow> valid P (bnd m f) Q R"
  by (fastforce simp: valid_def bnd_def split: prod.splits step.splits)

lemma valid_thn: "valid P m (\<lambda>_. Q') R \<Longrightarrow> valid Q' n Q R \<Longrightarrow> valid P (thn m n) Q R"
  unfolding thn_def by (rule valid_bnd)

lemma valid_ret: "(\<And>s. P s \<Longrightarrow> Q x s) \<Longrightarrow> valid P (ret x) Q R"
  by (simp add: valid_def ret_def)

lemma valid_exit: "(\<And>s. P s \<Longrightarrow> R r s) \<Longrightarrow> valid P (exit r) Q R"
  by (simp add: valid_def exit_def)

lemma valid_getObj: "(\<And>s. P s \<Longrightarrow> Q (obj s) s) \<Longrightarrow> valid P getObj Q R"
  by (simp add: valid_def getObj_def)

lemma valid_modObj: "(\<And>s. P s \<Longrightarrow> Q () (s\<lparr>obj := f (obj s)\<rparr>)) \<Longrightarrow> valid P (modObj f) Q R"
  by (simp add: valid_def modObj_def)

lemma valid_ask:
  "(\<And>s. P s \<Longrightarrow> Q (f (calls s)) (s\<lparr>calls := calls s @ [c]\<rparr>)) \<Longrightarrow> valid P (ask c f) Q R"
  by (simp add: valid_def ask_def)

lemma valid_func: "valid P m Q Q \<Longrightarrow> valid P (func m) Q R"
  by (fastforce simp: valid_def func_def split: prod.splits step.splits)

lemma valid_foreach:
  assumes "\<And>x ys zs a. xs = ys @ x # zs \<Longrightarrow> valid (I ys a) (f x a) (I (ys @ [x])) R"
  shows "valid (I [] acc) (foreach xs acc f) (I xs) R"
proof -
  have "valid (I ys acc) (foreach zs acc f) (I xs) R" if "xs = ys @ zs" for ys zs acc
    using that
  proof (induction zs arbitrary: ys acc)
    case Nil
    then show ?case by (auto intro: valid_ret)
  next
    case (Cons z zs)
    have "valid (I ys acc) (f z acc) (I (ys @ [z])) R"
      using Cons.prems by (rule assms)
    then show ?case
      using Cons.IH [of "ys @ [z]"] Cons.prems by (auto intro: valid_bnd)
  qed
  from this [of "[]" xs acc] show ?thesis by simp
qed

text \<open>What every call satisfies is an invariant of the log; what only depends on a
  part that is left alone is kept; what holds of a log holds of a longer one.\<close>

lemma valid_emits:
  fixes m :: "('o, 'c, 'r, 'a) act"
  assumes "emits A m"
  shows "valid (\<lambda>s. list_all A (calls s)) m (\<lambda>_ s. list_all A (calls s)) (\<lambda>_ s. list_all A (calls s))"
  unfolding valid_def
proof (intro allI impI)
  fix s :: "('o, 'c) st" assume s: "list_all A (calls s)"
  obtain cs where cs: "calls (snd (m s)) = calls s @ cs" "list_all A cs"
    using emitsD [OF assms] by blast
  show "case m s of (Continue x, s') \<Rightarrow> list_all A (calls s') | (Return r, s') \<Rightarrow> list_all A (calls s')"
    using s cs by (cases "m s"; cases "fst (m s)") auto
qed

lemma valid_leaves:
  fixes m :: "('o, 'c, 'r, 'a) act"
  assumes "leaves F m"
  shows "valid (\<lambda>s. G (F (obj s))) m (\<lambda>_ s. G (F (obj s))) (\<lambda>_ s. G (F (obj s)))"
  unfolding valid_def
proof (intro allI impI)
  fix s :: "('o, 'c) st" assume "G (F (obj s))"
  then show "case m s of (Continue x, s') \<Rightarrow> G (F (obj s')) | (Return r, s') \<Rightarrow> G (F (obj s'))"
    using leavesD [OF assms, of s] by (cases "m s"; cases "fst (m s)") auto
qed

definition grows :: "('c list \<Rightarrow> bool) \<Rightarrow> bool" where
  "grows G \<longleftrightarrow> (\<forall>cs ds. G cs \<longrightarrow> G (cs @ ds))"

lemma growsD: "grows G \<Longrightarrow> G cs \<Longrightarrow> G (cs @ ds)"
  by (simp add: grows_def)

lemma valid_grows:
  fixes m :: "('o, 'c, 'r, 'a) act"
  assumes "emits (\<lambda>_. True) m" and "grows G"
  shows "valid (\<lambda>s. G (calls s)) m (\<lambda>_ s. G (calls s)) (\<lambda>_ s. G (calls s))"
  unfolding valid_def
proof (intro allI impI)
  fix s :: "('o, 'c) st" assume s: "G (calls s)"
  obtain cs where cs: "calls (snd (m s)) = calls s @ cs"
    using emitsD [OF assms(1)] by blast
  then have "G (calls (snd (m s)))"
    using s growsD [OF assms(2)] by simp
  then show "case m s of (Continue x, s') \<Rightarrow> G (calls s') | (Return r, s') \<Rightarrow> G (calls s')"
    by (cases "m s"; cases "fst (m s)") auto
qed

lemma valid_conj:
  "valid P m Q R \<Longrightarrow> valid P' m Q' R' \<Longrightarrow>
     valid (\<lambda>s. P s \<and> P' s) m (\<lambda>x s. Q x s \<and> Q' x s) (\<lambda>r s. R r s \<and> R' r s)"
  by (fastforce simp: valid_def split: prod.splits step.splits)

lemma valid_imp:
  "(C \<Longrightarrow> valid P m Q R) \<Longrightarrow> valid (\<lambda>s. C \<and> P s) m Q R"
  by (simp add: valid_def)

subsection \<open>Values\<close>

text \<open>\<open>yields V m\<close>: when the computation goes on, it does so with a value in \<open>V\<close>.\<close>

definition yields :: "('a \<Rightarrow> bool) \<Rightarrow> ('o, 'c, 'r, 'a) act \<Rightarrow> bool" where
  "yields V m \<longleftrightarrow> (\<forall>s x s'. m s = (Continue x, s') \<longrightarrow> V x)"

named_theorems yields \<open>introduction rules for yields\<close>

lemma yields_ret [yields]: "V x \<Longrightarrow> yields V (ret x)"
  by (simp add: yields_def ret_def)

lemma yields_exit [yields]: "yields V (exit r)"
  by (simp add: yields_def exit_def)

lemma yields_bnd [yields]: "(\<And>x. yields V (f x)) \<Longrightarrow> yields V (bnd m f)"
  by (auto simp: yields_def bnd_def split: prod.splits step.splits)

lemma yields_thn [yields]: "yields V n \<Longrightarrow> yields V (thn m n)"
  by (simp add: thn_def yields_bnd)

lemma yields_if [yields]: "(b \<Longrightarrow> yields V m) \<Longrightarrow> (\<not> b \<Longrightarrow> yields V n) \<Longrightarrow> yields V (if b then m else n)"
  by simp

lemma yields_option [yields]:
  "(x = None \<Longrightarrow> yields V m) \<Longrightarrow> (\<And>y. x = Some y \<Longrightarrow> yields V (f y)) \<Longrightarrow>
     yields V (case x of None \<Rightarrow> m | Some y \<Rightarrow> f y)"
  by (cases x) simp_all

lemma yields_sum [yields]:
  "(\<And>y. x = Inl y \<Longrightarrow> yields V (f y)) \<Longrightarrow> (\<And>y. x = Inr y \<Longrightarrow> yields V (g y)) \<Longrightarrow>
     yields V (case x of Inl y \<Rightarrow> f y | Inr y \<Rightarrow> g y)"
  by (cases x) simp_all

lemma yields_prod [yields]:
  "(\<And>y z. x = (y, z) \<Longrightarrow> yields V (f y z)) \<Longrightarrow> yields V (case x of (y, z) \<Rightarrow> f y z)"
  by (cases x) simp

lemma yields_let [yields]: "(\<And>x. x = a \<Longrightarrow> yields V (f x)) \<Longrightarrow> yields V (let x = a in f x)"
  by simp

text \<open>A value that depends on an earlier one.\<close>

lemma yields_bnd_value:
  "yields V m \<Longrightarrow> (\<And>x. V x \<Longrightarrow> yields V' (f x)) \<Longrightarrow> yields V' (bnd m f)"
  by (fastforce simp: yields_def bnd_def split: prod.splits step.splits)

lemma valid_yields:
  fixes m :: "('o, 'c, 'r, bool) act"
  assumes "emits (\<lambda>_. True) m" and "yields (\<lambda>r. r \<longrightarrow> b) m" and "grows (\<lambda>log. b \<longrightarrow> G log)"
  shows "valid (\<lambda>s. b \<longrightarrow> G (calls s)) m (\<lambda>r s. r \<longrightarrow> G (calls s)) (\<lambda>_ _. True)"
  unfolding valid_def
proof (intro allI impI)
  fix s :: "('o, 'c) st" assume s: "b \<longrightarrow> G (calls s)"
  obtain r s' where m: "m s = (r, s')" by force
  show "case m s of (Continue r, s') \<Rightarrow> r \<longrightarrow> G (calls s') | (Return r, s') \<Rightarrow> True"
  proof (cases r)
    case (Continue x)
    with m assms(2) have "x \<longrightarrow> b" by (auto simp: yields_def)
    moreover have "b \<longrightarrow> G (calls s')"
      using validD_Continue [OF valid_grows [OF assms(1,3)] s] m Continue by simp
    ultimately show ?thesis using m Continue by simp
  qed (simp add: m)
qed

text \<open>Postconditions through case distinctions.\<close>

lemma valid_prod: "(\<And>y z. x = (y, z) \<Longrightarrow> valid P (f y z) Q R) \<Longrightarrow> valid P (case x of (y, z) \<Rightarrow> f y z) Q R"
  by (cases x) simp

lemma valid_if: "(b \<Longrightarrow> valid P m Q R) \<Longrightarrow> (\<not> b \<Longrightarrow> valid P n Q R) \<Longrightarrow> valid P (if b then m else n) Q R"
  by simp

lemma valid_let: "(\<And>x. x = a \<Longrightarrow> valid P (f x) Q R) \<Longrightarrow> valid P (let x = a in f x) Q R"
  by simp

lemma valid_sum:
  "(\<And>y. x = Inl y \<Longrightarrow> valid P (f y) Q R) \<Longrightarrow> (\<And>y. x = Inr y \<Longrightarrow> valid P (g y) Q R) \<Longrightarrow>
     valid P (case x of Inl y \<Rightarrow> f y | Inr y \<Rightarrow> g y) Q R"
  by (cases x) simp_all

lemma valid_option:
  "(x = None \<Longrightarrow> valid P m Q R) \<Longrightarrow> (\<And>y. x = Some y \<Longrightarrow> valid P (f y) Q R) \<Longrightarrow>
     valid P (case x of None \<Rightarrow> m | Some y \<Rightarrow> f y) Q R"
  by (cases x) simp_all

lemma valid_pre: "valid P' m Q R \<Longrightarrow> (\<And>s. P s \<Longrightarrow> P' s) \<Longrightarrow> valid P m Q R"
  by (simp add: valid_def)

lemma valid_frame: "valid P m Q R \<Longrightarrow> (\<And>x s. C \<Longrightarrow> Q x s \<Longrightarrow> Q' x s) \<Longrightarrow> (\<And>x s. R x s \<Longrightarrow> R' x s) \<Longrightarrow> valid (\<lambda>s. P s \<and> C) m Q' R'"
  by (cases C) (auto simp: valid_def split: prod.splits step.splits)

lemma valid_final: "valid P m (\<lambda>_. G) (\<lambda>_. G) \<Longrightarrow> P s \<Longrightarrow> G (snd (m s))"
  by (cases "m s"; cases "fst (m s)") (auto simp: valid_def)

subsection \<open>Calls that wait for a condition\<close>

text \<open>\<open>guards R G log\<close>: before every call with \<open>R\<close> the log had \<open>G\<close>. A computation
  keeps it that makes no call with \<open>R\<close> until \<open>G\<close> holds.\<close>

definition guards :: "('c \<Rightarrow> bool) \<Rightarrow> ('c list \<Rightarrow> bool) \<Rightarrow> 'c list \<Rightarrow> bool" where
  "guards R G log \<longleftrightarrow> (\<forall>pre c post. log = pre @ c # post \<longrightarrow> R c \<longrightarrow> G pre)"

abbreviation quiet :: "('c \<Rightarrow> bool) \<Rightarrow> ('o, 'c) st \<Rightarrow> bool" where
  "quiet R s \<equiv> list_all (\<lambda>c. \<not> R c) (calls s)"

lemma guardsD: "guards R G (pre @ c # post) \<Longrightarrow> R c \<Longrightarrow> G pre"
  by (simp add: guards_def)

lemma guards_quiet: "list_all (\<lambda>c. \<not> R c) log \<Longrightarrow> guards R G log"
  by (auto simp: guards_def)

lemma guards_append:
  assumes "list_all (\<lambda>c. \<not> R c) cs" and "G cs" and "grows G"
  shows "guards R G (cs @ ds)"
  unfolding guards_def
proof (intro allI impI)
  fix pre c post assume eq: "cs @ ds = pre @ c # post" and c: "R c"
  have "\<exists>us. pre = cs @ us"
    using eq c assms(1) by (auto simp: append_eq_append_conv2 append_eq_Cons_conv list_all_iff Cons_eq_append_conv)
  then show "G pre"
    using growsD [OF assms(3,2)] by auto
qed

lemma valid_quiet:
  "emits (\<lambda>c. \<not> R c) m \<Longrightarrow> valid (quiet R) m (\<lambda>_. quiet R) (\<lambda>_ s. guards R G (calls s))"
  using valid_emits by (rule valid_weaken) (auto intro: guards_quiet)

lemma valid_guards_end:
  fixes m :: "('o, 'c, 'r, 'a) act"
  assumes "emits (\<lambda>c. R c \<longrightarrow> ready) m" and "grows G"
  shows "valid (\<lambda>s. quiet R s \<and> (ready \<longrightarrow> G (calls s))) m (\<lambda>_ s. guards R G (calls s)) (\<lambda>_ s. guards R G (calls s))"
proof (cases ready)
  case True
  have "guards R G (calls (snd (m s)))" if "quiet R s" "G (calls s)" for s
    using emitsD [OF assms(1), of s] guards_append [OF that assms(2)] by auto
  then show ?thesis
    using True by (auto simp: valid_def split: prod.split step.split) (metis snd_conv)+
next
  case False
  have "emits (\<lambda>c. \<not> R c) m"
    by (rule emits_mono [OF assms(1)]) (simp add: False)
  then show ?thesis
    by (intro valid_weaken [OF valid_quiet [where G = G]]) (auto intro: guards_quiet)
qed

subsection \<open>Progress\<close>

text \<open>\<open>runs P m Q\<close>: from a state with \<open>P\<close>, the computation goes on.\<close>

abbreviation runs :: "(('o, 'c) st \<Rightarrow> bool) \<Rightarrow> ('o, 'c, 'r, 'a) act \<Rightarrow> ('a \<Rightarrow> ('o, 'c) st \<Rightarrow> bool) \<Rightarrow> bool" where
  "runs P m Q \<equiv> valid P m Q (\<lambda>_ _. False)"

lemma runs_valid: "runs P m Q \<Longrightarrow> valid P m Q R"
  by (erule valid_weaken) simp_all

lemma runsE:
  assumes "runs P m Q" and "P s"
  obtains x s' where "m s = (Continue x, s')" "Q x s'"
  using assms by (cases "m s"; cases "fst (m s)") (auto simp: valid_def)

text \<open>\<open>gives m V\<close>: the computation goes on with a value in \<open>V\<close>, the object unchanged.\<close>

definition gives :: "('o, 'c, 'r, 'a) act \<Rightarrow> ('a \<Rightarrow> bool) \<Rightarrow> bool" where
  "gives m V \<longleftrightarrow> (\<forall>s. \<exists>x s'. m s = (Continue x, s') \<and> obj s' = obj s \<and> V x)"

lemma gives_runs: "gives m V \<Longrightarrow> runs (\<lambda>s. G (obj s)) m (\<lambda>x s. G (obj s) \<and> V x)"
  unfolding gives_def valid_def by (metis (no_types, lifting) case_prod_conv step.simps(5))

end
