(* ===== verification/Kube.thy ===== *)
theory Kube
  imports Actions
begin

text \<open>
  The values of third-party packages the operator handles (Kubernetes object
  metadata, controller-runtime results, lib-common conditions, field errors of
  the admission webhooks).

  Nothing of those packages is defined here beyond the data their values
  hold: a constructor call such as \<open>field.Invalid\<close> is a constructor of a
  datatype, and what a package computes is a function of a record the
  definitions of the development take as an argument. The identifier of a
  third-party string constant stands for its value, as in
  \<open>''InputReadyCondition''\<close>.
\<close>

section \<open>Errors\<close>

text \<open>The operator's own sentinel errors, wrapped errors of \<open>fmt.Errorf\<close>, and
  errors that come from outside, which only a third-party predicate can
  classify. \<open>ErrPanic\<close> is not an error value: a function that dereferences a
  nil pointer ends with it.\<close>

datatype goerr =
    ErrExternal string
  | ErrNetworkAttachmentConfig
  | ErrACSecretNotFound
  | ErrACSecretMissingKeys
  | ErrExpectedIronicObject
  | ErrKeyNotFound string
  | ErrText "string list"
  | ErrWrap string goerr
  | ErrNotFoundObject string string
  | ErrPanic

section \<open>Object metadata and reconcile results\<close>

record ownerRef =
  or_Kind :: string
  or_Name :: string

record ObjectMeta =
  Kind :: string
  Name :: string
  Namespace :: string
  Generation :: int
  DeletionTimestamp :: "string option"
  Finalizers :: "string list"
  OwnerReferences :: "ownerRef list"
  Annotations :: "(string \<rightharpoonup> string) option"
  Labels :: "string \<rightharpoonup> string"

text \<open>\<open>controllerutil.AddFinalizer\<close> and \<open>RemoveFinalizer\<close> on the metadata are
  the only metadata operations of controller-runtime the operator uses on its
  own objects; both are parameters of the controllers.\<close>

record result =
  Requeue :: bool
  RequeueAfter :: int

definition emptyResult :: result where
  "emptyResult = \<lparr>Requeue = False, RequeueAfter = 0\<rparr>"

text \<open>Values of third-party structs the operator only passes along.\<close>

datatype opaque = Opaque string

record TopoRef =
  tr_Name :: string
  tr_Namespace :: string

record RabbitMqConfig =
  rmq_User :: string
  rmq_Vhost :: string
  rmq_Cluster :: string

record tlsCa =
  CaBundleSecretName :: string

record tlsAPI = tlsCa +
  tls_InternalSecretName :: "string option"
  tls_PublicSecretName :: "string option"

definition tls_Ca :: "tlsAPI \<Rightarrow> tlsCa" where
  "tls_Ca t = tlsCa.truncate t"

section \<open>Conditions of lib-common\<close>

datatype condStatus = CondTrue | CondFalse | CondUnknown

record condition =
  c_type :: string
  c_status :: condStatus
  c_severity :: string
  c_reason :: string
  c_message :: "string list"

type_synonym conditions = "condition list"

text \<open>The operations of \<open>condition.Conditions\<close> and its constructors. \<open>cl_SetShared\<close>
  is \<open>Set\<close> on a copy of the slice header, seen through the original header: the
  elements are shared, an appended one is not.\<close>

record condLib =
  FalseCondition :: "string \<Rightarrow> string \<Rightarrow> string \<Rightarrow> string list \<Rightarrow> condition"
  UnknownCondition :: "string \<Rightarrow> string \<Rightarrow> string list \<Rightarrow> condition"
  cl_Set :: "condition \<Rightarrow> conditions \<Rightarrow> conditions"
  cl_MarkTrue :: "string \<Rightarrow> string list \<Rightarrow> conditions \<Rightarrow> conditions"
  cl_Remove :: "string \<Rightarrow> conditions \<Rightarrow> conditions"
  cl_Init :: "conditions \<Rightarrow> conditions \<Rightarrow> conditions"
  cl_IsTrue :: "string \<Rightarrow> conditions \<Rightarrow> bool"
  cl_IsUnknown :: "string \<Rightarrow> conditions \<Rightarrow> bool"
  cl_Mirror :: "string \<Rightarrow> conditions \<Rightarrow> condition option"
  cl_AllSubConditionIsTrue :: "conditions \<Rightarrow> bool"
  cl_CreateList :: "condition list \<Rightarrow> conditions"
  cl_RestoreLastTransitionTimes :: "conditions \<Rightarrow> conditions \<Rightarrow> conditions"
  cl_MarkUnknown :: "string \<Rightarrow> string \<Rightarrow> string list \<Rightarrow> conditions \<Rightarrow> conditions"
  cl_Get :: "string \<Rightarrow> conditions \<Rightarrow> condition option"
  cl_SetShared :: "condition \<Rightarrow> conditions \<Rightarrow> conditions"

text \<open>What the callers rely on: the constructors build a condition of the given
  type and status, setting a condition makes it the one of its type and leaves
  the others alone.\<close>

definition condLib_laws :: "condLib \<Rightarrow> bool" where
  "condLib_laws L \<longleftrightarrow>
     (\<forall>t r sv m. c_type (FalseCondition L t r sv m) = t
        \<and> c_status (FalseCondition L t r sv m) = CondFalse) \<and>
     (\<forall>t r m. c_type (UnknownCondition L t r m) = t
        \<and> c_status (UnknownCondition L t r m) = CondUnknown) \<and>
     (\<forall>c cs t. cl_IsTrue L t (cl_Set L c cs) =
        (if t = c_type c then c_status c = CondTrue else cl_IsTrue L t cs)) \<and>
     (\<forall>t' m cs t. cl_IsTrue L t (cl_MarkTrue L t' m cs) = (t = t' \<or> cl_IsTrue L t cs)) \<and>
     (\<forall>t' cs t. cl_IsTrue L t (cl_Remove L t' cs) = (t \<noteq> t' \<and> cl_IsTrue L t cs))"

lemma condLib_IsTrue_Set:
  "condLib_laws L \<Longrightarrow> cl_IsTrue L t (cl_Set L c cs) =
     (if t = c_type c then c_status c = CondTrue else cl_IsTrue L t cs)"
  by (simp add: condLib_laws_def)

lemma condLib_IsTrue_MarkTrue:
  "condLib_laws L \<Longrightarrow> cl_IsTrue L t (cl_MarkTrue L t' m cs) = (t = t' \<or> cl_IsTrue L t cs)"
  by (simp add: condLib_laws_def)

lemma condLib_IsTrue_Remove:
  "condLib_laws L \<Longrightarrow> cl_IsTrue L t (cl_Remove L t' cs) = (t \<noteq> t' \<and> cl_IsTrue L t cs)"
  by (simp add: condLib_laws_def)

lemma condLib_False:
  "condLib_laws L \<Longrightarrow> c_type (FalseCondition L t r sv m) = t"
  "condLib_laws L \<Longrightarrow> c_status (FalseCondition L t r sv m) = CondFalse"
  by (simp_all add: condLib_laws_def)

text \<open>Through a shared header, a condition of a type the list has is set.\<close>

definition setShared_law :: "condLib \<Rightarrow> bool" where
  "setShared_law L \<longleftrightarrow> (\<forall>c cs. c_type c \<in> c_type ` set cs \<longrightarrow> cl_SetShared L c cs = cl_Set L c cs)"

lemmas condLib_simps = condLib_IsTrue_Set condLib_IsTrue_MarkTrue condLib_IsTrue_Remove
  condLib_False

section \<open>Field errors of the admission webhooks\<close>

text \<open>\<open>field.Path\<close> and \<open>field.Error\<close> of apimachinery. The detail of an error is
  kept as the message constant with its arguments, not rendered.\<close>

datatype fieldPath =
    NewPath string
  | Child fieldPath string
  | Index fieldPath nat

end
