(* ===== verification/ApiTypes.thy ===== *)
theory ApiTypes
  imports Kube
begin

text \<open>
  The custom resources of the API group (\<open>api/v1beta1/*_types.go\<close>,
  \<open>common_types.go\<close>): one record per struct with the fields of the source, an
  embedded struct as the record a record extends, a pointer as an option, a Go
  map as a partial map. Methods of a type follow its record. Values of
  third-party structs the operator only passes along are \<^typ>\<open>opaque\<close>.
\<close>

section \<open>Common parts\<close>

record IronicServiceTemplate =
  Replicas :: "int option"
  NodeSelector :: "(string \<rightharpoonup> string) option"
  Resources :: opaque
  CustomServiceConfig :: string
  DefaultConfigOverwrite :: "string \<rightharpoonup> string"
  TopologyRef :: "TopoRef option"

record PasswordSelector =
  ps_Service :: string

record KeystoneEndpoints =
  ke_Internal :: string
  ke_Public :: string

record AuthSpec =
  ApplicationCredentialSecret :: string

record DHCPRange =
  dr_Name :: string
  dr_Cidr :: string
  dr_Start :: string
  dr_End :: string
  dr_Gateway :: string
  dr_MTU :: int
  dr_PodIndex :: int
  dr_Prefix :: int
  dr_Netmask :: string

type_synonym endpointMap = "string \<rightharpoonup> string \<rightharpoonup> string"

record OverrideSpec =
  Service :: "string \<rightharpoonup> opaque"

section \<open>IronicAPI\<close>

record IronicAPITemplate = IronicServiceTemplate +
  api_NetworkAttachments :: "string list"
  api_Override :: OverrideSpec
  api_TLS :: tlsAPI

record IronicAPISpec = IronicAPITemplate +
  as_ContainerImage :: string
  as_Standalone :: bool
  as_ServiceUser :: string
  as_Secret :: string
  as_PasswordSelectors :: PasswordSelector
  as_DatabaseHostname :: string
  as_DatabaseAccount :: string
  as_TransportURLSecret :: string
  as_NotificationsURLSecret :: string
  as_RPCTransport :: string
  as_KeystoneEndpoints :: KeystoneEndpoints
  as_Region :: string
  as_APITimeout :: int
  as_Auth :: AuthSpec

record IronicAPIStatus =
  ast_Hash :: "(string \<rightharpoonup> string) option"
  ast_APIEndpoints :: "endpointMap option"
  ast_Conditions :: "conditions option"
  ast_ReadyCount :: int
  ast_NetworkAttachments :: "string \<rightharpoonup> string list"
  ast_ObservedGeneration :: int
  ast_AppliedInputSecretHash :: string
  ast_LastAppliedTopology :: "TopoRef option"

record IronicAPI =
  api_Meta :: ObjectMeta
  api_Spec :: IronicAPISpec
  api_Status :: IronicAPIStatus

section \<open>IronicConductor\<close>

record TraitBasedNetworkingAction =
  tba_Action :: string
  tba_Filter :: string
  tba_MinCount :: "int option"
  tba_MaxCount :: "int option"

record TraitBasedNetworkingEntry =
  tbe_Name :: string
  tbe_Order :: int
  tbe_Actions :: "TraitBasedNetworkingAction list"

record TraitBasedNetworkingSpec =
  tbn_State :: string
  tbn_Config :: "TraitBasedNetworkingEntry list"

record IronicConductorTemplate = IronicServiceTemplate +
  ConductorGroup :: string
  con_StorageClass :: string
  con_StorageRequest :: string
  con_NetworkAttachments :: "string list"
  con_ProvisionNetwork :: string
  con_DHCPRanges :: "DHCPRange list"
  con_TraitBasedNetworking :: "TraitBasedNetworkingSpec option"
  con_TerminationGracePeriodSeconds :: "int option"

record IronicConductorSpec = IronicConductorTemplate +
  cs_ContainerImage :: string
  cs_Standalone :: bool
  cs_PxeContainerImage :: string
  cs_IronicPythonAgentImage :: string
  cs_ServiceUser :: string
  cs_Secret :: string
  cs_PasswordSelectors :: PasswordSelector
  cs_DatabaseHostname :: string
  cs_DatabaseAccount :: string
  cs_TransportURLSecret :: string
  cs_NotificationsURLSecret :: string
  cs_RPCTransport :: string
  cs_KeystoneEndpoints :: KeystoneEndpoints
  cs_Region :: string
  cs_TLS :: tlsCa
  cs_GraphicalConsoles :: string
  cs_NoVNCProxyImage :: string
  cs_ConsoleImage :: string
  cs_Auth :: AuthSpec

record IronicConductorStatus =
  cst_Hash :: "(string \<rightharpoonup> string) option"
  cst_Conditions :: "conditions option"
  cst_ReadyCount :: int
  cst_NetworkAttachments :: "string \<rightharpoonup> string list"
  cst_ObservedGeneration :: int
  cst_AppliedInputSecretHash :: string
  cst_LastAppliedTopology :: "TopoRef option"

record IronicConductor =
  con_Meta :: ObjectMeta
  con_Spec :: IronicConductorSpec
  con_Status :: IronicConductorStatus

section \<open>IronicInspector\<close>

record IronicInspectorPasswordSelector =
  ips_Service :: string

record IronicInspectorTemplate =
  ins_ServiceUser :: string
  ins_Replicas :: "int option"
  ins_DatabaseAccount :: string
  ins_PasswordSelectors :: IronicInspectorPasswordSelector
  ins_NodeSelector :: "(string \<rightharpoonup> string) option"
  ins_PreserveJobs :: bool
  ins_CustomServiceConfig :: string
  ins_DefaultConfigOverwrite :: "string \<rightharpoonup> string"
  ins_Resources :: opaque
  ins_StorageClass :: string
  ins_NetworkAttachments :: "string list"
  ins_InspectionNetwork :: string
  ins_DHCPRanges :: "DHCPRange list"
  ins_Override :: OverrideSpec
  ins_TLS :: tlsAPI
  ins_Auth :: AuthSpec
  ins_TopologyRef :: "TopoRef option"

record IronicInspectorSpec = IronicInspectorTemplate +
  is_Standalone :: bool
  is_ContainerImage :: string
  is_PxeContainerImage :: string
  is_IronicPythonAgentImage :: string
  is_DatabaseInstance :: string
  is_Secret :: string
  is_RabbitMqClusterName :: string
  is_MessagingBus :: RabbitMqConfig
  is_NotificationsBus :: "RabbitMqConfig option"
  is_RPCTransport :: string
  is_APITimeout :: int

record IronicInspectorStatus =
  ist_Hash :: "(string \<rightharpoonup> string) option"
  ist_APIEndpoints :: "endpointMap option"
  ist_Conditions :: "conditions option"
  ist_DatabaseHostname :: string
  ist_ReadyCount :: int
  ist_TransportURLSecret :: string
  ist_NotificationsURLSecret :: "string option"
  ist_NetworkAttachments :: "string \<rightharpoonup> string list"
  ist_ObservedGeneration :: int
  ist_AppliedInputSecretHash :: string
  ist_LastAppliedTopology :: "TopoRef option"

record IronicInspector =
  ins_Meta :: ObjectMeta
  ins_Spec :: IronicInspectorSpec
  ins_Status :: IronicInspectorStatus

section \<open>IronicNeutronAgent\<close>

record IronicNeutronAgentTemplate = IronicServiceTemplate +
  na_RabbitMqClusterName :: string
  na_MessagingBus :: RabbitMqConfig
  na_NotificationsBus :: "RabbitMqConfig option"

record IronicNeutronAgentSpec = IronicNeutronAgentTemplate +
  ns_ContainerImage :: string
  ns_ServiceUser :: string
  ns_Secret :: string
  ns_PasswordSelectors :: PasswordSelector
  ns_TLS :: tlsCa
  ns_Auth :: AuthSpec

record IronicNeutronAgentStatus =
  nst_Hash :: "(string \<rightharpoonup> string) option"
  nst_Conditions :: "conditions option"
  nst_ReadyCount :: int
  nst_TransportURLSecret :: string
  nst_NotificationsURLSecret :: "string option"
  nst_ObservedGeneration :: int
  nst_AppliedInputSecretHash :: string
  nst_LastAppliedTopology :: "TopoRef option"

record IronicNeutronAgent =
  na_Meta :: ObjectMeta
  na_Spec :: IronicNeutronAgentSpec
  na_Status :: IronicNeutronAgentStatus

section \<open>Ironic\<close>

record IronicImages =
  im_API :: string
  im_Conductor :: string
  im_Inspector :: string
  im_NeutronAgent :: string
  im_Pxe :: string
  im_IronicPythonAgent :: string
  im_NoVNCProxy :: string
  im_GraphicalConsole :: string

record IronicSpecCore =
  Standalone :: bool
  ServiceUser :: string
  DatabaseInstance :: string
  DatabaseAccount :: string
  Secret :: string
  PasswordSelectors :: PasswordSelector
  PreserveJobs :: bool
  sp_CustomServiceConfig :: string
  sp_DefaultConfigOverwrite :: "string \<rightharpoonup> string"
  sp_IronicAPI :: IronicAPITemplate
  sp_IronicConductors :: "IronicConductorTemplate list"
  sp_IronicInspector :: IronicInspectorTemplate
  sp_IronicNeutronAgent :: IronicNeutronAgentTemplate
  RabbitMqClusterName :: string
  MessagingBus :: RabbitMqConfig
  NotificationsBus :: "RabbitMqConfig option"
  RPCTransport :: string
  Auth :: AuthSpec
  sp_NodeSelector :: "(string \<rightharpoonup> string) option"
  StorageClass :: string
  sp_TopologyRef :: "TopoRef option"
  APITimeout :: int
  GraphicalConsoles :: string

record IronicSpec = IronicSpecCore +
  Images :: IronicImages

record IronicStatus =
  st_Hash :: "(string \<rightharpoonup> string) option"
  st_Conditions :: "conditions option"
  st_DatabaseHostname :: string
  st_APIEndpoints :: "endpointMap option"
  st_IronicAPIReadyCount :: int
  st_IronicConductorReadyCount :: "string \<rightharpoonup> int"
  st_InspectorReadyCount :: int
  st_IronicNeutronAgentReadyCount :: int
  st_TransportURLSecret :: string
  st_NotificationsURLSecret :: "string option"
  st_ObservedGeneration :: int
  st_ApplicationCredentialSecret :: string
  st_InspectorApplicationCredentialSecret :: string

record Ironic =
  Meta :: ObjectMeta
  Spec :: IronicSpec
  Status :: IronicStatus

definition IronicInspectInterfaceAnnotation :: string where
  "IronicInspectInterfaceAnnotation = ''ironic.openstack.org/inspect-interface''"

definition ConductorGroupNull :: string where
  "ConductorGroupNull = ''null_conductor_group_null''"

definition DbSyncHash :: string where
  "DbSyncHash = ''dbsync''"

section \<open>Methods\<close>

text \<open>A nil condition list behaves as the empty one.\<close>

definition conds :: "conditions option \<Rightarrow> conditions" where
  "conds c = (case c of None \<Rightarrow> [] | Some cs \<Rightarrow> cs)"

lemma conds_simps [simp]: "conds None = []" "conds (Some cs) = cs"
  by (simp_all add: conds_def)

subsection \<open>Readiness\<close>

definition Ironic_IsReady :: "condLib \<Rightarrow> Ironic \<Rightarrow> bool" where
  "Ironic_IsReady L i = cl_IsTrue L ''ReadyCondition'' (conds (st_Conditions (Status i)))"

definition IronicAPI_IsReady :: "condLib \<Rightarrow> IronicAPI \<Rightarrow> bool" where
  "IronicAPI_IsReady L i = cl_IsTrue L ''ReadyCondition'' (conds (ast_Conditions (api_Status i)))"

definition IronicConductor_IsReady :: "condLib \<Rightarrow> IronicConductor \<Rightarrow> bool" where
  "IronicConductor_IsReady L i = cl_IsTrue L ''ReadyCondition'' (conds (cst_Conditions (con_Status i)))"

definition IronicInspector_IsReady :: "condLib \<Rightarrow> IronicInspector \<Rightarrow> bool" where
  "IronicInspector_IsReady L i = cl_IsTrue L ''ReadyCondition'' (conds (ist_Conditions (ins_Status i)))"

definition IronicNeutronAgent_IsReady :: "condLib \<Rightarrow> IronicNeutronAgent \<Rightarrow> bool" where
  "IronicNeutronAgent_IsReady L i = cl_IsTrue L ''ReadyCondition'' (conds (nst_Conditions (na_Status i)))"

subsection \<open>Names of the service account, role and role binding\<close>

fun GetOwningIronicName :: "ownerRef list \<Rightarrow> string" where
  "GetOwningIronicName [] = ''''"
| "GetOwningIronicName (r # rs) =
     (if or_Kind r = ''Ironic'' then or_Name r else GetOwningIronicName rs)"

definition Ironic_RbacResourceName :: "Ironic \<Rightarrow> string" where
  "Ironic_RbacResourceName i = ''ironic-'' @ Name (Meta i)"

definition IronicAPI_RbacResourceName :: "IronicAPI \<Rightarrow> string" where
  "IronicAPI_RbacResourceName i =
     (let owningIronicName = GetOwningIronicName (OwnerReferences (api_Meta i)) in
      if owningIronicName \<noteq> '''' then ''ironic-'' @ owningIronicName
      else ''ironicapi-'' @ Name (api_Meta i))"

definition IronicConductor_RbacResourceName :: "IronicConductor \<Rightarrow> string" where
  "IronicConductor_RbacResourceName i =
     (let owningIronicName = GetOwningIronicName (OwnerReferences (con_Meta i)) in
      if owningIronicName \<noteq> '''' then ''ironic-'' @ owningIronicName
      else ''ironicconductor-'' @ Name (con_Meta i))"

definition IronicInspector_RbacResourceName :: "IronicInspector \<Rightarrow> string" where
  "IronicInspector_RbacResourceName i =
     (let owningIronicName = GetOwningIronicName (OwnerReferences (ins_Meta i)) in
      if owningIronicName \<noteq> '''' then ''ironic-'' @ owningIronicName
      else ''ironicinspector-'' @ Name (ins_Meta i))"

definition IronicNeutronAgent_RbacResourceName :: "IronicNeutronAgent \<Rightarrow> string" where
  "IronicNeutronAgent_RbacResourceName i =
     (let owningIronicName = GetOwningIronicName (OwnerReferences (na_Meta i)) in
      if owningIronicName \<noteq> '''' then ''ironic-'' @ owningIronicName
      else ''ironicneutronagent-'' @ Name (na_Meta i))"

lemma GetOwningIronicName_find:
  "GetOwningIronicName rs =
     (case find (\<lambda>r. or_Kind r = ''Ironic'') rs of None \<Rightarrow> '''' | Some r \<Rightarrow> or_Name r)"
  by (induction rs) auto

subsection \<open>Endpoints of IronicAPI\<close>

definition IronicAPI_GetEndpoint :: "IronicAPI \<Rightarrow> string \<Rightarrow> goerr + string" where
  "IronicAPI_GetEndpoint i endpointType =
     (case (case ast_APIEndpoints (api_Status i) of None \<Rightarrow> None | Some m \<Rightarrow> m ''ironic'') of
        Some endpoints \<Rightarrow>
          (case endpoints endpointType of
             Some url \<Rightarrow> Inr url
           | None \<Rightarrow> Inl (ErrText [''%s endpoint not found'', endpointType]))
      | None \<Rightarrow> Inl (ErrText [''%s endpoint not found'', endpointType]))"

text \<open>\<open>list\<close> is the client's list call with its namespace option and, when
  there are labels to match, its label option.\<close>

definition GetIronicAPI ::
  "(string \<Rightarrow> (string \<times> string) list option \<Rightarrow> goerr + IronicAPI list) \<Rightarrow>
   string \<Rightarrow> (string \<times> string) list \<Rightarrow> goerr + IronicAPI" where
  "GetIronicAPI list namespace labelSelector =
     (case list namespace (if length labelSelector > 0 then Some labelSelector else None) of
        Inl err \<Rightarrow> Inl err
      | Inr items \<Rightarrow>
          if length items > 1 then
            Inl (ErrText [''more then one IronicAPI object found in namespace %s'', namespace])
          else (case items of
             [] \<Rightarrow> Inl (ErrNotFoundObject ''IronicAPI'' namespace)
           | i # _ \<Rightarrow> Inr i))"

section \<open>Topology handlers\<close>

text \<open>The Go interface \<open>topologyHandler\<close> as a record of its methods, and the
  methods of the four types that implement it.\<close>

record 'o topologyHandler =
  GetSpecTopologyRef :: "'o \<Rightarrow> TopoRef option"
  GetLastAppliedTopology :: "'o \<Rightarrow> TopoRef option"
  SetLastAppliedTopology :: "TopoRef option \<Rightarrow> 'o \<Rightarrow> 'o"

definition IronicAPI_topology :: "IronicAPI topologyHandler" where
  "IronicAPI_topology =
     \<lparr>GetSpecTopologyRef = (\<lambda>i. TopologyRef (api_Spec i)),
      GetLastAppliedTopology = (\<lambda>i. ast_LastAppliedTopology (api_Status i)),
      SetLastAppliedTopology =
        (\<lambda>t i. i\<lparr>api_Status := (api_Status i)\<lparr>ast_LastAppliedTopology := t\<rparr>\<rparr>)\<rparr>"

definition IronicConductor_topology :: "IronicConductor topologyHandler" where
  "IronicConductor_topology =
     \<lparr>GetSpecTopologyRef = (\<lambda>i. TopologyRef (con_Spec i)),
      GetLastAppliedTopology = (\<lambda>i. cst_LastAppliedTopology (con_Status i)),
      SetLastAppliedTopology =
        (\<lambda>t i. i\<lparr>con_Status := (con_Status i)\<lparr>cst_LastAppliedTopology := t\<rparr>\<rparr>)\<rparr>"

definition IronicInspector_topology :: "IronicInspector topologyHandler" where
  "IronicInspector_topology =
     \<lparr>GetSpecTopologyRef = (\<lambda>i. ins_TopologyRef (ins_Spec i)),
      GetLastAppliedTopology = (\<lambda>i. ist_LastAppliedTopology (ins_Status i)),
      SetLastAppliedTopology =
        (\<lambda>t i. i\<lparr>ins_Status := (ins_Status i)\<lparr>ist_LastAppliedTopology := t\<rparr>\<rparr>)\<rparr>"

definition IronicNeutronAgent_topology :: "IronicNeutronAgent topologyHandler" where
  "IronicNeutronAgent_topology =
     \<lparr>GetSpecTopologyRef = (\<lambda>i. TopologyRef (na_Spec i)),
      GetLastAppliedTopology = (\<lambda>i. nst_LastAppliedTopology (na_Status i)),
      SetLastAppliedTopology =
        (\<lambda>t i. i\<lparr>na_Status := (na_Status i)\<lparr>nst_LastAppliedTopology := t\<rparr>\<rparr>)\<rparr>"

end
