(* ===== verification/GoNet.thy ===== *)
theory GoNet
  imports Prelude
begin

text \<open>
  The part of Go's standard library packages \<open>net\<close>, \<open>net/netip\<close> and
  \<open>bytes\<close> the operator calls: textual IP addresses and prefixes parsed into
  bytes, prefix membership, masks, and the lexicographic comparison of byte
  slices. An address that \<open>net.ParseIP\<close> returns has sixteen bytes; the nil
  slice is \<^term>\<open>None\<close>. The second half relates the bytewise comparison to
  the order of the addresses read as numbers.
\<close>

type_synonym byte = "8 word"
type_synonym ip = "byte list"

record ipnet =
  net_IP :: ip
  net_Mask :: ip

section \<open>Parsing addresses\<close>

definition is_digit :: "char \<Rightarrow> bool" where
  "is_digit c \<longleftrightarrow> 48 \<le> (of_char c :: nat) \<and> (of_char c :: nat) \<le> 57"

definition hex_value :: "char \<Rightarrow> nat option" where
  "hex_value c = (let n = of_char c :: nat in
     if 48 \<le> n \<and> n \<le> 57 then Some (n - 48)
     else if 97 \<le> n \<and> n \<le> 102 then Some (n - 87)
     else if 65 \<le> n \<and> n \<le> 70 then Some (n - 55)
     else None)"

definition is_hex :: "char \<Rightarrow> bool" where
  "is_hex c \<longleftrightarrow> hex_value c \<noteq> None"

text \<open>The four decimal fields: digits read in the current field, its value,
  the finished fields, the rest of the text.\<close>

fun v4_fields :: "nat \<Rightarrow> nat \<Rightarrow> nat list \<Rightarrow> string \<Rightarrow> nat list option" where
  "v4_fields dl v fs [] = (if length fs < 3 then None else Some (fs @ [v]))"
| "v4_fields dl v fs (c # s) =
     (if is_digit c then
        (if dl = 1 \<and> v = 0 then None
         else if 10 * v + char_digit c > 255 then None
         else v4_fields (Suc dl) (10 * v + char_digit c) fs s)
      else if c = CHR ''.'' then
        (if dl = 0 \<or> s = [] \<or> length fs = 3 then None
         else v4_fields 0 0 (fs @ [v]) s)
      else None)"

definition parse_v4 :: "string \<Rightarrow> ip option" where
  "parse_v4 s = map_option (map of_nat) (v4_fields 0 0 [] s)"

definition hex_group :: "string \<Rightarrow> ip" where
  "hex_group ds = (let a = foldl (\<lambda>a c. 16 * a + the (hex_value c)) 0 ds
                   in [of_nat (a div 256), of_nat a])"

text \<open>At most the given number of 16-bit groups; the position of the ellipsis,
  the bytes read so far and the rest of the text.\<close>

fun v6_groups :: "nat \<Rightarrow> nat option \<Rightarrow> ip \<Rightarrow> string \<Rightarrow> (nat option \<times> ip \<times> string) option" where
  "v6_groups 0 e bs s = Some (e, bs, s)"
| "v6_groups (Suc n) e bs s =
     (let ds = takeWhile is_hex s; bs' = bs @ hex_group ds in
      if ds = [] \<or> length ds > 4 then None
      else case dropWhile is_hex s of
        [] \<Rightarrow> Some (e, bs', [])
      | c # r \<Rightarrow>
          if c = CHR ''.'' then
            (if (e = None \<and> length bs \<noteq> 12) \<or> length bs + 4 > 16 then None
             else case parse_v4 s of
               None \<Rightarrow> None
             | Some f \<Rightarrow> Some (e, bs @ f, []))
          else if c \<noteq> CHR '':'' then None
          else case r of
            [] \<Rightarrow> None
          | d # r' \<Rightarrow>
              if d = CHR '':'' then
                (if e \<noteq> None then None
                 else if r' = [] then Some (Some (length bs'), bs', [])
                 else v6_groups n (Some (length bs')) bs' r')
              else v6_groups n e bs' r)"

definition v6_expand :: "nat option \<times> ip \<times> string \<Rightarrow> ip option" where
  "v6_expand = (\<lambda>(e, bs, s).
     if s \<noteq> [] then None
     else if length bs < 16 then
       (case e of None \<Rightarrow> None
        | Some k \<Rightarrow> Some (take k bs @ replicate (16 - length bs) 0 @ drop k bs))
     else if e \<noteq> None then None
     else Some bs)"

definition parse_v6 :: "string \<Rightarrow> ip option" where
  "parse_v6 s =
     (if take 2 s = ''::'' then
        (if length s = 2 then Some (replicate 16 0)
         else Option.bind (v6_groups 8 (Some 0) [] (drop 2 s)) v6_expand)
      else Option.bind (v6_groups 8 None [] s) v6_expand)"

datatype addr = AddrV4 ip | AddrV6 ip

text \<open>\<open>netip.ParseAddr\<close> without a zone: the first of the characters dot,
  colon and percent decides the family. An address with a zone is refused by
  every caller, so it is \<^term>\<open>None\<close> here.\<close>

definition parse_addr :: "string \<Rightarrow> addr option" where
  "parse_addr s =
     (case dropWhile (\<lambda>c. c \<noteq> CHR ''.'' \<and> c \<noteq> CHR '':'' \<and> c \<noteq> CHR ''%'') s of
        [] \<Rightarrow> None
      | c # _ \<Rightarrow>
          if CHR ''%'' \<in> set s then None
          else if c = CHR ''.'' then map_option AddrV4 (parse_v4 s)
          else map_option AddrV6 (parse_v6 s))"

definition v4_in_v6_prefix :: ip where
  "v4_in_v6_prefix = [0, 0, 0, 0, 0, 0, 0, 0, 0, 0, 255, 255]"

fun as16 :: "addr \<Rightarrow> ip" where
  "as16 (AddrV4 bs) = v4_in_v6_prefix @ bs"
| "as16 (AddrV6 bs) = bs"

fun addr_bits :: "addr \<Rightarrow> nat" where
  "addr_bits (AddrV4 _) = 32"
| "addr_bits (AddrV6 _) = 128"

text \<open>\<open>net.ParseIP\<close>\<close>

definition ParseIP :: "string \<Rightarrow> ip option" where
  "ParseIP s = map_option as16 (parse_addr s)"

section \<open>Prefixes\<close>

definition To4 :: "ip \<Rightarrow> ip option" where
  "To4 i = (if length i = 4 then Some i
            else if length i = 16 \<and> take 12 i = v4_in_v6_prefix then Some (drop 12 i)
            else None)"

definition cidr_mask :: "nat \<Rightarrow> nat \<Rightarrow> ip" where
  "cidr_mask ones bits =
     map (\<lambda>k. push_bit (8 - min 8 (ones - 8 * k)) (255 :: byte)) [0..<bits div 8]"

definition and_bytes :: "ip \<Rightarrow> ip \<Rightarrow> ip" where
  "and_bytes a m = map2 and a m"

text \<open>\<open>IP.Mask\<close>: the nil slice is the empty list.\<close>

definition ip_mask :: "ip \<Rightarrow> ip \<Rightarrow> ip" where
  "ip_mask i m =
     (let m' = (if length m = 16 \<and> length i = 4 \<and> take 12 m = replicate 12 255
                then drop 12 m else m);
          i' = (if length m' = 4 \<and> length i = 16 \<and> take 12 i = v4_in_v6_prefix
                then drop 12 i else i)
      in if length i' \<noteq> length m' then [] else and_bytes i' m')"

text \<open>The decimal prefix length: at least one digit, nothing else, below
  \<open>0xFFFFFF\<close>.\<close>

definition parse_prefix_len :: "string \<Rightarrow> nat option" where
  "parse_prefix_len s =
     (if s = [] \<or> \<not> list_all is_digit s then None
      else if nat_of_string s \<ge> 16777215 then None
      else Some (nat_of_string s))"

text \<open>\<open>net.ParseCIDR\<close>: the address and the network.\<close>

definition ParseCIDR :: "string \<Rightarrow> (ip \<times> ipnet) option" where
  "ParseCIDR s =
     (case dropWhile (\<lambda>c. c \<noteq> CHR ''/'') s of
        [] \<Rightarrow> None
      | _ # masktxt \<Rightarrow>
          (case parse_addr (takeWhile (\<lambda>c. c \<noteq> CHR ''/'') s) of
             None \<Rightarrow> None
           | Some a \<Rightarrow>
               (case parse_prefix_len masktxt of
                  None \<Rightarrow> None
                | Some n \<Rightarrow>
                    if n > addr_bits a then None
                    else let m = cidr_mask n (addr_bits a)
                         in Some (as16 a, \<lparr>net_IP = ip_mask (as16 a) m, net_Mask = m\<rparr>))))"

definition networkNumberAndMask :: "ipnet \<Rightarrow> ip \<times> ip" where
  "networkNumberAndMask n =
     (case To4 (net_IP n) of
        None \<Rightarrow> if length (net_IP n) \<noteq> 16 \<or> length (net_Mask n) \<noteq> 16 then ([], [])
                else (net_IP n, net_Mask n)
      | Some i \<Rightarrow>
          if length (net_Mask n) = 4 then (i, net_Mask n)
          else if length (net_Mask n) = 16 then (i, drop 12 (net_Mask n))
          else ([], []))"

text \<open>\<open>IPNet.Contains\<close>\<close>

definition Contains :: "ipnet \<Rightarrow> ip \<Rightarrow> bool" where
  "Contains n i =
     (let (nn, m) = networkNumberAndMask n;
          j = (case To4 i of None \<Rightarrow> i | Some x \<Rightarrow> x)
      in length j = length nn \<and> and_bytes nn m = and_bytes j m)"

section \<open>Comparing byte slices\<close>

text \<open>\<open>bytes.Compare\<close>\<close>

fun bytes_Compare :: "byte list \<Rightarrow> byte list \<Rightarrow> int" where
  "bytes_Compare [] [] = 0"
| "bytes_Compare [] (_ # _) = -1"
| "bytes_Compare (_ # _) [] = 1"
| "bytes_Compare (a # as) (b # bs) =
     (if a < b then -1 else if b < a then 1 else bytes_Compare as bs)"

text \<open>An address as a number, most significant byte first.\<close>

definition ip_nat :: "ip \<Rightarrow> nat" where
  "ip_nat = foldl (\<lambda>a b. 256 * a + unat b) 0"

lemma foldl_bytes: "foldl (\<lambda>a b. 256 * a + unat (b :: byte)) x bs
    = x * 256 ^ length bs + ip_nat bs"
proof (induction bs arbitrary: x rule: rev_induct)
  case Nil
  then show ?case by (simp add: ip_nat_def)
next
  case (snoc b bs)
  have "ip_nat (bs @ [b]) = 256 * ip_nat bs + unat b"
    by (simp add: ip_nat_def)
  with snoc [of x] show ?case by simp
qed

lemma ip_nat_Nil [simp]: "ip_nat [] = 0"
  by (simp add: ip_nat_def)

lemma ip_nat_Cons: "ip_nat (b # bs) = unat b * 256 ^ length bs + ip_nat bs"
  using foldl_bytes [of "unat b" bs] by (simp add: ip_nat_def)

lemma ip_nat_bound: "ip_nat bs < 256 ^ length bs"
proof (induction bs)
  case (Cons b bs)
  have "unat b * 256 ^ length bs + ip_nat bs < (unat b + 1) * 256 ^ length bs"
    using Cons by simp
  also have "\<dots> \<le> 256 * 256 ^ length bs"
    using unsigned_less [of b, where 'a = nat] by (intro mult_right_mono) simp_all
  finally show ?case by (simp add: ip_nat_Cons)
qed simp

lemma bytes_Compare_range: "bytes_Compare a b \<in> {-1, 0, 1}"
  by (induction a b rule: bytes_Compare.induct) auto

lemma ip_nat_Cons_less:
  assumes "length as = length bs" "a < b"
  shows "ip_nat (a # as) < ip_nat (b # bs)"
proof -
  have "unat a * 256 ^ length as + ip_nat as < (unat a + 1) * 256 ^ length as"
    using ip_nat_bound [of as] by simp
  also have "\<dots> \<le> unat b * 256 ^ length bs"
    using assms by (intro mult_mono) (simp_all add: word_less_nat_alt)
  finally show ?thesis by (simp add: ip_nat_Cons)
qed

lemma bytes_Compare_ip_nat:
  "length a = length b \<Longrightarrow>
     bytes_Compare a b = (if ip_nat a < ip_nat b then -1 else if ip_nat b < ip_nat a then 1 else 0)"
proof (induction a b rule: bytes_Compare.induct)
  case (4 a as b bs)
  then consider "a < b" | "b < a" | "a = b"
    using less_linear by blast
  then show ?case
  proof cases
    case 1
    then show ?thesis using 4 ip_nat_Cons_less [of as bs a b] by simp
  next
    case 2
    then show ?thesis using 4 ip_nat_Cons_less [of bs as b a] by simp
  next
    case 3
    then show ?thesis using 4 by (simp add: ip_nat_Cons)
  qed
qed simp_all

lemma bytes_Compare_less_iff:
  "length a = length b \<Longrightarrow> bytes_Compare a b = -1 \<longleftrightarrow> ip_nat a < ip_nat b"
  by (simp add: bytes_Compare_ip_nat)

lemma bytes_Compare_greater_iff:
  "length a = length b \<Longrightarrow> bytes_Compare a b = 1 \<longleftrightarrow> ip_nat b < ip_nat a"
  by (simp add: bytes_Compare_ip_nat)

section \<open>Lengths of parsed addresses\<close>

lemma v4_fields_length: "v4_fields dl v fs s = Some r \<Longrightarrow> length fs \<le> 3 \<Longrightarrow> length r = 4"
  by (induction dl v fs s rule: v4_fields.induct) (auto split: if_splits)

lemma parse_v4_length: "parse_v4 s = Some r \<Longrightarrow> length r = 4"
  by (auto simp: parse_v4_def dest: v4_fields_length)

lemma hex_group_length [simp]: "length (hex_group ds) = 2"
  by (simp add: hex_group_def Let_def)

lemma v6_groups_length:
  "v6_groups n e bs s = Some (e', bs', s') \<Longrightarrow> length bs + 2 * n \<le> 16 \<Longrightarrow> length bs' \<le> 16"
proof (induction n e bs s rule: v6_groups.induct)
  case (2 n e bs s)
  then show ?case
    by (auto simp: Let_def split: if_splits list.splits option.splits dest: parse_v4_length)
qed simp

lemma v6_expand_length: "v6_expand (e, bs, s) = Some r \<Longrightarrow> length bs \<le> 16 \<Longrightarrow> length r = 16"
  by (auto simp: v6_expand_def split: if_splits option.splits)

lemma parse_v6_length: "parse_v6 s = Some r \<Longrightarrow> length r = 16"
  unfolding parse_v6_def
  by (auto split: if_splits bind_splits dest!: v6_groups_length v6_expand_length)

lemma parse_addr_length: "parse_addr s = Some a \<Longrightarrow> length (as16 a) = 16"
  by (auto simp: parse_addr_def v4_in_v6_prefix_def
           split: list.splits if_splits dest: parse_v4_length parse_v6_length)

lemma ParseIP_length: "ParseIP s = Some i \<Longrightarrow> length i = 16"
  by (auto simp: ParseIP_def dest: parse_addr_length)

lemma ParseIP_Nil [simp]: "ParseIP [] = None"
  by (simp add: ParseIP_def parse_addr_def)

end
