(* ===== verification/Webhook.thy ===== *)
theory Webhook
  imports ApiTypes GoNet "HOL-Library.Multiset"
begin

text \<open>
  Admission of the Ironic resource (\<open>api/v1beta1/ironic_webhook.go\<close>, with the
  defaulting functions of the other types): defaulting, validation on create
  and update, route annotations. A nil-pointer dereference is \<^term>\<open>None\<close>.
\<close>

section \<open>Field errors and the libraries the webhook calls\<close>

record dupe =
  du_Seen :: nat
  du_Group :: string
  du_Index :: nat

record netIPStartEnd =
  se_start :: ip
  se_end :: ip
  se_path :: fieldPath

text \<open>The message constants of the file, with the arguments they are formatted
  with.\<close>

datatype detail =
    ErrNotIPAddr
  | ErrInvalidCidr
  | ErrNotInCidr string
  | ErrMixedAddressFamily
  | ErrInvalidRange string string
  | ErrForbiddenAddressOverlap "ip \<times> ip" fieldPath "ip \<times> ip"
  | ErrInvalidRPCTransport
  | ErrIPv6Gateway
  | ErrGroupNotUnique "dupe list"
  | Detail string

datatype badValue =
    BadString string
  | BadInt int
  | BadRange DHCPRange
  | BadConductors "IronicConductorTemplate list"

datatype fieldError =
    Invalid fieldPath badValue detail
  | Required fieldPath detail
  | Forbidden fieldPath detail
  | ForeignError string

record DeprecatedField =
  df_Name :: string
  df_NewFieldPath :: "string list"
  df_DeprecatedValue :: string
  df_NewValue :: string

record DeprecatedFieldUpdate =
  dfu_Name :: string
  dfu_NewFieldPath :: "string list"
  dfu_NewDeprecatedValue :: string
  dfu_NewValue :: string
  dfu_OldDeprecatedValue :: "string option"

text \<open>Functions of lib-common, infra-operator and k8s.io/utils/net, and the order
  in which Go ranges over a map.\<close>

record webhookLib =
  ValidateRoutedOverrides :: "fieldPath \<Rightarrow> (string \<rightharpoonup> opaque) \<Rightarrow> fieldError list"
  ValidateTopologyRef :: "TopoRef option \<Rightarrow> fieldPath \<Rightarrow> string \<Rightarrow> fieldError list"
  ValidateDeprecatedFieldsCreate :: "DeprecatedField list \<Rightarrow> fieldPath \<Rightarrow> string list"
  ValidateDeprecatedFieldsUpdate ::
    "DeprecatedFieldUpdate list \<Rightarrow> fieldPath \<Rightarrow> string list \<times> fieldError list"
  StringInSlice :: "string \<Rightarrow> string list \<Rightarrow> bool"
  DefaultRabbitMqConfig :: "RabbitMqConfig \<Rightarrow> string \<Rightarrow> RabbitMqConfig"
  IsIPv4 :: "ip \<Rightarrow> bool"
  IsIPv6 :: "ip \<Rightarrow> bool"
  IsIPv4CIDR :: "ipnet \<Rightarrow> bool"
  IsIPv6CIDR :: "ipnet \<Rightarrow> bool"
  rangeMap :: "dupe list \<Rightarrow> dupe list"

text \<open>Documented behaviour of k8s.io/utils/net on parsed prefixes and addresses.\<close>

definition k8snet_laws :: "webhookLib \<Rightarrow> bool" where
  "k8snet_laws W \<longleftrightarrow>
     (\<forall>i. length i = 16 \<longrightarrow> IsIPv4 W i = (To4 i \<noteq> None) \<and> IsIPv6 W i = (To4 i = None)) \<and>
     (\<forall>s a n. ParseCIDR s = Some (a, n) \<longrightarrow>
        IsIPv4CIDR W n = (To4 (net_IP n) \<noteq> None) \<and> IsIPv6CIDR W n = (To4 (net_IP n) = None))"

definition StringInSlice_law :: "webhookLib \<Rightarrow> bool" where
  "StringInSlice_law W \<longleftrightarrow> (\<forall>s xs. StringInSlice W s xs = (s \<in> set xs))"

definition rangeMap_law :: "webhookLib \<Rightarrow> bool" where
  "rangeMap_law W \<longleftrightarrow> (\<forall>xs. mset (rangeMap W xs) = mset xs)"

section \<open>Defaulting\<close>

definition defaultImage :: "string \<Rightarrow> string \<Rightarrow> string" where
  "defaultImage current dflt = (if current = '''' then dflt else current)"

text \<open>\<open>IronicNeutronAgentTemplate.Default\<close> and \<open>IronicInspectorSpec.Default\<close>\<close>

definition NeutronAgent_Default ::
  "webhookLib \<Rightarrow> 'a IronicNeutronAgentTemplate_scheme \<Rightarrow> 'a IronicNeutronAgentTemplate_scheme" where
  "NeutronAgent_Default W spec =
     spec\<lparr>na_MessagingBus := DefaultRabbitMqConfig W (na_MessagingBus spec) ''rabbitmq''\<rparr>"

definition Inspector_Default :: "webhookLib \<Rightarrow> IronicInspectorSpec \<Rightarrow> IronicInspectorSpec" where
  "Inspector_Default W spec =
     (let spec = (if is_RPCTransport spec = '''' then spec\<lparr>is_RPCTransport := ''json-rpc''\<rparr> else spec)
      in spec\<lparr>is_MessagingBus := DefaultRabbitMqConfig W (is_MessagingBus spec) ''rabbitmq''\<rparr>)"

definition SpecCore_Default ::
  "webhookLib \<Rightarrow> 'a IronicSpecCore_scheme \<Rightarrow> 'a IronicSpecCore_scheme" where
  "SpecCore_Default W spec =
     (let spec = (if RPCTransport spec = '''' then spec\<lparr>RPCTransport := ''json-rpc''\<rparr> else spec);
          spec = (if rmq_Cluster (MessagingBus spec) = ''''
                  then spec\<lparr>MessagingBus := (MessagingBus spec)\<lparr>rmq_Cluster := ''rabbitmq''\<rparr>\<rparr>
                  else spec)
      in spec\<lparr>sp_IronicNeutronAgent := NeutronAgent_Default W (sp_IronicNeutronAgent spec)\<rparr>)"

definition Spec_Default :: "webhookLib \<Rightarrow> IronicImages \<Rightarrow> IronicSpec \<Rightarrow> IronicSpec" where
  "Spec_Default W imageDefaults spec =
     (let im = Images spec;
          im = im\<lparr>im_API := defaultImage (im_API im) (im_API imageDefaults),
                  im_Conductor := defaultImage (im_Conductor im) (im_Conductor imageDefaults),
                  im_Inspector := defaultImage (im_Inspector im) (im_Inspector imageDefaults),
                  im_NeutronAgent := defaultImage (im_NeutronAgent im) (im_NeutronAgent imageDefaults),
                  im_Pxe := defaultImage (im_Pxe im) (im_Pxe imageDefaults),
                  im_IronicPythonAgent :=
                    defaultImage (im_IronicPythonAgent im) (im_IronicPythonAgent imageDefaults)\<rparr>
      in SpecCore_Default W (spec\<lparr>Images := im\<rparr>))"

definition Ironic_Default :: "webhookLib \<Rightarrow> IronicImages \<Rightarrow> Ironic \<Rightarrow> Ironic" where
  "Ironic_Default W imageDefaults r = r\<lparr>Spec := Spec_Default W imageDefaults (Spec r)\<rparr>"

text \<open>\<open>SetupDefaults\<close>: \<open>getenv name fallback\<close> is \<open>util.GetEnvVar\<close>. The fall-back
  images are the constants of the file.\<close>

definition IronicAPIContainerImage :: string where
  "IronicAPIContainerImage = ''quay.io/podified-antelope-centos9/openstack-ironic-api:current-podified''"
definition IronicConductorContainerImage :: string where
  "IronicConductorContainerImage = ''quay.io/podified-antelope-centos9/openstack-ironic-conductor:current-podified''"
definition IronicInspectorContainerImage :: string where
  "IronicInspectorContainerImage = ''quay.io/podified-antelope-centos9/openstack-ironic-inspector:current-podified''"
definition IronicPXEContainerImage :: string where
  "IronicPXEContainerImage = ''quay.io/podified-antelope-centos9/openstack-ironic-pxe:current-podified''"
definition IronicNeutronAgentContainerImage :: string where
  "IronicNeutronAgentContainerImage = ''quay.io/podified-antelope-centos9/openstack-ironic-neutron-agent:current-podified''"
definition IronicPythonAgentContainerImage :: string where
  "IronicPythonAgentContainerImage = ''quay.io/podified-antelope-centos9/ironic-python-agent:current-podified''"
definition IronicNoVNCProxyContainerImage :: string where
  "IronicNoVNCProxyContainerImage = ''quay.io/podified-antelope-centos9/ironic-novncproxy:current-podified''"
definition IronicGraphicalConsoleContainerImage :: string where
  "IronicGraphicalConsoleContainerImage = ''quay.io/podified-antelope-centos9/ironic-graphical-console:current-podified''"

definition SetupDefaults :: "(string \<Rightarrow> string \<Rightarrow> string) \<Rightarrow> IronicImages" where
  "SetupDefaults getenv =
     \<lparr>im_API = getenv ''RELATED_IMAGE_IRONIC_API_IMAGE_URL_DEFAULT'' IronicAPIContainerImage,
      im_Conductor = getenv ''RELATED_IMAGE_IRONIC_CONDUCTOR_IMAGE_URL_DEFAULT'' IronicConductorContainerImage,
      im_Inspector = getenv ''RELATED_IMAGE_IRONIC_INSPECTOR_IMAGE_URL_DEFAULT'' IronicInspectorContainerImage,
      im_NeutronAgent = getenv ''RELATED_IMAGE_IRONIC_NEUTRON_AGENT_IMAGE_URL_DEFAULT'' IronicNeutronAgentContainerImage,
      im_Pxe = getenv ''RELATED_IMAGE_IRONIC_PXE_IMAGE_URL_DEFAULT'' IronicPXEContainerImage,
      im_IronicPythonAgent = getenv ''RELATED_IMAGE_IRONIC_PYTHON_AGENT_IMAGE_URL_DEFAULT'' IronicPythonAgentContainerImage,
      im_NoVNCProxy = getenv ''RELATED_IMAGE_IRONIC_NOVNC_PROXY_IMAGE_URL_DEFAULT'' IronicPythonAgentContainerImage,
      im_GraphicalConsole = getenv ''RELATED_IMAGE_IRONIC_GRAPHICAL_CONSOLE_IMAGE_URL_DEFAULT'' IronicPythonAgentContainerImage\<rparr>"

section \<open>DHCP ranges\<close>

text \<open>The first part of \<open>validateDHCPRange\<close>: the texts that do not parse.\<close>

definition dhcpSyntaxErrors :: "DHCPRange \<Rightarrow> fieldPath \<Rightarrow> fieldError list" where
  "dhcpSyntaxErrors r p =
     (if ParseCIDR (dr_Cidr r) = None then [Invalid (Child p ''cidr'') (BadString (dr_Cidr r)) ErrInvalidCidr] else []) @
     (if ParseIP (dr_Start r) = None then [Invalid (Child p ''start'') (BadString (dr_Start r)) ErrNotIPAddr] else []) @
     (if ParseIP (dr_End r) = None then [Invalid (Child p ''end'') (BadString (dr_End r)) ErrNotIPAddr] else []) @
     (if dr_Gateway r \<noteq> '''' \<and> ParseIP (dr_Gateway r) = None
      then [Invalid (Child p ''gateway'') (BadString (dr_Gateway r)) ErrNotIPAddr] else [])"

text \<open>The second part, on the parsed prefix and addresses.\<close>

definition dhcpFamilyErrors ::
  "webhookLib \<Rightarrow> DHCPRange \<Rightarrow> fieldPath \<Rightarrow> ipnet \<Rightarrow> ip \<Rightarrow> ip \<Rightarrow> ip \<Rightarrow> fieldError list" where
  "dhcpFamilyErrors W r p ipPrefix startAddr endAddr gatewayAddr =
     (if IsIPv4CIDR W ipPrefix then
        (if \<not> (IsIPv4 W startAddr \<and> IsIPv4 W endAddr) then [Invalid p (BadRange r) ErrMixedAddressFamily]
         else if dr_Gateway r \<noteq> '''' \<and> \<not> IsIPv4 W gatewayAddr then [Invalid p (BadRange r) ErrMixedAddressFamily]
         else [])
      else []) @
     (if IsIPv6CIDR W ipPrefix then
        (if \<not> (IsIPv6 W startAddr \<and> IsIPv6 W endAddr) then [Invalid p (BadRange r) ErrMixedAddressFamily] else []) @
        (if dr_Gateway r \<noteq> '''' then [Invalid (Child p ''gateway'') (BadString (dr_Gateway r)) ErrIPv6Gateway] else [])
      else [])"

definition dhcpAddressErrors ::
  "DHCPRange \<Rightarrow> fieldPath \<Rightarrow> ipnet \<Rightarrow> ip \<Rightarrow> ip \<Rightarrow> ip \<Rightarrow> fieldError list" where
  "dhcpAddressErrors r p ipPrefix startAddr endAddr gatewayAddr =
     (if \<not> Contains ipPrefix startAddr then [Invalid (Child p ''start'') (BadString (dr_Start r)) (ErrNotInCidr (dr_Cidr r))] else []) @
     (if \<not> Contains ipPrefix endAddr then [Invalid (Child p ''end'') (BadString (dr_End r)) (ErrNotInCidr (dr_Cidr r))] else []) @
     (if dr_Gateway r \<noteq> '''' \<and> \<not> Contains ipPrefix gatewayAddr
      then [Invalid (Child p ''gateway'') (BadString (dr_Gateway r)) (ErrNotInCidr (dr_Cidr r))] else []) @
     (if bytes_Compare endAddr startAddr \<noteq> 1
      then [Invalid (Child p ''start'') (BadString (dr_Start r)) (ErrInvalidRange (dr_Start r) (dr_End r)),
            Invalid (Child p ''end'') (BadString (dr_End r)) (ErrInvalidRange (dr_Start r) (dr_End r))]
      else [])"

text \<open>The whole function: it stops after the first part when any of the four
  parsed values is missing, the gateway's included.\<close>

definition validateDHCPRange :: "webhookLib \<Rightarrow> DHCPRange \<Rightarrow> fieldPath \<Rightarrow> fieldError list" where
  "validateDHCPRange W dhcpRange p =
     (let gatewayAddr = (if dr_Gateway dhcpRange \<noteq> '''' then ParseIP (dr_Gateway dhcpRange) else None) in
      case (ParseCIDR (dr_Cidr dhcpRange), ParseIP (dr_Start dhcpRange), ParseIP (dr_End dhcpRange), gatewayAddr) of
        (Some (_, ipPrefix), Some s, Some e, Some g) \<Rightarrow>
          dhcpSyntaxErrors dhcpRange p @ dhcpFamilyErrors W dhcpRange p ipPrefix s e g @
          dhcpAddressErrors dhcpRange p ipPrefix s e g
      | _ \<Rightarrow> dhcpSyntaxErrors dhcpRange p)"

subsection \<open>Overlaps\<close>

definition overlapError :: "netIPStartEnd \<Rightarrow> netIPStartEnd \<Rightarrow> fieldError" where
  "overlapError a b =
     Forbidden (se_path a) (ErrForbiddenAddressOverlap (se_start a, se_end a) (se_path b) (se_start b, se_end b))"

definition validateStartEndOverlap :: "netIPStartEnd \<Rightarrow> netIPStartEnd \<Rightarrow> fieldError list" where
  "validateStartEndOverlap a b =
     (let x = bytes_Compare (se_start a) (se_start b) in
      if x = -1 then (if bytes_Compare (se_end a) (se_start b) = -1 then [] else [overlapError a b])
      else if x = 0 then [overlapError a b]
      else (if bytes_Compare (se_start a) (se_end b) = 1 then [] else [overlapError a b]))"

definition rangeBounds :: "fieldPath \<Rightarrow> DHCPRange list \<Rightarrow> netIPStartEnd list" where
  "rangeBounds p ranges =
     concat (map (\<lambda>(idx, r).
       case (ParseIP (dr_Start r), ParseIP (dr_End r)) of
         (Some s, Some e) \<Rightarrow> [\<lparr>se_start = s, se_end = e, se_path = Index p idx\<rparr>]
       | _ \<Rightarrow> []) (enumerate 0 ranges))"

definition allRangeBounds :: "'a IronicSpecCore_scheme \<Rightarrow> fieldPath \<Rightarrow> netIPStartEnd list" where
  "allRangeBounds spec basePath =
     rangeBounds (Child (Child basePath ''ironicInspector'') ''dhcpRanges'')
       (ins_DHCPRanges (sp_IronicInspector spec)) @
     concat (map (\<lambda>(condIdx, c).
         rangeBounds (Child (Index (Child basePath ''ironicConductors'') condIdx) ''dhcpRanges'')
           (con_DHCPRanges c))
       (enumerate 0 (sp_IronicConductors spec)))"

text \<open>The two loops: each comparison assigns the result list.\<close>

definition overlapLoops :: "netIPStartEnd list \<Rightarrow> fieldError list" where
  "overlapLoops xs =
     foldl (\<lambda>allErrs ax.
       foldl (\<lambda>allErrs bx. if bx = ax then allErrs else validateStartEndOverlap (xs ! ax) (xs ! bx))
         allErrs [0..<length xs])
       [] [0..<length xs]"

definition validateDHCPRangesOverlap :: "'a IronicSpecCore_scheme \<Rightarrow> fieldPath \<Rightarrow> fieldError list" where
  "validateDHCPRangesOverlap spec basePath = overlapLoops (allRangeBounds spec basePath)"

section \<open>The other validations\<close>

fun duplicateGroups ::
  "nat \<Rightarrow> (string \<rightharpoonup> nat) \<Rightarrow> IronicConductorTemplate list \<Rightarrow> dupe list" where
  "duplicateGroups groupIdx seenGrps [] = []"
| "duplicateGroups groupIdx seenGrps (c # cs) =
     (let groupName = (if ConductorGroup c = '''' then ''null_conductor_group_null'' else ConductorGroup c) in
      case seenGrps groupName of
        Some seenIdx \<Rightarrow>
          \<lparr>du_Seen = seenIdx, du_Group = ConductorGroup c, du_Index = groupIdx\<rparr>
            # duplicateGroups (Suc groupIdx) seenGrps cs
      | None \<Rightarrow> duplicateGroups (Suc groupIdx) (seenGrps(groupName \<mapsto> groupIdx)) cs)"

definition validateConductorGroupsUnique ::
  "webhookLib \<Rightarrow> 'a IronicSpecCore_scheme \<Rightarrow> fieldPath \<Rightarrow> fieldError option" where
  "validateConductorGroupsUnique W spec basePath =
     (let dupes = duplicateGroups 0 Map.empty (sp_IronicConductors spec) in
      if dupes \<noteq> [] then
        Some (Invalid (Child basePath ''ironicConductors'') (BadConductors (sp_IronicConductors spec))
                (ErrGroupNotUnique (rangeMap W dupes)))
      else None)"

definition optErr :: "fieldError option \<Rightarrow> fieldError list" where
  "optErr e = (case e of None \<Rightarrow> [] | Some x \<Rightarrow> [x])"

definition validateConductorSpec ::
  "webhookLib \<Rightarrow> 'a IronicSpecCore_scheme \<Rightarrow> fieldPath \<Rightarrow> fieldError list" where
  "validateConductorSpec W spec basePath =
     (if sp_IronicConductors spec = []
      then [Required (Child basePath ''ironicConductors'') (Detail ''IronicConductors must be provided'')] else []) @
     optErr (validateConductorGroupsUnique W spec basePath) @
     concat (map (\<lambda>(condIdx, conductor).
         concat (map (\<lambda>(idx, dhcpRange).
             validateDHCPRange W dhcpRange
               (Index (Child (Index (Child basePath ''ironicConductors'') condIdx) ''dhcpRanges'') idx))
           (enumerate 0 (con_DHCPRanges conductor))))
       (enumerate 0 (sp_IronicConductors spec)))"

definition validateAPISpec ::
  "webhookLib \<Rightarrow> 'a IronicSpecCore_scheme \<Rightarrow> fieldPath \<Rightarrow> fieldError list" where
  "validateAPISpec W spec basePath =
     ValidateRoutedOverrides W (Child (Child (Child basePath ''ironicAPI'') ''override'') ''service'')
       (Service (api_Override (sp_IronicAPI spec)))"

definition validateInspectorSpec ::
  "webhookLib \<Rightarrow> 'a IronicSpecCore_scheme \<Rightarrow> fieldPath \<Rightarrow> fieldError list" where
  "validateInspectorSpec W spec basePath =
     ValidateRoutedOverrides W (Child (Child (Child basePath ''ironicInspector'') ''override'') ''service'')
       (Service (ins_Override (sp_IronicInspector spec))) @
     concat (map (\<lambda>(idx, dhcpRange).
         validateDHCPRange W dhcpRange (Index (Child (Child basePath ''ironicInspector'') ''dhcpRanges'') idx))
       (enumerate 0 (ins_DHCPRanges (sp_IronicInspector spec))))"

text \<open>The replica pointer is only dereferenced in standalone mode.\<close>

definition validateNeutronAgentSpec ::
  "'a IronicSpecCore_scheme \<Rightarrow> fieldPath \<Rightarrow> fieldError list option" where
  "validateNeutronAgentSpec spec basePath =
     (if Standalone spec then
        (case Replicas (sp_IronicNeutronAgent spec) of
           None \<Rightarrow> None
         | Some n \<Rightarrow>
             Some (if n > 0 then
               [Invalid (Child (Child basePath ''ironicNeutronAgent'') ''replicas'') (BadInt n)
                  (Detail ''IronicNeutronAgent is not supported with standalone mode'')] else []))
      else Some [])"

definition validateRPCTransport ::
  "webhookLib \<Rightarrow> 'a IronicSpecCore_scheme \<Rightarrow> fieldPath \<Rightarrow> fieldError option" where
  "validateRPCTransport W spec basePath =
     (if \<not> StringInSlice W (RPCTransport spec) [''oslo'', ''json-rpc'']
      then Some (Invalid (Child basePath ''rpcTransport'') (BadString (RPCTransport spec)) ErrInvalidRPCTransport)
      else None)"

text \<open>\<open>ValidateTopology\<close> of the service templates and of the inspector template.\<close>

definition ValidateTopology ::
  "webhookLib \<Rightarrow> 'a IronicServiceTemplate_scheme \<Rightarrow> fieldPath \<Rightarrow> string \<Rightarrow> fieldError list" where
  "ValidateTopology W t basePath namespace =
     ValidateTopologyRef W (TopologyRef t) (Child basePath ''topologyRef'') namespace"

definition Inspector_ValidateTopology ::
  "webhookLib \<Rightarrow> 'a IronicInspectorTemplate_scheme \<Rightarrow> fieldPath \<Rightarrow> string \<Rightarrow> fieldError list" where
  "Inspector_ValidateTopology W t basePath namespace =
     ValidateTopologyRef W (ins_TopologyRef t) (Child basePath ''topologyRef'') namespace"

definition ValidateIronicTopology ::
  "webhookLib \<Rightarrow> 'a IronicSpecCore_scheme \<Rightarrow> fieldPath \<Rightarrow> string \<Rightarrow> fieldError list" where
  "ValidateIronicTopology W spec basePath namespace =
     ValidateTopologyRef W (sp_TopologyRef spec) (Child basePath ''topologyRef'') namespace @
     ValidateTopology W (sp_IronicAPI spec) (Child basePath ''ironicAPI'') namespace @
     concat (map (\<lambda>cs. ValidateTopology W cs (Child basePath ''ironicConductors'') namespace)
       (sp_IronicConductors spec)) @
     Inspector_ValidateTopology W (sp_IronicInspector spec) (Child basePath ''ironicInspector'') namespace @
     ValidateTopology W (sp_IronicNeutronAgent spec) (Child basePath ''ironicNeutronAgent'') namespace"

subsection \<open>Deprecated fields\<close>

definition getDeprecatedFields ::
  "'a IronicSpecCore_scheme \<Rightarrow> 'b IronicSpecCore_scheme option \<Rightarrow> DeprecatedFieldUpdate list" where
  "getDeprecatedFields spec old =
     [\<lparr>dfu_Name = ''rabbitMqClusterName'', dfu_NewFieldPath = [''messagingBus'', ''cluster''],
       dfu_NewDeprecatedValue = RabbitMqClusterName spec,
       dfu_NewValue = rmq_Cluster (MessagingBus spec),
       dfu_OldDeprecatedValue = map_option RabbitMqClusterName old\<rparr>,
      \<lparr>dfu_Name = ''rabbitMqClusterName'',
       dfu_NewFieldPath = [''ironicNeutronAgent'', ''messagingBus'', ''cluster''],
       dfu_NewDeprecatedValue = na_RabbitMqClusterName (sp_IronicNeutronAgent spec),
       dfu_NewValue = rmq_Cluster (na_MessagingBus (sp_IronicNeutronAgent spec)),
       dfu_OldDeprecatedValue = map_option (\<lambda>o'. na_RabbitMqClusterName (sp_IronicNeutronAgent o')) old\<rparr>]"

definition validateDeprecatedFieldsCreate ::
  "webhookLib \<Rightarrow> 'a IronicSpecCore_scheme \<Rightarrow> fieldPath \<Rightarrow> string list" where
  "validateDeprecatedFieldsCreate W spec basePath =
     ValidateDeprecatedFieldsCreate W
       (map (\<lambda>df. \<lparr>df_Name = dfu_Name df, df_NewFieldPath = dfu_NewFieldPath df,
                   df_DeprecatedValue = dfu_NewDeprecatedValue df, df_NewValue = dfu_NewValue df\<rparr>)
         (getDeprecatedFields spec (None :: 'a IronicSpecCore_scheme option)))
       basePath"

definition validateDeprecatedFieldsUpdate ::
  "webhookLib \<Rightarrow> 'a IronicSpecCore_scheme \<Rightarrow> 'b IronicSpecCore_scheme \<Rightarrow> fieldPath
     \<Rightarrow> string list \<times> fieldError list" where
  "validateDeprecatedFieldsUpdate W spec old basePath =
     ValidateDeprecatedFieldsUpdate W (getDeprecatedFields spec (Some old)) basePath"

subsection \<open>Create and update\<close>

text \<open>The two functions repeat the same checks, each in its own body. The replica count of
  the neutron agent is dereferenced after the other checks of the spec; nothing is
  returned when that panics.\<close>

definition SpecCore_ValidateCreate ::
  "webhookLib \<Rightarrow> 'a IronicSpecCore_scheme \<Rightarrow> fieldPath \<Rightarrow> string \<Rightarrow> (string list \<times> fieldError list) option" where
  "SpecCore_ValidateCreate W spec basePath namespace =
     (let allWarns = validateDeprecatedFieldsCreate W spec basePath;
          allErrs = optErr (validateRPCTransport W spec basePath);
          allErrs = allErrs @ optErr (validateConductorGroupsUnique W spec basePath);
          allErrs = allErrs @ validateAPISpec W spec basePath;
          allErrs = allErrs @ validateConductorSpec W spec basePath;
          allErrs = allErrs @ validateInspectorSpec W spec basePath;
          allErrs = allErrs @ validateDHCPRangesOverlap spec basePath
      in case validateNeutronAgentSpec spec basePath of
           None \<Rightarrow> None
         | Some errs \<Rightarrow>
             let allErrs = allErrs @ errs;
                 allErrs = allErrs @ ValidateIronicTopology W spec basePath namespace
             in Some (allWarns, allErrs))"

definition SpecCore_ValidateUpdate ::
  "webhookLib \<Rightarrow> 'a IronicSpecCore_scheme \<Rightarrow> 'b IronicSpecCore_scheme \<Rightarrow> fieldPath \<Rightarrow> string
     \<Rightarrow> (string list \<times> fieldError list) option" where
  "SpecCore_ValidateUpdate W spec old basePath namespace =
     (let (allWarns, allErrs) = validateDeprecatedFieldsUpdate W spec old basePath;
          allErrs = allErrs @ optErr (validateRPCTransport W spec basePath);
          allErrs = allErrs @ optErr (validateConductorGroupsUnique W spec basePath);
          allErrs = allErrs @ validateAPISpec W spec basePath;
          allErrs = allErrs @ validateConductorSpec W spec basePath;
          allErrs = allErrs @ validateInspectorSpec W spec basePath;
          allErrs = allErrs @ validateDHCPRangesOverlap spec basePath
      in case validateNeutronAgentSpec spec basePath of
           None \<Rightarrow> None
         | Some errs \<Rightarrow>
             let allErrs = allErrs @ errs;
                 allErrs = allErrs @ ValidateIronicTopology W spec basePath namespace
             in Some (allWarns, allErrs))"

datatype admissionError =
    StatusInvalid string string string "fieldError list"
  | InternalError string
  | UnexpectedObject string string

datatype runtimeObject =
    ObjIronic Ironic
  | ObjNilIronic
  | ObjInspector IronicInspector
  | ObjNeutronAgent IronicNeutronAgent
  | ObjOther string

definition invalidOr :: "string \<Rightarrow> string list \<times> fieldError list \<Rightarrow> string list \<times> admissionError option" where
  "invalidOr name = (\<lambda>(allWarns, allErrs).
     if length allErrs \<noteq> 0 then (allWarns, Some (StatusInvalid ''ironic.openstack.org'' ''Ironic'' name allErrs))
     else (allWarns, None))"

definition Ironic_ValidateCreate :: "webhookLib \<Rightarrow> Ironic \<Rightarrow> (string list \<times> admissionError option) option" where
  "Ironic_ValidateCreate W r =
     map_option (invalidOr (Name (Meta r)))
       (SpecCore_ValidateCreate W (Spec r) (NewPath ''spec'') (Namespace (Meta r)))"

definition Ironic_ValidateUpdate ::
  "webhookLib \<Rightarrow> Ironic \<Rightarrow> runtimeObject \<Rightarrow> (string list \<times> admissionError option) option" where
  "Ironic_ValidateUpdate W r old =
     (case old of
        ObjIronic oldIronic \<Rightarrow>
          map_option (invalidOr (Name (Meta r)))
            (SpecCore_ValidateUpdate W (Spec r) (Spec oldIronic) (NewPath ''spec'') (Namespace (Meta r)))
      | _ \<Rightarrow> Some ([], Some (InternalError ''unable to convert existing object'')))"

definition Ironic_ValidateDelete :: "Ironic \<Rightarrow> string list \<times> admissionError option" where
  "Ironic_ValidateDelete r = ([], None)"

section \<open>Route annotations\<close>

definition haProxyAnno :: string where
  "haProxyAnno = ''haproxy.router.openshift.io/timeout''"

definition ironicAnno :: string where
  "ironicAnno = ''api.ironic.openstack.org/timeout''"

definition ironicInspectorAnno :: string where
  "ironicInspectorAnno = ''inspector.ironic.openstack.org/timeout''"

definition SetDefaultRouteAnnotations ::
  "'a IronicSpecCore_scheme \<Rightarrow> (string \<rightharpoonup> string) \<Rightarrow> (string \<rightharpoonup> string)" where
  "SetDefaultRouteAnnotations spec annotations =
     (let valIronic = annotations ironicAnno; valHAProxy = annotations haProxyAnno in
      if valIronic = None \<and> valHAProxy \<noteq> None then annotations
      else if valIronic \<noteq> None \<and> valHAProxy \<noteq> None \<and> valIronic \<noteq> valHAProxy
      then annotations(ironicAnno := None)
      else let timeout = string_of_int (APITimeout spec) @ ''s''
           in annotations(ironicAnno \<mapsto> timeout, haProxyAnno \<mapsto> timeout))"

definition SetDefaultInspectorRouteAnnotations ::
  "'a IronicSpecCore_scheme \<Rightarrow> (string \<rightharpoonup> string) \<Rightarrow> (string \<rightharpoonup> string)" where
  "SetDefaultInspectorRouteAnnotations spec annotations =
     (let valIronic = annotations ironicInspectorAnno; valHAProxy = annotations haProxyAnno in
      if valIronic = None \<and> valHAProxy \<noteq> None then annotations
      else if valIronic \<noteq> None \<and> valHAProxy \<noteq> None \<and> valIronic \<noteq> valHAProxy
      then annotations(ironicInspectorAnno := None)
      else let timeout = string_of_int (APITimeout spec) @ ''s''
           in annotations(ironicInspectorAnno \<mapsto> timeout, haProxyAnno \<mapsto> timeout))"

section \<open>The registered webhooks\<close>

text \<open>\<open>internal/webhook/v1beta1\<close>: the type assertion, then the function above.
  The nil receiver of a typed nil object is dereferenced by the log call.\<close>

definition typeName :: "runtimeObject \<Rightarrow> string" where
  "typeName ob = (case ob of
     ObjIronic _ \<Rightarrow> ''*v1beta1.Ironic'' | ObjNilIronic \<Rightarrow> ''*v1beta1.Ironic''
   | ObjInspector _ \<Rightarrow> ''*v1beta1.IronicInspector'' | ObjNeutronAgent _ \<Rightarrow> ''*v1beta1.IronicNeutronAgent''
   | ObjOther t \<Rightarrow> t)"

definition CustomDefaulter_Default ::
  "webhookLib \<Rightarrow> IronicImages \<Rightarrow> runtimeObject \<Rightarrow> (admissionError + runtimeObject) option" where
  "CustomDefaulter_Default W imageDefaults ob =
     (case ob of
        ObjIronic ironic \<Rightarrow> Some (Inr (ObjIronic (Ironic_Default W imageDefaults ironic)))
      | ObjNilIronic \<Rightarrow> None
      | _ \<Rightarrow> Some (Inl (UnexpectedObject ''expected an Ironic object but got'' (typeName ob))))"

definition CustomValidator_ValidateCreate ::
  "webhookLib \<Rightarrow> runtimeObject \<Rightarrow> (string list \<times> admissionError option) option" where
  "CustomValidator_ValidateCreate W ob =
     (case ob of
        ObjIronic ironic \<Rightarrow> Ironic_ValidateCreate W ironic
      | ObjNilIronic \<Rightarrow> None
      | _ \<Rightarrow> Some ([], Some (UnexpectedObject ''expected an Ironic object but got'' (typeName ob))))"

definition CustomValidator_ValidateUpdate ::
  "webhookLib \<Rightarrow> runtimeObject \<Rightarrow> runtimeObject \<Rightarrow> (string list \<times> admissionError option) option" where
  "CustomValidator_ValidateUpdate W oldObj newObj =
     (case newObj of
        ObjIronic ironic \<Rightarrow> Ironic_ValidateUpdate W ironic oldObj
      | ObjNilIronic \<Rightarrow> None
      | _ \<Rightarrow> Some ([], Some (UnexpectedObject ''expected an Ironic object for the newObj but got'' (typeName newObj))))"

definition CustomValidator_ValidateDelete ::
  "runtimeObject \<Rightarrow> (string list \<times> admissionError option) option" where
  "CustomValidator_ValidateDelete ob =
     (case ob of
        ObjIronic ironic \<Rightarrow> Some (Ironic_ValidateDelete ironic)
      | ObjNilIronic \<Rightarrow> None
      | _ \<Rightarrow> Some ([], Some (UnexpectedObject ''expected an Ironic object but got'' (typeName ob))))"

definition InspectorDefaulter_Default ::
  "webhookLib \<Rightarrow> runtimeObject \<Rightarrow> admissionError + runtimeObject" where
  "InspectorDefaulter_Default W ob =
     (case ob of
        ObjInspector i \<Rightarrow> Inr (ObjInspector (i\<lparr>ins_Spec := Inspector_Default W (ins_Spec i)\<rparr>))
      | _ \<Rightarrow> Inl (UnexpectedObject ''expected an IronicInspector object but got'' (typeName ob)))"

definition NeutronAgentDefaulter_Default ::
  "webhookLib \<Rightarrow> runtimeObject \<Rightarrow> admissionError + runtimeObject" where
  "NeutronAgentDefaulter_Default W ob =
     (case ob of
        ObjNeutronAgent i \<Rightarrow> Inr (ObjNeutronAgent (i\<lparr>na_Spec := NeutronAgent_Default W (na_Spec i)\<rparr>))
      | _ \<Rightarrow> Inl (UnexpectedObject ''expected an IronicNeutronAgent object but got'' (typeName ob)))"

end
