(* ===== verification/IronicLib.thy ===== *)
theory IronicLib
  imports Webhook
begin

text \<open>
  The package \<open>internal/ironic\<close>: constants, the volumes, init containers and
  database job shared by the services, prefix and netmask extraction, and the
  cluster's ingress domain. Values of the Kubernetes API are records with the
  fields the operator sets; functions of lib-common that build such values are
  fields of the record \<open>podLib\<close>.
\<close>

section \<open>Constants\<close>

definition ServiceName :: string where "ServiceName = ''ironic''"
definition DatabaseName :: string where "DatabaseName = ''ironic''"
definition DatabaseCRName :: string where "DatabaseCRName = ''ironic''"
definition ConductorComponent :: string where "ConductorComponent = ''conductor''"
definition HttpbootComponent :: string where "HttpbootComponent = ''httpboot''"
definition JSONRPCComponent :: string where "JSONRPCComponent = ''jsonrpc''"
definition APIComponent :: string where "APIComponent = ''api''"
definition InspectorComponent :: string where "InspectorComponent = ''inspector''"
definition ConductorGroupSelector :: string where "ConductorGroupSelector = ''conductorGroup''"
definition IronicPublicPort :: int where "IronicPublicPort = 6385"
definition IronicInternalPort :: int where "IronicInternalPort = 6385"
definition LogPath :: string where "LogPath = ''/var/log/ironic/ironic-api.log''"
definition ImageDirectory :: string where "ImageDirectory = ''/var/lib/ironic/httpboot/x86_64''"
definition ACConsumerFinalizer :: string where
  "ACConsumerFinalizer = ''openstack.org/ironic-ac-consumer''"
definition InspectorACConsumerFinalizer :: string where
  "InspectorACConsumerFinalizer = ''openstack.org/ironic-inspector-ac-consumer''"
definition TransportConsumerFinalizer :: string where
  "TransportConsumerFinalizer = ''openstack.org/ironic-transport-consumer''"
definition NeutronAgentTransportConsumerFinalizer :: string where
  "NeutronAgentTransportConsumerFinalizer = ''openstack.org/ironic-neutron-agent-transport-consumer''"
definition InspectorTransportConsumerFinalizer :: string where
  "InspectorTransportConsumerFinalizer = ''openstack.org/ironic-inspector-transport-consumer''"

lemma finalizers_distinct:
  "ACConsumerFinalizer \<noteq> InspectorACConsumerFinalizer"
  "TransportConsumerFinalizer \<noteq> ACConsumerFinalizer"
  "TransportConsumerFinalizer \<noteq> InspectorACConsumerFinalizer"
  by (simp_all add: ACConsumerFinalizer_def InspectorACConsumerFinalizer_def TransportConsumerFinalizer_def)

section \<open>Values of the Kubernetes API\<close>

record downwardFile =
  dw_Path :: string
  dw_FieldPath :: string

datatype volumeSource =
    SecretSource "int option" string
  | ConfigMapSource "int option" string
  | DownwardAPISource "downwardFile list"
  | ForeignSource string

record volume =
  vol_Name :: string
  vol_Source :: volumeSource

record volumeMount =
  vm_Name :: string
  vm_MountPath :: string
  vm_SubPath :: string
  vm_ReadOnly :: bool

datatype envSource =
    EnvValue string
  | EnvSecretKey string string "bool option"
  | EnvField string

record envVar =
  ev_Name :: string
  ev_Source :: envSource

datatype securityContext =
    LibraryContext opaque
  | ExplicitContext "int option" "bool option" "string list" "string list"

record container =
  ct_Name :: string
  ct_Image :: string
  ct_Command :: "string list"
  ct_Args :: "string list"
  ct_SecurityContext :: securityContext
  ct_Env :: "envVar list"
  ct_VolumeMounts :: "volumeMount list"

record podSpec =
  pod_RestartPolicy :: string
  pod_ServiceAccountName :: string
  pod_AutomountServiceAccountToken :: bool
  pod_SecurityContext :: opaque
  pod_InitContainers :: "container list"
  pod_Containers :: "container list"
  pod_Volumes :: "volume list"
  pod_NodeSelector :: "(string \<rightharpoonup> string) option"

record job =
  job_Name :: string
  job_Namespace :: string
  job_Labels :: "string \<rightharpoonup> string"
  job_Pod :: podSpec

text \<open>Functions of lib-common's volume, tls, pod, env and users packages and of
  the Kubernetes libraries. An environment setter is a plain value
  (\<open>env.SetValue\<close>). \<open>IsIPv4Prefix\<close> and \<open>IsIPv6Prefix\<close> take a pointer. A certificate
  service of \<open>tls.GenericService\<close> is opaque; the paths its certificate and key are
  mounted at and the endpoint are arguments of its mounts.\<close>

record podLib =
  WritableDirVolume :: "string \<Rightarrow> volume"
  CreateVolume :: "tlsCa \<Rightarrow> volume"
  CreateVolumeMounts :: "tlsCa \<Rightarrow> string option \<Rightarrow> volumeMount list"
  RestrictivePodSecurityContext :: "int \<Rightarrow> int \<Rightarrow> int list \<Rightarrow> opaque"
  RestrictiveSecurityContext :: "int \<Rightarrow> int \<Rightarrow> opaque"
  MergeEnvs :: "envVar list \<Rightarrow> (string \<times> string) list \<Rightarrow> envVar list"
  IronicUID :: int
  IronicGID :: int
  ApacheGID :: int
  IronicInspectorUID :: int
  IronicInspectorGID :: int
  NeutronUID :: int
  NeutronGID :: int
  WritableDirVolumeMount :: "string \<Rightarrow> string \<Rightarrow> volumeMount"
  ParseQuantity :: "string \<Rightarrow> goerr + opaque"
  IsIPv4Prefix :: "ipnet option \<Rightarrow> bool"
  IsIPv6Prefix :: "ipnet option \<Rightarrow> bool"
  tls_Enabled :: "tlsAPI \<Rightarrow> string \<Rightarrow> bool"
  ToService :: "string option \<Rightarrow> goerr + opaque"
  CertVolume :: "opaque \<Rightarrow> string \<Rightarrow> volume"
  CertVolumeMounts :: "opaque \<Rightarrow> string \<Rightarrow> string \<Rightarrow> string \<Rightarrow> volumeMount list"

text \<open>The volume functions name the volume they are asked for, and the mounts of
  a CA bundle or a certificate refer to its volume.\<close>

definition podLib_laws :: "podLib \<Rightarrow> bool" where
  "podLib_laws P \<longleftrightarrow>
     (\<forall>n. vol_Name (WritableDirVolume P n) = n) \<and>
     (\<forall>t p. \<forall>m\<in>set (CreateVolumeMounts P t p). vm_Name m = vol_Name (CreateVolume P t)) \<and>
     (\<forall>n p. vm_Name (WritableDirVolumeMount P n p) = n) \<and>
     (\<forall>s c k e. \<forall>m\<in>set (CertVolumeMounts P s c k e). vm_Name m = vol_Name (CertVolume P s e))"

section \<open>Volumes\<close>

definition ironic_GetVolumes :: "podLib \<Rightarrow> string \<Rightarrow> volume list" where
  "ironic_GetVolumes P name =
     [\<lparr>vol_Name = ''scripts'', vol_Source = SecretSource (Some 493) (name @ ''-scripts'')\<rparr>,
      \<lparr>vol_Name = ''config-data'', vol_Source = SecretSource (Some 288) (name @ ''-config-data'')\<rparr>,
      WritableDirVolume P ''config-data-merged'',
      \<lparr>vol_Name = ''etc-podinfo'', vol_Source = DownwardAPISource
         [\<lparr>dw_Path = ''network-status'',
           dw_FieldPath = ''metadata.annotations['k8s.v1.cni.cncf.io/network-status']''\<rparr>]\<rparr>]"

definition mount :: "string \<Rightarrow> string \<Rightarrow> bool \<Rightarrow> volumeMount" where
  "mount n p ro = \<lparr>vm_Name = n, vm_MountPath = p, vm_SubPath = '''', vm_ReadOnly = ro\<rparr>"

definition ironic_GetInitVolumeMounts :: "volumeMount list" where
  "ironic_GetInitVolumeMounts =
     [mount ''scripts'' ''/usr/local/bin/container-scripts'' True,
      mount ''config-data'' ''/var/lib/config-data/default'' True,
      mount ''config-data-merged'' ''/var/lib/config-data/merged'' False,
      mount ''etc-podinfo'' ''/etc/podinfo'' False]"

definition ironic_GetVolumeMounts :: "volumeMount list" where
  "ironic_GetVolumeMounts =
     [mount ''scripts'' ''/usr/local/bin/container-scripts'' True,
      mount ''etc-podinfo'' ''/etc/podinfo'' False]"

definition GetMergedConfVolumeMount :: "string \<Rightarrow> string \<Rightarrow> volumeMount" where
  "GetMergedConfVolumeMount finalPath subPath =
     \<lparr>vm_Name = ''config-data-merged'', vm_MountPath = finalPath, vm_SubPath = subPath, vm_ReadOnly = True\<rparr>"

definition GetDBSyncVolumeMounts :: "volumeMount list" where
  "GetDBSyncVolumeMounts = ironic_GetVolumeMounts @
     [GetMergedConfVolumeMount ''/etc/ironic/ironic.conf'' ''ironic.conf'',
      GetMergedConfVolumeMount ''/etc/ironic/ironic.conf.d/02-ironic-custom.conf'' ''02-ironic-custom.conf'',
      GetMergedConfVolumeMount ''/etc/ironic/ironic.conf.d/dbsync.conf'' ''dbsync.conf'',
      GetMergedConfVolumeMount ''/etc/my.cnf'' ''my.cnf'']"

section \<open>Init containers\<close>

record APIDetails =
  ad_ContainerImage :: string
  ad_PxeContainerImage :: string
  ad_IronicPythonAgentImage :: string
  ad_DatabaseHost :: string
  ad_DatabaseName :: string
  ad_TransportURLSecret :: string
  ad_OSPSecret :: string
  ad_UserPasswordSelector :: string
  ad_VolumeMounts :: "volumeMount list"
  ad_PxeInit :: bool
  ad_ConductorInit :: bool
  ad_DeployHTTPURL :: string
  ad_IngressDomain :: string
  ad_ProvisionNetwork :: string
  ad_ImageDirectory :: string

definition initEnvs :: "podLib \<Rightarrow> APIDetails \<Rightarrow> envVar list" where
  "initEnvs P d =
     MergeEnvs P
       ([\<lparr>ev_Name = ''IronicPassword'',
          ev_Source = EnvSecretKey (ad_OSPSecret d) (ad_UserPasswordSelector d) None\<rparr>,
         \<lparr>ev_Name = ''PodName'', ev_Source = EnvField ''metadata.name''\<rparr>,
         \<lparr>ev_Name = ''PodNamespace'', ev_Source = EnvField ''metadata.namespace''\<rparr>,
         \<lparr>ev_Name = ''ProvisionNetwork'', ev_Source = EnvValue (ad_ProvisionNetwork d)\<rparr>] @
        (if ad_TransportURLSecret d \<noteq> '''' then
          [\<lparr>ev_Name = ''TransportURL'',
            ev_Source = EnvSecretKey (ad_TransportURLSecret d) ''transport_url'' None\<rparr>,
           \<lparr>ev_Name = ''QuorumQueues'',
            ev_Source = EnvSecretKey (ad_TransportURLSecret d) ''quorumqueues'' (Some True)\<rparr>]
         else []))
       [(''DatabaseHost'', ad_DatabaseHost d), (''DatabaseName'', ad_DatabaseName d),
        (''DeployHTTPURL'', ad_DeployHTTPURL d), (''IngressDomain'', ad_IngressDomain d)]"

definition InitContainer :: "podLib \<Rightarrow> APIDetails \<Rightarrow> container list" where
  "InitContainer P d =
     [\<lparr>ct_Name = ''init'', ct_Image = ad_ContainerImage d, ct_Command = [''/bin/bash''],
       ct_Args = [''-c'', ''/usr/local/bin/container-scripts/init.sh''],
       ct_SecurityContext = LibraryContext (RestrictiveSecurityContext P (IronicUID P) (IronicGID P)),
       ct_Env = initEnvs P d, ct_VolumeMounts = ad_VolumeMounts d\<rparr>] @
     (if ad_ConductorInit d then
       [\<lparr>ct_Name = ''ironic-python-agent-init'', ct_Image = ad_IronicPythonAgentImage d,
         ct_Command = [], ct_Args = [],
         ct_SecurityContext = LibraryContext (RestrictiveSecurityContext P (IronicUID P) (IronicGID P)),
         ct_Env = [\<lparr>ev_Name = ''DEST_DIR'', ev_Source = EnvValue (ad_ImageDirectory d)\<rparr>],
         ct_VolumeMounts = ad_VolumeMounts d\<rparr>] else []) @
     (if ad_PxeInit d then
       [\<lparr>ct_Name = ''pxe-init'', ct_Image = ad_PxeContainerImage d, ct_Command = [''/bin/bash''],
         ct_Args = [''-c'', ''/usr/local/bin/container-scripts/pxe-init.sh''],
         ct_SecurityContext = ExplicitContext (Some 0) (Some False) [''ALL'']
           [''CHOWN'', ''DAC_OVERRIDE'', ''FOWNER'', ''SYS_ADMIN'', ''SYS_CHROOT'', ''SETFCAP''],
         ct_Env = initEnvs P d, ct_VolumeMounts = ad_VolumeMounts d\<rparr>] else [])"

section \<open>The database job\<close>

definition DbSyncJob :: "podLib \<Rightarrow> Ironic \<Rightarrow> (string \<rightharpoonup> string) \<Rightarrow> job" where
  "DbSyncJob P instance labels =
     (let ca = tls_Ca (api_TLS (sp_IronicAPI (Spec instance)));
          useCa = CaBundleSecretName ca \<noteq> '''';
          volumes = ironic_GetVolumes P ServiceName @ (if useCa then [CreateVolume P ca] else []);
          volumeMounts = GetDBSyncVolumeMounts @ (if useCa then CreateVolumeMounts P ca None else []);
          initVolumeMounts = ironic_GetInitVolumeMounts @ (if useCa then CreateVolumeMounts P ca None else []);
          initContainerDetails =
            \<lparr>ad_ContainerImage = im_Conductor (Images (Spec instance)),
             ad_PxeContainerImage = '''', ad_IronicPythonAgentImage = '''',
             ad_DatabaseHost = st_DatabaseHostname (Status instance),
             ad_DatabaseName = DatabaseName, ad_TransportURLSecret = '''',
             ad_OSPSecret = Secret (Spec instance),
             ad_UserPasswordSelector = ps_Service (PasswordSelectors (Spec instance)),
             ad_VolumeMounts = initVolumeMounts, ad_PxeInit = False, ad_ConductorInit = False,
             ad_DeployHTTPURL = '''', ad_IngressDomain = '''', ad_ProvisionNetwork = '''',
             ad_ImageDirectory = ''''\<rparr>
      in \<lparr>job_Name = ServiceName @ ''-db-sync'', job_Namespace = Namespace (Meta instance),
          job_Labels = labels,
          job_Pod = \<lparr>pod_RestartPolicy = ''OnFailure'',
            pod_ServiceAccountName = Ironic_RbacResourceName instance,
            pod_AutomountServiceAccountToken = False,
            pod_SecurityContext = RestrictivePodSecurityContext P (IronicUID P) (IronicGID P) [],
            pod_InitContainers = InitContainer P initContainerDetails,
            pod_Containers =
              [\<lparr>ct_Name = ServiceName @ ''-db-sync'', ct_Image = im_Conductor (Images (Spec instance)),
                ct_Command = [''/usr/local/bin/container-scripts/dbsync.sh''], ct_Args = [],
                ct_SecurityContext = LibraryContext (RestrictiveSecurityContext P (IronicUID P) (IronicGID P)),
                ct_Env = MergeEnvs P [] [], ct_VolumeMounts = volumeMounts\<rparr>],
            pod_Volumes = volumes,
            pod_NodeSelector = sp_NodeSelector (Spec instance)\<rparr>\<rparr>)"

text \<open>Every mount of every container of a pod names one of its volumes.\<close>

definition podMountsResolved :: "podSpec \<Rightarrow> bool" where
  "podMountsResolved p \<longleftrightarrow>
     (\<forall>c\<in>set (pod_InitContainers p @ pod_Containers p). \<forall>m\<in>set (ct_VolumeMounts c).
        vm_Name m \<in> vol_Name ` set (pod_Volumes p))"

lemma InitContainer_mounts:
  "c \<in> set (InitContainer P d) \<Longrightarrow> ct_VolumeMounts c = ad_VolumeMounts d"
  by (auto simp: InitContainer_def split: if_splits)

lemma ironic_volume_names:
  "podLib_laws P \<Longrightarrow> vol_Name ` set (ironic_GetVolumes P n) =
     {''scripts'', ''config-data'', ''config-data-merged'', ''etc-podinfo''}"
  by (auto simp: ironic_GetVolumes_def podLib_laws_def)

lemma ironic_mount_names:
  "vm_Name ` set ironic_GetInitVolumeMounts =
     {''scripts'', ''config-data'', ''config-data-merged'', ''etc-podinfo''}"
  "vm_Name ` set GetDBSyncVolumeMounts = {''scripts'', ''etc-podinfo'', ''config-data-merged''}"
  by (auto simp: ironic_GetInitVolumeMounts_def GetDBSyncVolumeMounts_def ironic_GetVolumeMounts_def
      mount_def GetMergedConfVolumeMount_def)

section \<open>Prefix lengths and netmasks\<close>

text \<open>\<open>net.IP.String\<close> of a four-byte mask, and \<open>IPMask.Size\<close>: the leading ones,
  or zero when the mask is not of the form ones followed by zeros.\<close>

definition dotted :: "ip \<Rightarrow> string" where
  "dotted bs = concat (case map (\<lambda>b. string_of_nat (unat b)) bs of
      [] \<Rightarrow> [] | x # xs \<Rightarrow> x # map (\<lambda>s. CHR ''.'' # s) xs)"

definition byte_bits :: "byte \<Rightarrow> bool list" where
  "byte_bits b = map (\<lambda>i. bit b (7 - i)) [0..<8]"

definition mask_size :: "ip \<Rightarrow> nat" where
  "mask_size m =
     (let bs = concat (map byte_bits m); ones = length (takeWhile id bs)
      in if list_all Not (drop ones bs) then ones else 0)"

text \<open>The list is only replaced when every prefix parses. \<open>maskText\<close> is
  \<open>net.IP.String\<close> on a mask of sixteen bytes, which
  among the IPv4 prefixes only an IPv4-mapped one has.\<close>

fun PrefixOrNetmask_loop ::
  "webhookLib \<Rightarrow> (ip \<Rightarrow> string) \<Rightarrow> DHCPRange list \<Rightarrow> DHCPRange list \<Rightarrow> string + DHCPRange list" where
  "PrefixOrNetmask_loop W maskText acc [] = Inr acc"
| "PrefixOrNetmask_loop W maskText acc (r # rs) =
     (case ParseCIDR (dr_Cidr r) of
        None \<Rightarrow> Inl (dr_Cidr r)
      | Some (_, cidr) \<Rightarrow>
          (let r1 = (if IsIPv4CIDR W cidr
                     then r\<lparr>dr_Netmask := (if length (net_Mask cidr) = 4 then dotted (net_Mask cidr)
                                           else maskText (net_Mask cidr))\<rparr> else r);
               r2 = (if IsIPv6CIDR W cidr then r1\<lparr>dr_Prefix := int (mask_size (net_Mask cidr))\<rparr> else r1)
           in PrefixOrNetmask_loop W maskText (acc @ [r2]) rs))"

text \<open>The ranges and the error: on an error the ranges given are returned.\<close>

definition PrefixOrNetmaskFromCIDR ::
  "webhookLib \<Rightarrow> (ip \<Rightarrow> string) \<Rightarrow> DHCPRange list \<Rightarrow> DHCPRange list \<times> string option" where
  "PrefixOrNetmaskFromCIDR W maskText DHCPRanges =
     (case PrefixOrNetmask_loop W maskText [] DHCPRanges of
        Inl e \<Rightarrow> (DHCPRanges, Some e)
      | Inr rs \<Rightarrow> (rs, None))"

section \<open>The ingress domain\<close>

text \<open>The status of the ingress controller as unstructured content: not a map, or
  a map whose values are texts or something else. A domain that is not a text
  fails the type assertion, a panic (\<^term>\<open>None\<close>).\<close>

datatype uval = UText string | UOther

datatype unstructured = NotAMap string | StatusMap "string \<rightharpoonup> uval"

definition GetIngressDomain :: "goerr + unstructured \<Rightarrow> (goerr + string) option" where
  "GetIngressDomain got =
     (case got of
        Inl err \<Rightarrow> Some (Inl (ErrWrap ''unable to retrieve ingress domain'' err))
      | Inr (NotAMap t) \<Rightarrow> Some (Inl (ErrText [''ErrIngressDomainTypeAssertion'', t]))
      | Inr (StatusMap m) \<Rightarrow>
          (case m ''domain'' of
             Some UOther \<Rightarrow> None
           | Some (UText d) \<Rightarrow>
               Some (if d \<noteq> '''' then Inr d else Inl (ErrText [''ErrIngressDomainNotFound'']))
           | None \<Rightarrow> Some (Inl (ErrText [''ErrIngressDomainNotFound'']))))"

end
