(* ===== verification/Workloads.thy ===== *)
theory Workloads
  imports IronicLib
begin

text \<open>
  The pods the operator runs: the packages \<open>internal/ironicconductor\<close>,
  \<open>internal/ironicapi\<close> and \<open>internal/ironicneutronagent\<close>. A StatefulSet and a
  Deployment are one record, with the fields the operator sets; names of the
  three packages carry a prefix.
\<close>

section \<open>Workloads\<close>

text \<open>A field of a probe that is not set is zero, the scheme of an HTTP probe the
  empty text.\<close>

datatype probeAction =
    ExecAction "string list"
  | TCPSocketAction int
  | HTTPGetAction string int string

record probe =
  pr_Action :: probeAction
  pr_TimeoutSeconds :: int
  pr_PeriodSeconds :: int
  pr_InitialDelaySeconds :: int
  pr_FailureThreshold :: int

record workContainer = container +
  ct_Resources :: "opaque option"
  ct_ReadinessProbe :: "probe option"
  ct_LivenessProbe :: "probe option"
  ct_StartupProbe :: "probe option"

text \<open>Where the pods of a workload go: as the topology says (\<open>ApplyTo\<close>), or by
  the affinity \<open>DistributePods\<close> builds from a label key, its values and the
  topology key.\<close>

datatype placement =
    ApplyTopology opaque
  | DistributePods string "string list" string

record podTemplate =
  pt_Annotations :: "string \<rightharpoonup> string"
  pt_Labels :: "string \<rightharpoonup> string"
  pt_ServiceAccountName :: string
  pt_AutomountServiceAccountToken :: bool
  pt_SecurityContext :: opaque
  pt_InitContainers :: "container list"
  pt_Containers :: "workContainer list"
  pt_TerminationGracePeriodSeconds :: int
  pt_Volumes :: "volume list"
  pt_NodeSelector :: "(string \<rightharpoonup> string) option"
  pt_Placement :: placement

record volumeClaim =
  vc_Name :: string
  vc_Labels :: "string \<rightharpoonup> string"
  vc_AccessModes :: "string list"
  vc_Storage :: opaque
  vc_StorageClassName :: string

record workload =
  wl_Name :: string
  wl_Namespace :: string
  wl_MatchLabels :: "string \<rightharpoonup> string"
  wl_Replicas :: "int option"
  wl_PodManagementPolicy :: string
  wl_Template :: podTemplate
  wl_VolumeClaimTemplates :: "volumeClaim list"

definition placementOf :: "opaque option \<Rightarrow> string list \<Rightarrow> placement" where
  "placementOf topology names =
     (case topology of
        Some t \<Rightarrow> ApplyTopology t
      | None \<Rightarrow> DistributePods ''AppSelector'' names ''LabelHostname'')"

definition execProbe :: "string list \<Rightarrow> int \<Rightarrow> int \<Rightarrow> int \<Rightarrow> int \<Rightarrow> probe" where
  "execProbe cmd timeout period delay failures =
     \<lparr>pr_Action = ExecAction cmd, pr_TimeoutSeconds = timeout, pr_PeriodSeconds = period,
      pr_InitialDelaySeconds = delay, pr_FailureThreshold = failures\<rparr>"

text \<open>The CA bundle: its volume, and its mounts in a container.\<close>

definition caVolumes :: "podLib \<Rightarrow> tlsCa \<Rightarrow> volume list" where
  "caVolumes P ca = (if CaBundleSecretName ca \<noteq> '''' then [CreateVolume P ca] else [])"

definition caMounts :: "podLib \<Rightarrow> tlsCa \<Rightarrow> volumeMount list" where
  "caMounts P ca = (if CaBundleSecretName ca \<noteq> '''' then CreateVolumeMounts P ca None else [])"

definition httpbootProbe :: probe where
  "httpbootProbe = \<lparr>pr_Action = TCPSocketAction 8088, pr_TimeoutSeconds = 10, pr_PeriodSeconds = 30,
     pr_InitialDelaySeconds = 5, pr_FailureThreshold = 0\<rparr>"

text \<open>The command that probes dnsmasq: the ports of the address families of the
  ranges, and always TFTP.\<close>

definition dnsmasqProbeCommand :: "podLib \<Rightarrow> DHCPRange list \<Rightarrow> string list" where
  "dnsmasqProbeCommand P ranges =
     (let prefix = (\<lambda>r. map_option snd (ParseCIDR (dr_Cidr r)));
          ipv4Probe = list_ex (\<lambda>r. IsIPv4Prefix P (prefix r)) ranges;
          ipv6Probe = list_ex (\<lambda>r. IsIPv6Prefix P (prefix r)) ranges
      in [''sh'', ''-c'',
          if ipv4Probe \<and> \<not> ipv6Probe then ''ss -lun | grep :67 && ss -lun | grep :69''
          else if \<not> ipv4Probe \<and> ipv6Probe then ''ss -lun | grep :547 && ss -lun | grep :69''
          else if ipv4Probe \<and> ipv6Probe then
            ''ss -lun | grep :547 && ss -lun | grep :67 && ss -lun | grep :69''
          else ''ss -lun | grep :69''])"

definition dnsmasqProbe :: "podLib \<Rightarrow> DHCPRange list \<Rightarrow> probe" where
  "dnsmasqProbe P ranges = execProbe (dnsmasqProbeCommand P ranges) 10 30 3 0"

definition dnsmasqContext :: securityContext where
  "dnsmasqContext = ExplicitContext (Some 0) (Some False) [''ALL'']
     [''NET_BIND_SERVICE'', ''NET_ADMIN'', ''NET_RAW'', ''SETGID'']"

definition configHashEnv :: "podLib \<Rightarrow> string \<Rightarrow> envVar list" where
  "configHashEnv P configHash = MergeEnvs P [] [(''CONFIG_HASH'', configHash)]"

section \<open>Services and routes of a pod\<close>

record servicePort =
  sp_Name :: string
  sp_Port :: int
  sp_Protocol :: string

record k8sService =
  svc_Name :: string
  svc_Namespace :: string
  svc_Labels :: "string \<rightharpoonup> string"
  svc_Selector :: "string \<rightharpoonup> string"
  svc_Ports :: "servicePort list"
  svc_Owners :: "ownerRef list"

record k8sRoute =
  rt_Name :: string
  rt_Namespace :: string
  rt_Labels :: "string \<rightharpoonup> string"
  rt_ToKind :: string
  rt_ToName :: string
  rt_TargetPort :: string
  rt_Owners :: "ownerRef list"

definition conductor_Service :: "string \<Rightarrow> IronicConductor \<Rightarrow> (string \<rightharpoonup> string) \<Rightarrow> k8sService option" where
  "conductor_Service serviceName instance serviceLabels =
     (let ports =
        (if cs_RPCTransport (con_Spec instance) = ''json-rpc''
         then [\<lparr>sp_Name = JSONRPCComponent, sp_Port = 8089, sp_Protocol = ''TCP''\<rparr>] else []) @
        (if con_ProvisionNetwork (con_Spec instance) = ''''
         then [\<lparr>sp_Name = HttpbootComponent, sp_Port = 8088, sp_Protocol = ''TCP''\<rparr>] else [])
      in if ports = [] then None
         else Some \<lparr>svc_Name = serviceName, svc_Namespace = Namespace (con_Meta instance),
           svc_Labels = serviceLabels, svc_Selector = serviceLabels, svc_Ports = ports, svc_Owners = []\<rparr>)"

definition conductor_Route :: "string \<Rightarrow> IronicConductor \<Rightarrow> (string \<rightharpoonup> string) \<Rightarrow> k8sRoute" where
  "conductor_Route serviceName instance routeLabels =
     \<lparr>rt_Name = serviceName, rt_Namespace = Namespace (con_Meta instance), rt_Labels = routeLabels,
      rt_ToKind = ''Service'', rt_ToName = serviceName, rt_TargetPort = HttpbootComponent, rt_Owners = []\<rparr>"

section \<open>The conductor\<close>

definition conductor_LogPath :: string where "conductor_LogPath = ''/dev/stdout''"

definition secretFile :: "string \<Rightarrow> string \<Rightarrow> string \<Rightarrow> volumeMount" where
  "secretFile vol path sub = \<lparr>vm_Name = vol, vm_MountPath = path, vm_SubPath = sub, vm_ReadOnly = True\<rparr>"

definition configDataCustom :: "string \<Rightarrow> volume list" where
  "configDataCustom parentName =
     (if parentName \<noteq> '''' then
        [\<lparr>vol_Name = ''config-data-custom'', vol_Source = SecretSource (Some 288) (parentName @ ''-config-data'')\<rparr>]
      else [])"

definition conductor_GetVolumes :: "podLib \<Rightarrow> IronicConductor \<Rightarrow> volume list" where
  "conductor_GetVolumes P instance =
     ironic_GetVolumes P (Name (con_Meta instance)) @
     configDataCustom (GetOwningIronicName (OwnerReferences (con_Meta instance))) @
     [WritableDirVolume P ''RunHttpdVolumeName'']"

definition varLibIronicVolumeMount :: volumeMount where
  "varLibIronicVolumeMount = mount ''var-lib-ironic'' ''/var/lib/ironic'' False"

definition conductor_GetInitVolumeMounts :: "IronicConductor \<Rightarrow> volumeMount list" where
  "conductor_GetInitVolumeMounts instance =
     ironic_GetInitVolumeMounts @
     [mount ''var-lib-ironic'' ''/var/lib/ironic'' False] @
     (if GetOwningIronicName (OwnerReferences (con_Meta instance)) \<noteq> ''''
      then [mount ''config-data-custom'' ''/var/lib/config-data/custom'' True] else [])"

definition tbnEnabled :: "IronicConductor \<Rightarrow> bool" where
  "tbnEnabled instance =
     (case con_TraitBasedNetworking (con_Spec instance) of
        None \<Rightarrow> False | Some t \<Rightarrow> tbn_State t = ''Enabled'')"

definition conductor_GetConductorVolumeMounts :: "IronicConductor \<Rightarrow> volumeMount list" where
  "conductor_GetConductorVolumeMounts instance =
     ironic_GetVolumeMounts @
     [secretFile ''config-data'' ''/etc/ironic/ironic.conf'' ''ironic.conf'',
      secretFile ''config-data'' ''/etc/ironic/ironic.conf.d/01-conductor.conf'' ''01-conductor.conf'',
      GetMergedConfVolumeMount ''/etc/ironic/ironic.conf.d/03-init-container-conductor.conf''
        ''03-init-container-conductor.conf'',
      secretFile ''config-data'' ''/etc/ironic/ironic.conf.d/04-conductor-custom.conf'' ''04-conductor-custom.conf'',
      secretFile ''config-data'' ''/etc/my.cnf'' ''my.cnf'',
      varLibIronicVolumeMount] @
     (if GetOwningIronicName (OwnerReferences (con_Meta instance)) \<noteq> ''''
      then [secretFile ''config-data-custom'' ''/etc/ironic/ironic.conf.d/02-ironic-custom.conf''
              ''02-ironic-custom.conf''] else []) @
     (if tbnEnabled instance
      then [secretFile ''config-data'' ''/etc/ironic/trait_based_networking.yaml'' ''trait_based_networking.yaml'']
      else [])"

definition conductor_GetHttpbootVolumeMounts :: "podLib \<Rightarrow> volumeMount list" where
  "conductor_GetHttpbootVolumeMounts P =
     ironic_GetVolumeMounts @
     [secretFile ''config-data'' ''/etc/httpd/conf/httpd.conf'' ''httpboot-httpd.conf'',
      varLibIronicVolumeMount,
      WritableDirVolumeMount P ''RunHttpdVolumeName'' ''RunHttpdMountPath'']"

definition conductor_GetDnsmasqVolumeMounts :: "volumeMount list" where
  "conductor_GetDnsmasqVolumeMounts =
     ironic_GetVolumeMounts @
     [secretFile ''var-lib-ironic'' ''/etc/dnsmasq.conf'' ''dnsmasq.conf'', varLibIronicVolumeMount]"

definition conductor_GetRamdiskLogsVolumeMounts :: "volumeMount list" where
  "conductor_GetRamdiskLogsVolumeMounts = ironic_GetVolumeMounts @ [varLibIronicVolumeMount]"

text \<open>A container of a workload, with the fields every one of them sets.\<close>

definition workContainer_of ::
  "string \<Rightarrow> string \<Rightarrow> string list \<Rightarrow> string list \<Rightarrow> securityContext \<Rightarrow> envVar list \<Rightarrow> volumeMount list \<Rightarrow>
   opaque option \<Rightarrow> probe option \<Rightarrow> probe option \<Rightarrow> probe option \<Rightarrow> workContainer" where
  "workContainer_of name img cmd args ctx env mounts res ready live start =
     \<lparr>ct_Name = name, ct_Image = img, ct_Command = cmd, ct_Args = args, ct_SecurityContext = ctx, ct_Env = env,
      ct_VolumeMounts = mounts, ct_Resources = res, ct_ReadinessProbe = ready, ct_LivenessProbe = live,
      ct_StartupProbe = start\<rparr>"

text \<open>The containers: with a provisioning network, dnsmasq takes the place of the
  ramdisk logs.\<close>

definition conductor_containers :: "podLib \<Rightarrow> IronicConductor \<Rightarrow> string \<Rightarrow> workContainer list" where
  "conductor_containers P instance configHash =
     (let sp = con_Spec instance;
          ca = caMounts P (cs_TLS sp);
          env = configHashEnv P configHash;
          restrictive = LibraryContext (RestrictiveSecurityContext P (IronicUID P) (IronicGID P));
          live = [''/usr/local/bin/container-scripts/live_check_conductor''];
          conductorContainer = workContainer_of (ServiceName @ ''-'' @ ConductorComponent) (cs_ContainerImage sp)
            [''/usr/bin/ironic-conductor'']
            [''--config-file'', ''/etc/ironic/ironic.conf'', ''--config-dir'', ''/etc/ironic/ironic.conf.d'']
            restrictive env (conductor_GetConductorVolumeMounts instance @ ca) (Some (Resources sp))
            None (Some (execProbe live 5 30 0 0)) (Some (execProbe live 5 2 0 30));
          httpbootContainer = workContainer_of ''httpboot'' (cs_PxeContainerImage sp)
            [''/usr/sbin/httpd''] [''-DFOREGROUND'']
            restrictive env (conductor_GetHttpbootVolumeMounts P @ ca) (Some (Resources sp))
            (Some httpbootProbe) (Some httpbootProbe) None;
          ramdiskLogsContainer = workContainer_of ''ramdisk-logs'' (cs_ContainerImage sp)
            [''/usr/local/bin/container-scripts/runlogwatch.sh''] []
            restrictive env (conductor_GetRamdiskLogsVolumeMounts @ ca) None None None None;
          dnsmasqContainer = workContainer_of ''dnsmasq'' (cs_PxeContainerImage sp)
            [''/usr/sbin/dnsmasq''] [''-k'']
            dnsmasqContext env (conductor_GetDnsmasqVolumeMounts @ ca) (Some (Resources sp))
            (Some (dnsmasqProbe P (con_DHCPRanges sp))) (Some (dnsmasqProbe P (con_DHCPRanges sp))) None
      in if con_ProvisionNetwork sp \<noteq> ''''
         then [conductorContainer, httpbootContainer, dnsmasqContainer]
         else [conductorContainer, httpbootContainer, ramdiskLogsContainer])"

definition conductor_initDetails :: "podLib \<Rightarrow> IronicConductor \<Rightarrow> string \<Rightarrow> APIDetails" where
  "conductor_initDetails P instance ingressDomain =
     (let sp = con_Spec instance in
      \<lparr>ad_ContainerImage = cs_ContainerImage sp,
       ad_PxeContainerImage = cs_PxeContainerImage sp,
       ad_IronicPythonAgentImage = cs_IronicPythonAgentImage sp,
       ad_DatabaseHost = cs_DatabaseHostname sp,
       ad_DatabaseName = DatabaseName,
       ad_TransportURLSecret = cs_TransportURLSecret sp,
       ad_OSPSecret = cs_Secret sp,
       ad_UserPasswordSelector = ps_Service (cs_PasswordSelectors sp),
       ad_VolumeMounts = conductor_GetInitVolumeMounts instance @ caMounts P (cs_TLS sp),
       ad_PxeInit = True, ad_ConductorInit = True,
       ad_DeployHTTPURL =
         (if con_ProvisionNetwork sp = '''' then ''http://%(PodName)s-%(PodNamespace)s.%(IngressDomain)s/''
          else ''http://%(ProvisionNetworkIP)s:8088/''),
       ad_IngressDomain = ingressDomain,
       ad_ProvisionNetwork = con_ProvisionNetwork sp,
       ad_ImageDirectory = ImageDirectory\<rparr>)"

text \<open>\<^term>\<open>None\<close> is the panic on a conductor whose grace period is not set.\<close>

definition conductor_StatefulSet ::
  "podLib \<Rightarrow> IronicConductor \<Rightarrow> string \<Rightarrow> (string \<rightharpoonup> string) \<Rightarrow> string \<Rightarrow> (string \<rightharpoonup> string) \<Rightarrow>
   opaque option \<Rightarrow> (goerr + workload) option" where
  "conductor_StatefulSet P instance configHash labels ingressDomain annotations topology =
     (let sp = con_Spec instance in
      case ParseQuantity P (con_StorageRequest sp) of
        Inl err \<Rightarrow> Some (Inl err)
      | Inr storageRequest \<Rightarrow>
          (case con_TerminationGracePeriodSeconds sp of
             None \<Rightarrow> None
           | Some terminationGracePeriod \<Rightarrow> Some (Inr
              \<lparr>wl_Name = Name (con_Meta instance), wl_Namespace = Namespace (con_Meta instance),
               wl_MatchLabels = labels, wl_Replicas = Replicas sp, wl_PodManagementPolicy = '''',
               wl_Template =
                 \<lparr>pt_Annotations = annotations, pt_Labels = labels,
                  pt_ServiceAccountName = IronicConductor_RbacResourceName instance,
                  pt_AutomountServiceAccountToken = False,
                  pt_SecurityContext = RestrictivePodSecurityContext P (IronicUID P) (IronicGID P) [ApacheGID P],
                  pt_InitContainers = InitContainer P (conductor_initDetails P instance ingressDomain),
                  pt_Containers = conductor_containers P instance configHash,
                  pt_TerminationGracePeriodSeconds = terminationGracePeriod,
                  pt_Volumes = conductor_GetVolumes P instance @ caVolumes P (cs_TLS sp),
                  pt_NodeSelector = NodeSelector sp,
                  pt_Placement = placementOf topology [ServiceName]\<rparr>,
               wl_VolumeClaimTemplates =
                 [\<lparr>vc_Name = ''var-lib-ironic'', vc_Labels = labels, vc_AccessModes = [''ReadWriteOnce''],
                   vc_Storage = storageRequest, vc_StorageClassName = con_StorageClass sp\<rparr>]\<rparr>)))"

section \<open>The API\<close>

definition api_GetVolumes :: "podLib \<Rightarrow> IronicAPI \<Rightarrow> volume list" where
  "api_GetVolumes P instance =
     ironic_GetVolumes P (Name (api_Meta instance)) @
     configDataCustom (GetOwningIronicName (OwnerReferences (api_Meta instance))) @
     [WritableDirVolume P ''logs'', WritableDirVolume P ''RunHttpdVolumeName'']"

definition api_GetLogVolumeMount :: volumeMount where
  "api_GetLogVolumeMount = mount ''logs'' ''/var/log/ironic'' False"

definition api_GetRunHttpdVolumeMount :: "podLib \<Rightarrow> volumeMount" where
  "api_GetRunHttpdVolumeMount P = WritableDirVolumeMount P ''RunHttpdVolumeName'' ''RunHttpdMountPath''"

definition api_GetInitVolumeMounts :: "IronicAPI \<Rightarrow> volumeMount list" where
  "api_GetInitVolumeMounts instance =
     ironic_GetInitVolumeMounts @
     (if GetOwningIronicName (OwnerReferences (api_Meta instance)) \<noteq> ''''
      then [mount ''config-data-custom'' ''/var/lib/config-data/custom'' True] else [])"

definition api_GetVolumeMounts :: "podLib \<Rightarrow> IronicAPI \<Rightarrow> volumeMount list" where
  "api_GetVolumeMounts P instance =
     ironic_GetVolumeMounts @
     [secretFile ''config-data'' ''/etc/ironic/ironic.conf'' ''ironic.conf'',
      secretFile ''config-data'' ''/etc/ironic/ironic.conf.d/01-api.conf'' ''01-api.conf'',
      secretFile ''config-data'' ''/etc/ironic/ironic.conf.d/03-api-custom.conf'' ''03-api-custom.conf'',
      secretFile ''config-data'' ''/etc/httpd/conf/httpd.conf'' ''ironic-api-httpd.conf'',
      secretFile ''config-data'' ''/etc/httpd/conf.d/ssl.conf'' ''ssl.conf'',
      secretFile ''config-data'' ''/etc/my.cnf'' ''my.cnf'',
      api_GetLogVolumeMount, api_GetRunHttpdVolumeMount P] @
     (if GetOwningIronicName (OwnerReferences (api_Meta instance)) \<noteq> ''''
      then [secretFile ''config-data-custom'' ''/etc/ironic/ironic.conf.d/02-ironic-custom.conf''
              ''02-ironic-custom.conf''] else [])"

text \<open>The certificates of the enabled endpoints, internal before public: their
  volumes and mounts, or the first error.\<close>

definition certSecret :: "tlsAPI \<Rightarrow> string \<Rightarrow> string option" where
  "certSecret t endpt = (if endpt = ''public'' then tls_PublicSecretName t else tls_InternalSecretName t)"

fun endpointCerts ::
  "podLib \<Rightarrow> tlsAPI \<Rightarrow> string list \<Rightarrow> volume list \<times> volumeMount list \<Rightarrow> goerr + (volume list \<times> volumeMount list)" where
  "endpointCerts P t [] acc = Inr acc"
| "endpointCerts P t (endpt # es) (vols, mounts) =
     (if tls_Enabled P t endpt then
        (case ToService P (certSecret t endpt) of
           Inl err \<Rightarrow> Inl err
         | Inr svc \<Rightarrow> endpointCerts P t es
             (vols @ [CertVolume P svc endpt],
              mounts @ CertVolumeMounts P svc (''/etc/pki/tls/certs/'' @ endpt @ ''.crt'')
                (''/etc/pki/tls/private/'' @ endpt @ ''.key'') endpt))
      else endpointCerts P t es (vols, mounts))"

definition httpProbe :: "podLib \<Rightarrow> tlsAPI \<Rightarrow> int \<Rightarrow> probe" where
  "httpProbe P t port =
     \<lparr>pr_Action = HTTPGetAction ''/v1'' port (if tls_Enabled P t ''public'' then ''HTTPS'' else ''''),
      pr_TimeoutSeconds = 5, pr_PeriodSeconds = 5, pr_InitialDelaySeconds = 3, pr_FailureThreshold = 0\<rparr>"

definition api_containers :: "podLib \<Rightarrow> IronicAPI \<Rightarrow> string \<Rightarrow> volumeMount list \<Rightarrow> workContainer list" where
  "api_containers P instance configHash volumeMounts =
     (let sp = api_Spec instance;
          env = configHashEnv P configHash;
          restrictive = LibraryContext (RestrictiveSecurityContext P (IronicUID P) (IronicGID P));
          pr = httpProbe P (api_TLS sp) IronicInternalPort
      in [workContainer_of (ServiceName @ ''-'' @ APIComponent @ ''-log'') (as_ContainerImage sp)
            [''/usr/bin/dumb-init''] [''--single-child'', ''--'', ''/usr/bin/tail'', ''-n+1'', ''-F'', LogPath]
            restrictive env [api_GetLogVolumeMount] (Some (Resources sp)) None None None,
          workContainer_of (ServiceName @ ''-'' @ APIComponent) (as_ContainerImage sp)
            [''/usr/sbin/httpd''] [''-DFOREGROUND'']
            restrictive env volumeMounts (Some (Resources sp)) (Some pr) (Some pr) None])"

definition api_initDetails :: "podLib \<Rightarrow> IronicAPI \<Rightarrow> APIDetails" where
  "api_initDetails P instance =
     (let sp = api_Spec instance in
      \<lparr>ad_ContainerImage = as_ContainerImage sp, ad_PxeContainerImage = '''', ad_IronicPythonAgentImage = '''',
       ad_DatabaseHost = as_DatabaseHostname sp, ad_DatabaseName = DatabaseName,
       ad_TransportURLSecret = as_TransportURLSecret sp, ad_OSPSecret = as_Secret sp,
       ad_UserPasswordSelector = ps_Service (as_PasswordSelectors sp),
       ad_VolumeMounts = api_GetInitVolumeMounts instance @ caMounts P (tls_Ca (api_TLS sp)),
       ad_PxeInit = False, ad_ConductorInit = False, ad_DeployHTTPURL = '''', ad_IngressDomain = '''',
       ad_ProvisionNetwork = '''', ad_ImageDirectory = ''''\<rparr>)"

definition api_Deployment ::
  "podLib \<Rightarrow> IronicAPI \<Rightarrow> string \<Rightarrow> (string \<rightharpoonup> string) \<Rightarrow> (string \<rightharpoonup> string) \<Rightarrow> opaque option \<Rightarrow> goerr + workload" where
  "api_Deployment P instance configHash labels annotations topology =
     (let sp = api_Spec instance; ca = tls_Ca (api_TLS sp) in
      case endpointCerts P (api_TLS sp) [''internal'', ''public'']
             (api_GetVolumes P instance @ caVolumes P ca, api_GetVolumeMounts P instance @ caMounts P ca) of
        Inl err \<Rightarrow> Inl err
      | Inr (volumes, volumeMounts) \<Rightarrow> Inr
          \<lparr>wl_Name = ServiceName, wl_Namespace = Namespace (api_Meta instance),
           wl_MatchLabels = labels, wl_Replicas = Replicas sp, wl_PodManagementPolicy = '''',
           wl_Template =
             \<lparr>pt_Annotations = annotations, pt_Labels = labels,
              pt_ServiceAccountName = IronicAPI_RbacResourceName instance,
              pt_AutomountServiceAccountToken = False,
              pt_SecurityContext = RestrictivePodSecurityContext P (IronicUID P) (IronicGID P) [ApacheGID P],
              pt_InitContainers = InitContainer P (api_initDetails P instance),
              pt_Containers = api_containers P instance configHash volumeMounts,
              pt_TerminationGracePeriodSeconds = 60,
              pt_Volumes = volumes,
              pt_NodeSelector = NodeSelector sp,
              pt_Placement = placementOf topology [ServiceName]\<rparr>,
           wl_VolumeClaimTemplates = []\<rparr>)"

section \<open>The neutron agent\<close>

definition agent_ServiceName :: string where "agent_ServiceName = ''ironic-neutron-agent''"

definition agent_GetVolumes :: "podLib \<Rightarrow> string \<Rightarrow> volume list" where
  "agent_GetVolumes P name =
     [\<lparr>vol_Name = ''config'', vol_Source = SecretSource (Some 288) (name @ ''-config-data'')\<rparr>,
      WritableDirVolume P ''var-log-neutron'']"

definition agent_GetVolumeMounts :: "podLib \<Rightarrow> volumeMount list" where
  "agent_GetVolumeMounts P =
     [secretFile ''config'' ''/etc/neutron/neutron.conf.d/01-ironic_neutron_agent.conf'' ''01-ironic_neutron_agent.conf'',
      secretFile ''config'' ''/etc/neutron/neutron.conf.d/02-ironic_neutron_agent-custom.conf''
        ''02-ironic_neutron_agent-custom.conf'',
      WritableDirVolumeMount P ''var-log-neutron'' ''/var/log/neutron'']"

definition agent_Deployment ::
  "podLib \<Rightarrow> IronicNeutronAgent \<Rightarrow> string \<Rightarrow> (string \<rightharpoonup> string) \<Rightarrow> opaque option \<Rightarrow> workload" where
  "agent_Deployment P instance configHash labels topology =
     (let sp = na_Spec instance; pr = execProbe [''/bin/true''] 5 5 3 0 in
      \<lparr>wl_Name = agent_ServiceName, wl_Namespace = Namespace (na_Meta instance),
       wl_MatchLabels = labels, wl_Replicas = Replicas sp, wl_PodManagementPolicy = '''',
       wl_Template =
         \<lparr>pt_Annotations = Map.empty, pt_Labels = labels,
          pt_ServiceAccountName = IronicNeutronAgent_RbacResourceName instance,
          pt_AutomountServiceAccountToken = False,
          pt_SecurityContext = RestrictivePodSecurityContext P (NeutronUID P) (NeutronGID P) [],
          pt_InitContainers = [],
          pt_Containers =
            [workContainer_of agent_ServiceName (ns_ContainerImage sp)
               [''/usr/bin/ironic-neutron-agent''] [''--config-dir'', ''/etc/neutron/neutron.conf.d'']
               (LibraryContext (RestrictiveSecurityContext P (NeutronUID P) (NeutronGID P)))
               (configHashEnv P configHash) (agent_GetVolumeMounts P @ caMounts P (ns_TLS sp))
               (Some (Resources sp)) (Some pr) (Some pr) None],
          pt_TerminationGracePeriodSeconds = 60,
          pt_Volumes = agent_GetVolumes P (Name (na_Meta instance)) @ caVolumes P (ns_TLS sp),
          pt_NodeSelector = NodeSelector sp,
          pt_Placement = placementOf topology [agent_ServiceName]\<rparr>,
       wl_VolumeClaimTemplates = []\<rparr>)"

end
