(* ===== verification/InspectorWorkloads.thy ===== *)
theory InspectorWorkloads
  imports Workloads
begin

text \<open>
  The package \<open>internal/ironicinspector\<close>: volumes and mounts, the init
  containers, the database job, the StatefulSet, and the service and route of a
  pod.
\<close>

section \<open>Constants\<close>

definition inspector_DatabaseName :: string where "inspector_DatabaseName = ''ironic_inspector''"
definition inspector_DatabaseCRName :: string where "inspector_DatabaseCRName = ''ironic-inspector''"
definition IronicInspectorPublicPort :: int where "IronicInspectorPublicPort = 5050"
definition IronicInspectorInternalPort :: int where "IronicInspectorInternalPort = 5050"

text \<open>The name the source builds as \<open>ServiceName + "-" + InspectorComponent\<close>.\<close>

definition inspectorName :: string where
  "inspectorName = ServiceName @ ''-'' @ InspectorComponent"

section \<open>Volumes\<close>

definition inspector_GetVolumes :: "podLib \<Rightarrow> string \<Rightarrow> volume list" where
  "inspector_GetVolumes P name =
     [\<lparr>vol_Name = ''scripts'', vol_Source = SecretSource (Some 493) (name @ ''-scripts'')\<rparr>,
      \<lparr>vol_Name = ''config'', vol_Source = SecretSource (Some 288) (name @ ''-config-data'')\<rparr>,
      WritableDirVolume P ''var-lib-ironic'',
      WritableDirVolume P ''var-lib-ironic-inspector-dhcp-hostsdir'',
      \<lparr>vol_Name = ''etc-podinfo'', vol_Source = DownwardAPISource
         [\<lparr>dw_Path = ''network-status'',
           dw_FieldPath = ''metadata.annotations['k8s.v1.cni.cncf.io/network-status']''\<rparr>]\<rparr>,
      WritableDirVolume P ''RunHttpdVolumeName'']"

definition inspector_GetInitVolumeMounts :: "volumeMount list" where
  "inspector_GetInitVolumeMounts =
     [mount ''scripts'' ''/usr/local/bin/container-scripts'' True,
      mount ''config'' ''/var/lib/config-data/default'' True,
      mount ''var-lib-ironic'' ''/var/lib/ironic'' False,
      mount ''etc-podinfo'' ''/etc/podinfo'' False]"

definition inspector_getCommonVolumeMounts :: "volumeMount list" where
  "inspector_getCommonVolumeMounts =
     [mount ''scripts'' ''/usr/local/bin/container-scripts'' True,
      mount ''var-lib-ironic'' ''/var/lib/ironic'' False,
      mount ''var-lib-ironic-inspector-dhcp-hostsdir'' ''/var/lib/ironic-inspector/dhcp-hostsdir'' False,
      mount ''etc-podinfo'' ''/etc/podinfo'' False]"

definition inspector_GetRunHttpdVolumeMount :: "podLib \<Rightarrow> volumeMount" where
  "inspector_GetRunHttpdVolumeMount P = WritableDirVolumeMount P ''RunHttpdVolumeName'' ''RunHttpdMountPath''"

definition inspector_GetHttpdVolumeMounts :: "podLib \<Rightarrow> volumeMount list" where
  "inspector_GetHttpdVolumeMounts P =
     inspector_getCommonVolumeMounts @
     [secretFile ''config'' ''/etc/httpd/conf/httpd.conf'' ''httpd.conf'',
      secretFile ''config'' ''/etc/httpd/conf.d/ssl.conf'' ''ssl.conf'',
      inspector_GetRunHttpdVolumeMount P]"

definition inspector_GetInspectorVolumeMounts :: "volumeMount list" where
  "inspector_GetInspectorVolumeMounts =
     inspector_getCommonVolumeMounts @
     [secretFile ''config'' ''/etc/ironic-inspector/inspector.conf.d/01-inspector.conf'' ''01-inspector.conf'',
      secretFile ''config'' ''/etc/ironic-inspector/inspector.conf.d/02-inspector-custom.conf''
        ''02-inspector-custom.conf'',
      secretFile ''config'' ''/etc/my.cnf'' ''my.cnf'']"

definition inspector_GetHttpbootVolumeMounts :: "podLib \<Rightarrow> volumeMount list" where
  "inspector_GetHttpbootVolumeMounts P =
     inspector_getCommonVolumeMounts @
     [secretFile ''config'' ''/etc/httpd/conf/httpd.conf'' ''httpboot-httpd.conf'',
      secretFile ''config'' ''/var/lib/ironic/httpboot/inspector.ipxe'' ''inspector.ipxe'',
      inspector_GetRunHttpdVolumeMount P]"

definition inspector_GetDnsmasqVolumeMounts :: "volumeMount list" where
  "inspector_GetDnsmasqVolumeMounts =
     inspector_getCommonVolumeMounts @ [secretFile ''var-lib-ironic'' ''/etc/dnsmasq.conf'' ''dnsmasq.conf'']"

definition inspector_GetRamdiskLogsVolumeMounts :: "volumeMount list" where
  "inspector_GetRamdiskLogsVolumeMounts = inspector_getCommonVolumeMounts"

section \<open>Init containers\<close>

record inspectorDetails =
  id_ContainerImage :: string
  id_PxeInit :: bool
  id_PxeContainerImage :: string
  id_IpaInit :: bool
  id_IronicPythonAgentImage :: string
  id_DatabaseHost :: string
  id_DatabaseName :: string
  id_TransportURLSecret :: string
  id_OSPSecret :: string
  id_UserPasswordSelector :: string
  id_VolumeMounts :: "volumeMount list"
  id_InspectorHTTPURL :: string
  id_IngressDomain :: string
  id_InspectionNetwork :: string
  id_ImageDirectory :: string

definition inspector_initEnvs :: "podLib \<Rightarrow> inspectorDetails \<Rightarrow> envVar list" where
  "inspector_initEnvs P d =
     MergeEnvs P
       ([\<lparr>ev_Name = ''IronicInspectorPassword'',
          ev_Source = EnvSecretKey (id_OSPSecret d) (id_UserPasswordSelector d) None\<rparr>,
         \<lparr>ev_Name = ''PodName'', ev_Source = EnvField ''metadata.name''\<rparr>,
         \<lparr>ev_Name = ''PodNamespace'', ev_Source = EnvField ''metadata.namespace''\<rparr>] @
        (if id_TransportURLSecret d \<noteq> '''' then
          [\<lparr>ev_Name = ''TransportURL'',
            ev_Source = EnvSecretKey (id_TransportURLSecret d) ''transport_url'' None\<rparr>,
           \<lparr>ev_Name = ''QuorumQueues'',
            ev_Source = EnvSecretKey (id_TransportURLSecret d) ''quorumqueues'' (Some True)\<rparr>]
         else []))
       [(''DatabaseHost'', id_DatabaseHost d), (''DatabaseName'', id_DatabaseName d),
        (''InspectorHTTPURL'', id_InspectorHTTPURL d), (''IngressDomain'', id_IngressDomain d),
        (''InspectionNetwork'', id_InspectionNetwork d)]"

definition inspector_InitContainer :: "podLib \<Rightarrow> inspectorDetails \<Rightarrow> container list" where
  "inspector_InitContainer P d =
     (if id_IpaInit d then
       [\<lparr>ct_Name = ''ironic-python-agent-init'', ct_Image = id_IronicPythonAgentImage d,
         ct_Command = [''/bin/bash''],
         ct_Args = [''-c'', ''mkdir -p /var/lib/ironic/httpboot /var/lib/ironic/ramdisk-logs''],
         ct_SecurityContext =
           LibraryContext (RestrictiveSecurityContext P (IronicInspectorUID P) (IronicInspectorGID P)),
         ct_Env = [\<lparr>ev_Name = ''DEST_DIR'', ev_Source = EnvValue (id_ImageDirectory d)\<rparr>],
         ct_VolumeMounts = id_VolumeMounts d\<rparr>] else []) @
     (if id_PxeInit d then
       [\<lparr>ct_Name = ''inspector-pxe-init'', ct_Image = id_PxeContainerImage d,
         ct_Command = [''/bin/bash''],
         ct_Args = [''-c'', ''/usr/local/bin/container-scripts/inspector-pxe-init.sh''],
         ct_SecurityContext = ExplicitContext (Some 0) (Some False) [''ALL'']
           [''DAC_OVERRIDE'', ''FOWNER'', ''SYS_CHROOT'', ''SETFCAP''],
         ct_Env = inspector_initEnvs P d, ct_VolumeMounts = id_VolumeMounts d\<rparr>] else [])"

section \<open>The database job\<close>

definition inspector_DbSyncJob :: "podLib \<Rightarrow> IronicInspector \<Rightarrow> (string \<rightharpoonup> string) \<Rightarrow> job" where
  "inspector_DbSyncJob P instance labels =
     (let sp = ins_Spec instance; ca = tls_Ca (ins_TLS sp);
          initContainerDetails =
            \<lparr>id_ContainerImage = is_ContainerImage sp, id_PxeInit = False, id_PxeContainerImage = '''',
             id_IpaInit = False, id_IronicPythonAgentImage = '''',
             id_DatabaseHost = ist_DatabaseHostname (ins_Status instance),
             id_DatabaseName = inspector_DatabaseName, id_TransportURLSecret = '''',
             id_OSPSecret = is_Secret sp, id_UserPasswordSelector = ips_Service (ins_PasswordSelectors sp),
             id_VolumeMounts = inspector_GetInitVolumeMounts @ caMounts P ca,
             id_InspectorHTTPURL = '''', id_IngressDomain = '''', id_InspectionNetwork = '''',
             id_ImageDirectory = ''''\<rparr>
      in \<lparr>job_Name = inspectorName @ ''-db-sync'', job_Namespace = Namespace (ins_Meta instance),
          job_Labels = labels,
          job_Pod = \<lparr>pod_RestartPolicy = ''OnFailure'',
            pod_ServiceAccountName = IronicInspector_RbacResourceName instance,
            pod_AutomountServiceAccountToken = False,
            pod_SecurityContext = RestrictivePodSecurityContext P (IronicInspectorUID P) (IronicInspectorGID P) [],
            pod_InitContainers = inspector_InitContainer P initContainerDetails,
            pod_Containers =
              [\<lparr>ct_Name = inspectorName @ ''-db-sync'', ct_Image = is_ContainerImage sp,
                ct_Command = [''ironic-inspector-dbsync''],
                ct_Args = [''--config-file'', ''/etc/ironic-inspector/inspector.conf'',
                           ''--config-dir'', ''/etc/ironic-inspector/inspector.conf.d'', ''upgrade''],
                ct_SecurityContext =
                  LibraryContext (RestrictiveSecurityContext P (IronicInspectorUID P) (IronicInspectorGID P)),
                ct_Env = MergeEnvs P [] [],
                ct_VolumeMounts = inspector_GetInspectorVolumeMounts @ caMounts P ca\<rparr>],
            pod_Volumes = inspector_GetVolumes P inspectorName @ caVolumes P ca,
            pod_NodeSelector = ins_NodeSelector sp\<rparr>\<rparr>)"

section \<open>The StatefulSet\<close>

definition inspector_startupProbe :: "podLib \<Rightarrow> tlsAPI \<Rightarrow> probe" where
  "inspector_startupProbe P t =
     \<lparr>pr_Action = HTTPGetAction ''/v1'' IronicInspectorInternalPort (if tls_Enabled P t ''public'' then ''HTTPS'' else ''''),
      pr_TimeoutSeconds = 0, pr_PeriodSeconds = 10, pr_InitialDelaySeconds = 0, pr_FailureThreshold = 6\<rparr>"

definition inspector_containers ::
  "podLib \<Rightarrow> IronicInspector \<Rightarrow> string \<Rightarrow> volumeMount list \<Rightarrow> workContainer list" where
  "inspector_containers P instance configHash httpdVolumeMounts =
     (let sp = ins_Spec instance;
          ca = caMounts P (tls_Ca (ins_TLS sp));
          env = configHashEnv P configHash;
          restrictive = LibraryContext (RestrictiveSecurityContext P (IronicInspectorUID P) (IronicInspectorGID P));
          pr = httpProbe P (ins_TLS sp) IronicInspectorInternalPort;
          startupProbe = inspector_startupProbe P (ins_TLS sp);
          dns = dnsmasqProbe P (ins_DHCPRanges sp)
      in [workContainer_of (inspectorName @ ''-httpd'') (is_ContainerImage sp)
            [''/usr/sbin/httpd''] [''-DFOREGROUND''] restrictive env httpdVolumeMounts
            (Some (ins_Resources sp)) (Some pr) (Some pr) (Some startupProbe),
          workContainer_of inspectorName (is_ContainerImage sp)
            [''/usr/bin/ironic-inspector'']
            [''--config-file'', ''/etc/ironic-inspector/inspector.conf'',
             ''--config-dir'', ''/etc/ironic-inspector/inspector.conf.d'']
            restrictive env (inspector_GetInspectorVolumeMounts @ ca)
            (Some (ins_Resources sp)) (Some pr) (Some pr) (Some startupProbe),
          workContainer_of (InspectorComponent @ ''-httpboot'') (is_PxeContainerImage sp)
            [''/usr/sbin/httpd''] [''-DFOREGROUND''] restrictive env (inspector_GetHttpbootVolumeMounts P @ ca)
            (Some (ins_Resources sp)) (Some httpbootProbe) (Some httpbootProbe) None,
          workContainer_of ''ramdisk-logs'' (is_ContainerImage sp)
            [''/usr/local/bin/container-scripts/runlogwatch.sh''] []
            restrictive env (inspector_GetRamdiskLogsVolumeMounts @ ca) None None None None] @
         (if ins_InspectionNetwork sp \<noteq> '''' then
           [workContainer_of (InspectorComponent @ ''-dnsmasq'') (is_ContainerImage sp)
              [''/usr/sbin/dnsmasq''] [''-k''] dnsmasqContext env (inspector_GetDnsmasqVolumeMounts @ ca)
              (Some (ins_Resources sp)) (Some dns) (Some dns) None] else []))"

definition inspector_initDetails :: "podLib \<Rightarrow> IronicInspector \<Rightarrow> string \<Rightarrow> inspectorDetails" where
  "inspector_initDetails P instance ingressDomain =
     (let sp = ins_Spec instance in
      \<lparr>id_ContainerImage = is_ContainerImage sp, id_PxeInit = True,
       id_PxeContainerImage = is_PxeContainerImage sp, id_IpaInit = True,
       id_IronicPythonAgentImage = is_IronicPythonAgentImage sp,
       id_DatabaseHost = ist_DatabaseHostname (ins_Status instance),
       id_DatabaseName = inspector_DatabaseName,
       id_TransportURLSecret = ist_TransportURLSecret (ins_Status instance),
       id_OSPSecret = is_Secret sp, id_UserPasswordSelector = ips_Service (ins_PasswordSelectors sp),
       id_VolumeMounts = inspector_GetInitVolumeMounts @ caMounts P (tls_Ca (ins_TLS sp)),
       id_InspectorHTTPURL =
         (if ins_InspectionNetwork sp = '''' then ''http://%(PodName)s-%(PodNamespace)s.%(IngressDomain)s/''
          else ''http://%(InspectorNetworkIP)s:8088/''),
       id_IngressDomain = ingressDomain,
       id_InspectionNetwork = ins_InspectionNetwork sp,
       id_ImageDirectory = ImageDirectory\<rparr>)"

definition inspector_StatefulSet ::
  "podLib \<Rightarrow> IronicInspector \<Rightarrow> string \<Rightarrow> (string \<rightharpoonup> string) \<Rightarrow> string \<Rightarrow> (string \<rightharpoonup> string) \<Rightarrow>
   opaque option \<Rightarrow> goerr + workload" where
  "inspector_StatefulSet P instance configHash labels ingressDomain annotations topology =
     (let sp = ins_Spec instance; ca = tls_Ca (ins_TLS sp) in
      case endpointCerts P (ins_TLS sp) [''internal'', ''public'']
             (inspector_GetVolumes P inspectorName @ caVolumes P ca,
              inspector_GetHttpdVolumeMounts P @ caMounts P ca) of
        Inl err \<Rightarrow> Inl err
      | Inr (volumes, httpdVolumeMounts) \<Rightarrow> Inr
          \<lparr>wl_Name = inspectorName, wl_Namespace = Namespace (ins_Meta instance),
           wl_MatchLabels = labels, wl_Replicas = ins_Replicas sp, wl_PodManagementPolicy = ''ParallelPodManagement'',
           wl_Template =
             \<lparr>pt_Annotations = annotations, pt_Labels = labels,
              pt_ServiceAccountName = IronicInspector_RbacResourceName instance,
              pt_AutomountServiceAccountToken = False,
              pt_SecurityContext =
                RestrictivePodSecurityContext P (IronicInspectorUID P) (IronicInspectorGID P) [ApacheGID P],
              pt_InitContainers = inspector_InitContainer P (inspector_initDetails P instance ingressDomain),
              pt_Containers = inspector_containers P instance configHash httpdVolumeMounts,
              pt_TerminationGracePeriodSeconds = 60,
              pt_Volumes = volumes,
              pt_NodeSelector = ins_NodeSelector sp,
              pt_Placement = placementOf topology [ServiceName]\<rparr>,
           wl_VolumeClaimTemplates = []\<rparr>)"

section \<open>The service and route of a pod\<close>

definition inspector_Service :: "string \<Rightarrow> IronicInspector \<Rightarrow> (string \<rightharpoonup> string) \<Rightarrow> k8sService option" where
  "inspector_Service serviceName instance serviceLabels =
     (if ins_InspectionNetwork (ins_Spec instance) = '''' then
        Some \<lparr>svc_Name = serviceName, svc_Namespace = Namespace (ins_Meta instance),
          svc_Labels = serviceLabels, svc_Selector = serviceLabels,
          svc_Ports = [\<lparr>sp_Name = HttpbootComponent, sp_Port = 8088, sp_Protocol = ''TCP''\<rparr>], svc_Owners = []\<rparr>
      else None)"

definition inspector_Route :: "string \<Rightarrow> IronicInspector \<Rightarrow> (string \<rightharpoonup> string) \<Rightarrow> k8sRoute" where
  "inspector_Route serviceName instance routeLabels =
     \<lparr>rt_Name = serviceName, rt_Namespace = Namespace (ins_Meta instance), rt_Labels = routeLabels,
      rt_ToKind = ''Service'', rt_ToName = serviceName, rt_TargetPort = HttpbootComponent, rt_Owners = []\<rparr>"

end
