(* ===== verification/Cluster.thy ===== *)
theory Cluster
  imports InspectorWorkloads
begin

text \<open>
  The outside of the controllers: the calls they make to the Kubernetes API and
  to the libraries that talk to it, and the answers, as functions of the calls
  made so far. A record of such functions is an environment; every theorem
  about a controller holds for all of them, or names the laws it needs.
\<close>

section \<open>Objects of other operators\<close>

datatype opResult = OpNone | OpCreated | OpUpdated

record TransportURL =
  tu_Name :: string
  tu_Namespace :: string
  tu_RabbitmqClusterName :: string
  tu_Username :: string
  tu_Vhost :: string
  tu_Owner :: "string option"
  tu_StatusSecretName :: string

text \<open>The parts of the ready database object that configuration uses.\<close>

record Database =
  db_Hostname :: string
  db_UserName :: string
  db_Password :: string
  db_ClientConfig :: "bool \<Rightarrow> string"

text \<open>The arguments of \<open>NewDatabaseForAccount\<close>: the server, the database's name
  there, the name of its object, the account and the namespace.\<close>

record newDatabase =
  nd_Instance :: string
  nd_Name :: string
  nd_CRName :: string
  nd_Account :: string
  nd_Namespace :: string

record KeystoneAPI =
  ks_Endpoint :: "string \<Rightarrow> goerr + string"
  ks_Region :: string

text \<open>The virtual host of an endpoint; the certificate and key files are set when
  TLS is.\<close>

record vhost =
  vh_ServerName :: string
  vh_TLS :: bool
  vh_Certificate :: "(string \<times> string) option"
  vh_TimeOut :: "int option"

datatype templateValue =
    TVNil
  | TVBool bool
  | TVString string
  | TVInt int
  | TVRanges "DHCPRange list"
  | TVOptInt "int option"
  | TVHosts "(string \<times> vhost) list"

type_synonym templateParams = "string \<rightharpoonup> templateValue"

record Template =
  tm_Name :: string
  tm_Namespace :: string
  tm_Type :: string
  tm_InstanceType :: string
  tm_CustomData :: "string \<rightharpoonup> string"
  tm_ConfigOptions :: templateParams
  tm_AdditionalTemplate :: "(string \<times> string) list"
  tm_CommonTemplates :: "string list"
  tm_Labels :: "string \<rightharpoonup> string"

type_synonym secretData = "string \<rightharpoonup> string"

section \<open>Calls\<close>

text \<open>A workload as the cluster reports it back; \<open>ob_IsReady\<close> is the answer of
  lib-common's \<open>IsReady\<close> on it.\<close>

record observed =
  ob_Name :: string
  ob_Namespace :: string
  ob_Generation :: int
  ob_ObservedGeneration :: int
  ob_ReadyReplicas :: int
  ob_IsReady :: bool

text \<open>A service made by lib-common: the details, the annotations added to it and
  the override of the spec.\<close>

record genericService =
  gs_Name :: string
  gs_Namespace :: string
  gs_Labels :: "string \<rightharpoonup> string"
  gs_Selector :: "string \<rightharpoonup> string"
  gs_PortName :: string
  gs_Port :: int
  gs_Annotations :: "string \<rightharpoonup> string"
  gs_Override :: "opaque option"

record keystoneObject =
  ko_Name :: string
  ko_Meta :: ObjectMeta

text \<open>The calls of the controllers of the sub-resources.\<close>

datatype serviceCall =
    ListSecrets string string
  | ValidateCACertSecret string string
  | ValidateCertSecrets tlsAPI string
  | GetNAD string string
  | GetIngressController
  | CreateOrPatchStatefulSet workload
  | CreateOrPatchDeployment workload
  | VerifyNetworkStatus "string list" "string \<rightharpoonup> string" int
  | IsReadyForInput string string string
  | EnsureDeletedTopologyRef "TopoRef option" string
  | ListPods string "string \<rightharpoonup> string"
  | FetchService string string
  | CreateService k8sService
  | UpdateService k8sService
  | FetchRoute string string
  | CreateRoute k8sRoute
  | UpdateRoute k8sRoute
  | ListIronicAPI string
  | CreateOrPatchService genericService
  | FetchKeystone string string string
  | UpdateKeystone string keystoneObject

datatype call =
    Fetch string string string
  | StoreTransportURL TransportURL
  | StoreConductor IronicConductor
  | StoreAPI IronicAPI
  | StoreInspector IronicInspector
  | StoreNeutronAgent IronicNeutronAgent
  | StoreIronic Ironic
  | Delete string string string
  | GetSecret string string
  | VerifySecretFields string string string
  | GetKeystoneAPI string
  | KeystoneEndpoint string
  | ReconcileRbac string string
  | EnsureServiceTopology "TopoRef option" "TopoRef option" string
  | ManageSecretConsumerFinalizer string string string
  | RemoveSecretConsumerFinalizer string string string
  | FinalizeSecretRotation string string string string bool
  | PruneSecretConsumerFinalizers string string "string list"
  | EnsureSecrets "Template list"
  | DoJob job "string option"
  | GetDatabaseByNameAndAccount string string string
  | DeleteDatabaseFinalizer
  | EnsureMariaDBAccount string string string
  | CreateOrPatchAllDB newDatabase
  | WaitForDBCreated
  | DeleteUnusedMariaDBAccountFinalizers string string string
  | CreateOrPatchKeystoneService string string int
  | CreateOrPatchKeystoneEndpoint string string int
  | OnService serviceCall

text \<open>The consumer finalizer a call may take off a secret.\<close>

fun releases :: "call \<Rightarrow> string option" where
  "releases (RemoveSecretConsumerFinalizer _ _ f) = Some f"
| "releases (FinalizeSecretRotation _ _ _ f ready) = (if ready then Some f else None)"
| "releases (PruneSecretConsumerFinalizers _ f _) = Some f"
| "releases _ = None"

section \<open>Environments\<close>

text \<open>Access to one kind of object: reading it (for \<open>CreateOrUpdate\<close>: the stored
  object, or a fresh one with that name), storing it, and making the instance
  its controller.\<close>

record 'o crud =
  cr_Get :: "call list \<Rightarrow> string \<Rightarrow> string \<Rightarrow> goerr + 'o"
  cr_GetOrNew :: "call list \<Rightarrow> string \<Rightarrow> string \<Rightarrow> goerr + 'o"
  cr_Store :: "call list \<Rightarrow> 'o \<Rightarrow> goerr + ('o \<times> opResult)"
  cr_SetController :: "ObjectMeta \<Rightarrow> 'o \<Rightarrow> goerr + 'o"

text \<open>The answers to the calls of the sub-resources' controllers. A failed \<open>Get\<close>
  may have written to the object it was given; the object is part of the answer.
  \<open>AddOwner\<close> is \<open>controllerutil.SetOwnerReference\<close> for a pod of the given name.
  \<open>publicFirst\<close> is the order a Go map of the two endpoints is ranged over.\<close>

record serviceEnv =
  on_ListSecrets :: "call list \<Rightarrow> string \<Rightarrow> string \<Rightarrow> goerr + (string \<times> (goerr + string)) list"
  on_ValidateCACertSecret :: "call list \<Rightarrow> string \<Rightarrow> string \<Rightarrow> goerr + string"
  on_ValidateCertSecrets :: "call list \<Rightarrow> tlsAPI \<Rightarrow> string \<Rightarrow> goerr + string"
  on_GetNAD :: "call list \<Rightarrow> string \<Rightarrow> string \<Rightarrow> goerr + opaque option"
  NetworksAnnotation :: "opaque list \<Rightarrow> goerr + (string \<rightharpoonup> string)"
  on_GetIngressController :: "call list \<Rightarrow> goerr + unstructured"
  on_CreateOrPatch :: "call list \<Rightarrow> workload \<Rightarrow> result \<times> goerr option \<times> observed"
  on_VerifyNetworkStatus ::
    "call list \<Rightarrow> string list \<Rightarrow> (string \<rightharpoonup> string) \<Rightarrow> int \<Rightarrow> goerr + bool \<times> (string \<rightharpoonup> string list)"
  on_IsReadyForInput :: "call list \<Rightarrow> string \<Rightarrow> string \<Rightarrow> string \<Rightarrow> goerr + bool"
  on_EnsureDeletedTopologyRef :: "call list \<Rightarrow> TopoRef option \<Rightarrow> string \<Rightarrow> result \<times> goerr option"
  on_ListPods :: "call list \<Rightarrow> string \<Rightarrow> (string \<rightharpoonup> string) \<Rightarrow> goerr + string list"
  on_FetchService :: "call list \<Rightarrow> k8sService \<Rightarrow> k8sService \<times> goerr option"
  on_StoreService :: "call list \<Rightarrow> k8sService \<Rightarrow> goerr option"
  AddServiceOwner :: "string \<Rightarrow> k8sService \<Rightarrow> goerr + k8sService"
  on_FetchRoute :: "call list \<Rightarrow> k8sRoute \<Rightarrow> k8sRoute \<times> goerr option"
  on_StoreRoute :: "call list \<Rightarrow> k8sRoute \<Rightarrow> goerr option"
  AddRouteOwner :: "string \<Rightarrow> k8sRoute \<Rightarrow> goerr + k8sRoute"
  on_ListIronicAPI :: "call list \<Rightarrow> string \<Rightarrow> (string \<times> string) list option \<Rightarrow> goerr + IronicAPI list"
  MarshalTraits :: "(string \<rightharpoonup> int \<times> TraitBasedNetworkingAction list) \<Rightarrow> goerr + string"
  NewService :: "genericService \<Rightarrow> goerr + genericService"
  ServiceType :: "genericService \<Rightarrow> string"
  ServiceHostname :: "genericService \<Rightarrow> string"
  on_CreateOrPatchService :: "call list \<Rightarrow> genericService \<Rightarrow> result \<times> goerr option"
  GetAPIEndpoint :: "call list \<Rightarrow> genericService \<Rightarrow> string \<Rightarrow> goerr + string"
  publicFirst :: "call list \<Rightarrow> bool"
  on_FetchKeystone :: "call list \<Rightarrow> string \<Rightarrow> string \<Rightarrow> string \<Rightarrow> goerr + keystoneObject"
  on_UpdateKeystone :: "call list \<Rightarrow> string \<Rightarrow> keystoneObject \<Rightarrow> goerr option"

record env =
  isNotFound :: "goerr \<Rightarrow> bool"
  errText :: "goerr \<Rightarrow> string"
  tus :: "TransportURL crud"
  conductors :: "IronicConductor crud"
  apis :: "IronicAPI crud"
  inspectors :: "IronicInspector crud"
  agents :: "IronicNeutronAgent crud"
  ironics :: "Ironic crud"
  on_Delete :: "call list \<Rightarrow> string \<Rightarrow> string \<Rightarrow> string \<Rightarrow> goerr option"
  on_GetSecret :: "call list \<Rightarrow> string \<Rightarrow> string \<Rightarrow> goerr + secretData"
  on_VerifySecretFields :: "call list \<Rightarrow> string \<Rightarrow> string \<Rightarrow> string \<Rightarrow> string \<times> result \<times> goerr option"
  on_GetKeystoneAPI :: "call list \<Rightarrow> string \<Rightarrow> goerr + KeystoneAPI"
  on_ReconcileRbac :: "call list \<Rightarrow> string \<Rightarrow> string \<Rightarrow> conditions \<Rightarrow> (result \<times> goerr option) \<times> conditions"
  on_EnsureServiceTopology ::
    "call list \<Rightarrow> TopoRef option \<Rightarrow> TopoRef option \<Rightarrow> string \<Rightarrow> goerr + opaque option"
  on_Finalizer :: "call list \<Rightarrow> call \<Rightarrow> goerr option"
  on_FinalizeSecretRotation :: "call list \<Rightarrow> string \<Rightarrow> string \<Rightarrow> string \<Rightarrow> string \<Rightarrow> bool \<Rightarrow> goerr + string"
  on_EnsureSecrets :: "call list \<Rightarrow> Template list \<Rightarrow> (string \<rightharpoonup> string) \<Rightarrow> goerr + (string \<rightharpoonup> string)"
  on_DoJob :: "call list \<Rightarrow> job \<Rightarrow> string option \<Rightarrow> result \<times> goerr option \<times> string option"
  on_GetDatabase :: "call list \<Rightarrow> string \<Rightarrow> string \<Rightarrow> string \<Rightarrow> goerr + Database"
  on_DeleteDatabaseFinalizer :: "call list \<Rightarrow> goerr option"
  on_EnsureMariaDBAccount :: "call list \<Rightarrow> string \<Rightarrow> string \<Rightarrow> string \<Rightarrow> goerr option"
  on_CreateOrPatchAllDB :: "call list \<Rightarrow> newDatabase \<Rightarrow> result \<times> goerr option"
  on_WaitForDBCreated :: "call list \<Rightarrow> result \<times> goerr option \<times> Database"
  on_DeleteUnusedMariaDBAccountFinalizers :: "call list \<Rightarrow> string \<Rightarrow> string \<Rightarrow> string \<Rightarrow> goerr option"
  on_KeystoneService :: "call list \<Rightarrow> (result \<times> goerr option) \<times> conditions"
  on_KeystoneEndpoint :: "call list \<Rightarrow> (result \<times> goerr option) \<times> conditions"
  ObjectHash :: "string list \<Rightarrow> goerr + string"
  EnvHash :: "(string \<rightharpoonup> string) \<Rightarrow> goerr + string"
  SetHash :: "(string \<rightharpoonup> string) option \<Rightarrow> string \<Rightarrow> string \<Rightarrow> (string \<rightharpoonup> string) option \<times> bool"
  GetLabels :: "string \<Rightarrow> string \<rightharpoonup> string"
  AddFinalizer :: "ObjectMeta \<Rightarrow> ObjectMeta \<times> bool"
  DropFinalizer :: "ObjectMeta \<Rightarrow> ObjectMeta"
  HasFinalizer :: "ObjectMeta \<Rightarrow> bool"
  services :: serviceEnv

text \<open>\<open>SetHash\<close> of lib-common: the map has the hash under its name afterwards, and it says
  whether that changed the map.\<close>

definition setHash_law :: "env \<Rightarrow> bool" where
  "setHash_law E \<longleftrightarrow> (\<forall>m n h. SetHash E m n h =
     (if m \<noteq> None \<and> the m n = Some h then (m, False)
      else (Some ((case m of None \<Rightarrow> Map.empty | Some x \<Rightarrow> x)(n \<mapsto> h)), True)))"

text \<open>The hash of the inputs that a status records.\<close>

definition recorded :: "(string \<rightharpoonup> string) option \<Rightarrow> string option" where
  "recorded m = (case m of None \<Rightarrow> None | Some x \<Rightarrow> x ''InputHashName'')"

lemma recorded_simps [simp]:
  "recorded None = None" "recorded (Some x) = x ''InputHashName''"
  "recorded (Some (case m of None \<Rightarrow> Map.empty | Some x \<Rightarrow> x)) = recorded m"
  by (simp_all add: recorded_def split: option.split)

text \<open>A hash that is recorded already changes nothing, any other is recorded.\<close>

lemma setHash_same: "setHash_law E \<Longrightarrow> recorded m = Some h \<Longrightarrow> SetHash E m ''InputHashName'' h = (m, False)"
  by (auto simp: setHash_law_def recorded_def split: option.splits)

lemma setHash_new:
  assumes "setHash_law E" and "recorded m \<noteq> Some h"
  shows "\<exists>m'. SetHash E m ''InputHashName'' h = (m', True) \<and> recorded m' = Some h"
  using assms by (auto simp: setHash_law_def recorded_def split: option.splits)

text \<open>\<open>AddFinalizer\<close> of controller-runtime, for one finalizer.\<close>

definition finalizer_law :: "env \<Rightarrow> bool" where
  "finalizer_law E \<longleftrightarrow> (\<exists>x. \<forall>m. AddFinalizer E m =
     (if x \<in> set (Finalizers m) then (m, False) else (m\<lparr>Finalizers := Finalizers m @ [x]\<rparr>, True)))"

section \<open>CreateOrUpdate\<close>

text \<open>\<open>controllerutil.CreateOrUpdate\<close>: read, apply the callback, store.\<close>

definition createOrUpdate ::
  "'x crud \<Rightarrow> string \<Rightarrow> ('x \<Rightarrow> call) \<Rightarrow> string \<Rightarrow> string \<Rightarrow> ('x \<Rightarrow> goerr + 'x) \<Rightarrow>
   ('o, call, 'r, goerr + ('x \<times> opResult)) act" where
  "createOrUpdate C kind mk name namespace f =
     bnd (ask (Fetch kind name namespace) (\<lambda>cs. cr_GetOrNew C cs name namespace)) (\<lambda>got.
       case got of
         Inl err \<Rightarrow> ret (Inl err)
       | Inr cur \<Rightarrow>
           (case f cur of
              Inl err \<Rightarrow> ret (Inl err)
            | Inr new \<Rightarrow> ask (mk new) (\<lambda>cs. cr_Store C cs new)))"

lemma emits_createOrUpdate [keeps]:
  "A (Fetch kind name namespace) \<Longrightarrow> (\<And>x. A (mk x)) \<Longrightarrow>
     emits A (createOrUpdate C kind mk name namespace f)"
  unfolding createOrUpdate_def by (auto intro!: keeps split: sum.split)

lemma leaves_createOrUpdate [keeps]: "leaves F (createOrUpdate C kind mk name namespace f)"
  unfolding createOrUpdate_def by (auto intro!: keeps split: sum.split)

text \<open>Its errors are values of the call.\<close>

lemma createOrUpdate_continues: "\<exists>r. fst (createOrUpdate C kind mk name namespace f s) = Continue r"
  by (simp add: createOrUpdate_def step_simps split: sum.split)

text \<open>Only what the callback makes of the objects that can be read matters.\<close>

lemma createOrUpdate_cong:
  assumes "\<And>cs x. cr_GetOrNew C cs name namespace = Inr x \<Longrightarrow> f x = g x"
  shows "createOrUpdate C kind mk name namespace f = createOrUpdate C kind mk name namespace g"
  using assms by (auto simp: fun_eq_iff createOrUpdate_def step_simps split: sum.split)

text \<open>What is stored is the callback's result on the object read.\<close>

lemma createOrUpdate_stores:
  "emits (\<lambda>c. c = Fetch kind name namespace \<or> (\<exists>cs cur new. cr_GetOrNew C cs name namespace = Inr cur \<and>
      f cur = Inr new \<and> c = mk new)) (createOrUpdate C kind mk name namespace f)"
  unfolding createOrUpdate_def emits_def bnd_def ask_def
  by (auto simp: ret_def split: sum.split)

end
