(* ===== verification/ControllerFuncs.thy ===== *)
theory ControllerFuncs
  imports Cluster
begin

text \<open>
  The functions all controllers share (\<open>internal/controller/funcs.go\<close>) and the
  registration of a service in Keystone
  (\<open>internal/keystone/keystone_registration.go\<close>). The Go interfaces they take
  (\<open>topologyHandler\<close>, \<open>conditionUpdater\<close>, \<open>transportURLCreator\<close>) are
  locales, interpreted on the types that implement them.
\<close>

section \<open>Conditions of an instance\<close>

text \<open>The methods of the interface \<open>conditionUpdater\<close>, acting on the instance
  whose condition list was passed.\<close>

record 'o conditionUpdater =
  cu_Set :: "condition \<Rightarrow> 'o \<Rightarrow> 'o"
  cu_MarkTrue :: "string \<Rightarrow> string list \<Rightarrow> 'o \<Rightarrow> 'o"
  cu_Remove :: "string \<Rightarrow> 'o \<Rightarrow> 'o"

definition conditionsIn :: "condLib \<Rightarrow> ((conditions \<Rightarrow> conditions) \<Rightarrow> 'o \<Rightarrow> 'o) \<Rightarrow> 'o conditionUpdater" where
  "conditionsIn L upd =
     \<lparr>cu_Set = (\<lambda>c. upd (cl_Set L c)), cu_MarkTrue = (\<lambda>t m. upd (cl_MarkTrue L t m)),
      cu_Remove = (\<lambda>t. upd (cl_Remove L t))\<rparr>"

definition Ironic_updConds :: "(conditions \<Rightarrow> conditions) \<Rightarrow> Ironic \<Rightarrow> Ironic" where
  "Ironic_updConds f i =
     i\<lparr>Status := (Status i)\<lparr>st_Conditions := Some (f (conds (st_Conditions (Status i))))\<rparr>\<rparr>"

definition IronicAPI_updConds :: "(conditions \<Rightarrow> conditions) \<Rightarrow> IronicAPI \<Rightarrow> IronicAPI" where
  "IronicAPI_updConds f i =
     i\<lparr>api_Status := (api_Status i)\<lparr>ast_Conditions := Some (f (conds (ast_Conditions (api_Status i))))\<rparr>\<rparr>"

definition IronicConductor_updConds :: "(conditions \<Rightarrow> conditions) \<Rightarrow> IronicConductor \<Rightarrow> IronicConductor" where
  "IronicConductor_updConds f i =
     i\<lparr>con_Status := (con_Status i)\<lparr>cst_Conditions := Some (f (conds (cst_Conditions (con_Status i))))\<rparr>\<rparr>"

definition IronicInspector_updConds :: "(conditions \<Rightarrow> conditions) \<Rightarrow> IronicInspector \<Rightarrow> IronicInspector" where
  "IronicInspector_updConds f i =
     i\<lparr>ins_Status := (ins_Status i)\<lparr>ist_Conditions := Some (f (conds (ist_Conditions (ins_Status i))))\<rparr>\<rparr>"

definition IronicNeutronAgent_updConds ::
  "(conditions \<Rightarrow> conditions) \<Rightarrow> IronicNeutronAgent \<Rightarrow> IronicNeutronAgent" where
  "IronicNeutronAgent_updConds f i =
     i\<lparr>na_Status := (na_Status i)\<lparr>nst_Conditions := Some (f (conds (nst_Conditions (na_Status i))))\<rparr>\<rparr>"

definition errorCondition :: "condLib \<Rightarrow> env \<Rightarrow> string \<Rightarrow> string \<Rightarrow> goerr \<Rightarrow> condition" where
  "errorCondition L E t msg err = FalseCondition L t ''ErrorReason'' ''SeverityWarning'' [msg, errText E err]"

definition requestedCondition :: "condLib \<Rightarrow> string \<Rightarrow> string \<Rightarrow> condition" where
  "requestedCondition L t msg = FalseCondition L t ''RequestedReason'' ''SeverityInfo'' [msg]"

lemma errorCondition_simps [simp]:
  "condLib_laws L \<Longrightarrow> c_type (errorCondition L E t msg err) = t"
  "condLib_laws L \<Longrightarrow> c_status (errorCondition L E t msg err) = CondFalse"
  "condLib_laws L \<Longrightarrow> c_type (requestedCondition L t msg) = t"
  "condLib_laws L \<Longrightarrow> c_status (requestedCondition L t msg) = CondFalse"
  by (simp_all add: errorCondition_def requestedCondition_def condLib_simps)

section \<open>Topology\<close>

definition ensureTopology ::
  "condLib \<Rightarrow> env \<Rightarrow> 'o topologyHandler \<Rightarrow> string \<Rightarrow> 'o conditionUpdater \<Rightarrow>
   ('o, call, goerr + opaque option, goerr + opaque option) act" where
  "ensureTopology L E th finalizer cu =
     bnd getObj (\<lambda>instance.
     bnd (ask (EnsureServiceTopology (GetSpecTopologyRef th instance) (GetLastAppliedTopology th instance) finalizer)
            (\<lambda>cs. on_EnsureServiceTopology E cs (GetSpecTopologyRef th instance)
                    (GetLastAppliedTopology th instance) finalizer)) (\<lambda>topology.
     case topology of
       Inl err \<Rightarrow>
         thn (modObj (cu_Set cu (errorCondition L E ''TopologyReadyCondition'' ''TopologyReadyErrorMessage'' err)))
             (exit (Inl (ErrWrap ''waiting for Topology requirements'' err)))
     | Inr tp \<Rightarrow>
         thn (modObj (\<lambda>i. SetLastAppliedTopology th (GetSpecTopologyRef th i) i))
        (thn (bnd getObj (\<lambda>i. whenM (GetSpecTopologyRef th i \<noteq> None)
               (modObj (cu_MarkTrue cu ''TopologyReadyCondition'' [''TopologyReadyMessage'']))))
             (ret (Inr tp)))))"

text \<open>What \<open>ensureTopology\<close> relies on: the setter changes what the getter of the
  last applied topology returns and nothing else it looks at, and the condition
  updater works on the conditions.\<close>

locale topology_handler =
  fixes th :: "'o topologyHandler"
  assumes get_last_set: "GetLastAppliedTopology th (SetLastAppliedTopology th t i) = t"
    and get_spec_set: "GetSpecTopologyRef th (SetLastAppliedTopology th t i) = GetSpecTopologyRef th i"

locale topology_conditions = topology_handler th
  for th :: "'o topologyHandler" +
  fixes L :: condLib and cu :: "'o conditionUpdater" and view :: "'o \<Rightarrow> conditions"
  assumes view_Set: "view (cu_Set cu c i) = cl_Set L c (view i)"
    and view_MarkTrue: "view (cu_MarkTrue cu t m i) = cl_MarkTrue L t m (view i)"
    and view_SetLast: "view (SetLastAppliedTopology th tr i) = view i"
    and last_Set: "GetLastAppliedTopology th (cu_Set cu c i) = GetLastAppliedTopology th i"
    and last_MarkTrue: "GetLastAppliedTopology th (cu_MarkTrue cu t m i) = GetLastAppliedTopology th i"
begin

lemma topology_ok:
  assumes "on_EnsureServiceTopology E cs (GetSpecTopologyRef th i) (GetLastAppliedTopology th i) fin = Inr tp"
  shows "\<exists>i'. ensureTopology L E th fin cu \<lparr>obj = i, calls = cs\<rparr> =
      (Continue (Inr tp), \<lparr>obj = i',
         calls = cs @ [EnsureServiceTopology (GetSpecTopologyRef th i) (GetLastAppliedTopology th i) fin]\<rparr>)
    \<and> GetLastAppliedTopology th i' = GetSpecTopologyRef th i
    \<and> (condLib_laws L \<longrightarrow> GetSpecTopologyRef th i \<noteq> None \<longrightarrow> cl_IsTrue L ''TopologyReadyCondition'' (view i'))"
  using assms
  by (auto simp: ensureTopology_def step_simps get_last_set get_spec_set last_MarkTrue view_MarkTrue
      view_SetLast whenM_def condLib_IsTrue_MarkTrue)

lemma topology_error:
  assumes "on_EnsureServiceTopology E cs (GetSpecTopologyRef th i) (GetLastAppliedTopology th i) fin = Inl err"
  shows "\<exists>i'. ensureTopology L E th fin cu \<lparr>obj = i, calls = cs\<rparr> =
      (Return (Inl (ErrWrap ''waiting for Topology requirements'' err)), \<lparr>obj = i',
         calls = cs @ [EnsureServiceTopology (GetSpecTopologyRef th i) (GetLastAppliedTopology th i) fin]\<rparr>)
    \<and> GetLastAppliedTopology th i' = GetLastAppliedTopology th i
    \<and> (condLib_laws L \<longrightarrow> \<not> cl_IsTrue L ''TopologyReadyCondition'' (view i'))"
  using assms
  by (auto simp: ensureTopology_def step_simps last_Set view_Set condLib_IsTrue_Set)

end

interpretation api_topology:
  topology_conditions IronicAPI_topology L "conditionsIn L IronicAPI_updConds"
    "\<lambda>i. conds (ast_Conditions (api_Status i))" for L
  by unfold_locales (simp_all add: IronicAPI_topology_def conditionsIn_def IronicAPI_updConds_def)

interpretation conductor_topology:
  topology_conditions IronicConductor_topology L "conditionsIn L IronicConductor_updConds"
    "\<lambda>i. conds (cst_Conditions (con_Status i))" for L
  by unfold_locales (simp_all add: IronicConductor_topology_def conditionsIn_def IronicConductor_updConds_def)

interpretation inspector_topology:
  topology_conditions IronicInspector_topology L "conditionsIn L IronicInspector_updConds"
    "\<lambda>i. conds (ist_Conditions (ins_Status i))" for L
  by unfold_locales (simp_all add: IronicInspector_topology_def conditionsIn_def IronicInspector_updConds_def)

interpretation agent_topology:
  topology_conditions IronicNeutronAgent_topology L "conditionsIn L IronicNeutronAgent_updConds"
    "\<lambda>i. conds (nst_Conditions (na_Status i))" for L
  by unfold_locales (simp_all add: IronicNeutronAgent_topology_def conditionsIn_def IronicNeutronAgent_updConds_def)

section \<open>Secrets\<close>

definition getSecret :: "env \<Rightarrow> string \<Rightarrow> string \<Rightarrow> ('o, call, 'r, goerr + secretData) act" where
  "getSecret E name namespace = ask (GetSecret name namespace) (\<lambda>cs. on_GetSecret E cs name namespace)"

definition dataText :: "secretData \<Rightarrow> string \<Rightarrow> string" where
  "dataText d k = (case d k of None \<Rightarrow> '''' | Some v \<Rightarrow> v)"

definition getQuorumQueues :: "env \<Rightarrow> string \<Rightarrow> string \<Rightarrow> ('o, call, 'r, goerr + bool) act" where
  "getQuorumQueues E transportURLSecretName namespace =
     bnd (getSecret E transportURLSecretName namespace) (\<lambda>s.
       case s of Inl err \<Rightarrow> ret (Inl err)
       | Inr d \<Rightarrow> ret (Inr (dataText d ''quorumqueues'' = ''true'')))"

text \<open>The parameters are written in place, so they come back with an error too.
  \<open>ACIDSecretKey\<close> and \<open>ACSecretSecretKey\<close> are constants of keystone-operator.\<close>

definition setApplicationCredentialParams ::
  "env \<Rightarrow> string \<Rightarrow> string \<Rightarrow> templateParams \<Rightarrow> ('o, call, 'r, templateParams \<times> goerr option) act" where
  "setApplicationCredentialParams E secretName namespace tp =
     (let tp = tp(''UseApplicationCredentials'' \<mapsto> TVBool False) in
      if secretName = '''' then ret (tp, None)
      else bnd (getSecret E secretName namespace) (\<lambda>s.
        case s of
          Inl err \<Rightarrow>
            if isNotFound E err then ret (tp, Some (ErrWrap secretName ErrACSecretNotFound))
            else ret (tp, Some err)
        | Inr d \<Rightarrow>
            (let acID = d ''ACIDSecretKey''; acSecretVal = d ''ACSecretSecretKey'' in
             if acID = None \<or> acSecretVal = None \<or> acID = Some '''' \<or> acSecretVal = Some ''''
             then ret (tp, Some (ErrWrap secretName ErrACSecretMissingKeys))
             else ret (tp(''UseApplicationCredentials'' \<mapsto> TVBool True,
                          ''ACID'' \<mapsto> TVString (the acID),
                          ''ACSecret'' \<mapsto> TVString (the acSecretVal)), None))))"

section \<open>The notifications transport\<close>

text \<open>\<open>setSecret\<close> writes the status field the pointer refers to, \<open>create\<close> is the
  controller's closure of type \<open>transportURLCreator\<close>.\<close>

definition ensureNotificationsTransportURL ::
  "condLib \<Rightarrow> env \<Rightarrow> RabbitMqConfig option \<Rightarrow> (string option \<Rightarrow> 'o \<Rightarrow> 'o) \<Rightarrow>
   (string \<Rightarrow> RabbitMqConfig \<Rightarrow> ('o, call, result \<times> goerr option, goerr + (TransportURL \<times> opResult)) act) \<Rightarrow>
   'o conditionUpdater \<Rightarrow> ('o, call, result \<times> goerr option, result \<times> goerr option) act" where
  "ensureNotificationsTransportURL L E notificationsBus setSecret create cu =
     (if notificationsBus \<noteq> None \<and> rmq_Cluster (the notificationsBus) \<noteq> '''' then
        thn (modObj (setSecret (Some '''')))
       (bnd (create ''-notifications'' (the notificationsBus)) (\<lambda>r.
          case r of
            Inl err \<Rightarrow>
              thn (modObj (cu_Set cu (errorCondition L E ''NotificationBusInstanceReadyCondition''
                     ''NotificationBusInstanceReadyErrorMessage'' err)))
                  (exit (emptyResult, Some err))
          | Inr (notificationURL, op) \<Rightarrow>
              thn (modObj (setSecret (Some (tu_StatusSecretName notificationURL))))
              (if tu_StatusSecretName notificationURL = '''' then
                 thn (modObj (cu_Set cu (requestedCondition L ''NotificationBusInstanceReadyCondition''
                        ''NotificationBusInstanceReadyRunningMessage'')))
                     (exit (emptyResult, None))
               else
                 thn (modObj (cu_MarkTrue cu ''NotificationBusInstanceReadyCondition''
                        [''NotificationBusInstanceReadyMessage'']))
                     (ret (emptyResult, None)))))
      else
        thn (modObj (setSecret None))
       (thn (modObj (cu_Remove cu ''NotificationBusInstanceReadyCondition''))
            (ret (emptyResult, None))))"

text \<open>The contract of a \<open>transportURLCreator\<close>: it changes nothing of the instance
  and makes no other call than reading and storing a transport URL.\<close>

definition transportCall :: "call \<Rightarrow> bool" where
  "transportCall c \<longleftrightarrow> (case c of Fetch k _ _ \<Rightarrow> k = ''TransportURL'' | StoreTransportURL _ \<Rightarrow> True | _ \<Rightarrow> False)"

locale transport_creator =
  fixes create :: "string \<Rightarrow> RabbitMqConfig \<Rightarrow>
     ('o, call, result \<times> goerr option, goerr + (TransportURL \<times> opResult)) act"
  assumes create_leaves: "leaves (\<lambda>i. i) (create suffix cfg)"
    and create_emits: "emits transportCall (create suffix cfg)"
    and create_continues: "\<exists>r. fst (create suffix cfg s) = Continue r"
begin

lemma create_obj: "obj (snd (create suffix cfg s)) = obj s"
  using create_leaves by (simp add: leaves_def)

lemma notifications_emits:
  "emits transportCall (ensureNotificationsTransportURL L E bus setSecret create cu)"
  unfolding ensureNotificationsTransportURL_def
  by (auto intro!: keeps create_emits split: sum.split)

text \<open>The step never asks for a requeue: a caller that only stops on an error or a
  requeue goes on while the secret is pending.\<close>

lemma notifications_no_requeue:
  "\<exists>err. fst (func (ensureNotificationsTransportURL L E bus setSecret create cu) s)
      = (Continue (emptyResult, err) :: (result \<times> goerr option, result \<times> goerr option) step)"
proof (cases "bus \<noteq> None \<and> rmq_Cluster (the bus) \<noteq> ''''")
  case True
  let ?s = "s\<lparr>obj := setSecret (Some '''') (obj s)\<rparr>"
  obtain r s' where r: "create ''-notifications'' (the bus) ?s = (Continue r, s')"
    using create_continues [of "''-notifications''" "the bus" ?s] by (metis prod.collapse)
  show ?thesis
    using True r
    by (cases r) (auto simp: ensureNotificationsTransportURL_def step_simps func_def run_bnd_Continue)
next
  case False
  then show ?thesis
    by (auto simp: ensureNotificationsTransportURL_def step_simps func_def)
qed

end

definition getNotificationsTransportURL ::
  "env \<Rightarrow> string option \<Rightarrow> string \<Rightarrow> string \<Rightarrow> templateParams \<Rightarrow>
   ('o, call, 'r, templateParams \<times> goerr option) act" where
  "getNotificationsTransportURL E notificationsURLSecret fallbackTransportURL namespace tp =
     (if notificationsURLSecret \<noteq> None \<and> the notificationsURLSecret \<noteq> '''' then
        bnd (getSecret E (the notificationsURLSecret) namespace) (\<lambda>s.
          case s of
            Inl err \<Rightarrow> ret (tp, Some err)
          | Inr d \<Rightarrow>
              (case d ''transport_url'' of
                 None \<Rightarrow> ret (tp, Some (ErrKeyNotFound ''transport_url''))
               | Some url \<Rightarrow> ret (tp(''NotificationsTransportURL'' \<mapsto> TVString url), None)))
      else ret (tp(''NotificationsTransportURL'' \<mapsto> TVString fallbackTransportURL), None))"

definition getInspectInterface :: "(string \<rightharpoonup> string) option \<Rightarrow> string" where
  "getInspectInterface annotations =
     (case annotations of
        None \<Rightarrow> ''inspector''
      | Some a \<Rightarrow>
          (case a IronicInspectInterfaceAnnotation of
             None \<Rightarrow> ''inspector''
           | Some val \<Rightarrow> if val \<noteq> '''' then val else ''inspector''))"

definition getCommonRbacRules :: "(string list \<times> string list \<times> string list \<times> string list) list" where
  "getCommonRbacRules =
     [([''security.openshift.io''], [''anyuid'', ''privileged'', ''nonroot-v2''],
       [''securitycontextconstraints''], [''use''])]"

section \<open>Registration in Keystone\<close>

record ServiceRegistration =
  sr_Namespace :: string
  sr_ServiceType :: string
  sr_ServiceName :: string
  sr_ServiceDescription :: string
  sr_ServiceUser :: string
  sr_Secret :: string
  sr_PasswordSelector :: string
  sr_Endpoints :: "string \<rightharpoonup> string"
  sr_Labels :: "string \<rightharpoonup> string"
  sr_TimeoutSeconds :: int

text \<open>The timeout is converted as it stands, so it counts nanoseconds. The
  conditions the registered objects report are mirrored into the given list,
  also when the call asks to come back later.\<close>

definition mirrorInto :: "condLib \<Rightarrow> string \<Rightarrow> conditions \<Rightarrow> (conditions \<Rightarrow> conditions)" where
  "mirrorInto L t remote cs = (case cl_Mirror L t remote of None \<Rightarrow> cs | Some c \<Rightarrow> cl_Set L c cs)"

definition EnsureRegistration ::
  "condLib \<Rightarrow> env \<Rightarrow> ServiceRegistration \<Rightarrow> ((conditions \<Rightarrow> conditions) \<Rightarrow> 'o \<Rightarrow> 'o) \<Rightarrow>
   ('o, call, result \<times> goerr option, result \<times> goerr option) act" where
  "EnsureRegistration L E registration upd =
     bnd (ask (CreateOrPatchKeystoneService (sr_ServiceName registration) (sr_Namespace registration)
                 (sr_TimeoutSeconds registration)) (\<lambda>cs. on_KeystoneService E cs)) (\<lambda>((ctrlResult, err), remote).
     if err \<noteq> None then exit (ctrlResult, err)
     else thn (modObj (upd (mirrorInto L ''KeystoneServiceReadyCondition'' remote)))
     (if ctrlResult \<noteq> emptyResult then exit (ctrlResult, None)
      else
        bnd (ask (CreateOrPatchKeystoneEndpoint (sr_ServiceName registration) (sr_Namespace registration)
                    (sr_TimeoutSeconds registration)) (\<lambda>cs. on_KeystoneEndpoint E cs)) (\<lambda>((ctrlResult, err), remote).
        if err \<noteq> None then exit (ctrlResult, err)
        else thn (modObj (upd (mirrorInto L ''KeystoneEndpointReadyCondition'' remote)))
        (if ctrlResult \<noteq> emptyResult then exit (ctrlResult, None)
         else ret (emptyResult, None)))))"

lemma emits_getSecret [keeps]: "A (GetSecret name namespace) \<Longrightarrow> emits A (getSecret E name namespace)"
  by (simp add: getSecret_def keeps)

lemma leaves_getSecret [keeps]: "leaves F (getSecret E name namespace)"
  by (simp add: getSecret_def keeps)

lemma leaves_getQuorumQueues [keeps]: "leaves F (getQuorumQueues E n ns)"
  unfolding getQuorumQueues_def by (auto intro!: keeps split: sum.split)

lemma emits_getQuorumQueues [keeps]: "A (GetSecret n ns) \<Longrightarrow> emits A (getQuorumQueues E n ns)"
  unfolding getQuorumQueues_def by (auto intro!: keeps split: sum.split)

lemma leaves_setApplicationCredentialParams [keeps]:
  "leaves F (setApplicationCredentialParams E n ns tp)"
  unfolding setApplicationCredentialParams_def Let_def by (auto intro!: keeps split: sum.split)

lemma emits_setApplicationCredentialParams [keeps]:
  "A (GetSecret n ns) \<Longrightarrow> emits A (setApplicationCredentialParams E n ns tp)"
  unfolding setApplicationCredentialParams_def Let_def by (auto intro!: keeps split: sum.split)

lemma leaves_getNotificationsTransportURL [keeps]:
  "leaves F (getNotificationsTransportURL E n u ns tp)"
  unfolding getNotificationsTransportURL_def by (auto intro!: keeps split: sum.split option.split)

lemma emits_getNotificationsTransportURL [keeps]:
  "(\<And>m. A (GetSecret m ns)) \<Longrightarrow> emits A (getNotificationsTransportURL E n u ns tp)"
  unfolding getNotificationsTransportURL_def by (auto intro!: keeps split: sum.split option.split)

end
