(* ===== verification/IronicController.thy ===== *)
theory IronicController
  imports ControllerFuncs
begin

text \<open>
  The controller of the top-level Ironic resource
  (\<open>internal/controller/ironic_controller.go\<close>): its helper functions, the
  sections of \<open>reconcileNormal\<close> in the order of the code, deletion, and the
  reconcile entry point with its deferred status update. The instance being
  reconciled is the state; \<open>instance\<close> is the value a section started with,
  used for what no section changes (metadata and spec).
\<close>

type_synonym ret = "result \<times> goerr option"
type_synonym 'a iact = "(Ironic, call, ret, 'a) act"

section \<open>Steps\<close>

definition modStatus :: "(IronicStatus \<Rightarrow> IronicStatus) \<Rightarrow> (Ironic, call, 'r, unit) act" where
  "modStatus f = modObj (\<lambda>i. i\<lparr>Status := f (Status i)\<rparr>)"

definition setCond :: "condLib \<Rightarrow> condition \<Rightarrow> (Ironic, call, 'r, unit) act" where
  "setCond L c = modObj (Ironic_updConds (cl_Set L c))"

definition markTrue :: "condLib \<Rightarrow> string \<Rightarrow> string list \<Rightarrow> (Ironic, call, 'r, unit) act" where
  "markTrue L t m = modObj (Ironic_updConds (cl_MarkTrue L t m))"

definition failWith :: "condLib \<Rightarrow> env \<Rightarrow> string \<Rightarrow> string \<Rightarrow> goerr \<Rightarrow> 'a iact" where
  "failWith L E t msg err = thn (setCond L (errorCondition L E t msg err)) (exit (emptyResult, Some err))"

definition orFail :: "('o, call, ret, goerr option) act \<Rightarrow> ('o, call, ret, unit) act" where
  "orFail m = bnd m (\<lambda>r. case r of None \<Rightarrow> ret () | Some err \<Rightarrow> exit (emptyResult, Some err))"

definition getOrFail :: "('o, call, ret, goerr + 'a) act \<Rightarrow> ('o, call, ret, 'a) act" where
  "getOrFail m = bnd m (\<lambda>r. case r of Inl err \<Rightarrow> exit (emptyResult, Some err) | Inr x \<Rightarrow> ret x)"

definition finalizerCall :: "env \<Rightarrow> call \<Rightarrow> ('o, call, 'r, goerr option) act" where
  "finalizerCall E c = ask c (\<lambda>cs. on_Finalizer E cs c)"

definition optText :: "string option \<Rightarrow> string" where
  "optText s = (case s of None \<Rightarrow> '''' | Some t \<Rightarrow> t)"

lemma optText_simps [simp]: "optText None = ''''" "optText (Some t) = t"
  by (simp_all add: optText_def)

definition Ironic_setNotif :: "string option \<Rightarrow> Ironic \<Rightarrow> Ironic" where
  "Ironic_setNotif s i = i\<lparr>Status := (Status i)\<lparr>st_NotificationsURLSecret := s\<rparr>\<rparr>"

section \<open>Transport URL\<close>

definition transportURLCreateOrUpdate ::
  "env \<Rightarrow> Ironic \<Rightarrow> string \<Rightarrow> RabbitMqConfig \<Rightarrow> (Ironic, call, 'r, goerr + (TransportURL \<times> opResult)) act" where
  "transportURLCreateOrUpdate E instance suffix rabbitMqConfig =
     createOrUpdate (tus E) ''TransportURL'' StoreTransportURL
       (Name (Meta instance) @ ''-transport'' @ suffix) (Namespace (Meta instance))
       (\<lambda>tu. cr_SetController (tus E) (Meta instance)
          (tu\<lparr>tu_RabbitmqClusterName := rmq_Cluster rabbitMqConfig,
              tu_Username := rmq_User rabbitMqConfig,
              tu_Vhost := rmq_Vhost rabbitMqConfig\<rparr>))"

text \<open>\<open>TransportURLCreateOrUpdate\<close> of \<open>internal/ironic/funcs.go\<close>, which the controllers do
  not call: it leaves user and virtual host of a stored transport URL alone.\<close>

definition ironic_TransportURLCreateOrUpdate ::
  "env \<Rightarrow> string \<Rightarrow> string \<Rightarrow> string \<Rightarrow> ObjectMeta \<Rightarrow> (Ironic, call, 'r, goerr + (TransportURL \<times> opResult)) act" where
  "ironic_TransportURLCreateOrUpdate E name namespace rabbitMqClusterName instance =
     createOrUpdate (tus E) ''TransportURL'' StoreTransportURL (name @ ''-transport'') namespace
       (\<lambda>tu. cr_SetController (tus E) instance (tu\<lparr>tu_RabbitmqClusterName := rabbitMqClusterName\<rparr>))"

text \<open>On a transport URL without them both do the same.\<close>

lemma ironic_TransportURL_agrees:
  assumes fresh: "\<And>cs tu. cr_GetOrNew (tus E) cs (Name (Meta i) @ ''-transport'') (Namespace (Meta i)) = Inr tu \<Longrightarrow>
      tu_Username tu = '''' \<and> tu_Vhost tu = ''''" and none: "rmq_User cfg = ''''" "rmq_Vhost cfg = ''''"
  shows "ironic_TransportURLCreateOrUpdate E (Name (Meta i)) (Namespace (Meta i)) (rmq_Cluster cfg) (Meta i)
    = transportURLCreateOrUpdate E i '''' cfg"
  unfolding ironic_TransportURLCreateOrUpdate_def transportURLCreateOrUpdate_def append_Nil2
proof (rule createOrUpdate_cong)
  fix cs tu assume "cr_GetOrNew (tus E) cs (Name (Meta i) @ ''-transport'') (Namespace (Meta i)) = Inr tu"
  from fresh [OF this] have "tu\<lparr>tu_RabbitmqClusterName := rmq_Cluster cfg, tu_Username := '''', tu_Vhost := ''''\<rparr>
      = tu\<lparr>tu_RabbitmqClusterName := rmq_Cluster cfg\<rparr>"
    by (cases tu) simp
  then show "cr_SetController (tus E) (Meta i) (tu\<lparr>tu_RabbitmqClusterName := rmq_Cluster cfg\<rparr>)
      = cr_SetController (tus E) (Meta i) (tu\<lparr>tu_RabbitmqClusterName := rmq_Cluster cfg,
          tu_Username := rmq_User cfg, tu_Vhost := rmq_Vhost cfg\<rparr>)"
    by (simp only: none)
qed

text \<open>It keeps the contract of a \<open>transportURLCreator\<close>.\<close>

interpretation ironic_transport: transport_creator "transportURLCreateOrUpdate E i" for E i
proof
  show "leaves (\<lambda>i. i) (transportURLCreateOrUpdate E i suffix cfg)" for suffix cfg
    unfolding transportURLCreateOrUpdate_def by (rule leaves_createOrUpdate)
  show "emits transportCall (transportURLCreateOrUpdate E i suffix cfg)" for suffix cfg
    unfolding transportURLCreateOrUpdate_def by (rule emits_createOrUpdate) (simp_all add: transportCall_def)
  show "\<exists>r. fst (transportURLCreateOrUpdate E i suffix cfg s) = Continue r" for suffix cfg s
    unfolding transportURLCreateOrUpdate_def by (rule createOrUpdate_continues)
qed

definition getTransportURL :: "env \<Rightarrow> Ironic \<Rightarrow> string \<Rightarrow> (Ironic, call, 'r, goerr + string) act" where
  "getTransportURL E instance transportURLSecretName =
     (if RPCTransport (Spec instance) \<noteq> ''oslo'' then ret (Inr ''fake://'')
      else bnd (getSecret E transportURLSecretName (Namespace (Meta instance))) (\<lambda>s.
        case s of
          Inl err \<Rightarrow> ret (Inl err)
        | Inr d \<Rightarrow>
            (case d ''transport_url'' of
               None \<Rightarrow> ret (Inl (ErrKeyNotFound ''transport_url''))
             | Some url \<Rightarrow> ret (Inr url))))"

text \<open>The oslo branch: the current transport secret and notifications secret.\<close>

definition osloTransport :: "condLib \<Rightarrow> env \<Rightarrow> Ironic \<Rightarrow> (string \<times> string) iact" where
  "osloTransport L E instance =
     bnd (transportURLCreateOrUpdate E instance '''' (MessagingBus (Spec instance))) (\<lambda>r.
     case r of
       Inl err \<Rightarrow> failWith L E ''RabbitMqTransportURLReadyCondition'' ''RabbitMqTransportURLReadyErrorMessage'' err
     | Inr (transportURL, op) \<Rightarrow>
         if tu_StatusSecretName transportURL = '''' then
           thn (setCond L (requestedCondition L ''RabbitMqTransportURLReadyCondition''
                  ''RabbitMqTransportURLReadyRunningMessage''))
               (exit (emptyResult, None))
         else
           (let current = tu_StatusSecretName transportURL in
            thn (modStatus (\<lambda>st.
                  if st_TransportURLSecret st = '''' \<or> st_TransportURLSecret st = current
                  then st\<lparr>st_TransportURLSecret := current\<rparr> else st))
           (thn (orFail (finalizerCall E (ManageSecretConsumerFinalizer (Namespace (Meta instance)) current
                  TransportConsumerFinalizer)))
           (thn (markTrue L ''RabbitMqTransportURLReadyCondition'' [''RabbitMqTransportURLReadyMessage''])
           (bnd (func (ensureNotificationsTransportURL L E (NotificationsBus (Spec instance)) Ironic_setNotif
                   (transportURLCreateOrUpdate E instance) (conditionsIn L Ironic_updConds))) (\<lambda>(result, err).
            if err \<noteq> None \<or> RequeueAfter result > 0 then exit (result, err)
            else bnd getObj (\<lambda>i.
              let currentNotif = optText (st_NotificationsURLSecret (Status i)) in
              thn (whenM (currentNotif \<noteq> '''')
                    (orFail (finalizerCall E (ManageSecretConsumerFinalizer (Namespace (Meta instance)) currentNotif
                       TransportConsumerFinalizer))))
                  (ret (current, currentNotif)))))))))"

definition jsonRpcTransport :: "condLib \<Rightarrow> env \<Rightarrow> Ironic \<Rightarrow> (string \<times> string) iact" where
  "jsonRpcTransport L E instance =
     bnd getObj (\<lambda>i.
     thn (whenM (st_TransportURLSecret (Status i) \<noteq> '''')
           (orFail (finalizerCall E (RemoveSecretConsumerFinalizer (Namespace (Meta instance))
              (st_TransportURLSecret (Status i)) TransportConsumerFinalizer))))
    (thn (whenM (st_NotificationsURLSecret (Status i) \<noteq> None \<and> optText (st_NotificationsURLSecret (Status i)) \<noteq> '''')
           (orFail (finalizerCall E (RemoveSecretConsumerFinalizer (Namespace (Meta instance))
              (optText (st_NotificationsURLSecret (Status i))) TransportConsumerFinalizer))))
    (thn (modStatus (\<lambda>st. st\<lparr>st_TransportURLSecret := '''', st_NotificationsURLSecret := None\<rparr>))
    (thn (markTrue L ''RabbitMqTransportURLReadyCondition'' [''RabbitMqTransportURL disabled''])
         (ret ('''', ''''))))))"

definition transportSection :: "condLib \<Rightarrow> env \<Rightarrow> Ironic \<Rightarrow> (string \<times> string) iact" where
  "transportSection L E instance =
     (if RPCTransport (Spec instance) = ''oslo'' then osloTransport L E instance
      else jsonRpcTransport L E instance)"

section \<open>Input secret, Keystone, database\<close>

definition inputSecretSection :: "condLib \<Rightarrow> env \<Rightarrow> Ironic \<Rightarrow> (string \<rightharpoonup> string) iact" where
  "inputSecretSection L E instance =
     bnd (ask (VerifySecretFields (Namespace (Meta instance)) (Secret (Spec instance))
                 (ps_Service (PasswordSelectors (Spec instance))))
            (\<lambda>cs. on_VerifySecretFields E cs (Namespace (Meta instance)) (Secret (Spec instance))
                 (ps_Service (PasswordSelectors (Spec instance))))) (\<lambda>(hash, ctrlResult, err).
     case err of
       Some e \<Rightarrow> thn (setCond L (errorCondition L E ''InputReadyCondition'' ''InputReadyErrorMessage'' e))
                     (exit (ctrlResult, Some e))
     | None \<Rightarrow>
         if ctrlResult \<noteq> emptyResult then
           thn (setCond L (FalseCondition L ''InputReadyCondition'' ''ErrorReason'' ''SeverityWarning''
                  [''InputReadyWaitingMessage'']))
               (exit (ctrlResult, None))
         else
           thn (markTrue L ''InputReadyCondition'' [''InputReadyMessage''])
               (ret (Map.empty(Secret (Spec instance) \<mapsto> hash))))"

definition keystoneSection :: "env \<Rightarrow> Ironic \<Rightarrow> (KeystoneEndpoints \<times> string) iact" where
  "keystoneSection E instance =
     (if \<not> Standalone (Spec instance) then
        bnd (getOrFail (ask (GetKeystoneAPI (Namespace (Meta instance)))
               (\<lambda>cs. on_GetKeystoneAPI E cs (Namespace (Meta instance))))) (\<lambda>keystoneAPI.
        bnd (getOrFail (ret (ks_Endpoint keystoneAPI ''internal''))) (\<lambda>internal.
        bnd (getOrFail (ret (ks_Endpoint keystoneAPI ''public''))) (\<lambda>public.
        ret (\<lparr>ke_Internal = internal, ke_Public = public\<rparr>, ks_Region keystoneAPI))))
      else ret (\<lparr>ke_Internal = '''', ke_Public = ''''\<rparr>, ''''))"

definition databaseFor :: "Ironic \<Rightarrow> newDatabase" where
  "databaseFor instance =
     \<lparr>nd_Instance = DatabaseInstance (Spec instance), nd_Name = DatabaseName, nd_CRName = DatabaseCRName,
      nd_Account = DatabaseAccount (Spec instance), nd_Namespace = Namespace (Meta instance)\<rparr>"

definition ensureDB :: "condLib \<Rightarrow> env \<Rightarrow> Ironic \<Rightarrow> (Ironic, call, result \<times> goerr option, Database) act" where
  "ensureDB L E instance =
     bnd (ask (EnsureMariaDBAccount (DatabaseAccount (Spec instance)) (Namespace (Meta instance)) ''ironic'')
            (\<lambda>cs. on_EnsureMariaDBAccount E cs (DatabaseAccount (Spec instance)) (Namespace (Meta instance)) ''ironic'')) (\<lambda>err.
     case err of
       Some e \<Rightarrow> failWith L E ''MariaDBAccountReadyCondition'' ''MariaDBAccountNotReadyMessage'' e
     | None \<Rightarrow>
         thn (markTrue L ''MariaDBAccountReadyCondition'' [''MariaDBAccountReadyMessage''])
        (bnd (ask (CreateOrPatchAllDB (databaseFor instance))
               (\<lambda>cs. on_CreateOrPatchAllDB E cs (databaseFor instance))) (\<lambda>(ctrlResult, err).
         case err of
           Some e \<Rightarrow> failWith L E ''DBReadyCondition'' ''DBReadyErrorMessage'' e
         | None \<Rightarrow>
             if ctrlResult \<noteq> emptyResult then
               thn (setCond L (requestedCondition L ''DBReadyCondition'' ''DBReadyRunningMessage''))
                   (exit (ctrlResult, None))
             else
               bnd (ask WaitForDBCreated (on_WaitForDBCreated E)) (\<lambda>(ctrlResult, err, db).
               case err of
                 Some e \<Rightarrow> failWith L E ''DBReadyCondition'' ''DBReadyErrorMessage'' e
               | None \<Rightarrow>
                   if ctrlResult \<noteq> emptyResult then
                     thn (setCond L (requestedCondition L ''DBReadyCondition'' ''DBReadyRunningMessage''))
                         (exit (ctrlResult, None))
                   else
                     thn (modStatus (\<lambda>st. st\<lparr>st_DatabaseHostname := db_Hostname db\<rparr>))
                    (thn (markTrue L ''DBReadyCondition'' [''DBReadyMessage''])
                         (ret db))))))"

section \<open>Configuration\<close>

definition databaseConnection :: "Database \<Rightarrow> string \<Rightarrow> string \<Rightarrow> string" where
  "databaseConnection db host name =
     ''mysql+pymysql://'' @ db_UserName db @ '':'' @ db_Password db @ ''@'' @ host @ ''/'' @ name
       @ ''?read_default_file=/etc/my.cnf''"

text \<open>The keystone part of the template parameters.\<close>

definition authParams ::
  "env \<Rightarrow> Ironic \<Rightarrow> KeystoneEndpoints \<Rightarrow> string \<Rightarrow> templateParams \<Rightarrow>
   (Ironic, call, goerr option \<times> (string \<rightharpoonup> string), templateParams) act" where
  "authParams E instance keystoneEndpoints keystoneRegion tp =
     (if \<not> Standalone (Spec instance) then
        bnd (getSecret E (Secret (Spec instance)) (Namespace (Meta instance))) (\<lambda>s.
          case s of
            Inl err \<Rightarrow> exit (Some err, Map.empty)
          | Inr ospSecret \<Rightarrow>
              (let tp = tp(''KeystoneInternalURL'' \<mapsto> TVString (ke_Internal keystoneEndpoints),
                           ''KeystonePublicURL'' \<mapsto> TVString (ke_Public keystoneEndpoints),
                           ''ServiceUser'' \<mapsto> TVString (ServiceUser (Spec instance)),
                           ''ServicePassword'' \<mapsto>
                              TVString (dataText ospSecret (ps_Service (PasswordSelectors (Spec instance)))));
                   tp = (if keystoneRegion \<noteq> '''' then tp(''Region'' \<mapsto> TVString keystoneRegion) else tp)
               in bnd (setApplicationCredentialParams E (ApplicationCredentialSecret (Auth (Spec instance)))
                         (Namespace (Meta instance)) tp) (\<lambda>(tp, err).
                  if err \<noteq> None then exit (err, Map.empty) else ret tp)))
      else ret (tp(''IronicPublicURL'' \<mapsto> TVString '''')))"

text \<open>The error, or the input hashes with those of the secrets written; on an error
  the hashes are not used.\<close>

definition generateServiceConfigMaps ::
  "env \<Rightarrow> Ironic \<Rightarrow> (string \<rightharpoonup> string) \<Rightarrow> KeystoneEndpoints \<Rightarrow> string \<Rightarrow> Database \<Rightarrow> string \<Rightarrow>
   (Ironic, call, goerr option \<times> (string \<rightharpoonup> string), goerr option \<times> (string \<rightharpoonup> string)) act" where
  "generateServiceConfigMaps E instance envVars keystoneEndpoints keystoneRegion db transportURLSecretName =
     (let ns = Namespace (Meta instance);
          useTls = CaBundleSecretName (api_TLS (sp_IronicAPI (Spec instance))) \<noteq> '''';
          customData = Map.empty(''02-ironic-custom.conf'' \<mapsto> sp_CustomServiceConfig (Spec instance),
                                 ''my.cnf'' \<mapsto> db_ClientConfig db useTls)
                       ++ sp_DefaultConfigOverwrite (Spec instance);
          tp = Map.empty(''RPCTransport'' \<mapsto> TVString (RPCTransport (Spec instance)), ''ConductorGroup'' \<mapsto> TVNil)
      in bnd (getTransportURL E instance transportURLSecretName) (\<lambda>r.
         case r of
           Inl err \<Rightarrow> exit (Some err, envVars)
         | Inr transportURL \<Rightarrow>
         bnd getObj (\<lambda>i.
         bnd (getNotificationsTransportURL E (st_NotificationsURLSecret (Status i)) transportURL ns
                (tp(''TransportURL'' \<mapsto> TVString transportURL))) (\<lambda>(tp, err).
         if err \<noteq> None then exit (err, envVars)
         else
         bnd (if RPCTransport (Spec instance) = ''oslo''
              then getQuorumQueues E transportURLSecretName ns else ret (Inr False)) (\<lambda>q.
         case q of
           Inl err \<Rightarrow> exit (Some err, envVars)
         | Inr quorumQueues \<Rightarrow>
         bnd (authParams E instance keystoneEndpoints keystoneRegion
                (tp(''QuorumQueues'' \<mapsto> TVBool quorumQueues))) (\<lambda>tp.
         let tp = tp(''Standalone'' \<mapsto> TVBool (Standalone (Spec instance)),
                     ''DefaultInspectInterface'' \<mapsto> TVString (getInspectInterface (Annotations (Meta instance))),
                     ''LogPath'' \<mapsto> TVString LogPath,
                     ''APITimeout'' \<mapsto> TVInt (APITimeout (Spec instance)),
                     ''DatabaseConnection'' \<mapsto>
                        TVString (databaseConnection db (st_DatabaseHostname (Status i)) DatabaseName));
             cms = [\<lparr>tm_Name = Name (Meta instance) @ ''-scripts'', tm_Namespace = ns,
                      tm_Type = ''TemplateTypeScripts'', tm_InstanceType = Kind (Meta instance),
                      tm_CustomData = Map.empty, tm_ConfigOptions = Map.empty,
                      tm_AdditionalTemplate = [(''common.sh'', ''/common/bin/common.sh''),
                                               (''init.sh'', ''/common/bin/ironic-init.sh'')],
                      tm_CommonTemplates = [], tm_Labels = GetLabels E ServiceName\<rparr>,
                    \<lparr>tm_Name = Name (Meta instance) @ ''-config-data'', tm_Namespace = ns,
                      tm_Type = ''TemplateTypeConfig'', tm_InstanceType = Kind (Meta instance),
                      tm_CustomData = customData, tm_ConfigOptions = tp,
                      tm_AdditionalTemplate = [(''ironic.conf'', ''/common/config/ironic.conf'')],
                      tm_CommonTemplates = [], tm_Labels = GetLabels E ServiceName\<rparr>]
         in bnd (ask (EnsureSecrets cms) (\<lambda>cs. on_EnsureSecrets E cs cms envVars)) (\<lambda>r.
            case r of Inl err \<Rightarrow> ret (Some err, envVars) | Inr envVars' \<Rightarrow> ret (None, envVars'))))))))"

definition createHashOfInputHashes ::
  "env \<Rightarrow> (string \<rightharpoonup> string) \<Rightarrow> (Ironic, call, 'r, string \<times> bool \<times> goerr option) act" where
  "createHashOfInputHashes E envVars =
     (case EnvHash E envVars of
        Inl err \<Rightarrow> ret ('''', False, Some err)
      | Inr hash \<Rightarrow>
          bnd getObj (\<lambda>i.
            let (hashMap, changed) = SetHash E (st_Hash (Status i)) ''InputHashName'' hash in
            thn (whenM changed (modStatus (\<lambda>st. st\<lparr>st_Hash := hashMap\<rparr>)))
                (ret (hash, changed, None))))"

text \<open>Configuration, the overall hash (a changed hash ends the reconcile), and the
  finalizers on the application credential secrets.\<close>

definition configSection ::
  "condLib \<Rightarrow> env \<Rightarrow> Ironic \<Rightarrow> (string \<rightharpoonup> string) \<Rightarrow> KeystoneEndpoints \<Rightarrow> string \<Rightarrow> Database \<Rightarrow> string \<Rightarrow> unit iact" where
  "configSection L E instance configMapVars keystoneEndpoints keystoneRegion db transportURLSecretName =
     bnd (func (generateServiceConfigMaps E instance configMapVars keystoneEndpoints keystoneRegion db
            transportURLSecretName)) (\<lambda>(err, configMapVars).
     case err of
       Some e \<Rightarrow> failWith L E ''ServiceConfigReadyCondition'' ''ServiceConfigReadyErrorMessage'' e
     | None \<Rightarrow>
     bnd (createHashOfInputHashes E configMapVars) (\<lambda>(_, hashChanged, err).
     case err of
       Some e \<Rightarrow> failWith L E ''ServiceConfigReadyCondition'' ''ServiceConfigReadyErrorMessage'' e
     | None \<Rightarrow>
         if hashChanged then exit (emptyResult, None) else ret ()))"

definition manageACSecret :: "condLib \<Rightarrow> env \<Rightarrow> Ironic \<Rightarrow> string \<Rightarrow> string \<Rightarrow> unit iact" where
  "manageACSecret L E instance secretName fin =
     whenM (secretName \<noteq> '''')
       (bnd (finalizerCall E (ManageSecretConsumerFinalizer (Namespace (Meta instance)) secretName fin)) (\<lambda>err.
          case err of
            None \<Rightarrow> ret ()
          | Some e \<Rightarrow> failWith L E ''ServiceConfigReadyCondition'' ''ServiceConfigReadyErrorMessage'' e))"

definition acSecretSection :: "condLib \<Rightarrow> env \<Rightarrow> Ironic \<Rightarrow> unit iact" where
  "acSecretSection L E instance =
     thn (manageACSecret L E instance (ApplicationCredentialSecret (Auth (Spec instance))) ACConsumerFinalizer)
    (thn (manageACSecret L E instance
            (ApplicationCredentialSecret (ins_Auth (sp_IronicInspector (Spec instance)))) InspectorACConsumerFinalizer)
         (markTrue L ''ServiceConfigReadyCondition'' [''ServiceConfigReadyMessage'']))"

definition reconcileUpgrade :: "condLib \<Rightarrow> env \<Rightarrow> podLib \<Rightarrow> (string \<rightharpoonup> string) \<Rightarrow> (Ironic, call, ret, ret) act" where
  "reconcileUpgrade L E P serviceLabels =
     bnd getObj (\<lambda>instance.
     let dbSyncHash = (case st_Hash (Status instance) of None \<Rightarrow> None | Some h \<Rightarrow> h DbSyncHash);
         jobDef = DbSyncJob P instance serviceLabels
     in bnd (ask (DoJob jobDef dbSyncHash) (\<lambda>cs. on_DoJob E cs jobDef dbSyncHash)) (\<lambda>(ctrlResult, err, newHash).
        if ctrlResult \<noteq> emptyResult then
          thn (setCond L (requestedCondition L ''DBSyncReadyCondition'' ''DBSyncReadyRunningMessage''))
              (exit (ctrlResult, None))
        else case err of
          Some e \<Rightarrow> failWith L E ''DBSyncReadyCondition'' ''DBSyncReadyErrorMessage'' e
        | None \<Rightarrow>
            thn (case newHash of
                   None \<Rightarrow> ret ()
                 | Some h \<Rightarrow> modStatus (\<lambda>st. st\<lparr>st_Hash := map_option (\<lambda>m. m(DbSyncHash \<mapsto> h)) (st_Hash st)\<rparr>))
           (thn (markTrue L ''DBSyncReadyCondition'' [''DBSyncReadyMessage''])
                (ret (emptyResult, None)))))"

section \<open>The sub-resources\<close>

text \<open>\<open>strings.ToLower\<close> on ASCII text.\<close>

definition toLowerChar :: "char \<Rightarrow> char" where
  "toLowerChar c = (let n = of_char c :: nat in if 65 \<le> n \<and> n \<le> 90 then char_of (n + 32) else c)"

definition ToLower :: "string \<Rightarrow> string" where
  "ToLower = map toLowerChar"

definition conductorName :: "string \<Rightarrow> 'a IronicConductorTemplate_scheme \<Rightarrow> string" where
  "conductorName instanceName conductorSpec =
     (let name = instanceName @ ''-'' @ ConductorComponent in
      if ConductorGroup conductorSpec \<noteq> ''''
      then ToLower (name @ ''-'' @ ConductorGroup conductorSpec) else name)"

definition conductorSpecFor ::
  "Ironic \<Rightarrow> IronicConductorTemplate \<Rightarrow> KeystoneEndpoints \<Rightarrow> string \<Rightarrow> string \<Rightarrow> IronicConductorSpec" where
  "conductorSpecFor instance conductorSpec keystoneEndpoints keystoneRegion transportURLSecretName =
     (let sp = Spec instance;
          c = IronicConductorTemplate.extend conductorSpec
            \<lparr>cs_ContainerImage = im_Conductor (Images sp),
             cs_Standalone = Standalone sp,
             cs_PxeContainerImage = im_Pxe (Images sp),
             cs_IronicPythonAgentImage = im_IronicPythonAgent (Images sp),
             cs_ServiceUser = ServiceUser sp,
             cs_Secret = Secret sp,
             cs_PasswordSelectors = PasswordSelectors sp,
             cs_DatabaseHostname = st_DatabaseHostname (Status instance),
             cs_DatabaseAccount = DatabaseAccount sp,
             cs_TransportURLSecret = transportURLSecretName,
             cs_NotificationsURLSecret = optText (st_NotificationsURLSecret (Status instance)),
             cs_RPCTransport = RPCTransport sp,
             cs_KeystoneEndpoints = keystoneEndpoints,
             cs_Region = keystoneRegion,
             cs_TLS = tls_Ca (api_TLS (sp_IronicAPI sp)),
             cs_GraphicalConsoles = '''', cs_NoVNCProxyImage = '''', cs_ConsoleImage = '''',
             cs_Auth = Auth sp\<rparr>;
          c = (if NodeSelector c = None then c\<lparr>NodeSelector := sp_NodeSelector sp\<rparr> else c)
      in if TopologyRef c = None then c\<lparr>TopologyRef := sp_TopologyRef sp\<rparr> else c)"

text \<open>The annotations the callbacks write on a sub-resource.\<close>

definition inputHashAnnotation :: string where
  "inputHashAnnotation = ''openstack.org/input-secret-hash''"

definition annotate :: "Ironic \<Rightarrow> string \<Rightarrow> ObjectMeta \<Rightarrow> ObjectMeta" where
  "annotate instance expectedInputHash m =
     (let a = (case Annotations m of None \<Rightarrow> Map.empty | Some a \<Rightarrow> a);
          a = a(inputHashAnnotation \<mapsto> expectedInputHash);
          a = (case (case Annotations (Meta instance) of None \<Rightarrow> None
                     | Some b \<Rightarrow> b IronicInspectInterfaceAnnotation) of
                 None \<Rightarrow> a | Some val \<Rightarrow> a(IronicInspectInterfaceAnnotation \<mapsto> val))
      in m\<lparr>Annotations := Some a\<rparr>)"

text \<open>The callback that brings a conductor object to its desired state.\<close>

definition conductorMutate ::
  "env \<Rightarrow> Ironic \<Rightarrow> IronicConductorTemplate \<Rightarrow> KeystoneEndpoints \<Rightarrow> string \<Rightarrow> string \<Rightarrow> string \<Rightarrow>
   IronicConductor \<Rightarrow> goerr + IronicConductor" where
  "conductorMutate E instance conductorSpec keystoneEndpoints keystoneRegion transportURLSecretName
     expectedInputHash deployment =
     (let c = conductorSpecFor instance conductorSpec keystoneEndpoints keystoneRegion transportURLSecretName;
          c = (if con_StorageClass c = '''' then c\<lparr>con_StorageClass := StorageClass (Spec instance)\<rparr> else c)
      in cr_SetController (conductors E) (Meta instance)
           (deployment\<lparr>con_Spec := c, con_Meta := annotate instance expectedInputHash (con_Meta deployment)\<rparr>))"

definition conductorDeploymentCreateOrUpdate ::
  "env \<Rightarrow> Ironic \<Rightarrow> IronicConductorTemplate \<Rightarrow> KeystoneEndpoints \<Rightarrow> string \<Rightarrow> string \<Rightarrow> string \<Rightarrow>
   (Ironic, call, 'r, goerr + (IronicConductor \<times> opResult)) act" where
  "conductorDeploymentCreateOrUpdate E instance conductorSpec keystoneEndpoints keystoneRegion
     transportURLSecretName expectedInputHash =
     createOrUpdate (conductors E) ''IronicConductor'' StoreConductor
       (conductorName (Name (Meta instance)) conductorSpec) (Namespace (Meta instance))
       (conductorMutate E instance conductorSpec keystoneEndpoints keystoneRegion transportURLSecretName
          expectedInputHash)"

definition apiSpecFor :: "Ironic \<Rightarrow> KeystoneEndpoints \<Rightarrow> string \<Rightarrow> string \<Rightarrow> IronicAPISpec" where
  "apiSpecFor instance keystoneEndpoints keystoneRegion transportURLSecretName =
     (let sp = Spec instance;
          a = IronicAPITemplate.extend (sp_IronicAPI sp)
            \<lparr>as_ContainerImage = im_API (Images sp),
             as_Standalone = Standalone sp,
             as_ServiceUser = ServiceUser sp,
             as_Secret = Secret sp,
             as_PasswordSelectors = PasswordSelectors sp,
             as_DatabaseHostname = st_DatabaseHostname (Status instance),
             as_DatabaseAccount = DatabaseAccount sp,
             as_TransportURLSecret = transportURLSecretName,
             as_NotificationsURLSecret = optText (st_NotificationsURLSecret (Status instance)),
             as_RPCTransport = RPCTransport sp,
             as_KeystoneEndpoints = keystoneEndpoints,
             as_Region = keystoneRegion,
             as_APITimeout = 0,
             as_Auth = Auth sp\<rparr>;
          a = (if NodeSelector a = None then a\<lparr>NodeSelector := sp_NodeSelector sp\<rparr> else a);
          a = (if TopologyRef a = None then a\<lparr>TopologyRef := sp_TopologyRef sp\<rparr> else a)
      in if as_APITimeout a = 0 then a\<lparr>as_APITimeout := APITimeout sp\<rparr> else a)"

definition apiMutate ::
  "env \<Rightarrow> Ironic \<Rightarrow> KeystoneEndpoints \<Rightarrow> string \<Rightarrow> string \<Rightarrow> string \<Rightarrow> IronicAPI \<Rightarrow> goerr + IronicAPI" where
  "apiMutate E instance keystoneEndpoints keystoneRegion transportURLSecretName expectedInputHash deployment =
     cr_SetController (apis E) (Meta instance)
       (deployment\<lparr>api_Spec := apiSpecFor instance keystoneEndpoints keystoneRegion transportURLSecretName,
                   api_Meta := annotate instance expectedInputHash (api_Meta deployment)\<rparr>)"

definition apiDeploymentCreateOrUpdate ::
  "env \<Rightarrow> Ironic \<Rightarrow> KeystoneEndpoints \<Rightarrow> string \<Rightarrow> string \<Rightarrow> string \<Rightarrow>
   (Ironic, call, 'r, goerr + (IronicAPI \<times> opResult)) act" where
  "apiDeploymentCreateOrUpdate E instance keystoneEndpoints keystoneRegion transportURLSecretName
     expectedInputHash =
     createOrUpdate (apis E) ''IronicAPI'' StoreAPI
       (Name (Meta instance) @ ''-api'') (Namespace (Meta instance))
       (apiMutate E instance keystoneEndpoints keystoneRegion transportURLSecretName expectedInputHash)"

text \<open>\<open>W\<close> holds \<open>DefaultRabbitMqConfig\<close>, which the defaulting of the spec calls.\<close>

definition inspectorSpecFor :: "webhookLib \<Rightarrow> Ironic \<Rightarrow> IronicInspectorSpec" where
  "inspectorSpecFor W instance =
     (let sp = Spec instance;
          i = IronicInspectorTemplate.extend (sp_IronicInspector sp)
            \<lparr>is_Standalone = Standalone sp,
             is_ContainerImage = im_Inspector (Images sp),
             is_PxeContainerImage = im_Pxe (Images sp),
             is_IronicPythonAgentImage = im_IronicPythonAgent (Images sp),
             is_DatabaseInstance = DatabaseInstance sp,
             is_Secret = Secret sp,
             is_RabbitMqClusterName = RabbitMqClusterName sp,
             is_MessagingBus = \<lparr>rmq_User = '''', rmq_Vhost = '''', rmq_Cluster = ''''\<rparr>,
             is_NotificationsBus = None,
             is_RPCTransport = RPCTransport sp,
             is_APITimeout = 0\<rparr>;
          i = (if ins_NodeSelector i = None then i\<lparr>ins_NodeSelector := sp_NodeSelector sp\<rparr> else i);
          i = (if ins_TopologyRef i = None then i\<lparr>ins_TopologyRef := sp_TopologyRef sp\<rparr> else i);
          i = (if is_APITimeout i = 0 then i\<lparr>is_APITimeout := APITimeout sp\<rparr> else i)
      in Inspector_Default W i)"

definition inspectorDeploymentCreateOrUpdate ::
  "env \<Rightarrow> webhookLib \<Rightarrow> Ironic \<Rightarrow> (Ironic, call, 'r, goerr + (IronicInspector \<times> opResult)) act" where
  "inspectorDeploymentCreateOrUpdate E W instance =
     createOrUpdate (inspectors E) ''IronicInspector'' StoreInspector
       (Name (Meta instance) @ ''-inspector'') (Namespace (Meta instance))
       (\<lambda>deployment. cr_SetController (inspectors E) (Meta instance)
          (deployment\<lparr>ins_Spec := inspectorSpecFor W instance\<rparr>))"

definition neutronAgentSpecFor :: "Ironic \<Rightarrow> IronicNeutronAgentSpec" where
  "neutronAgentSpecFor instance =
     (let sp = Spec instance;
          a = IronicNeutronAgentTemplate.extend (sp_IronicNeutronAgent sp)
            \<lparr>ns_ContainerImage = im_NeutronAgent (Images sp),
             ns_ServiceUser = ServiceUser sp,
             ns_Secret = Secret sp,
             ns_PasswordSelectors = PasswordSelectors sp,
             ns_TLS = tls_Ca (api_TLS (sp_IronicAPI sp)),
             ns_Auth = Auth sp\<rparr>;
          a = (if NodeSelector a = None then a\<lparr>NodeSelector := sp_NodeSelector sp\<rparr> else a)
      in if TopologyRef a = None then a\<lparr>TopologyRef := sp_TopologyRef sp\<rparr> else a)"

definition ironicNeutronAgentDeploymentCreateOrUpdate ::
  "env \<Rightarrow> Ironic \<Rightarrow> (Ironic, call, 'r, goerr + (IronicNeutronAgent \<times> opResult)) act" where
  "ironicNeutronAgentDeploymentCreateOrUpdate E instance =
     createOrUpdate (agents E) ''IronicNeutronAgent'' StoreNeutronAgent
       (Name (Meta instance) @ ''-ironic-neutron-agent'') (Namespace (Meta instance))
       (\<lambda>deployment. cr_SetController (agents E) (Meta instance)
          (deployment\<lparr>na_Spec := neutronAgentSpecFor instance\<rparr>))"

text \<open>Deleting a sub-resource: \<open>fresh\<close> is the object with only its name, which the
  instance must be able to own. \<open>None\<close> is success.\<close>

definition deleteSubResource ::
  "env \<Rightarrow> Ironic \<Rightarrow> 'x crud \<Rightarrow> string \<Rightarrow> string \<Rightarrow> 'x \<Rightarrow> (Ironic \<Rightarrow> Ironic) \<Rightarrow>
   (Ironic, call, goerr option, goerr option) act" where
  "deleteSubResource E instance C kind name fresh cleanup =
     (case cr_SetController C (Meta instance) fresh of
        Inl err \<Rightarrow> ret (Some err)
      | Inr _ \<Rightarrow>
          bnd (ask (Fetch kind name (Namespace (Meta instance)))
                 (\<lambda>cs. cr_Get C cs name (Namespace (Meta instance)))) (\<lambda>got.
          case got of
            Inl err \<Rightarrow> if isNotFound E err then ret None else ret (Some err)
          | Inr _ \<Rightarrow>
              bnd (ask (Delete kind name (Namespace (Meta instance)))
                     (\<lambda>cs. on_Delete E cs kind name (Namespace (Meta instance)))) (\<lambda>err.
              case err of
                Some e \<Rightarrow> ret (Some e)
              | None \<Rightarrow> thn (modObj cleanup) (ret None))))"

definition inspectorDeploymentDelete ::
  "condLib \<Rightarrow> env \<Rightarrow> Ironic \<Rightarrow> IronicInspector \<Rightarrow> (Ironic, call, goerr option, goerr option) act" where
  "inspectorDeploymentDelete L E instance fresh =
     deleteSubResource E instance (inspectors E) ''IronicInspector'' (Name (Meta instance) @ ''-inspector'') fresh
       (\<lambda>i. Ironic_updConds (cl_Remove L ''IronicInspectorReady'')
          (i\<lparr>Status := (Status i)\<lparr>
               st_APIEndpoints := map_option (\<lambda>m. m(''ironic-inspector'' := None)) (st_APIEndpoints (Status i)),
               st_InspectorReadyCount := 0\<rparr>\<rparr>))"

definition ironicNeutronAgentDeploymentDelete ::
  "condLib \<Rightarrow> env \<Rightarrow> Ironic \<Rightarrow> IronicNeutronAgent \<Rightarrow> (Ironic, call, goerr option, goerr option) act" where
  "ironicNeutronAgentDeploymentDelete L E instance fresh =
     deleteSubResource E instance (agents E) ''IronicNeutronAgent''
       (Name (Meta instance) @ ''-ironic-neutron-agent'') fresh
       (\<lambda>i. Ironic_updConds (cl_Remove L ''IronicNeutronAgentReady'')
          (i\<lparr>Status := (Status i)\<lparr>st_IronicNeutronAgentReadyCount := 0\<rparr>\<rparr>))"

section \<open>Deploying the services\<close>

definition mirrorFrom :: "condLib \<Rightarrow> string \<Rightarrow> conditions \<Rightarrow> unit iact" where
  "mirrorFrom L t remote =
     (case cl_Mirror L t remote of None \<Rightarrow> ret () | Some c \<Rightarrow> setCond L c)"

text \<open>A conductor counts as up to date when it has seen its generation and applied
  the expected input.\<close>

definition conductorCurrent :: "string \<Rightarrow> IronicConductor \<Rightarrow> bool" where
  "conductorCurrent expectedInputHash c \<longleftrightarrow>
     Generation (con_Meta c) = cst_ObservedGeneration (con_Status c) \<and>
     cst_AppliedInputSecretHash (con_Status c) = expectedInputHash"

definition apiCurrent :: "string \<Rightarrow> IronicAPI \<Rightarrow> bool" where
  "apiCurrent expectedInputHash a \<longleftrightarrow>
     Generation (api_Meta a) = ast_ObservedGeneration (api_Status a) \<and>
     ast_AppliedInputSecretHash (api_Status a) = expectedInputHash"

text \<open>One round of the loop over the conductors; the accumulator is
  (\<open>allServicesReady\<close>, \<open>waitingConductorGenerationMatch\<close>).\<close>

definition deployConductor ::
  "condLib \<Rightarrow> env \<Rightarrow> KeystoneEndpoints \<Rightarrow> string \<Rightarrow> string \<Rightarrow> string \<Rightarrow>
   IronicConductorTemplate \<Rightarrow> bool \<times> bool \<Rightarrow> (bool \<times> bool) iact" where
  "deployConductor L E keystoneEndpoints keystoneRegion transportURLSecretName expectedInputHash
     conductorSpec acc =
     bnd getObj (\<lambda>instance.
     bnd (conductorDeploymentCreateOrUpdate E instance conductorSpec keystoneEndpoints keystoneRegion
            transportURLSecretName expectedInputHash) (\<lambda>r.
     case r of
       Inl err \<Rightarrow> failWith L E ''IronicConductorReady'' ''IronicConductorReadyErrorMessage'' err
     | Inr (ironicConductor, op) \<Rightarrow>
         if conductorCurrent expectedInputHash ironicConductor then
           (let condGrp = (if ConductorGroup conductorSpec = '''' then ConductorGroupNull
                           else ConductorGroup conductorSpec) in
            thn (modStatus (\<lambda>st. st\<lparr>st_IronicConductorReadyCount :=
                   (st_IronicConductorReadyCount st)(condGrp \<mapsto> cst_ReadyCount (con_Status ironicConductor))\<rparr>))
           (thn (mirrorFrom L ''IronicConductorReady'' (conds (cst_Conditions (con_Status ironicConductor))))
                (ret acc)))
         else ret (False, True)))"

definition deployConductors ::
  "condLib \<Rightarrow> env \<Rightarrow> Ironic \<Rightarrow> KeystoneEndpoints \<Rightarrow> string \<Rightarrow> string \<Rightarrow> string \<Rightarrow> bool iact" where
  "deployConductors L E instance keystoneEndpoints keystoneRegion transportURLSecretName expectedInputHash =
     bnd (foreach (sp_IronicConductors (Spec instance)) (True, False)
            (deployConductor L E keystoneEndpoints keystoneRegion transportURLSecretName expectedInputHash))
       (\<lambda>(allServicesReady, waiting).
     thn (whenM waiting (setCond L (requestedCondition L ''IronicConductorReady'' ''DeploymentReadyRunningMessage'')))
         (ret allServicesReady))"

text \<open>\<open>maps.Copy\<close> into the endpoints of the status; the map is made by \<open>Reconcile\<close>.\<close>

definition copyEndpoints :: "endpointMap option \<Rightarrow> IronicStatus \<Rightarrow> IronicStatus" where
  "copyEndpoints src st =
     st\<lparr>st_APIEndpoints := map_option (\<lambda>dst. dst ++ (case src of None \<Rightarrow> Map.empty | Some m \<Rightarrow> m))
          (st_APIEndpoints st)\<rparr>"

definition deployAPI ::
  "condLib \<Rightarrow> env \<Rightarrow> KeystoneEndpoints \<Rightarrow> string \<Rightarrow> string \<Rightarrow> string \<Rightarrow> bool \<Rightarrow> bool iact" where
  "deployAPI L E keystoneEndpoints keystoneRegion transportURLSecretName expectedInputHash allServicesReady =
     bnd getObj (\<lambda>instance.
     bnd (apiDeploymentCreateOrUpdate E instance keystoneEndpoints keystoneRegion transportURLSecretName
            expectedInputHash) (\<lambda>r.
     case r of
       Inl err \<Rightarrow> failWith L E ''IronicAPIReady'' ''IronicAPIReadyErrorMessage'' err
     | Inr (ironicAPI, op) \<Rightarrow>
         if apiCurrent expectedInputHash ironicAPI then
           thn (modStatus (\<lambda>st. (copyEndpoints (ast_APIEndpoints (api_Status ironicAPI)) st)
                  \<lparr>st_IronicAPIReadyCount := ast_ReadyCount (api_Status ironicAPI)\<rparr>))
          (thn (mirrorFrom L ''IronicAPIReady'' (conds (ast_Conditions (api_Status ironicAPI))))
               (ret allServicesReady))
         else
           thn (setCond L (requestedCondition L ''IronicAPIReady'' ''DeploymentReadyRunningMessage''))
               (ret False)))"

text \<open>Agent inspection forces the inspector's replicas to zero.\<close>

definition inspectInterfaceSection :: "Ironic \<Rightarrow> unit iact" where
  "inspectInterfaceSection instance =
     whenM (getInspectInterface (Annotations (Meta instance)) = ''agent'')
       (modObj (\<lambda>i. i\<lparr>Spec := (Spec i)\<lparr>sp_IronicInspector := (sp_IronicInspector (Spec i))\<lparr>ins_Replicas := Some 0\<rparr>\<rparr>\<rparr>))"

definition deployInspector ::
  "condLib \<Rightarrow> env \<Rightarrow> webhookLib \<Rightarrow> IronicInspector \<Rightarrow> bool \<Rightarrow> bool iact" where
  "deployInspector L E W fresh allServicesReady =
     bnd getObj (\<lambda>instance.
     case ins_Replicas (sp_IronicInspector (Spec instance)) of
       None \<Rightarrow> exit (emptyResult, Some ErrPanic)
     | Some replicas \<Rightarrow>
       if replicas \<noteq> 0 then
         bnd (inspectorDeploymentCreateOrUpdate E W instance) (\<lambda>r.
         case r of
           Inl err \<Rightarrow> failWith L E ''IronicInspectorReady'' ''IronicInspectorReadyErrorMessage'' err
         | Inr (ironicInspector, op) \<Rightarrow>
             if Generation (ins_Meta ironicInspector) = ist_ObservedGeneration (ins_Status ironicInspector) then
               thn (modStatus (\<lambda>st. (copyEndpoints (ist_APIEndpoints (ins_Status ironicInspector)) st)
                      \<lparr>st_InspectorReadyCount := ist_ReadyCount (ins_Status ironicInspector)\<rparr>))
              (thn (mirrorFrom L ''IronicInspectorReady'' (conds (ist_Conditions (ins_Status ironicInspector))))
                   (ret allServicesReady))
             else
               thn (setCond L (requestedCondition L ''IronicInspectorReady'' ''DeploymentReadyRunningMessage''))
                   (ret False))
       else
         bnd (func (inspectorDeploymentDelete L E instance fresh)) (\<lambda>err.
         case err of
           Some e \<Rightarrow> failWith L E ''IronicInspectorReady'' ''IronicInspectorReadyErrorMessage'' e
         | None \<Rightarrow> thn (markTrue L ''IronicInspectorReady'' ['''']) (ret allServicesReady)))"

definition deployNeutronAgent :: "condLib \<Rightarrow> env \<Rightarrow> IronicNeutronAgent \<Rightarrow> bool \<Rightarrow> bool iact" where
  "deployNeutronAgent L E fresh allServicesReady =
     bnd getObj (\<lambda>instance.
     case Replicas (sp_IronicNeutronAgent (Spec instance)) of
       None \<Rightarrow> exit (emptyResult, Some ErrPanic)
     | Some replicas \<Rightarrow>
       if replicas \<noteq> 0 then
         bnd (ironicNeutronAgentDeploymentCreateOrUpdate E instance) (\<lambda>r.
         case r of
           Inl err \<Rightarrow> failWith L E ''IronicNeutronAgentReady'' ''IronicNeutronAgentReadyErrorMessage'' err
         | Inr (ironicNeutronAgent, op) \<Rightarrow>
             if Generation (na_Meta ironicNeutronAgent) = nst_ObservedGeneration (na_Status ironicNeutronAgent) then
               thn (modStatus (\<lambda>st. st\<lparr>st_IronicNeutronAgentReadyCount := nst_ReadyCount (na_Status ironicNeutronAgent)\<rparr>))
              (thn (mirrorFrom L ''IronicNeutronAgentReady'' (conds (nst_Conditions (na_Status ironicNeutronAgent))))
                   (ret allServicesReady))
             else
               thn (setCond L (requestedCondition L ''IronicNeutronAgentReady'' ''DeploymentReadyRunningMessage''))
                   (ret False))
       else
         bnd (func (ironicNeutronAgentDeploymentDelete L E instance fresh)) (\<lambda>err.
         case err of
           Some e \<Rightarrow> failWith L E ''IronicNeutronAgentReady'' ''IronicNeutronAgentReadyErrorMessage'' e
         | None \<Rightarrow> thn (markTrue L ''IronicNeutronAgentReady'' ['''']) (ret allServicesReady)))"

section \<open>Finishing\<close>

definition finalizeRotation ::
  "env \<Rightarrow> string \<Rightarrow> string \<Rightarrow> string \<Rightarrow> string \<Rightarrow> bool \<Rightarrow> ('o, call, 'r, goerr + string) act" where
  "finalizeRotation E ns old new fin ready =
     ask (FinalizeSecretRotation ns old new fin ready)
       (\<lambda>cs. on_FinalizeSecretRotation E cs ns old new fin ready)"

definition acRotationSection :: "env \<Rightarrow> Ironic \<Rightarrow> bool \<Rightarrow> unit iact" where
  "acRotationSection E instance allServicesReady =
     bnd getObj (\<lambda>i.
     bnd (getOrFail (finalizeRotation E (Namespace (Meta instance))
            (st_ApplicationCredentialSecret (Status i))
            (ApplicationCredentialSecret (Auth (Spec instance)))
            ACConsumerFinalizer allServicesReady)) (\<lambda>acSecretName.
     thn (modStatus (\<lambda>st. st\<lparr>st_ApplicationCredentialSecret := acSecretName\<rparr>))
    (bnd (getOrFail (finalizeRotation E (Namespace (Meta instance))
            (st_InspectorApplicationCredentialSecret (Status i))
            (ApplicationCredentialSecret (ins_Auth (sp_IronicInspector (Spec instance))))
            InspectorACConsumerFinalizer allServicesReady)) (\<lambda>inspectorACSecretName.
     modStatus (\<lambda>st. st\<lparr>st_InspectorApplicationCredentialSecret := inspectorACSecretName\<rparr>)))))"

definition transportRotationSection ::
  "env \<Rightarrow> Ironic \<Rightarrow> string \<Rightarrow> string \<Rightarrow> bool \<Rightarrow> unit iact" where
  "transportRotationSection E instance oldTransportSecret currentTransportSecret allServicesReady =
     bnd (getOrFail (finalizeRotation E (Namespace (Meta instance)) oldTransportSecret currentTransportSecret
            TransportConsumerFinalizer allServicesReady)) (\<lambda>transportSecretName.
     modStatus (\<lambda>st. st\<lparr>st_TransportURLSecret := transportSecretName\<rparr>))"

definition notifRotationSection ::
  "env \<Rightarrow> Ironic \<Rightarrow> string \<Rightarrow> string \<Rightarrow> bool \<Rightarrow> unit iact" where
  "notifRotationSection E instance oldNotifSecret currentNotifSecret allServicesReady =
     (let ns = Namespace (Meta instance) in
      if currentNotifSecret \<noteq> '''' then
        bnd (getOrFail (finalizeRotation E ns oldNotifSecret currentNotifSecret
               TransportConsumerFinalizer allServicesReady)) (\<lambda>notifSecretName.
        modStatus (\<lambda>st. st\<lparr>st_NotificationsURLSecret := Some notifSecretName\<rparr>))
      else if oldNotifSecret \<noteq> '''' then
        (if allServicesReady then
           thn (orFail (finalizerCall E (RemoveSecretConsumerFinalizer ns oldNotifSecret TransportConsumerFinalizer)))
          (bnd (ask (Delete ''TransportURL'' (Name (Meta instance) @ ''-transport-notifications'') ns)
                 (\<lambda>cs. on_Delete E cs ''TransportURL'' (Name (Meta instance) @ ''-transport-notifications'') ns)) (\<lambda>err.
           if err \<noteq> None \<and> \<not> isNotFound E (the err) then exit (emptyResult, err)
           else modStatus (\<lambda>st. st\<lparr>st_NotificationsURLSecret := None\<rparr>)))
         else modStatus (\<lambda>st. st\<lparr>st_NotificationsURLSecret := Some oldNotifSecret\<rparr>))
      else modStatus (\<lambda>st. st\<lparr>st_NotificationsURLSecret := None\<rparr>))"

definition pruneSection :: "env \<Rightarrow> Ironic \<Rightarrow> string \<Rightarrow> string \<Rightarrow> unit iact" where
  "pruneSection E instance currentTransportSecret currentNotifSecret =
     bnd getObj (\<lambda>i.
     let ns = Namespace (Meta instance); notifKeep = optText (st_NotificationsURLSecret (Status i)) in
     thn (orFail (finalizerCall E (PruneSecretConsumerFinalizers ns TransportConsumerFinalizer
            [st_TransportURLSecret (Status i), currentTransportSecret, notifKeep, currentNotifSecret])))
    (thn (orFail (finalizerCall E (PruneSecretConsumerFinalizers ns ACConsumerFinalizer
            [st_ApplicationCredentialSecret (Status i), ApplicationCredentialSecret (Auth (Spec instance))])))
         (orFail (finalizerCall E (PruneSecretConsumerFinalizers ns InspectorACConsumerFinalizer
            [st_InspectorApplicationCredentialSecret (Status i),
             ApplicationCredentialSecret (ins_Auth (sp_IronicInspector (Spec instance)))])))))"

definition readySection :: "condLib \<Rightarrow> ret iact" where
  "readySection L =
     bnd getObj (\<lambda>i.
     thn (whenM (cl_AllSubConditionIsTrue L (conds (st_Conditions (Status i))))
           (markTrue L ''ReadyCondition'' [''ReadyMessage'']))
         (ret (emptyResult, None)))"

section \<open>reconcileNormal\<close>

text \<open>The deployment of all services and everything after it.\<close>

definition servicesSection ::
  "condLib \<Rightarrow> env \<Rightarrow> webhookLib \<Rightarrow> IronicInspector \<Rightarrow> IronicNeutronAgent \<Rightarrow> Ironic \<Rightarrow>
   KeystoneEndpoints \<Rightarrow> string \<Rightarrow> string \<Rightarrow> bool iact" where
  "servicesSection L E W freshInspector freshAgent instance keystoneEndpoints keystoneRegion
     transportURLSecretName =
     bnd getObj (\<lambda>i.
     bnd (getOrFail (ret (ObjectHash E [transportURLSecretName, optText (st_NotificationsURLSecret (Status i)),
            ApplicationCredentialSecret (Auth (Spec instance))]))) (\<lambda>expectedInputHash.
     bnd (deployConductors L E instance keystoneEndpoints keystoneRegion transportURLSecretName
            expectedInputHash) (\<lambda>ready.
     bnd (deployAPI L E keystoneEndpoints keystoneRegion transportURLSecretName expectedInputHash ready) (\<lambda>ready.
     thn (inspectInterfaceSection instance)
    (bnd (deployInspector L E W freshInspector ready) (\<lambda>ready.
     deployNeutronAgent L E freshAgent ready))))))"

definition finishSection ::
  "condLib \<Rightarrow> env \<Rightarrow> Ironic \<Rightarrow> string \<Rightarrow> string \<Rightarrow> string \<Rightarrow> string \<Rightarrow> bool \<Rightarrow> ret iact" where
  "finishSection L E instance oldTransportSecret currentTransportSecret oldNotifSecret currentNotifSecret
     allServicesReady =
     thn (orFail (ask (DeleteUnusedMariaDBAccountFinalizers DatabaseCRName (DatabaseAccount (Spec instance))
                         (Namespace (Meta instance)))
            (\<lambda>cs. on_DeleteUnusedMariaDBAccountFinalizers E cs DatabaseCRName (DatabaseAccount (Spec instance))
                    (Namespace (Meta instance)))))
    (thn (acRotationSection E instance allServicesReady)
    (thn (transportRotationSection E instance oldTransportSecret currentTransportSecret allServicesReady)
    (thn (notifRotationSection E instance oldNotifSecret currentNotifSecret allServicesReady)
    (thn (pruneSection E instance currentTransportSecret currentNotifSecret)
         (readySection L)))))"

definition rbacSection :: "env \<Rightarrow> Ironic \<Rightarrow> unit iact" where
  "rbacSection E instance =
     bnd getObj (\<lambda>i.
     bnd (ask (ReconcileRbac (Ironic_RbacResourceName instance) (Namespace (Meta instance)))
            (\<lambda>cs. on_ReconcileRbac E cs (Ironic_RbacResourceName instance) (Namespace (Meta instance))
                    (conds (st_Conditions (Status i))))) (\<lambda>((rbacResult, err), cs').
     thn (modObj (Ironic_updConds (\<lambda>_. cs')))
    (if err \<noteq> None then exit (rbacResult, err)
     else if rbacResult \<noteq> emptyResult then exit (rbacResult, None)
     else ret ())))"

text \<open>The function on the instance it was called with: \<open>instance\<close> is the value at
  the start, the object of the state is what the sections have made of it.\<close>

definition reconcileNormalFrom ::
  "condLib \<Rightarrow> env \<Rightarrow> podLib \<Rightarrow> webhookLib \<Rightarrow> IronicInspector \<Rightarrow> IronicNeutronAgent \<Rightarrow> Ironic \<Rightarrow> ret iact" where
  "reconcileNormalFrom L E P W freshInspector freshAgent instance =
     thn (rbacSection E instance)
    (thn (modStatus (\<lambda>st. st\<lparr>st_IronicConductorReadyCount := Map.empty\<rparr>))
    (let oldTransportSecret = st_TransportURLSecret (Status instance);
         oldNotifSecret = optText (st_NotificationsURLSecret (Status instance)) in
     bnd (transportSection L E instance) (\<lambda>(currentTransportSecret, currentNotifSecret).
     bnd (inputSecretSection L E instance) (\<lambda>configMapVars.
     bnd (keystoneSection E instance) (\<lambda>(keystoneEndpoints, keystoneRegion).
     bnd (ensureDB L E instance) (\<lambda>db.
     thn (configSection L E instance configMapVars keystoneEndpoints keystoneRegion db currentTransportSecret)
    (thn (acSecretSection L E instance)
    (bnd (func (reconcileUpgrade L E P [''AppSelector'' \<mapsto> ServiceName])) (\<lambda>(ctrlResult, err).
     if err \<noteq> None then exit (ctrlResult, err)
     else if ctrlResult \<noteq> emptyResult then exit (ctrlResult, None)
     else
       bnd (servicesSection L E W freshInspector freshAgent instance keystoneEndpoints keystoneRegion
              currentTransportSecret) (\<lambda>allServicesReady.
       finishSection L E instance oldTransportSecret currentTransportSecret oldNotifSecret currentNotifSecret
         allServicesReady))))))))))"

definition reconcileNormal ::
  "condLib \<Rightarrow> env \<Rightarrow> podLib \<Rightarrow> webhookLib \<Rightarrow> IronicInspector \<Rightarrow> IronicNeutronAgent \<Rightarrow> ret iact" where
  "reconcileNormal L E P W freshInspector freshAgent =
     bnd getObj (reconcileNormalFrom L E P W freshInspector freshAgent)"

section \<open>reconcileDelete\<close>

definition removeFinalizers :: "env \<Rightarrow> string \<Rightarrow> string \<Rightarrow> string list \<Rightarrow> unit iact" where
  "removeFinalizers E ns fin names =
     foreach names () (\<lambda>secretName _.
       orFail (finalizerCall E (RemoveSecretConsumerFinalizer ns secretName fin)))"

text \<open>The secret a live transport URL refers to, none when it does not exist.\<close>

definition liveTransportSecret :: "env \<Rightarrow> string \<Rightarrow> string \<Rightarrow> string list \<Rightarrow> string list iact" where
  "liveTransportSecret E ns tuName acc =
     bnd (ask (Fetch ''TransportURL'' tuName ns) (\<lambda>cs. cr_Get (tus E) cs tuName ns)) (\<lambda>got.
     case got of
       Inl err \<Rightarrow> if isNotFound E err then ret acc else exit (emptyResult, Some err)
     | Inr tu \<Rightarrow> ret (acc @ [tu_StatusSecretName tu]))"

definition reconcileDelete :: "env \<Rightarrow> ret iact" where
  "reconcileDelete E =
     bnd getObj (\<lambda>instance.
     let ns = Namespace (Meta instance); name = Name (Meta instance) in
     bnd (ask (GetDatabaseByNameAndAccount DatabaseCRName (DatabaseAccount (Spec instance)) ns)
            (\<lambda>cs. on_GetDatabase E cs DatabaseCRName (DatabaseAccount (Spec instance)) ns)) (\<lambda>db.
     thn (case db of
            Inl err \<Rightarrow> if isNotFound E err then ret () else exit (emptyResult, Some err)
          | Inr _ \<Rightarrow> orFail (ask DeleteDatabaseFinalizer (on_DeleteDatabaseFinalizer E)))
    (thn (removeFinalizers E ns ACConsumerFinalizer
            [st_ApplicationCredentialSecret (Status instance), ApplicationCredentialSecret (Auth (Spec instance))])
    (thn (removeFinalizers E ns InspectorACConsumerFinalizer
            [st_InspectorApplicationCredentialSecret (Status instance),
             ApplicationCredentialSecret (ins_Auth (sp_IronicInspector (Spec instance)))])
    (bnd (foreach [name @ ''-transport'', name @ ''-transport-notifications'']
            [st_TransportURLSecret (Status instance)] (liveTransportSecret E ns)) (\<lambda>transportSecrets.
     thn (removeFinalizers E ns TransportConsumerFinalizer
            (transportSecrets @ (case st_NotificationsURLSecret (Status instance) of None \<Rightarrow> [] | Some s \<Rightarrow> [s])))
    (thn (orFail (finalizerCall E (PruneSecretConsumerFinalizers ns TransportConsumerFinalizer [])))
    (thn (orFail (finalizerCall E (PruneSecretConsumerFinalizers ns ACConsumerFinalizer [])))
    (thn (orFail (finalizerCall E (PruneSecretConsumerFinalizers ns InspectorACConsumerFinalizer [])))
    (thn (modObj (\<lambda>i. i\<lparr>Meta := DropFinalizer E (Meta i)\<rparr>))
         (ret (emptyResult, None))))))))))))"

section \<open>Reconcile\<close>

definition initConditions :: "condLib \<Rightarrow> conditions" where
  "initConditions L = cl_CreateList L (map (\<lambda>(t, m). UnknownCondition L t ''InitReason'' [m])
     [(''ReadyCondition'', ''ReadyInitMessage''),
      (''DBReadyCondition'', ''DBReadyInitMessage''),
      (''DBSyncReadyCondition'', ''DBSyncReadyInitMessage''),
      (''InputReadyCondition'', ''InputReadyInitMessage''),
      (''ServiceConfigReadyCondition'', ''ServiceConfigReadyInitMessage''),
      (''IronicAPIReady'', ''IronicAPI not started''),
      (''IronicConductorReady'', ''IronicConductor not started''),
      (''IronicInspectorReady'', ''IronicInspector not started''),
      (''IronicNeutronAgentReady'', ''IronicNeutronAgent not started''),
      (''RabbitMqTransportURLReadyCondition'', ''RabbitMqTransportURLReadyInitMessage''),
      (''ServiceAccountReadyCondition'', ''ServiceAccountReadyInitMessage''),
      (''RoleReadyCondition'', ''RoleReadyInitMessage''),
      (''RoleBindingReadyCondition'', ''RoleBindingReadyInitMessage'')])"

text \<open>The deferred function: nothing on a panic; otherwise transition times, the
  mirrored Ready condition and the patch, whose error replaces the result's.\<close>

definition patchDeferred :: "condLib \<Rightarrow> env \<Rightarrow> conditions \<Rightarrow> ret \<Rightarrow> (Ironic, call, 'r, ret) act" where
  "patchDeferred L E savedConditions res =
     (if snd res = Some ErrPanic then ret res
      else
        thn (modObj (Ironic_updConds (\<lambda>cs. cl_RestoreLastTransitionTimes L cs savedConditions)))
       (bnd getObj (\<lambda>i.
        thn (whenM (cl_IsUnknown L ''ReadyCondition'' (conds (st_Conditions (Status i))))
              (case cl_Mirror L ''ReadyCondition'' (conds (st_Conditions (Status i))) of
                 None \<Rightarrow> ret () | Some c \<Rightarrow> setCond L c))
       (bnd getObj (\<lambda>i.
        bnd (ask (StoreIronic i) (\<lambda>cs. cr_Store (ironics E) cs i)) (\<lambda>r.
        case r of Inl err \<Rightarrow> ret (fst res, Some err) | Inr _ \<Rightarrow> ret res))))))"

definition reconcileBody ::
  "condLib \<Rightarrow> env \<Rightarrow> podLib \<Rightarrow> webhookLib \<Rightarrow> IronicInspector \<Rightarrow> IronicNeutronAgent \<Rightarrow> bool \<Rightarrow> ret iact" where
  "reconcileBody L E P W freshInspector freshAgent isNewInstance =
     thn (modObj (Ironic_updConds (cl_Init L (initConditions L))))
    (thn (modObj (\<lambda>i. i\<lparr>Status := (Status i)\<lparr>st_ObservedGeneration := Generation (Meta i)\<rparr>\<rparr>))
    (bnd getObj (\<lambda>i.
     let (meta', added) = (if DeletionTimestamp (Meta i) = None then AddFinalizer E (Meta i) else (Meta i, False)) in
     thn (modObj (\<lambda>i. i\<lparr>Meta := meta'\<rparr>))
    (if added \<or> isNewInstance then exit (emptyResult, None)
     else
       thn (modStatus (\<lambda>st. st\<lparr>st_Hash := Some (case st_Hash st of None \<Rightarrow> Map.empty | Some h \<Rightarrow> h),
              st_APIEndpoints := Some (case st_APIEndpoints st of None \<Rightarrow> Map.empty | Some h \<Rightarrow> h)\<rparr>))
      (bnd getObj (\<lambda>i.
       if DeletionTimestamp (Meta i) \<noteq> None then reconcileDelete E
       else reconcileNormal L E P W freshInspector freshAgent))))))"

definition Reconcile ::
  "condLib \<Rightarrow> env \<Rightarrow> podLib \<Rightarrow> webhookLib \<Rightarrow> IronicInspector \<Rightarrow> IronicNeutronAgent \<Rightarrow>
   (Ironic, call, ret, ret) act" where
  "Reconcile L E P W freshInspector freshAgent =
     bnd getObj (\<lambda>instance.
     let isNewInstance = (st_Conditions (Status instance) = None);
         savedConditions = conds (st_Conditions (Status instance)) in
     thn (whenM isNewInstance (modStatus (\<lambda>st. st\<lparr>st_Conditions := Some []\<rparr>)))
    (bnd (func (reconcileBody L E P W freshInspector freshAgent isNewInstance)) (\<lambda>res.
     patchDeferred L E savedConditions res)))"

text \<open>The entry point on a request: an instance that is gone is no error.
  \<open>newHelper\<close> is the error of making the helper.\<close>

definition ReconcileRequest ::
  "condLib \<Rightarrow> env \<Rightarrow> podLib \<Rightarrow> webhookLib \<Rightarrow> IronicInspector \<Rightarrow> IronicNeutronAgent \<Rightarrow>
   goerr + Ironic \<Rightarrow> goerr option \<Rightarrow> call list \<Rightarrow> ret \<times> call list" where
  "ReconcileRequest L E P W freshInspector freshAgent got newHelper cs =
     (case got of
        Inl err \<Rightarrow> if isNotFound E err then ((emptyResult, None), cs) else ((emptyResult, Some err), cs)
      | Inr instance \<Rightarrow>
          if newHelper \<noteq> None then ((emptyResult, newHelper), cs)
          else (case Reconcile L E P W freshInspector freshAgent \<lparr>obj = instance, calls = cs\<rparr> of
             (Continue res, s) \<Rightarrow> (res, calls s)
           | (Return res, s) \<Rightarrow> (res, calls s)))"

text \<open>\<open>findObjectForSrc\<close>: every Ironic of the namespace of a changed source, none
  when listing fails.\<close>

definition findObjectForSrc :: "(string \<Rightarrow> goerr + Ironic list) \<Rightarrow> string \<Rightarrow> (string \<times> string) list" where
  "findObjectForSrc list srcNamespace =
     (case list srcNamespace of
        Inl _ \<Rightarrow> []
      | Inr items \<Rightarrow> map (\<lambda>i. (Name (Meta i), Namespace (Meta i))) items)"

end
