(* ===== verification/WebhookProps.thy ===== *)
theory WebhookProps
  imports Webhook
begin

text \<open>
  What the admission webhook accepts: DHCP ranges against an arithmetic
  specification on the addresses as numbers, uniqueness of conductor groups,
  the effect of defaulting, and the whole of create and update validation.
\<close>

section \<open>One DHCP range\<close>

text \<open>The specification: everything parses and is IPv4, start, end and gateway lie
  in the prefix, and start is below end.\<close>

definition dhcpRangeOk :: "DHCPRange \<Rightarrow> bool" where
  "dhcpRangeOk r =
     (case (ParseCIDR (dr_Cidr r), ParseIP (dr_Start r), ParseIP (dr_End r), ParseIP (dr_Gateway r)) of
        (Some (_, n), Some s, Some e, Some g) \<Rightarrow>
          To4 (net_IP n) \<noteq> None \<and> To4 s \<noteq> None \<and> To4 e \<noteq> None \<and> To4 g \<noteq> None \<and>
          Contains n s \<and> Contains n e \<and> Contains n g \<and> ip_nat s < ip_nat e
      | _ \<Rightarrow> False)"

lemma dhcpSyntaxErrors_Nil:
  "dhcpSyntaxErrors r p = [] \<longleftrightarrow>
     ParseCIDR (dr_Cidr r) \<noteq> None \<and> ParseIP (dr_Start r) \<noteq> None \<and> ParseIP (dr_End r) \<noteq> None \<and>
     (dr_Gateway r = '''' \<or> ParseIP (dr_Gateway r) \<noteq> None)"
  by (auto simp: dhcpSyntaxErrors_def)

lemma k8snet_v4:
  "k8snet_laws W \<Longrightarrow> ParseIP s = Some i \<Longrightarrow> IsIPv4 W i = (To4 i \<noteq> None)"
  "k8snet_laws W \<Longrightarrow> ParseIP s = Some i \<Longrightarrow> IsIPv6 W i = (To4 i = None)"
  by (simp_all add: k8snet_laws_def ParseIP_length)

lemma k8snet_cidr:
  "k8snet_laws W \<Longrightarrow> ParseCIDR s = Some (a, n) \<Longrightarrow> IsIPv4CIDR W n = (To4 (net_IP n) \<noteq> None)"
  "k8snet_laws W \<Longrightarrow> ParseCIDR s = Some (a, n) \<Longrightarrow> IsIPv6CIDR W n = (To4 (net_IP n) = None)"
  by (auto simp: k8snet_laws_def)

lemma dhcpAddressErrors_Nil:
  "length e = 16 \<Longrightarrow> length s = 16 \<Longrightarrow>
   dhcpAddressErrors r p n s e g = [] \<longleftrightarrow>
     Contains n s \<and> Contains n e \<and> (dr_Gateway r = '''' \<or> Contains n g) \<and> ip_nat s < ip_nat e"
  by (auto simp: dhcpAddressErrors_def bytes_Compare_greater_iff)

lemma dhcpRange_gateway:
  assumes "k8snet_laws W" and "dr_Gateway r \<noteq> ''''"
  shows "validateDHCPRange W r p = [] \<longleftrightarrow> dhcpRangeOk r"
  using assms
  by (auto simp: validateDHCPRange_def dhcpRangeOk_def Let_def dhcpSyntaxErrors_Nil
        dhcpFamilyErrors_def dhcpAddressErrors_Nil k8snet_v4 k8snet_cidr ParseIP_length
        split: option.split prod.split)

lemma dhcpRange_no_gateway:
  assumes "dr_Gateway r = ''''"
  shows "validateDHCPRange W r p = [] \<longleftrightarrow>
     ParseCIDR (dr_Cidr r) \<noteq> None \<and> ParseIP (dr_Start r) \<noteq> None \<and> ParseIP (dr_End r) \<noteq> None"
  using assms
  by (auto simp: validateDHCPRange_def Let_def dhcpSyntaxErrors_Nil split: option.splits)

section \<open>Two ranges\<close>

definition addresses :: "netIPStartEnd \<Rightarrow> nat set" where
  "addresses a = {ip_nat (se_start a)..ip_nat (se_end a)}"

definition wfRange :: "netIPStartEnd \<Rightarrow> bool" where
  "wfRange a \<longleftrightarrow> length (se_start a) = 16 \<and> length (se_end a) = 16 \<and>
     ip_nat (se_start a) \<le> ip_nat (se_end a)"

lemma overlap_Nil_iff:
  assumes "wfRange a" "wfRange b"
  shows "validateStartEndOverlap a b = [] \<longleftrightarrow> addresses a \<inter> addresses b = {}"
  using assms
  by (auto simp: validateStartEndOverlap_def wfRange_def addresses_def Let_def bytes_Compare_ip_nat
        split: if_splits)

lemma foldl_overwrite:
  "foldl (\<lambda>acc x. if P x then acc else g x) acc xs =
     (case filter (\<lambda>x. \<not> P x) xs of [] \<Rightarrow> acc | ys \<Rightarrow> g (last (filter (\<lambda>x. \<not> P x) xs)))"
  by (induction xs arbitrary: acc) (auto split: list.splits)

lemma filter_other:
  "ax < n \<Longrightarrow> filter (\<lambda>bx. bx \<noteq> ax) [0..<n] = [0..<ax] @ [Suc ax..<n]"
proof -
  assume "ax < n"
  then have "[0..<n] = [0..<ax] @ ax # [Suc ax..<n]"
    using upt_add_eq_append [of 0 ax "n - ax"] by (simp add: upt_conv_Cons)
  then show ?thesis by simp
qed

lemma overlap_inner:
  assumes "Suc 0 < n" and "ax < n"
  shows "foldl (\<lambda>acc bx. if bx = ax then acc else f bx) acc [0..<n] =
     f (if ax = n - 1 then n - 2 else n - 1)"
proof -
  let ?l = "filter (\<lambda>bx. bx \<noteq> ax) [0..<n]"
  have l: "?l = [0..<ax] @ [Suc ax..<n]"
    by (rule filter_other) (rule assms(2))
  have ne: "?l \<noteq> []" and last: "last ?l = (if ax = n - 1 then n - 2 else n - 1)"
    using assms unfolding l by (auto simp: last_append)
  have "(case ?l of [] \<Rightarrow> acc | _ \<Rightarrow> f (last ?l)) = f (last ?l)"
    using ne by (cases ?l) simp_all
  then show ?thesis
    unfolding foldl_overwrite last .
qed

lemma foldl_const_cong:
  "(\<And>x acc. x \<in> set xs \<Longrightarrow> F acc x = h x) \<Longrightarrow> xs \<noteq> [] \<Longrightarrow> foldl F acc xs = h (last xs)"
  by (induction xs rule: rev_induct) auto

lemma overlapLoops_last:
  "overlapLoops xs =
     (if length xs < 2 then []
      else validateStartEndOverlap (last xs) (xs ! (length xs - 2)))"
proof (cases "length xs < 2")
  case True
  then consider "xs = []" | x where "xs = [x]"
    by (cases xs; cases "tl xs") auto
  then show ?thesis by cases (simp_all add: overlapLoops_def)
next
  case False
  let ?n = "length xs"
  let ?h = "\<lambda>ax. validateStartEndOverlap (xs ! ax) (xs ! (if ax = ?n - 1 then ?n - 2 else ?n - 1))"
  have "overlapLoops xs = ?h (last [0..<?n])"
    unfolding overlapLoops_def
    by (rule foldl_const_cong) (use False in \<open>auto simp: overlap_inner\<close>)
  moreover have "0 < ?n" using False by linarith
  then have "xs \<noteq> [] \<and> last [0..<?n] = ?n - 1"
    using last_upt [of 0 ?n] by (metis length_greater_0_conv)
  ultimately show ?thesis
    using False by (simp add: last_conv_nth)
qed

section \<open>Conductor groups\<close>

definition groupKey :: "'a IronicConductorTemplate_scheme \<Rightarrow> string" where
  "groupKey c = (if ConductorGroup c = '''' then ConductorGroupNull else ConductorGroup c)"

lemma duplicateGroups_Cons:
  "duplicateGroups i seen (c # cs) =
     (case seen (groupKey c) of
        Some j \<Rightarrow> \<lparr>du_Seen = j, du_Group = ConductorGroup c, du_Index = i\<rparr> # duplicateGroups (Suc i) seen cs
      | None \<Rightarrow> duplicateGroups (Suc i) (seen(groupKey c \<mapsto> i)) cs)"
  by (simp add: groupKey_def ConductorGroupNull_def Let_def split: option.split)

declare duplicateGroups.simps(2) [simp del]

lemma duplicateGroups_Nil_iff:
  "duplicateGroups i seen cs = [] \<longleftrightarrow>
     distinct (map groupKey cs) \<and> (\<forall>c\<in>set cs. seen (groupKey c) = None)"
proof (induction cs arbitrary: i seen)
  case (Cons c cs)
  show ?case
  proof (cases "seen (groupKey c)")
    case None
    have upd: "(\<forall>d\<in>set cs. (seen(groupKey c \<mapsto> i)) (groupKey d) = None) \<longleftrightarrow>
        groupKey c \<notin> groupKey ` set cs \<and> (\<forall>d\<in>set cs. seen (groupKey d) = None)"
      by (auto split: if_splits) (metis imageI)
    show ?thesis
      using None by (simp add: duplicateGroups_Cons Cons upd del: fun_upd_apply) blast
  qed (simp add: duplicateGroups_Cons)
qed simp

lemma groupsUnique_None_iff:
  "validateConductorGroupsUnique W spec p = None \<longleftrightarrow>
     distinct (map groupKey (sp_IronicConductors spec))"
  by (simp add: validateConductorGroupsUnique_def Let_def duplicateGroups_Nil_iff)

text \<open>Every reported duplicate names two positions of one group, in order.\<close>

lemma duplicateGroups_sound:
  assumes "d \<in> set (duplicateGroups i seen cs)"
    and "\<And>k j. seen k = Some j \<Longrightarrow> j < i \<and> groupKey (gs ! j) = k"
    and "cs = drop i gs"
  shows "du_Seen d < du_Index d \<and> du_Index d < length gs \<and>
    groupKey (gs ! du_Seen d) = groupKey (gs ! du_Index d) \<and>
    du_Group d = ConductorGroup (gs ! du_Index d)"
  using assms
proof (induction cs arbitrary: i seen)
  case (Cons c cs)
  have i: "i < length gs"
    using Cons.prems(3) by (metis drop_all leI list.distinct(1))
  then have c: "gs ! i = c" "cs = drop (Suc i) gs"
    using Cons.prems(3) by (auto simp: Cons_nth_drop_Suc [symmetric])
  show ?case
  proof (cases "seen (groupKey c)")
    case None
    have keep: "\<And>k j. (seen(groupKey c \<mapsto> i)) k = Some j \<Longrightarrow> j < Suc i \<and> groupKey (gs ! j) = k"
      using Cons.prems(2) c by (auto split: if_splits simp: less_Suc_eq)
    have "d \<in> set (duplicateGroups (Suc i) (seen(groupKey c \<mapsto> i)) cs)"
      using Cons.prems(1) None by (simp add: duplicateGroups_Cons)
    then show ?thesis by (rule Cons.IH [OF _ keep c(2)])
  next
    case (Some j)
    have keep: "\<And>k j. seen k = Some j \<Longrightarrow> j < Suc i \<and> groupKey (gs ! j) = k"
      using Cons.prems(2) by (auto simp: less_Suc_eq)
    from Some Cons.prems(1) consider
      "d = \<lparr>du_Seen = j, du_Group = ConductorGroup c, du_Index = i\<rparr>"
      | "d \<in> set (duplicateGroups (Suc i) seen cs)"
      by (auto simp: duplicateGroups_Cons)
    then show ?thesis
    proof cases
      case 1
      then show ?thesis using Cons.prems(2) [OF Some] i c by simp
    next
      case 2
      then show ?thesis by (rule Cons.IH [OF _ keep c(2)])
    qed
  qed
qed simp

section \<open>A whole spec\<close>

definition dhcpRangeAccepted :: "webhookLib \<Rightarrow> DHCPRange \<Rightarrow> bool" where
  "dhcpRangeAccepted W r \<longleftrightarrow>
     (if dr_Gateway r = '''' then
        ParseCIDR (dr_Cidr r) \<noteq> None \<and> ParseIP (dr_Start r) \<noteq> None \<and> ParseIP (dr_End r) \<noteq> None
      else dhcpRangeOk r)"

lemma validateDHCPRange_Nil:
  "k8snet_laws W \<Longrightarrow> validateDHCPRange W r p = [] \<longleftrightarrow> dhcpRangeAccepted W r"
  by (simp add: dhcpRangeAccepted_def dhcpRange_gateway dhcpRange_no_gateway)

lemma concat_enumerate_Nil:
  assumes "\<And>i x. f i x = [] \<longleftrightarrow> P x"
  shows "concat (map (\<lambda>(i, x). f i x) (enumerate n xs)) = [] \<longleftrightarrow> (\<forall>x\<in>set xs. P x)"
  by (induction xs arbitrary: n) (auto simp: assms)

lemma optErr_Nil [simp]: "optErr e = [] \<longleftrightarrow> e = None"
  by (simp add: optErr_def split: option.split)

lemma validateConductorSpec_Nil:
  assumes "k8snet_laws W"
  shows "validateConductorSpec W spec p = [] \<longleftrightarrow>
     sp_IronicConductors spec \<noteq> [] \<and> distinct (map groupKey (sp_IronicConductors spec)) \<and>
     (\<forall>c\<in>set (sp_IronicConductors spec). \<forall>r\<in>set (con_DHCPRanges c). dhcpRangeAccepted W r)"
proof -
  have inner: "concat (map (\<lambda>(idx, r). validateDHCPRange W r (q idx)) (enumerate 0 rs)) = []
      \<longleftrightarrow> (\<forall>r\<in>set rs. dhcpRangeAccepted W r)" for rs q
    by (rule concat_enumerate_Nil) (rule validateDHCPRange_Nil [OF assms])
  show ?thesis
    unfolding validateConductorSpec_def append_is_Nil_conv
    by (subst concat_enumerate_Nil [where P = "\<lambda>c. \<forall>r\<in>set (con_DHCPRanges c). dhcpRangeAccepted W r"])
       (auto simp: inner groupsUnique_None_iff simp del: concat_eq_Nil_conv)
qed

lemma validateInspectorSpec_Nil:
  assumes "k8snet_laws W"
  shows "validateInspectorSpec W spec p = [] \<longleftrightarrow>
     ValidateRoutedOverrides W (Child (Child (Child p ''ironicInspector'') ''override'') ''service'')
       (Service (ins_Override (sp_IronicInspector spec))) = [] \<and>
     (\<forall>r\<in>set (ins_DHCPRanges (sp_IronicInspector spec)). dhcpRangeAccepted W r)"
  unfolding validateInspectorSpec_def append_is_Nil_conv
  by (subst concat_enumerate_Nil [where P = "dhcpRangeAccepted W"])
     (auto simp: validateDHCPRange_Nil [OF assms])

lemma validateRPCTransport_None:
  "StringInSlice_law W \<Longrightarrow>
     validateRPCTransport W spec p = None \<longleftrightarrow> RPCTransport spec \<in> {''oslo'', ''json-rpc''}"
  by (simp add: validateRPCTransport_def StringInSlice_law_def)

lemma validateNeutronAgentSpec_Nil:
  "validateNeutronAgentSpec spec p = Some [] \<longleftrightarrow>
     (Standalone spec \<longrightarrow> (\<exists>n \<le> 0. Replicas (sp_IronicNeutronAgent spec) = Some n))"
  by (auto simp: validateNeutronAgentSpec_def not_less split: option.splits)

text \<open>What the webhook accepts, clause by clause.\<close>

definition specAcceptable ::
  "webhookLib \<Rightarrow> 'a IronicSpecCore_scheme \<Rightarrow> fieldPath \<Rightarrow> string \<Rightarrow> bool" where
  "specAcceptable W spec p namespace \<longleftrightarrow>
     RPCTransport spec \<in> {''oslo'', ''json-rpc''} \<and>
     sp_IronicConductors spec \<noteq> [] \<and>
     distinct (map groupKey (sp_IronicConductors spec)) \<and>
     (\<forall>c\<in>set (sp_IronicConductors spec). \<forall>r\<in>set (con_DHCPRanges c). dhcpRangeAccepted W r) \<and>
     (\<forall>r\<in>set (ins_DHCPRanges (sp_IronicInspector spec)). dhcpRangeAccepted W r) \<and>
     validateDHCPRangesOverlap spec p = [] \<and>
     (Standalone spec \<longrightarrow> (\<exists>n \<le> 0. Replicas (sp_IronicNeutronAgent spec) = Some n)) \<and>
     validateAPISpec W spec p = [] \<and>
     ValidateRoutedOverrides W (Child (Child (Child p ''ironicInspector'') ''override'') ''service'')
       (Service (ins_Override (sp_IronicInspector spec))) = [] \<and>
     ValidateIronicTopology W spec p namespace = []"

lemma create_Nil:
  assumes "k8snet_laws W" "StringInSlice_law W"
  shows "SpecCore_ValidateCreate W spec p namespace = Some (warns, []) \<longleftrightarrow>
    warns = validateDeprecatedFieldsCreate W spec p \<and> specAcceptable W spec p namespace"
proof -
  have "SpecCore_ValidateCreate W spec p namespace = Some (warns, []) \<longleftrightarrow>
      warns = validateDeprecatedFieldsCreate W spec p \<and>
      validateNeutronAgentSpec spec p = Some [] \<and> validateRPCTransport W spec p = None \<and>
      validateConductorGroupsUnique W spec p = None \<and> validateAPISpec W spec p = [] \<and>
      validateConductorSpec W spec p = [] \<and> validateInspectorSpec W spec p = [] \<and>
      validateDHCPRangesOverlap spec p = [] \<and> ValidateIronicTopology W spec p namespace = []"
    unfolding SpecCore_ValidateCreate_def Let_def by (cases "validateNeutronAgentSpec spec p") auto
  then show ?thesis
    unfolding specAcceptable_def validateNeutronAgentSpec_Nil groupsUnique_None_iff
      validateRPCTransport_None [OF assms(2)] validateConductorSpec_Nil [OF assms(1)]
      validateInspectorSpec_Nil [OF assms(1)]
    by blast
qed

section \<open>Defaulting\<close>

definition DefaultRabbitMqConfig_law :: "webhookLib \<Rightarrow> bool" where
  "DefaultRabbitMqConfig_law W \<longleftrightarrow>
     (\<forall>c d. DefaultRabbitMqConfig W c d = (if rmq_Cluster c = '''' then c\<lparr>rmq_Cluster := d\<rparr> else c))"

lemma DefaultRabbitMqConfig_simp:
  "DefaultRabbitMqConfig_law W \<Longrightarrow>
     DefaultRabbitMqConfig W c d = (if rmq_Cluster c = '''' then c\<lparr>rmq_Cluster := d\<rparr> else c)"
  by (simp add: DefaultRabbitMqConfig_law_def)

lemma NeutronAgent_Default_idem:
  "DefaultRabbitMqConfig_law W \<Longrightarrow> NeutronAgent_Default W (NeutronAgent_Default W t) = NeutronAgent_Default W t"
  by (simp add: NeutronAgent_Default_def DefaultRabbitMqConfig_simp)

lemma SpecCore_Default_fields:
  "RPCTransport (SpecCore_Default W spec) =
     (if RPCTransport spec = '''' then ''json-rpc'' else RPCTransport spec)"
  "rmq_Cluster (MessagingBus (SpecCore_Default W spec)) =
     (if rmq_Cluster (MessagingBus spec) = '''' then ''rabbitmq'' else rmq_Cluster (MessagingBus spec))"
  "sp_IronicNeutronAgent (SpecCore_Default W spec) = NeutronAgent_Default W (sp_IronicNeutronAgent spec)"
  "IronicSpecCore.more (SpecCore_Default W spec) = IronicSpecCore.more spec"
  by (simp_all add: SpecCore_Default_def Let_def)

lemma SpecCore_Default_fixed:
  assumes "RPCTransport spec \<noteq> ''''" "rmq_Cluster (MessagingBus spec) \<noteq> ''''"
    and "NeutronAgent_Default W (sp_IronicNeutronAgent spec) = sp_IronicNeutronAgent spec"
  shows "SpecCore_Default W spec = spec"
  using assms by (simp add: SpecCore_Default_def Let_def)

lemma SpecCore_Default_idem:
  assumes "DefaultRabbitMqConfig_law W"
  shows "SpecCore_Default W (SpecCore_Default W spec) = SpecCore_Default W spec"
  by (rule SpecCore_Default_fixed)
     (simp_all add: SpecCore_Default_fields NeutronAgent_Default_idem [OF assms])

lemma SpecCore_Default_Images:
  "Images (SpecCore_Default W spec) = Images spec"
  "SpecCore_Default W (spec\<lparr>Images := im\<rparr>) = (SpecCore_Default W spec)\<lparr>Images := im\<rparr>"
  by (simp_all add: SpecCore_Default_def Let_def)

lemma defaultImage_idem [simp]: "defaultImage (defaultImage a d) d = defaultImage a d"
  by (simp add: defaultImage_def)

section \<open>Route annotations\<close>

text \<open>The common shape of the two functions: a flag, the HAProxy key, a timeout.\<close>

definition routeStep :: "string \<Rightarrow> string \<Rightarrow> string \<Rightarrow> (string \<rightharpoonup> string) \<Rightarrow> (string \<rightharpoonup> string)" where
  "routeStep flag key t a =
     (if a flag = None \<and> a key \<noteq> None then a
      else if a flag \<noteq> None \<and> a key \<noteq> None \<and> a flag \<noteq> a key then a(flag := None)
      else a(flag \<mapsto> t, key \<mapsto> t))"

lemma route_idem:
  "flag \<noteq> key \<Longrightarrow> routeStep flag key t (routeStep flag key t a) = routeStep flag key t a"
  by (simp add: routeStep_def)

lemma SetDefaultRouteAnnotations_step:
  "SetDefaultRouteAnnotations spec a = routeStep ironicAnno haProxyAnno (string_of_int (APITimeout spec) @ ''s'') a"
  unfolding SetDefaultRouteAnnotations_def routeStep_def Let_def ..

lemma SetDefaultInspectorRouteAnnotations_step:
  "SetDefaultInspectorRouteAnnotations spec a =
     routeStep ironicInspectorAnno haProxyAnno (string_of_int (APITimeout spec) @ ''s'') a"
  unfolding SetDefaultInspectorRouteAnnotations_def routeStep_def Let_def ..

lemma annotations_distinct: "ironicAnno \<noteq> haProxyAnno" "ironicInspectorAnno \<noteq> haProxyAnno"
  by (simp_all add: ironicAnno_def haProxyAnno_def ironicInspectorAnno_def)

lemma routeStep_key:
  "flag \<noteq> key \<Longrightarrow> routeStep flag key t a key =
     (case a key of None \<Rightarrow> Some t | Some v \<Rightarrow> if a flag = Some v then Some t else Some v)"
  by (auto simp: routeStep_def split: option.split)

section \<open>Example values\<close>

text \<open>Concrete values the witnesses of this development evaluate on.\<close>

definition exampleTemplate :: IronicServiceTemplate where
  "exampleTemplate = \<lparr>Replicas = Some 1, NodeSelector = None, Resources = Opaque '''',
     CustomServiceConfig = '''', DefaultConfigOverwrite = Map.empty, TopologyRef = None\<rparr>"

definition exampleTLS :: tlsAPI where
  "exampleTLS = \<lparr>CaBundleSecretName = '''', tls_InternalSecretName = None, tls_PublicSecretName = None\<rparr>"

definition exampleRange :: "string \<Rightarrow> string \<Rightarrow> string \<Rightarrow> string \<Rightarrow> DHCPRange" where
  "exampleRange cidr s e g = \<lparr>dr_Name = '''', dr_Cidr = cidr, dr_Start = s, dr_End = e,
     dr_Gateway = g, dr_MTU = 1500, dr_PodIndex = 0, dr_Prefix = 0, dr_Netmask = ''''\<rparr>"

definition exampleConductor :: "string \<Rightarrow> DHCPRange list \<Rightarrow> IronicConductorTemplate" where
  "exampleConductor g rs = IronicServiceTemplate.extend exampleTemplate
     \<lparr>ConductorGroup = g, con_StorageClass = '''', con_StorageRequest = ''10G'',
      con_NetworkAttachments = [], con_ProvisionNetwork = '''', con_DHCPRanges = rs,
      con_TraitBasedNetworking = None, con_TerminationGracePeriodSeconds = Some 600\<rparr>"

definition exampleInspector :: "DHCPRange list \<Rightarrow> IronicInspectorTemplate" where
  "exampleInspector rs = \<lparr>ins_ServiceUser = ''ironic-inspector'', ins_Replicas = Some 1,
     ins_DatabaseAccount = ''ironic-inspector'', ins_PasswordSelectors = \<lparr>ips_Service = ''IronicInspectorPassword''\<rparr>,
     ins_NodeSelector = None, ins_PreserveJobs = False, ins_CustomServiceConfig = '''',
     ins_DefaultConfigOverwrite = Map.empty, ins_Resources = Opaque '''', ins_StorageClass = '''',
     ins_NetworkAttachments = [], ins_InspectionNetwork = '''', ins_DHCPRanges = rs,
     ins_Override = \<lparr>Service = Map.empty\<rparr>, ins_TLS = exampleTLS,
     ins_Auth = \<lparr>ApplicationCredentialSecret = ''''\<rparr>, ins_TopologyRef = None\<rparr>"

definition exampleBus :: RabbitMqConfig where
  "exampleBus = \<lparr>rmq_User = '''', rmq_Vhost = '''', rmq_Cluster = ''rabbitmq''\<rparr>"

definition exampleSpec :: "IronicConductorTemplate list \<Rightarrow> DHCPRange list \<Rightarrow> IronicSpecCore" where
  "exampleSpec cs rs = \<lparr>Standalone = False, ServiceUser = ''ironic'', DatabaseInstance = ''openstack'',
     DatabaseAccount = ''ironic'', Secret = ''osp-secret'', PasswordSelectors = \<lparr>ps_Service = ''IronicPassword''\<rparr>,
     PreserveJobs = False, sp_CustomServiceConfig = '''', sp_DefaultConfigOverwrite = Map.empty,
     sp_IronicAPI = IronicServiceTemplate.extend exampleTemplate
       \<lparr>api_NetworkAttachments = [], api_Override = \<lparr>Service = Map.empty\<rparr>, api_TLS = exampleTLS\<rparr>,
     sp_IronicConductors = cs, sp_IronicInspector = exampleInspector rs,
     sp_IronicNeutronAgent = IronicServiceTemplate.extend exampleTemplate
       \<lparr>na_RabbitMqClusterName = '''', na_MessagingBus = exampleBus, na_NotificationsBus = None\<rparr>,
     RabbitMqClusterName = '''', MessagingBus = exampleBus, NotificationsBus = None,
     RPCTransport = ''json-rpc'', Auth = \<lparr>ApplicationCredentialSecret = ''''\<rparr>, sp_NodeSelector = None,
     StorageClass = ''local'', sp_TopologyRef = None, APITimeout = 60, GraphicalConsoles = ''Disabled''\<rparr>"

text \<open>A library that follows its documentation.\<close>

definition exampleLib :: webhookLib where
  "exampleLib = \<lparr>ValidateRoutedOverrides = (\<lambda>_ _. []), ValidateTopologyRef = (\<lambda>_ _ _. []),
     ValidateDeprecatedFieldsCreate = (\<lambda>_ _. []), ValidateDeprecatedFieldsUpdate = (\<lambda>_ _. ([], [])),
     StringInSlice = (\<lambda>s xs. s \<in> set xs),
     DefaultRabbitMqConfig = (\<lambda>c d. if rmq_Cluster c = '''' then c\<lparr>rmq_Cluster := d\<rparr> else c),
     IsIPv4 = (\<lambda>i. To4 i \<noteq> None), IsIPv6 = (\<lambda>i. To4 i = None),
     IsIPv4CIDR = (\<lambda>n. To4 (net_IP n) \<noteq> None), IsIPv6CIDR = (\<lambda>n. To4 (net_IP n) = None),
     rangeMap = (\<lambda>xs. xs)\<rparr>"

lemma exampleLib_laws [simp]:
  "k8snet_laws exampleLib" "StringInSlice_law exampleLib" "rangeMap_law exampleLib"
  "DefaultRabbitMqConfig_law exampleLib"
  by (simp_all add: exampleLib_def k8snet_laws_def StringInSlice_law_def rangeMap_law_def
      DefaultRabbitMqConfig_law_def)

lemmas parse_eval = ParseIP_def parse_addr_def parse_v4_def is_digit_def char_digit_def
  v4_in_v6_prefix_def parse_prefix_len_def nat_of_string_def

lemma example_cidr: "ParseCIDR ''172.22.0.0/24'' \<noteq> None"
proof -
  have "parse_addr ''172.22.0.0'' = Some (AddrV4 [172,22,0,0])" "parse_prefix_len ''24'' = Some 24"
    by (simp_all add: parse_eval)
  then show ?thesis by (simp add: ParseCIDR_def Let_def)
qed

lemma example_ips:
  "ParseIP ''10.0.0.1'' = Some [0,0,0,0,0,0,0,0,0,0,255,255,10,0,0,1]"
  "ParseIP ''10.0.0.5'' = Some [0,0,0,0,0,0,0,0,0,0,255,255,10,0,0,5]"
  "ParseIP ''10.0.0.9'' = Some [0,0,0,0,0,0,0,0,0,0,255,255,10,0,0,9]"
  by (simp_all add: parse_eval)

section \<open>Properties\<close>

text \<open>C21. A DHCP range with a gateway is accepted exactly when prefix, start, end and gateway parse
  as IPv4, the three addresses lie in the prefix, and start is numerically below end.\<close>

theorem dhcp_range_with_gateway_exact:
  assumes "k8snet_laws W" and "dr_Gateway r \<noteq> ''''"
  shows "validateDHCPRange W r p = [] \<longleftrightarrow> dhcpRangeOk r"
  using assms by (rule dhcpRange_gateway)

theorem dhcp_range_with_gateway_exact_witness:
  "validateDHCPRange exampleLib
     (exampleRange ''172.22.0.0/24'' ''172.22.0.100'' ''172.22.0.200'' ''172.22.0.1'') (NewPath ''spec'') = []
   \<longleftrightarrow> dhcpRangeOk (exampleRange ''172.22.0.0/24'' ''172.22.0.100'' ''172.22.0.200'' ''172.22.0.1'')"
  by (rule dhcp_range_with_gateway_exact) (simp_all add: exampleRange_def)

text \<open>C22. A DHCP range without a gateway is accepted as soon as the three texts parse: membership in
  the prefix, the order of start and end and the address families are not checked.\<close>

theorem dhcp_range_without_gateway_unchecked:
  assumes "dr_Gateway r = ''''"
  shows "validateDHCPRange W r p = [] \<longleftrightarrow>
     ParseCIDR (dr_Cidr r) \<noteq> None \<and> ParseIP (dr_Start r) \<noteq> None \<and> ParseIP (dr_End r) \<noteq> None"
  using assms by (rule dhcpRange_no_gateway)

theorem dhcp_range_without_gateway_unchecked_witness:
  "validateDHCPRange exampleLib (exampleRange ''172.22.0.0/24'' ''10.0.0.9'' ''10.0.0.1'' '''') (NewPath ''spec'') = []"
  by (subst dhcp_range_without_gateway_unchecked)
     (simp_all add: exampleRange_def example_cidr example_ips del: not_None_eq)

text \<open>C24. Two ranges neither of whose starts exceeds its end are reported as overlapping exactly when
  they share an address. A reversed range, which admission lets through when no gateway is given, is outside: it
  has no address at all and can be reported all the same.\<close>

theorem start_end_overlap_exact:
  assumes "wfRange a" and "wfRange b"
  shows "validateStartEndOverlap a b = [] \<longleftrightarrow> addresses a \<inter> addresses b = {}"
  using assms by (rule overlap_Nil_iff)

theorem start_end_overlap_exact_witness:
  "validateStartEndOverlap
     \<lparr>se_start = [0,0,0,0,0,0,0,0,0,0,255,255,10,0,0,1], se_end = [0,0,0,0,0,0,0,0,0,0,255,255,10,0,0,5],
      se_path = NewPath ''a''\<rparr>
     \<lparr>se_start = [0,0,0,0,0,0,0,0,0,0,255,255,10,0,0,5], se_end = [0,0,0,0,0,0,0,0,0,0,255,255,10,0,0,9],
      se_path = NewPath ''b''\<rparr> \<noteq> []"
  by (subst start_end_overlap_exact) (simp_all add: wfRange_def addresses_def ip_nat_def)

text \<open>C23. The overlap check over all ranges of a spec reports only what the last range and the one
  before it give; every earlier comparison is overwritten.\<close>

theorem ranges_overlap_last_pair_only:
  "validateDHCPRangesOverlap spec p =
     (let b = allRangeBounds spec p in
      if length b < 2 then [] else validateStartEndOverlap (last b) (b ! (length b - 2)))"
  by (simp add: validateDHCPRangesOverlap_def overlapLoops_last Let_def)

text \<open>With exactly two parsable ranges in the spec, each with start up to end, the check is exact.\<close>

theorem two_ranges_overlap_exact:
  assumes "allRangeBounds spec p = [a, b]" and "wfRange a" and "wfRange b"
  shows "validateDHCPRangesOverlap spec p = [] \<longleftrightarrow> addresses a \<inter> addresses b = {}"
  using assms overlap_Nil_iff [of b a]
  by (simp add: validateDHCPRangesOverlap_def overlapLoops_last Int_commute)

theorem two_ranges_overlap_exact_witness:
  "validateDHCPRangesOverlap
     (exampleSpec [exampleConductor '''' [exampleRange '''' ''10.0.0.1'' ''10.0.0.5'' '''']]
       [exampleRange '''' ''10.0.0.5'' ''10.0.0.9'' '''']) (NewPath ''spec'') \<noteq> []"
  by (subst two_ranges_overlap_exact
        [where a = "\<lparr>se_start = [0,0,0,0,0,0,0,0,0,0,255,255,10,0,0,5],
                     se_end = [0,0,0,0,0,0,0,0,0,0,255,255,10,0,0,9],
                     se_path = Index (Child (Child (NewPath ''spec'') ''ironicInspector'') ''dhcpRanges'') 0\<rparr>"
           and b = "\<lparr>se_start = [0,0,0,0,0,0,0,0,0,0,255,255,10,0,0,1],
                     se_end = [0,0,0,0,0,0,0,0,0,0,255,255,10,0,0,5],
                     se_path = Index (Child (Index (Child (NewPath ''spec'') ''ironicConductors'') 0) ''dhcpRanges'') 0\<rparr>"])
     (simp_all add: allRangeBounds_def rangeBounds_def exampleSpec_def exampleConductor_def
        exampleInspector_def exampleRange_def IronicServiceTemplate.defs exampleTemplate_def
        example_ips wfRange_def addresses_def ip_nat_def)

text \<open>C28. Conductor groups are accepted exactly when no two conductors have the same effective group,
  the unset group counting as the literal \<open>null_conductor_group_null\<close>.\<close>

theorem conductor_groups_unique_exact:
  "validateConductorGroupsUnique W spec p = None \<longleftrightarrow>
     distinct (map groupKey (sp_IronicConductors spec))"
  by (rule groupsUnique_None_iff)

text \<open>Every duplicate the error lists names two conductors of one effective group, the first one
  before the second, whatever order Go ranges over the map in.\<close>

theorem conductor_group_duplicates_sound:
  assumes "rangeMap_law W"
    and "validateConductorGroupsUnique W spec p = Some (Invalid q v (ErrGroupNotUnique ds))"
    and "d \<in> set ds"
  shows "du_Seen d < du_Index d \<and> du_Index d < length (sp_IronicConductors spec) \<and>
    groupKey (sp_IronicConductors spec ! du_Seen d) = groupKey (sp_IronicConductors spec ! du_Index d)"
proof -
  let ?ds = "duplicateGroups 0 Map.empty (sp_IronicConductors spec)"
  have "ds = rangeMap W ?ds"
    using assms(2) by (auto simp: validateConductorGroupsUnique_def Let_def split: if_splits)
  then have "set ds = set ?ds"
    using assms(1) by (metis rangeMap_law_def set_mset_mset)
  then show ?thesis
    using duplicateGroups_sound [of d 0 Map.empty "sp_IronicConductors spec" "sp_IronicConductors spec"]
      assms(3) by simp
qed

theorem conductor_group_duplicates_sound_witness:
  "groupKey ([exampleConductor ''a'' [], exampleConductor ''a'' []] ! 0) =
   groupKey ([exampleConductor ''a'' [], exampleConductor ''a'' []] ! 1)"
  using conductor_group_duplicates_sound
    [of exampleLib "exampleSpec [exampleConductor ''a'' [], exampleConductor ''a'' []] []" "NewPath ''spec''"
       "Child (NewPath ''spec'') ''ironicConductors''"
       "BadConductors [exampleConductor ''a'' [], exampleConductor ''a'' []]"
       "[\<lparr>du_Seen = 0, du_Group = ''a'', du_Index = 1\<rparr>]" "\<lparr>du_Seen = 0, du_Group = ''a'', du_Index = 1\<rparr>"]
  by (simp add: validateConductorGroupsUnique_def exampleSpec_def exampleConductor_def
      IronicServiceTemplate.defs exampleTemplate_def exampleLib_def rangeMap_law_def
      duplicateGroups_Cons groupKey_def Let_def)

text \<open>C25. Creation of a spec is admitted without errors exactly when all clauses of
  \<open>specAcceptable\<close> hold, and then only the deprecation warnings are returned.\<close>

theorem validate_create_exact:
  assumes "k8snet_laws W" and "StringInSlice_law W"
  shows "SpecCore_ValidateCreate W spec p namespace = Some (warns, []) \<longleftrightarrow>
     warns = validateDeprecatedFieldsCreate W spec p \<and> specAcceptable W spec p namespace"
  by (rule create_Nil [OF assms])

theorem validate_create_exact_witness:
  "SpecCore_ValidateCreate exampleLib (exampleSpec [exampleConductor '''' []] []) (NewPath ''spec'') ''openstack''
     = Some ([], [])"
  by (subst validate_create_exact, simp, simp)
     (simp add: validateDeprecatedFieldsCreate_def specAcceptable_def exampleSpec_def exampleInspector_def
        exampleConductor_def IronicServiceTemplate.defs exampleTemplate_def validateDHCPRangesOverlap_def
        overlapLoops_def allRangeBounds_def rangeBounds_def validateAPISpec_def ValidateIronicTopology_def
        ValidateTopology_def Inspector_ValidateTopology_def exampleLib_def)

text \<open>C26. An update is judged as the creation of the new spec, except for the deprecated fields,
  whose errors against the old spec come first: the two functions repeat the checks, and no check of
  the one is missing in the other, and they come in the same order.\<close>

theorem validate_update_as_create:
  "SpecCore_ValidateUpdate W spec old p namespace =
     map_option (\<lambda>(_, errs). (fst (validateDeprecatedFieldsUpdate W spec old p),
                               snd (validateDeprecatedFieldsUpdate W spec old p) @ errs))
       (SpecCore_ValidateCreate W spec p namespace)"
  by (auto simp: SpecCore_ValidateUpdate_def SpecCore_ValidateCreate_def Let_def split: prod.split option.split)

text \<open>C27. Validation panics on a nil pointer exactly for a standalone spec whose neutron agent has no
  replica count.\<close>

theorem validate_create_panic:
  "CustomValidator_ValidateCreate W (ObjIronic r) = None \<longleftrightarrow>
     Standalone (Spec r) \<and> Replicas (sp_IronicNeutronAgent (Spec r)) = None"
  by (simp add: CustomValidator_ValidateCreate_def Ironic_ValidateCreate_def SpecCore_ValidateCreate_def
      Let_def validateNeutronAgentSpec_def split: option.split)

lemma Spec_Default_idem:
  assumes "DefaultRabbitMqConfig_law W"
  shows "Spec_Default W d (Spec_Default W d spec) = Spec_Default W d spec"
  by (simp add: Spec_Default_def SpecCore_Default_Images Let_def SpecCore_Default_idem [OF assms])

text \<open>C30. What defaulting makes of a spec. A value the user gave is kept: an empty transport becomes
  \<open>json-rpc\<close>, a message bus without cluster, that of the spec and that of the neutron agent, gets the
  cluster \<open>rabbitmq\<close> and keeps its user and virtual host, and each of six images that is empty becomes
  the operator's. Nothing else of the spec, of the agent or of the images changes, the two console
  images included.\<close>

theorem default_establishes:
  fixes spec :: IronicSpec
  assumes "DefaultRabbitMqConfig_law W"
  shows "let sp = Spec_Default W d spec in RPCTransport sp = (if RPCTransport spec = '''' then ''json-rpc'' else RPCTransport spec)
    \<and> MessagingBus sp = (if rmq_Cluster (MessagingBus spec) = '''' then (MessagingBus spec)\<lparr>rmq_Cluster := ''rabbitmq''\<rparr>
        else MessagingBus spec)
    \<and> sp_IronicNeutronAgent sp = (let agent = sp_IronicNeutronAgent spec; bus = na_MessagingBus agent in
        if rmq_Cluster bus = '''' then agent\<lparr>na_MessagingBus := bus\<lparr>rmq_Cluster := ''rabbitmq''\<rparr>\<rparr> else agent)
    \<and> im_API (Images sp) = (if im_API (Images spec) = '''' then im_API d else im_API (Images spec))
    \<and> im_Conductor (Images sp) = (if im_Conductor (Images spec) = '''' then im_Conductor d else im_Conductor (Images spec))
    \<and> im_Inspector (Images sp) = (if im_Inspector (Images spec) = '''' then im_Inspector d else im_Inspector (Images spec))
    \<and> im_NeutronAgent (Images sp) = (if im_NeutronAgent (Images spec) = '''' then im_NeutronAgent d else im_NeutronAgent (Images spec))
    \<and> im_Pxe (Images sp) = (if im_Pxe (Images spec) = '''' then im_Pxe d else im_Pxe (Images spec))
    \<and> im_IronicPythonAgent (Images sp) = (if im_IronicPythonAgent (Images spec) = '''' then im_IronicPythonAgent d else im_IronicPythonAgent (Images spec))
    \<and> im_NoVNCProxy (Images sp) = im_NoVNCProxy (Images spec)
    \<and> im_GraphicalConsole (Images sp) = im_GraphicalConsole (Images spec)
    \<and> sp\<lparr>RPCTransport := RPCTransport spec, MessagingBus := MessagingBus spec,
         sp_IronicNeutronAgent := sp_IronicNeutronAgent spec, Images := Images spec\<rparr> = spec"
  using assms
  by (simp add: Spec_Default_def SpecCore_Default_def NeutronAgent_Default_def
      DefaultRabbitMqConfig_simp defaultImage_def Let_def)

theorem default_establishes_witness:
  "im_NoVNCProxy (Images (Spec_Default exampleLib (SetupDefaults (\<lambda>_ f. f))
     (IronicSpecCore.extend (exampleSpec [] [])
        \<lparr>Images = \<lparr>im_API = '''', im_Conductor = '''', im_Inspector = '''', im_NeutronAgent = '''',
           im_Pxe = '''', im_IronicPythonAgent = '''', im_NoVNCProxy = '''', im_GraphicalConsole = ''''\<rparr>\<rparr>))) = ''''"
proof -
  let ?spec = "IronicSpecCore.extend (exampleSpec [] [])
     \<lparr>Images = \<lparr>im_API = '''', im_Conductor = '''', im_Inspector = '''', im_NeutronAgent = '''',
        im_Pxe = '''', im_IronicPythonAgent = '''', im_NoVNCProxy = '''', im_GraphicalConsole = ''''\<rparr>\<rparr>"
  have "DefaultRabbitMqConfig_law exampleLib"
    by simp
  from default_establishes [OF this, of "SetupDefaults (\<lambda>_ f. f)" ?spec]
  have "im_NoVNCProxy (Images (Spec_Default exampleLib (SetupDefaults (\<lambda>_ f. f)) ?spec)) = im_NoVNCProxy (Images ?spec)"
    unfolding Let_def by blast
  then show ?thesis
    by (simp add: IronicSpecCore.defs)
qed

text \<open>A HAProxy timeout the operator did not set, or that a human changed afterwards, survives the
  route defaults; otherwise the timeout is the API timeout in seconds.\<close>

theorem route_annotations_respect_human:
  "SetDefaultRouteAnnotations spec a haProxyAnno =
     (case a haProxyAnno of
        None \<Rightarrow> Some (string_of_int (APITimeout spec) @ ''s'')
      | Some v \<Rightarrow> if a ironicAnno = Some v then Some (string_of_int (APITimeout spec) @ ''s'') else Some v)"
  unfolding SetDefaultRouteAnnotations_step by (rule routeStep_key) (rule annotations_distinct)

text \<open>The route defaults of both services are idempotent.\<close>

theorem route_annotations_idempotent:
  "SetDefaultRouteAnnotations spec (SetDefaultRouteAnnotations spec a) = SetDefaultRouteAnnotations spec a \<and>
   SetDefaultInspectorRouteAnnotations spec (SetDefaultInspectorRouteAnnotations spec a)
     = SetDefaultInspectorRouteAnnotations spec a"
  unfolding SetDefaultRouteAnnotations_step SetDefaultInspectorRouteAnnotations_step
  by (intro conjI route_idem) (rule annotations_distinct)+

end
