(* ===== verification/IronicLibProps.thy ===== *)
theory IronicLibProps
  imports IronicLib WebhookProps
begin

text \<open>
  The shared building blocks of the workloads: a CIDR's prefix length survives
  the way through its mask, prefixes and netmasks are filled in without
  touching anything else, and the database job only mounts volumes it declares.
\<close>

section \<open>Masks\<close>

lemma byte_bits_mask_cases:
  "k \<le> 8 \<Longrightarrow> byte_bits (push_bit (8 - k) 255) = replicate k True @ replicate (8 - k) False"
proof -
  assume "k \<le> 8"
  then have "k \<in> {0, 1, 2, 3, 4, 5, 6, 7, 8}" by auto
  then show ?thesis by (elim insertE emptyE) (simp_all, code_simp+)
qed

lemma concat_mask_bits:
  "n \<le> 8 * m \<Longrightarrow>
   concat (map (\<lambda>k. byte_bits (push_bit (8 - min 8 (n - 8 * k)) 255)) [0..<m]) =
     replicate n True @ replicate (8 * m - n) False"
proof (induction m arbitrary: n)
  case (Suc m)
  show ?case
  proof (cases "n \<le> 8 * m")
    case True
    then show ?thesis
      using Suc.IH [OF True] byte_bits_mask_cases [of 0]
      by (simp add: Suc_diff_le replicate_add [symmetric])
  next
    case False
    let ?f = "\<lambda>n k. byte_bits (push_bit (8 - min 8 (n - 8 * k)) 255)"
    have eq: "map (?f n) [0..<m] = map (?f (8 * m)) [0..<m]"
      using False by (intro map_cong) (auto simp: min_def)
    have "concat (map (?f n) [0..<m]) = replicate (8 * m) True"
      unfolding eq using Suc.IH [of "8 * m"] by simp
    moreover have "?f n m = replicate (n - 8 * m) True @ replicate (8 - (n - 8 * m)) False"
    proof -
      have "min 8 (n - 8 * m) = n - 8 * m"
        using Suc.prems by simp
      then show ?thesis
        using byte_bits_mask_cases [of "n - 8 * m"] Suc.prems by (simp only: min.absorb_iff2)
    qed
    moreover have "replicate n True = replicate (8 * m) True @ replicate (n - 8 * m) True"
      using False by (simp add: replicate_add [symmetric])
    ultimately show ?thesis
      using Suc.prems False by simp
  qed
qed simp

lemma mask_size_cidr_mask:
  assumes "n \<le> bits" and "8 dvd bits"
  shows "mask_size (cidr_mask n bits) = n"
proof -
  from assms(2) obtain m where m: "bits = 8 * m" by (elim dvdE)
  have "concat (map byte_bits (cidr_mask n bits)) = replicate n True @ replicate (bits - n) False"
    using concat_mask_bits [of n m] assms(1) m by (simp add: cidr_mask_def comp_def)
  then show ?thesis
    by (simp add: mask_size_def takeWhile_append Let_def list_all_iff)
qed

lemma ParseCIDR_mask:
  assumes "ParseCIDR s = Some (a, n)"
  shows "\<exists>k bits. net_Mask n = cidr_mask k bits \<and> k \<le> bits \<and> bits \<in> {32, 128} \<and>
    parse_prefix_len (tl (dropWhile (\<lambda>c. c \<noteq> CHR ''/'') s)) = Some k"
  using assms
  by (auto simp: ParseCIDR_def Let_def not_less split: list.splits option.splits if_splits addr.splits)
     (metis addr_bits.elims insertI1 insert_subset list.sel(3) subset_insertI)+

section \<open>Prefix and netmask\<close>

definition fillRange :: "webhookLib \<Rightarrow> (ip \<Rightarrow> string) \<Rightarrow> DHCPRange \<Rightarrow> DHCPRange" where
  "fillRange W maskText r =
     (case ParseCIDR (dr_Cidr r) of
        None \<Rightarrow> r
      | Some (_, cidr) \<Rightarrow>
          r\<lparr>dr_Netmask := (if IsIPv4CIDR W cidr then
                (if length (net_Mask cidr) = 4 then dotted (net_Mask cidr) else maskText (net_Mask cidr))
              else dr_Netmask r),
            dr_Prefix := (if IsIPv6CIDR W cidr then int (mask_size (net_Mask cidr)) else dr_Prefix r)\<rparr>)"

lemma PrefixOrNetmask_loop_eq:
  "PrefixOrNetmask_loop W t acc rs =
     (case find (\<lambda>r. ParseCIDR (dr_Cidr r) = None) rs of
        Some r \<Rightarrow> Inl (dr_Cidr r)
      | None \<Rightarrow> Inr (acc @ map (fillRange W t) rs))"
proof (induction rs arbitrary: acc)
  case (Cons r rs)
  show ?case
  proof (cases "ParseCIDR (dr_Cidr r)")
    case (Some ac)
    obtain a c where "ac = (a, c)" by force
    then show ?thesis
      using Some by (simp add: Cons fillRange_def Let_def split: option.split)
  qed simp
qed simp

lemma ParseCIDR_v6_mask:
  assumes "ParseCIDR s = Some (a, n)"
  shows "parse_prefix_len (tl (dropWhile (\<lambda>c. c \<noteq> CHR ''/'') s)) = Some (mask_size (net_Mask n))"
  using ParseCIDR_mask [OF assms] by (auto simp: mask_size_cidr_mask)

section \<open>Pods\<close>

lemma podMountsResolvedI:
  assumes "\<And>c. c \<in> set (pod_InitContainers p) \<Longrightarrow> vm_Name ` set (ct_VolumeMounts c) \<subseteq> vol_Name ` set (pod_Volumes p)"
    and "\<And>c. c \<in> set (pod_Containers p) \<Longrightarrow> vm_Name ` set (ct_VolumeMounts c) \<subseteq> vol_Name ` set (pod_Volumes p)"
  shows "podMountsResolved p"
  using assms by (force simp: podMountsResolved_def)

lemma podMounts_append_ca:
  assumes "podLib_laws P"
    and "vm_Name ` set ms \<subseteq> vol_Name ` set vs"
  shows "vm_Name ` set (ms @ (if b then CreateVolumeMounts P ca p else [])) \<subseteq>
    vol_Name ` set (vs @ (if b then [CreateVolume P ca] else []))"
  using assms by (auto simp: podLib_laws_def)

lemma example_group: "v6_groups 8 (Some 0) [] ''1'' = Some (Some 0, [0, 1], [])"
  using v6_groups.simps(2) [of 7 "Some 0" "[]" "''1''"]
  by (simp add: is_hex_def hex_value_def hex_group_def Let_def)

lemma example_len: "parse_prefix_len ''64'' = Some 64"
  by (simp add: parse_eval)

lemma example_cidr6:
  "ParseCIDR ''::1/64'' = Some (replicate 14 0 @ [0, 1],
     \<lparr>net_IP = ip_mask (replicate 14 0 @ [0, 1]) (cidr_mask 64 128), net_Mask = cidr_mask 64 128\<rparr>)"
proof -
  have "parse_addr ''::1'' = Some (AddrV6 (replicate 14 0 @ [0, 1]))"
    by (simp add: parse_addr_def parse_v6_def example_group v6_expand_def)
  then show ?thesis by (simp add: ParseCIDR_def example_len Let_def)
qed

lemma example_cidr6_v6: "To4 (ip_mask (replicate 14 0 @ [0, 1]) (cidr_mask 64 128)) = None"
  by code_simp

definition exampleImages :: IronicImages where
  "exampleImages = \<lparr>im_API = ''api'', im_Conductor = ''conductor'', im_Inspector = ''inspector'',
     im_NeutronAgent = ''agent'', im_Pxe = ''pxe'', im_IronicPythonAgent = ''ipa'',
     im_NoVNCProxy = '''', im_GraphicalConsole = ''''\<rparr>"

definition exampleMeta :: "string \<Rightarrow> ObjectMeta" where
  "exampleMeta n = \<lparr>Kind = ''Ironic'', Name = n, Namespace = ''openstack'', Generation = 1,
     DeletionTimestamp = None, Finalizers = [''openstack.org/ironic''], OwnerReferences = [],
     Annotations = None, Labels = Map.empty\<rparr>"

definition exampleStatus :: IronicStatus where
  "exampleStatus = \<lparr>st_Hash = Some [''InputHashName'' \<mapsto> ''input-hash''], st_Conditions = Some [], st_DatabaseHostname = ''db'',
     st_APIEndpoints = Some Map.empty, st_IronicAPIReadyCount = 0, st_IronicConductorReadyCount = Map.empty,
     st_InspectorReadyCount = 0, st_IronicNeutronAgentReadyCount = 0, st_TransportURLSecret = '''',
     st_NotificationsURLSecret = None, st_ObservedGeneration = 1, st_ApplicationCredentialSecret = '''',
     st_InspectorApplicationCredentialSecret = ''''\<rparr>"

definition exampleIronic :: "IronicConductorTemplate list \<Rightarrow> DHCPRange list \<Rightarrow> Ironic" where
  "exampleIronic cs rs = \<lparr>Meta = exampleMeta ''ironic'',
     Spec = IronicSpecCore.extend (exampleSpec cs rs) \<lparr>Images = exampleImages\<rparr>, Status = exampleStatus\<rparr>"

definition examplePodLib :: podLib where
  "examplePodLib = \<lparr>WritableDirVolume = (\<lambda>n. \<lparr>vol_Name = n, vol_Source = ForeignSource ''emptyDir''\<rparr>),
     CreateVolume = (\<lambda>_. \<lparr>vol_Name = ''combined-ca-bundle'', vol_Source = ForeignSource ''secret''\<rparr>),
     CreateVolumeMounts = (\<lambda>_ _. [mount ''combined-ca-bundle'' ''/etc/pki/tls/certs/ca-bundle.crt'' True]),
     RestrictivePodSecurityContext = (\<lambda>_ _ _. Opaque ''pod''), RestrictiveSecurityContext = (\<lambda>_ _. Opaque ''restrictive''),
     MergeEnvs = (\<lambda>es kvs. es @ map (\<lambda>(k, v). \<lparr>ev_Name = k, ev_Source = EnvValue v\<rparr>) kvs),
     IronicUID = 42422, IronicGID = 42422, ApacheGID = 48, IronicInspectorUID = 42461, IronicInspectorGID = 42461,
     NeutronUID = 42435, NeutronGID = 42435, WritableDirVolumeMount = (\<lambda>n p. mount n p False),
     ParseQuantity = (\<lambda>q. if q = '''' then Inl (ErrExternal ''ErrFormatWrong'') else Inr (Opaque q)),
     IsIPv4Prefix = (\<lambda>n. case n of None \<Rightarrow> False | Some c \<Rightarrow> length (net_IP c) = 4),
     IsIPv6Prefix = (\<lambda>n. case n of None \<Rightarrow> False | Some c \<Rightarrow> length (net_IP c) = 16),
     tls_Enabled = (\<lambda>t e. (if e = ''public'' then tls_PublicSecretName t else tls_InternalSecretName t) \<noteq> None),
     ToService = (\<lambda>s. case s of None \<Rightarrow> Inl (ErrExternal ''no secret'') | Some n \<Rightarrow> Inr (Opaque n)),
     CertVolume = (\<lambda>_ e. \<lparr>vol_Name = e @ ''-tls-certs'', vol_Source = ForeignSource ''secret''\<rparr>),
     CertVolumeMounts = (\<lambda>_ c k e. [mount (e @ ''-tls-certs'') c True, mount (e @ ''-tls-certs'') k True])\<rparr>"

lemma examplePodLib_laws [simp]: "podLib_laws examplePodLib"
  by (simp add: podLib_laws_def examplePodLib_def mount_def)

section \<open>Properties\<close>

text \<open>C31. The ranges come back with prefix and netmask filled in, every other field and the order as
  they were, when all prefixes parse; otherwise the given ranges come back with the first prefix that
  does not parse as the error.\<close>

theorem prefix_or_netmask_exact:
  "PrefixOrNetmaskFromCIDR W maskText rs =
     (case find (\<lambda>r. ParseCIDR (dr_Cidr r) = None) rs of
        Some r \<Rightarrow> (rs, Some (dr_Cidr r))
      | None \<Rightarrow> (map (fillRange W maskText) rs, None))"
  by (simp add: PrefixOrNetmaskFromCIDR_def PrefixOrNetmask_loop_eq split: option.split)

text \<open>C32. The prefix filled in for an IPv6 range is the number written after the slash of its CIDR.\<close>

theorem prefix_roundtrip:
  assumes "ParseCIDR (dr_Cidr r) = Some (a, n)" and "IsIPv6CIDR W n"
    and "PrefixOrNetmaskFromCIDR W maskText [r] = ([r'], None)"
  shows "Some (dr_Prefix r') =
    map_option int (parse_prefix_len (tl (dropWhile (\<lambda>c. c \<noteq> CHR ''/'') (dr_Cidr r))))"
  using assms ParseCIDR_v6_mask [OF assms(1)]
  by (auto simp: PrefixOrNetmaskFromCIDR_def PrefixOrNetmask_loop_eq fillRange_def)

theorem prefix_roundtrip_witness:
  "dr_Prefix (fillRange exampleLib (\<lambda>_. []) (exampleRange ''::1/64'' ''::2'' ''::9'' '''')) = 64"
  using prefix_roundtrip
    [of "exampleRange ''::1/64'' ''::2'' ''::9'' ''''" "fst (the (ParseCIDR ''::1/64''))"
        "snd (the (ParseCIDR ''::1/64''))" exampleLib "\<lambda>_. []"
        "fillRange exampleLib (\<lambda>_. []) (exampleRange ''::1/64'' ''::2'' ''::9'' '''')"]
  by (simp add: exampleRange_def example_cidr6 example_cidr6_v6 PrefixOrNetmaskFromCIDR_def
      PrefixOrNetmask_loop_eq exampleLib_def example_len)

text \<open>Every volume mount of the database synchronisation job, in its init container and in its
  container, names a volume of the job, with and without a CA bundle.\<close>

theorem dbsync_mounts_resolved:
  assumes "podLib_laws P"
  shows "podMountsResolved (job_Pod (DbSyncJob P instance labels))"
proof -
  let ?ca = "tls_Ca (api_TLS (sp_IronicAPI (Spec instance)))"
  let ?b = "CaBundleSecretName ?ca \<noteq> ''''"
  let ?pod = "job_Pod (DbSyncJob P instance labels)"
  let ?with = "\<lambda>ms. ms @ (if ?b then CreateVolumeMounts P ?ca None else [])"
  have vols: "pod_Volumes ?pod = ironic_GetVolumes P ServiceName @ (if ?b then [CreateVolume P ?ca] else [])"
    by (simp add: DbSyncJob_def Let_def)
  have sub: "vm_Name ` set (?with ms) \<subseteq> vol_Name ` set (pod_Volumes ?pod)"
    if "ms = ironic_GetInitVolumeMounts \<or> ms = GetDBSyncVolumeMounts" for ms
    unfolding vols
    by (rule podMounts_append_ca [OF assms])
       (use that in \<open>elim disjE; simp add: ironic_mount_names ironic_volume_names [OF assms]\<close>)
  have inits: "ct_VolumeMounts c = ?with ironic_GetInitVolumeMounts" if "c \<in> set (pod_InitContainers ?pod)" for c
    using that by (auto simp: DbSyncJob_def Let_def InitContainer_mounts)
  have mains: "ct_VolumeMounts c = ?with GetDBSyncVolumeMounts" if "c \<in> set (pod_Containers ?pod)" for c
    using that by (auto simp: DbSyncJob_def Let_def)
  show ?thesis
  proof (rule podMountsResolvedI)
    fix c assume "c \<in> set (pod_InitContainers ?pod)"
    from inits [OF this] show "vm_Name ` set (ct_VolumeMounts c) \<subseteq> vol_Name ` set (pod_Volumes ?pod)"
      using sub by simp
  next
    fix c assume "c \<in> set (pod_Containers ?pod)"
    from mains [OF this] show "vm_Name ` set (ct_VolumeMounts c) \<subseteq> vol_Name ` set (pod_Volumes ?pod)"
      using sub by simp
  qed
qed

theorem dbsync_mounts_resolved_witness:
  "podMountsResolved (job_Pod (DbSyncJob examplePodLib (exampleIronic [] []) Map.empty))"
  by (rule dbsync_mounts_resolved) simp

text \<open>Among the init containers only pxe-init may run as root: every other one runs under the
  library's restrictive security context, and pxe-init is present exactly when it is asked for.\<close>

theorem init_containers_restricted:
  "(\<forall>c\<in>set (InitContainer P d). ct_Name c \<noteq> ''pxe-init'' \<longrightarrow>
      ct_SecurityContext c = LibraryContext (RestrictiveSecurityContext P (IronicUID P) (IronicGID P))) \<and>
   (''pxe-init'' \<in> ct_Name ` set (InitContainer P d) \<longleftrightarrow> ad_PxeInit d)"
  by (auto simp: InitContainer_def)

theorem init_containers_restricted_witness:
  "\<not> (''pxe-init'' \<in> ct_Name ` set (InitContainer examplePodLib
       \<lparr>ad_ContainerImage = ''c'', ad_PxeContainerImage = ''p'', ad_IronicPythonAgentImage = ''i'',
        ad_DatabaseHost = ''h'', ad_DatabaseName = ''n'', ad_TransportURLSecret = '''', ad_OSPSecret = ''s'',
        ad_UserPasswordSelector = ''u'', ad_VolumeMounts = [], ad_PxeInit = False, ad_ConductorInit = True,
        ad_DeployHTTPURL = '''', ad_IngressDomain = '''', ad_ProvisionNetwork = '''', ad_ImageDirectory = ''''\<rparr>))"
  using init_containers_restricted by simp

end
