(* ===== verification/IronicProps.thy ===== *)
theory IronicProps
  imports IronicController IronicLibProps
begin

text \<open>
  What the Ironic controller does, over every environment: which parts of the
  instance it can change, which calls it makes under which guard, and what a
  successful or failed run leaves behind.
\<close>

section \<open>What the steps keep\<close>

text \<open>The part of an instance that no step of the controller changes apart from the
  finalizer at the end of a deletion: the metadata, and the spec up to the
  replicas of the inspector.\<close>

definition specKey :: "Ironic \<Rightarrow> IronicSpec" where
  "specKey i = (Spec i)\<lparr>sp_IronicInspector := (sp_IronicInspector (Spec i))\<lparr>ins_Replicas := None\<rparr>\<rparr>"

definition kept :: "Ironic \<Rightarrow> ObjectMeta \<times> IronicSpec" where
  "kept i = (Meta i, specKey i)"

lemma kept_updConds [simp]: "kept (Ironic_updConds f i) = kept i"
  by (simp add: kept_def specKey_def Ironic_updConds_def)

lemma kept_setNotif [simp]: "kept (Ironic_setNotif s i) = kept i"
  by (simp add: kept_def specKey_def Ironic_setNotif_def)

lemma kept_status [simp]: "kept (i\<lparr>Status := st\<rparr>) = kept i"
  by (simp add: kept_def specKey_def)

lemma kept_replicas [simp]:
  "kept (i\<lparr>Spec := (Spec i)\<lparr>sp_IronicInspector := (sp_IronicInspector (Spec i))\<lparr>ins_Replicas := r\<rparr>\<rparr>\<rparr>) = kept i"
  by (simp add: kept_def specKey_def)

lemma leaves_modStatus [keeps]: "leaves kept (modStatus f)"
  by (simp add: modStatus_def keeps)

lemma leaves_setCond [keeps]: "leaves kept (setCond L c)"
  by (simp add: setCond_def keeps)

lemma leaves_markTrue [keeps]: "leaves kept (markTrue L t m)"
  by (simp add: markTrue_def keeps)

lemma leaves_failWith [keeps]: "leaves kept (failWith L E t msg err)"
  by (simp add: failWith_def keeps)

lemma leaves_orFail [keeps]: "leaves F m \<Longrightarrow> leaves F (orFail m)"
  unfolding orFail_def by (intro keeps; simp)

lemma leaves_getOrFail [keeps]: "leaves F m \<Longrightarrow> leaves F (getOrFail m)"
  unfolding getOrFail_def by (intro keeps; simp)

lemma leaves_finalizerCall [keeps]: "leaves F (finalizerCall E c)"
  by (simp add: finalizerCall_def keeps)

lemma leaves_finalizeRotation [keeps]: "leaves F (finalizeRotation E ns old new fin ready)"
  by (simp add: finalizeRotation_def keeps)

lemma emits_modStatus [keeps]: "emits A (modStatus f)"
  by (simp add: modStatus_def keeps)

lemma emits_setCond [keeps]: "emits A (setCond L c)"
  by (simp add: setCond_def keeps)

lemma emits_markTrue [keeps]: "emits A (markTrue L t m)"
  by (simp add: markTrue_def keeps)

lemma emits_failWith [keeps]: "emits A (failWith L E t msg err)"
  by (simp add: failWith_def keeps)

lemma emits_orFail [keeps]: "emits A m \<Longrightarrow> emits A (orFail m)"
  unfolding orFail_def by (intro keeps; simp)

lemma emits_getOrFail [keeps]: "emits A m \<Longrightarrow> emits A (getOrFail m)"
  unfolding getOrFail_def by (intro keeps; simp)

lemma emits_finalizerCall [keeps]: "A c \<Longrightarrow> emits A (finalizerCall E c)"
  by (simp add: finalizerCall_def keeps)

lemma emits_finalizeRotation [keeps]:
  "A (FinalizeSecretRotation ns old new fin ready) \<Longrightarrow> emits A (finalizeRotation E ns old new fin ready)"
  by (simp add: finalizeRotation_def keeps)

subsection \<open>Metadata and spec\<close>

lemma leaves_transportURL [keeps]: "leaves F (transportURLCreateOrUpdate E i suffix cfg)"
  unfolding transportURLCreateOrUpdate_def by (rule leaves_createOrUpdate)

lemma leaves_ensureNotifications [keeps]:
  "leaves kept (ensureNotificationsTransportURL L E bus Ironic_setNotif (transportURLCreateOrUpdate E i)
     (conditionsIn L Ironic_updConds))"
  unfolding ensureNotificationsTransportURL_def conditionsIn_def
  by (intro keeps; simp)

lemma leaves_transportSection [keeps]: "leaves kept (transportSection L E i)"
  unfolding transportSection_def osloTransport_def jsonRpcTransport_def
  by (intro keeps; simp)

lemma leaves_inputSecretSection [keeps]: "leaves kept (inputSecretSection L E i)"
  unfolding inputSecretSection_def by (intro keeps; simp)

lemma leaves_keystoneSection [keeps]: "leaves kept (keystoneSection E i)"
  unfolding keystoneSection_def by (intro keeps; simp)

lemma leaves_ensureDB [keeps]: "leaves kept (ensureDB L E i)"
  unfolding ensureDB_def
  by (intro keeps; simp)

lemma leaves_getTransportURL [keeps]: "leaves F (getTransportURL E i n)"
  unfolding getTransportURL_def by (intro keeps; simp)

lemma leaves_authParams [keeps]: "leaves F (authParams E i ke kr tp)"
  unfolding authParams_def by (intro keeps; simp)

lemma leaves_generateServiceConfigMaps [keeps]: "leaves F (generateServiceConfigMaps E i v ke kr db t)"
  unfolding generateServiceConfigMaps_def by (intro keeps; simp)

lemma leaves_createHash [keeps]: "leaves kept (createHashOfInputHashes E v)"
  unfolding createHashOfInputHashes_def by (intro keeps; simp)

lemma leaves_configSection [keeps]: "leaves kept (configSection L E i v ke kr db t)"
  unfolding configSection_def by (intro keeps; simp)

lemma leaves_acSecretSection [keeps]: "leaves kept (acSecretSection L E i)"
  unfolding acSecretSection_def manageACSecret_def by (intro keeps; simp)

lemma leaves_reconcileUpgrade [keeps]: "leaves kept (reconcileUpgrade L E P lbl)"
  unfolding reconcileUpgrade_def by (intro keeps; simp)

lemma leaves_mirrorFrom [keeps]: "leaves kept (mirrorFrom L t cs)"
  unfolding mirrorFrom_def by (intro keeps; simp)

lemma leaves_deployConductors [keeps]: "leaves kept (deployConductors L E i ke kr t h)"
  unfolding deployConductors_def deployConductor_def conductorDeploymentCreateOrUpdate_def
  by (intro keeps; simp)

lemma leaves_deployAPI [keeps]: "leaves kept (deployAPI L E ke kr t h r)"
  unfolding deployAPI_def apiDeploymentCreateOrUpdate_def by (intro keeps; simp)

lemma leaves_deleteSubResource [keeps]:
  "(\<And>i. kept (f i) = kept i) \<Longrightarrow> leaves kept (deleteSubResource E i C kind name fresh f)"
  unfolding deleteSubResource_def by (intro keeps; simp)

lemma leaves_deployInspector [keeps]: "leaves kept (deployInspector L E W fresh r)"
  unfolding deployInspector_def inspectorDeploymentCreateOrUpdate_def inspectorDeploymentDelete_def
  by (intro keeps; simp)

lemma leaves_deployNeutronAgent [keeps]: "leaves kept (deployNeutronAgent L E fresh r)"
  unfolding deployNeutronAgent_def ironicNeutronAgentDeploymentCreateOrUpdate_def
    ironicNeutronAgentDeploymentDelete_def
  by (intro keeps; simp)

lemma leaves_servicesSection [keeps]: "leaves kept (servicesSection L E W fi fa i ke kr t)"
  unfolding servicesSection_def inspectInterfaceSection_def by (intro keeps; simp)

lemma leaves_finishSection [keeps]: "leaves kept (finishSection L E i ot ct on cn r)"
  unfolding finishSection_def acRotationSection_def transportRotationSection_def
    notifRotationSection_def pruneSection_def readySection_def
  by (intro keeps; simp)

lemma leaves_rbacSection [keeps]: "leaves kept (rbacSection E i)"
  unfolding rbacSection_def by (intro keeps; simp)

lemma leaves_reconcileNormal [keeps]: "leaves kept (reconcileNormal L E P W fi fa)"
  unfolding reconcileNormal_def reconcileNormalFrom_def
  by (intro keeps; simp)

section \<open>Rollout before release\<close>

text \<open>The input hash the annotation of a sub-resource asks for.\<close>

definition askedHash :: "ObjectMeta \<Rightarrow> string" where
  "askedHash m = (case Annotations m of None \<Rightarrow> '''' | Some ann \<Rightarrow> optText (ann inputHashAnnotation))"

text \<open>Making an instance the controller of an object only changes its owner references.\<close>

definition ownerOnly :: "('o \<Rightarrow> ObjectMeta) \<Rightarrow> ('o \<Rightarrow> 's) \<Rightarrow> 'o crud \<Rightarrow> bool" where
  "ownerOnly meta spec C \<longleftrightarrow> (\<forall>m x y. cr_SetController C m x = Inr y \<longrightarrow>
     spec y = spec x \<and> Name (meta y) = Name (meta x) \<and> Namespace (meta y) = Namespace (meta x) \<and>
     Annotations (meta y) = Annotations (meta x) \<and> DeletionTimestamp (meta y) = DeletionTimestamp (meta x))"

lemma asked_annotate [simp]: "askedHash (annotate instance h m) = h"
  by (auto simp: askedHash_def annotate_def Let_def inputHashAnnotation_def IronicInspectInterfaceAnnotation_def
      split: option.split)

lemma asked_conductor:
  assumes "ownerOnly con_Meta con_Spec (conductors E)" and "conductorMutate E inst c ke kr ts h cur = Inr o'"
  shows "askedHash (con_Meta o') = h"
proof -
  have "Annotations (con_Meta o') = Annotations (annotate inst h (con_Meta cur))"
    using assms unfolding ownerOnly_def conductorMutate_def Let_def by fastforce
  then show ?thesis
    using asked_annotate [of inst h "con_Meta cur"] by (simp add: askedHash_def)
qed

lemma asked_API:
  assumes "ownerOnly api_Meta api_Spec (apis E)" and "apiMutate E inst ke kr ts h cur = Inr o'"
  shows "askedHash (api_Meta o') = h"
proof -
  have "Annotations (api_Meta o') = Annotations (annotate inst h (api_Meta cur))"
    using assms unfolding ownerOnly_def apiMutate_def by fastforce
  then show ?thesis
    using asked_annotate [of inst h "api_Meta cur"] by (simp add: askedHash_def)
qed

text \<open>The object of conductor \<open>c\<close> was read, brought to its desired state for the input
  hash \<open>h\<close> and stored, and the stored object came back as up to date with that hash;
  the same for the API.\<close>

definition conductorApplied :: "env \<Rightarrow> Ironic \<Rightarrow> IronicConductorTemplate \<Rightarrow> string \<Rightarrow> call list \<Rightarrow> bool" where
  "conductorApplied E i c h log \<longleftrightarrow>
     (\<exists>pre post n ns o' x op inst ke kr ts cur. n = conductorName (Name (Meta i)) c \<and> ns = Namespace (Meta i) \<and>
        log = pre @ Fetch ''IronicConductor'' n ns # StoreConductor o' # post \<and>
        cr_GetOrNew (conductors E) pre n ns = Inr cur \<and> conductorMutate E inst c ke kr ts h cur = Inr o' \<and>
        cr_Store (conductors E) (pre @ [Fetch ''IronicConductor'' n ns]) o' = Inr (x, op) \<and> conductorCurrent h x)"

definition apiApplied :: "env \<Rightarrow> Ironic \<Rightarrow> string \<Rightarrow> call list \<Rightarrow> bool" where
  "apiApplied E i h log \<longleftrightarrow>
     (\<exists>pre post n ns o' x op inst ke kr ts cur. n = Name (Meta i) @ ''-api'' \<and> ns = Namespace (Meta i) \<and>
        log = pre @ Fetch ''IronicAPI'' n ns # StoreAPI o' # post \<and>
        cr_GetOrNew (apis E) pre n ns = Inr cur \<and> apiMutate E inst ke kr ts h cur = Inr o' \<and>
        cr_Store (apis E) (pre @ [Fetch ''IronicAPI'' n ns]) o' = Inr (x, op) \<and> apiCurrent h x)"

lemma grows_conductorApplied: "grows (conductorApplied E i c h)"
  unfolding grows_def conductorApplied_def by (metis append.assoc append_Cons)

lemma grows_apiApplied: "grows (apiApplied E i h)"
  unfolding grows_def apiApplied_def by (metis append.assoc append_Cons)

lemma conductorApplied_now:
  assumes "cr_GetOrNew (conductors E) cs n ns = Inr cur" and "conductorMutate E inst c ke kr ts h cur = Inr o'"
    and "cr_Store (conductors E) (cs @ [Fetch ''IronicConductor'' n ns]) o' = Inr (x, op)" and "conductorCurrent h x"
    and "n = conductorName (Name (Meta i)) c" and "ns = Namespace (Meta i)"
  shows "conductorApplied E i c h (cs @ [Fetch ''IronicConductor'' n ns, StoreConductor o'])"
  using assms unfolding conductorApplied_def by blast

lemma apiApplied_now:
  assumes "cr_GetOrNew (apis E) cs n ns = Inr cur" and "apiMutate E inst ke kr ts h cur = Inr o'"
    and "cr_Store (apis E) (cs @ [Fetch ''IronicAPI'' n ns]) o' = Inr (x, op)" and "apiCurrent h x"
    and "n = Name (Meta i) @ ''-api''" and "ns = Namespace (Meta i)"
  shows "apiApplied E i h (cs @ [Fetch ''IronicAPI'' n ns, StoreAPI o'])"
  using assms unfolding apiApplied_def by blast

text \<open>The result of \<open>createOrUpdate\<close>, as a postcondition.\<close>

lemma valid_createOrUpdate:
  assumes "\<And>s err cs'. P s \<Longrightarrow> Q (Inl err) (s\<lparr>calls := calls s @ cs'\<rparr>)"
    and "\<And>s cur new x. P s \<Longrightarrow> cr_GetOrNew C (calls s) name ns = Inr cur \<Longrightarrow> f cur = Inr new \<Longrightarrow>
        cr_Store C (calls s @ [Fetch kind name ns]) new = Inr x \<Longrightarrow>
        Q (Inr x) (s\<lparr>calls := calls s @ [Fetch kind name ns, mk new]\<rparr>)"
  shows "valid P (createOrUpdate C kind mk name ns f) Q R"
  unfolding valid_def
proof (intro allI impI)
  fix s assume P: "P s"
  let ?got = "cr_GetOrNew C (calls s) name ns"
  let ?stored = "cr_Store C (calls s @ [Fetch kind name ns])"
  consider e where "?got = Inl e"
    | cur e where "?got = Inr cur" "f cur = Inl e"
    | cur new e where "?got = Inr cur" "f cur = Inr new" "?stored new = Inl e"
    | cur new x where "?got = Inr cur" "f cur = Inr new" "?stored new = Inr x"
    by (metis old.sum.exhaust)
  then show "case createOrUpdate C kind mk name ns f s of (Continue x, s') \<Rightarrow> Q x s' | (Return r, s') \<Rightarrow> R r s'"
    by cases (simp_all add: createOrUpdate_def step_simps assms(1) [OF P, of _ "[Fetch kind name ns]"]
        assms(1) [OF P, of _ "[Fetch kind name ns, mk _]"] assms(2) [OF P])
qed

lemma valid_orFail: "valid P m (\<lambda>r s. case r of None \<Rightarrow> Q () s | Some e \<Rightarrow> R (emptyResult, Some e) s) R \<Longrightarrow> valid P (orFail m) Q R"
  unfolding orFail_def
  by (erule valid_bnd) (auto simp: valid_def ret_def exit_def split: option.splits)

lemma valid_getOrFail:
  "valid P m (\<lambda>r s. case r of Inr x \<Rightarrow> Q x s | Inl e \<Rightarrow> R (emptyResult, Some e) s) R \<Longrightarrow> valid P (getOrFail m) Q R"
  unfolding getOrFail_def
  by (erule valid_bnd) (auto simp: valid_def ret_def exit_def split: sum.splits)

lemma emits_mirrorFrom [keeps]: "emits A (mirrorFrom L t cs)"
  unfolding mirrorFrom_def by (intro keeps)

lemmas quiet_defs = failWith_def modStatus_def setCond_def markTrue_def mirrorFrom_def

text \<open>The metadata and the spec of the run's instance, and a condition on the log.\<close>

abbreviation within :: "Ironic \<Rightarrow> (call list \<Rightarrow> bool) \<Rightarrow> (Ironic, call) st \<Rightarrow> bool" where
  "within i G s \<equiv> kept (obj s) = kept i \<and> G (calls s)"

lemma within_step:
  fixes m :: "'a iact"
  assumes "leaves kept m" and "emits (\<lambda>_. True) m" and "grows G"
  shows "valid (within i G) m (\<lambda>_. within i G) (\<lambda>_ _. True)"
  by (rule valid_weaken [OF valid_conj [OF valid_leaves [OF assms(1), where G = "\<lambda>x. x = kept i"] valid_grows [OF assms(2,3)]]])
    simp_all

lemma conductorStored:
  assumes "grows G" and "kept inst = kept i"
  shows "valid (within i G) (conductorDeploymentCreateOrUpdate E inst c ke kr ts h)
    (\<lambda>r s. within i G s \<and> (\<forall>x op. r = Inr (x, op) \<longrightarrow> conductorCurrent h x \<longrightarrow> conductorApplied E i c h (calls s))) R"
  unfolding conductorDeploymentCreateOrUpdate_def
proof (rule valid_createOrUpdate)
  fix s :: "(Ironic, call) st" and cur new x
  let ?n = "conductorName (Name (Meta inst)) c" and ?ns = "Namespace (Meta inst)"
  let ?f = "Fetch ''IronicConductor'' ?n ?ns"
  assume s: "within i G s"
    and cur: "cr_GetOrNew (conductors E) (calls s) ?n ?ns = Inr cur"
    and new: "conductorMutate E inst c ke kr ts h cur = Inr new"
    and x: "cr_Store (conductors E) (calls s @ [?f]) new = Inr x"
  have "conductorApplied E i c h (calls s @ [?f, StoreConductor new])" if "conductorCurrent h (fst x)"
    using conductorApplied_now [OF cur new, of "fst x" "snd x" i] x that assms(2) by (simp add: kept_def)
  with s show "within i G (s\<lparr>calls := calls s @ [?f, StoreConductor new]\<rparr>) \<and>
      (\<forall>y op. Inr x = Inr (y, op) \<longrightarrow> conductorCurrent h y \<longrightarrow>
         conductorApplied E i c h (calls (s\<lparr>calls := calls s @ [?f, StoreConductor new]\<rparr>)))"
    by (auto intro: growsD [OF assms(1)])
qed (simp_all add: growsD [OF assms(1)])

lemma valid_getObj_within:
  "(\<And>x. kept x = kept i \<Longrightarrow> valid (within i G) (f x) Q R) \<Longrightarrow> valid (within i G) (bnd getObj f) Q R"
  by (simp add: valid_def step_simps)

lemma conductor_rollout:
  assumes "grows G"
  shows "valid (\<lambda>s. kept (obj s) = kept i \<and> (fst acc \<longrightarrow> G (calls s))) (deployConductor L E ke kr ts h c acc)
     (\<lambda>acc' s. kept (obj s) = kept i \<and> (fst acc' \<longrightarrow> G (calls s) \<and> conductorApplied E i c h (calls s))) (\<lambda>_ _. True)"
proof -
  have grows: "grows (\<lambda>cs. fst acc \<longrightarrow> G cs)"
    using assms by (simp add: grows_def)
  show ?thesis
    unfolding deployConductor_def
    by (rule valid_getObj_within [where G = "\<lambda>cs. fst acc \<longrightarrow> G cs"], rule valid_bnd [OF conductorStored [OF grows]], assumption)
       (auto simp: valid_def quiet_defs step_simps split: sum.split option.split)
qed

lemma conductors_rollout:
  "valid (\<lambda>s. kept (obj s) = kept i) (deployConductors L E i ke kr ts h)
     (\<lambda>ready s. kept (obj s) = kept i \<and>
        (ready \<longrightarrow> (\<forall>c\<in>set (sp_IronicConductors (Spec i)). conductorApplied E i c h (calls s))))
     (\<lambda>_ _. True)"
proof -
  let ?I = "\<lambda>cs (acc :: bool \<times> bool) s. kept (obj s) = kept i \<and>
     (fst acc \<longrightarrow> (\<forall>c\<in>set cs. conductorApplied E i c h (calls s)))"
  have grows: "grows (\<lambda>log. \<forall>c\<in>set cs. conductorApplied E i c h log)" for cs
    using grows_conductorApplied by (auto simp: grows_def)
  have "valid (?I [] (True, False)) (foreach (sp_IronicConductors (Spec i)) (True, False)
      (deployConductor L E ke kr ts h)) (?I (sp_IronicConductors (Spec i))) (\<lambda>_ _. True)"
    by (rule valid_foreach, rule valid_weaken [OF conductor_rollout [OF grows]]) auto
  then have loop: "valid (\<lambda>s. kept (obj s) = kept i) (foreach (sp_IronicConductors (Spec i)) (True, False)
      (deployConductor L E ke kr ts h)) (?I (sp_IronicConductors (Spec i))) (\<lambda>_ _. True)"
    by (rule valid_weaken) simp_all
  show ?thesis
    unfolding deployConductors_def
    by (rule valid_bnd [OF loop])
       (auto simp: valid_def quiet_defs step_simps whenM_def split: if_splits step.split)
qed

lemma api_rollout:
  assumes "grows G"
  shows "valid (\<lambda>s. kept (obj s) = kept i \<and> (ready \<longrightarrow> G (calls s))) (deployAPI L E ke kr ts h ready)
     (\<lambda>ready' s. kept (obj s) = kept i \<and> (ready' \<longrightarrow> G (calls s) \<and> apiApplied E i h (calls s))) (\<lambda>_ _. True)"
proof -
  let ?n = "\<lambda>inst. Name (Meta inst) @ ''-api''" and ?ns = "\<lambda>inst. Namespace (Meta inst)"
  let ?f = "\<lambda>inst. Fetch ''IronicAPI'' (?n inst) (?ns inst)"
  let ?G = "\<lambda>cs. ready \<longrightarrow> G cs"
  have grows: "grows ?G"
    using assms by (simp add: grows_def)
  have stored: "valid (within i ?G) (apiDeploymentCreateOrUpdate E inst ke kr ts h)
    (\<lambda>r s. within i ?G s \<and> (\<forall>x op. r = Inr (x, op) \<longrightarrow> apiCurrent h x \<longrightarrow> apiApplied E i h (calls s))) (\<lambda>_ _. True)"
    if inst: "kept inst = kept i" for inst
    unfolding apiDeploymentCreateOrUpdate_def
  proof (rule valid_createOrUpdate)
    fix s :: "(Ironic, call) st" and cur new x
    assume s: "within i ?G s" and cur: "cr_GetOrNew (apis E) (calls s) (?n inst) (?ns inst) = Inr cur"
      and new: "apiMutate E inst ke kr ts h cur = Inr new"
      and x: "cr_Store (apis E) (calls s @ [?f inst]) new = Inr x"
    have "apiApplied E i h (calls s @ [?f inst, StoreAPI new])" if "apiCurrent h (fst x)"
      using apiApplied_now [OF cur new, of "fst x" "snd x" i] x that inst by (simp add: kept_def)
    with s show "within i ?G (s\<lparr>calls := calls s @ [?f inst, StoreAPI new]\<rparr>) \<and>
        (\<forall>y op. Inr x = Inr (y, op) \<longrightarrow> apiCurrent h y \<longrightarrow>
           apiApplied E i h (calls (s\<lparr>calls := calls s @ [?f inst, StoreAPI new]\<rparr>)))"
      by (auto intro: growsD [OF assms])
  qed (simp_all add: growsD [OF assms])
  show ?thesis
    unfolding deployAPI_def
    by (rule valid_getObj_within [where G = ?G], rule valid_bnd [OF stored], assumption)
       (auto simp: valid_def quiet_defs step_simps split: sum.split option.split)
qed

text \<open>No section before the end of the reconcile finalizes a rotation, and the end
  does it with the readiness it was given.\<close>

definition finalizes :: "call \<Rightarrow> bool" where
  "finalizes c \<longleftrightarrow> (case c of FinalizeSecretRotation _ _ _ _ ready \<Rightarrow> ready | _ \<Rightarrow> False)"

lemma finalizes_simps [simp]:
  "finalizes (FinalizeSecretRotation ns old new fin ready) = ready"
  "\<not> finalizes (Fetch k n ns)" "\<not> finalizes (StoreTransportURL tu)" "\<not> finalizes (StoreConductor c)"
  "\<not> finalizes (StoreAPI ap)" "\<not> finalizes (StoreInspector ins)" "\<not> finalizes (StoreNeutronAgent na)"
  "\<not> finalizes (StoreIronic i)" "\<not> finalizes (Delete k n ns)" "\<not> finalizes (GetSecret n ns)"
  "\<not> finalizes (VerifySecretFields n s f)" "\<not> finalizes (GetKeystoneAPI ns)" "\<not> finalizes (ReconcileRbac n ns)"
  "\<not> finalizes (ManageSecretConsumerFinalizer ns n f)" "\<not> finalizes (RemoveSecretConsumerFinalizer ns n f)"
  "\<not> finalizes (PruneSecretConsumerFinalizers ns f ks)" "\<not> finalizes (EnsureSecrets t)" "\<not> finalizes (DoJob j h)"
  "\<not> finalizes (EnsureMariaDBAccount n a b)" "\<not> finalizes (CreateOrPatchAllDB d)" "\<not> finalizes WaitForDBCreated"
  "\<not> finalizes (DeleteUnusedMariaDBAccountFinalizers n a b)"
  by (simp_all add: finalizes_def)

lemmas section_defs = transportSection_def osloTransport_def jsonRpcTransport_def transportURLCreateOrUpdate_def
  ensureNotificationsTransportURL_def inputSecretSection_def keystoneSection_def ensureDB_def configSection_def
  generateServiceConfigMaps_def getTransportURL_def authParams_def createHashOfInputHashes_def acSecretSection_def
  manageACSecret_def reconcileUpgrade_def rbacSection_def

lemma emits_createOrUpdate_simple [keeps]:
  "A (Fetch kind name ns) \<Longrightarrow> (\<And>x. A (mk x)) \<Longrightarrow> emits A (createOrUpdate C kind mk name ns f)"
  by (rule emits_createOrUpdate)

lemma before_services:
  "emits (\<lambda>c. \<not> finalizes c) (rbacSection E i)" "emits (\<lambda>c. \<not> finalizes c) (transportSection L E i)"
  "emits (\<lambda>c. \<not> finalizes c) (inputSecretSection L E i)" "emits (\<lambda>c. \<not> finalizes c) (keystoneSection E i)"
  "emits (\<lambda>c. \<not> finalizes c) (ensureDB L E i)" "emits (\<lambda>c. \<not> finalizes c) (configSection L E i v ke kr db t)"
  "emits (\<lambda>c. \<not> finalizes c) (acSecretSection L E i)" "emits (\<lambda>c. \<not> finalizes c) (reconcileUpgrade L E P lbl)"
  unfolding section_defs by (intro keeps; simp)+

lemma services_emits: "emits (\<lambda>c. \<not> finalizes c) (servicesSection L E W fi fa i ke kr t)"
  unfolding servicesSection_def deployConductors_def deployConductor_def conductorDeploymentCreateOrUpdate_def
    deployAPI_def apiDeploymentCreateOrUpdate_def inspectInterfaceSection_def deployInspector_def
    inspectorDeploymentCreateOrUpdate_def inspectorDeploymentDelete_def deployNeutronAgent_def
    ironicNeutronAgentDeploymentCreateOrUpdate_def ironicNeutronAgentDeploymentDelete_def deleteSubResource_def
  by (intro keeps; simp)

lemma finish_emits: "emits (\<lambda>c. finalizes c \<longrightarrow> ready) (finishSection L E i ot ct on cn ready)"
  unfolding finishSection_def acRotationSection_def transportRotationSection_def notifRotationSection_def
    pruneSection_def readySection_def
  by (intro keeps; simp)

definition rolledOut :: "env \<Rightarrow> Ironic \<Rightarrow> call list \<Rightarrow> bool" where
  "rolledOut E i log \<longleftrightarrow>
     (\<exists>h. (\<forall>c\<in>set (sp_IronicConductors (Spec i)). conductorApplied E i c h log) \<and> apiApplied E i h log)"

lemma grows_rolledOut: "grows (rolledOut E i)"
  using grows_conductorApplied grows_apiApplied unfolding grows_def rolledOut_def by blast

lemma valid_post_True: "emits (\<lambda>_. True) m \<Longrightarrow> valid P m (\<lambda>_ _. True) (\<lambda>_ _. True)"
  by (auto simp: valid_def split: prod.split step.split)

lemma deploy_emits [keeps]:
  "emits (\<lambda>_. True) (deployInspector L E W fi ready)" "emits (\<lambda>_. True) (deployNeutronAgent L E fa ready)"
  unfolding deployInspector_def inspectorDeploymentCreateOrUpdate_def inspectorDeploymentDelete_def
    deployNeutronAgent_def ironicNeutronAgentDeploymentCreateOrUpdate_def ironicNeutronAgentDeploymentDelete_def
    deleteSubResource_def
  by (intro keeps; simp)+

lemma yields_deployInspector: "yields (\<lambda>r. r \<longrightarrow> ready) (deployInspector L E W fi ready)"
  unfolding deployInspector_def failWith_def by (intro yields; simp)

lemma yields_deployNeutronAgent: "yields (\<lambda>r. r \<longrightarrow> ready) (deployNeutronAgent L E fa ready)"
  unfolding deployNeutronAgent_def failWith_def by (intro yields; simp)

lemma services_rollout:
  "valid (\<lambda>s. kept (obj s) = kept i) (servicesSection L E W fi fa i ke kr t)
     (\<lambda>ready s. ready \<longrightarrow> rolledOut E i (calls s)) (\<lambda>_ _. True)"
proof -
  let ?C = "\<lambda>h log. \<forall>c\<in>set (sp_IronicConductors (Spec i)). conductorApplied E i c h log"
  have g1: "grows (?C h)" for h
    using grows_conductorApplied by (auto simp: grows_def)
  have g2: "grows (\<lambda>log. ready \<longrightarrow> ?C h log \<and> apiApplied E i h log)" for ready h
    using g1 grows_apiApplied by (auto simp: grows_def)
  let ?Q = "\<lambda>h ready s. ready \<longrightarrow> ?C h (calls s) \<and> apiApplied E i h (calls s)"
  have tail: "valid (?Q h ready) (thn (inspectInterfaceSection i)
      (bnd (deployInspector L E W fi ready) (deployNeutronAgent L E fa))) (?Q h) (\<lambda>_ _. True)" for h ready
  proof (rule valid_yields [OF _ _ g2])
    show "emits (\<lambda>_. True) (thn (inspectInterfaceSection i) (bnd (deployInspector L E W fi ready) (deployNeutronAgent L E fa)))"
      unfolding inspectInterfaceSection_def by (intro keeps)
    have "yields (\<lambda>r. r \<longrightarrow> ready) (bnd (deployInspector L E W fi ready) (deployNeutronAgent L E fa))"
      by (rule yields_bnd_value [OF yields_deployInspector])
         (use yields_deployNeutronAgent in \<open>fastforce simp: yields_def\<close>)
    then show "yields (\<lambda>r. r \<longrightarrow> ready) (thn (inspectInterfaceSection i)
        (bnd (deployInspector L E W fi ready) (deployNeutronAgent L E fa)))"
      by (rule yields_thn)
  qed
  have main: "valid (\<lambda>s. kept (obj s) = kept i) (bnd (deployConductors L E i ke kr t h)
      (\<lambda>ready. bnd (deployAPI L E ke kr t h ready)
      (\<lambda>ready. thn (inspectInterfaceSection i) (bnd (deployInspector L E W fi ready) (deployNeutronAgent L E fa)))))
      (?Q h) (\<lambda>_ _. True)" for h
    by (rule valid_bnd [OF conductors_rollout], rule valid_bnd [OF api_rollout [OF g1]],
        rule valid_pre [OF tail], simp)
  show ?thesis
    unfolding servicesSection_def
    by (rule valid_getObj_within [where G = "\<lambda>_. True", simplified],
        rule valid_bnd [where Q' = "\<lambda>_ s. kept (obj s) = kept i"],
        rule valid_weaken [OF valid_leaves [where G = "\<lambda>x. x = kept i"]], rule leaves_getOrFail, rule keeps,
        simp_all, rule valid_weaken [OF main]) (auto simp: rolledOut_def)
qed

text \<open>When a call of the log finalizes a rotation, the rollout was complete in the log
  before it.\<close>

abbreviation guarded :: "env \<Rightarrow> Ironic \<Rightarrow> call list \<Rightarrow> bool" where
  "guarded E i \<equiv> guards finalizes (rolledOut E i)"

abbreviation noFinalize :: "(Ironic, call) st \<Rightarrow> bool" where
  "noFinalize \<equiv> quiet finalizes"

lemma guarded_step:
  fixes m :: "'a iact"
  assumes "emits (\<lambda>c. \<not> finalizes c) m" and "leaves kept m"
  shows "valid (\<lambda>s. kept (obj s) = kept i \<and> noFinalize s) m (\<lambda>_ s. kept (obj s) = kept i \<and> noFinalize s)
     (\<lambda>_ s. guarded E i (calls s))"
  by (rule valid_weaken [OF valid_conj [OF valid_leaves [OF assms(2), where G = "\<lambda>x. x = kept i"]
        valid_quiet [OF assms(1), where G = "rolledOut E i"]]]) simp_all

lemma guarded_end:
  fixes j :: Ironic
  shows "valid (\<lambda>s. noFinalize s \<and> (ready \<longrightarrow> rolledOut E i (calls s)))
     (finishSection L E j ot ct on cn ready) (\<lambda>_ s. guarded E i (calls s)) (\<lambda>_ s. guarded E i (calls s))"
  by (rule valid_guards_end [OF finish_emits grows_rolledOut])

lemma guarded_services:
  "valid (\<lambda>s. kept (obj s) = kept i \<and> noFinalize s) (servicesSection L E W fi fa i ke kr t)
     (\<lambda>ready s. noFinalize s \<and> (ready \<longrightarrow> rolledOut E i (calls s))) (\<lambda>_ s. guarded E i (calls s))"
  by (rule valid_weaken [OF valid_conj [OF valid_quiet [OF services_emits] services_rollout]]) auto

lemma reconcileNormal_guarded:
  "valid (\<lambda>s. obj s = i \<and> calls s = []) (reconcileNormal L E P W fi fa)
     (\<lambda>_ s. guarded E i (calls s)) (\<lambda>_ s. guarded E i (calls s))"
  unfolding reconcileNormal_def
proof -
  note steps = before_services(1) [THEN guarded_step, OF leaves_rbacSection]
    before_services(2) [THEN guarded_step, OF leaves_transportSection]
    before_services(3) [THEN guarded_step, OF leaves_inputSecretSection]
    before_services(4) [THEN guarded_step, OF leaves_keystoneSection]
    before_services(5) [THEN guarded_step, OF leaves_ensureDB]
    before_services(6) [THEN guarded_step, OF leaves_configSection]
    before_services(7) [THEN guarded_step, OF leaves_acSecretSection]
    guarded_step [OF emits_func, OF before_services(8) leaves_func, OF leaves_reconcileUpgrade]
    guarded_step [OF emits_modStatus leaves_modStatus] guarded_services guarded_end
  show "valid (\<lambda>s. obj s = i \<and> calls s = []) (bnd getObj (reconcileNormalFrom L E P W fi fa))
      (\<lambda>_ s. guarded E i (calls s)) (\<lambda>_ s. guarded E i (calls s))"
    by (rule valid_bnd [where Q' = "\<lambda>inst s. inst = i \<and> kept (obj s) = kept i \<and> noFinalize s"], rule valid_getObj, force,
        rule valid_imp, hypsubst, unfold reconcileNormalFrom_def,
        (rule steps valid_thn valid_bnd valid_prod valid_let valid_if valid_exit | simp add: guards_quiet)+)
qed

end
