(* ===== verification/Examples.thy ===== *)
theory Examples
  imports IronicProps
begin

text \<open>
  A condition library that follows its documentation and an environment in which
  every service comes up at once: the concrete inputs of the witnesses about the
  controllers, and the environment's answers as simplification facts.
\<close>

section \<open>Conditions\<close>

definition exampleConds :: condLib where
  "exampleConds = \<lparr>
     FalseCondition = (\<lambda>t r sv m. \<lparr>c_type = t, c_status = CondFalse, c_severity = sv, c_reason = r, c_message = m\<rparr>),
     UnknownCondition = (\<lambda>t r m. \<lparr>c_type = t, c_status = CondUnknown, c_severity = '''', c_reason = r, c_message = m\<rparr>),
     cl_Set = (\<lambda>c cs. c # filter (\<lambda>d. c_type d \<noteq> c_type c) cs),
     cl_MarkTrue = (\<lambda>t m cs. \<lparr>c_type = t, c_status = CondTrue, c_severity = '''', c_reason = ''Ready'', c_message = m\<rparr>
        # filter (\<lambda>d. c_type d \<noteq> t) cs),
     cl_Remove = (\<lambda>t. filter (\<lambda>d. c_type d \<noteq> t)),
     cl_Init = (\<lambda>new cs. cs @ filter (\<lambda>c. c_type c \<notin> c_type ` set cs) new),
     cl_IsTrue = (\<lambda>t. list_ex (\<lambda>c. c_type c = t \<and> c_status c = CondTrue)),
     cl_IsUnknown = (\<lambda>t. list_ex (\<lambda>c. c_type c = t \<and> c_status c = CondUnknown)),
     cl_Mirror = (\<lambda>t cs. case cs of [] \<Rightarrow> None | c # _ \<Rightarrow> Some (c\<lparr>c_type := t\<rparr>)),
     cl_AllSubConditionIsTrue = list_all (\<lambda>c. c_type c = ''ReadyCondition'' \<or> c_status c = CondTrue),
     cl_CreateList = (\<lambda>cs. cs),
     cl_RestoreLastTransitionTimes = (\<lambda>cs _. cs),
     cl_MarkUnknown = (\<lambda>t r m cs. \<lparr>c_type = t, c_status = CondUnknown, c_severity = '''', c_reason = r, c_message = m\<rparr>
        # filter (\<lambda>d. c_type d \<noteq> t) cs),
     cl_Get = (\<lambda>t cs. find (\<lambda>c. c_type c = t) cs),
     cl_SetShared = (\<lambda>c. map (\<lambda>d. if c_type d = c_type c then c else d))\<rparr>"

lemma exampleConds_laws [simp]: "condLib_laws exampleConds"
  by (auto simp: condLib_laws_def exampleConds_def list_ex_iff)

section \<open>Instances\<close>

lemma exampleIronic_simps [simp]:
  "sp_IronicConductors (Spec (exampleIronic cs rs)) = cs" "RPCTransport (Spec (exampleIronic cs rs)) = ''json-rpc''"
  "\<not> Standalone (Spec (exampleIronic cs rs))" "NotificationsBus (Spec (exampleIronic cs rs)) = None"
  "st_TransportURLSecret (Status (exampleIronic cs rs)) = ''''" "Meta (exampleIronic cs rs) = exampleMeta ''ironic''"
  "Status (exampleIronic cs rs) = exampleStatus"
  by (simp_all add: exampleIronic_def exampleSpec_def IronicSpecCore.defs exampleStatus_def)

lemma exampleMeta_simps [simp]:
  "Name (exampleMeta n) = n" "Namespace (exampleMeta n) = ''openstack''" "DeletionTimestamp (exampleMeta n) = None"
  by (simp_all add: exampleMeta_def)

section \<open>A digest\<close>

text \<open>A hash of lists of names that tells them apart.\<close>

fun exampleMark :: "string \<Rightarrow> string" where
  "exampleMark [] = ''.''"
| "exampleMark (c # cs) = CHR '','' # c # exampleMark cs"

fun exampleDigest :: "string list \<Rightarrow> string" where
  "exampleDigest [] = ''hash''"
| "exampleDigest (x # xs) = exampleMark x @ exampleDigest xs"

lemma exampleMark_append: "exampleMark x @ u = exampleMark y @ v \<longleftrightarrow> x = y \<and> u = v"
proof (induction x arbitrary: y)
  case Nil
  then show ?case by (cases y) auto
next
  case (Cons c cs)
  then show ?case by (cases y) auto
qed

lemma exampleMark_hash: "exampleMark x @ u \<noteq> ''hash''"
  by (cases x) simp_all

lemma exampleDigest_inj: "exampleDigest xs = exampleDigest ys \<longleftrightarrow> xs = ys"
proof (induction xs arbitrary: ys)
  case Nil
  show ?case
    using exampleMark_hash by (cases ys) (auto simp: eq_commute [of "''hash''"])
next
  case (Cons x xs)
  then show ?case
    using exampleMark_hash by (cases ys) (auto simp: exampleMark_append)
qed

lemma exampleDigest_nonempty: "exampleDigest xs \<noteq> ''''"
proof (cases xs)
  case (Cons x ys)
  then show ?thesis by (cases x) simp_all
qed simp

section \<open>Stored objects\<close>

text \<open>The sub-resources as their controllers leave them: they have seen their
  generation and applied the input they are asked for.\<close>

definition exampleConductorObject :: IronicConductor where
  "exampleConductorObject = \<lparr>con_Meta = exampleMeta ''ironic-conductor'',
     con_Spec = conductorSpecFor (exampleIronic [] []) (exampleConductor '''' []) \<lparr>ke_Internal = '''', ke_Public = ''''\<rparr> '''' '''',
     con_Status = \<lparr>cst_Hash = None,
       cst_Conditions = Some [\<lparr>c_type = ''ReadyCondition'', c_status = CondTrue, c_severity = '''', c_reason = '''', c_message = []\<rparr>], cst_ReadyCount = 1, cst_NetworkAttachments = Map.empty,
       cst_ObservedGeneration = 1, cst_AppliedInputSecretHash = '''', cst_LastAppliedTopology = None\<rparr>\<rparr>"

definition exampleAPIObject :: IronicAPI where
  "exampleAPIObject = \<lparr>api_Meta = exampleMeta ''ironic-api'',
     api_Spec = apiSpecFor (exampleIronic [] []) \<lparr>ke_Internal = '''', ke_Public = ''''\<rparr> '''' '''',
     api_Status = \<lparr>ast_Hash = None,
       ast_APIEndpoints = Some [''ironic'' \<mapsto> [''public'' \<mapsto> ''https://ironic'', ''internal'' \<mapsto> ''http://ironic'']],
       ast_Conditions = Some [], ast_ReadyCount = 1,
       ast_NetworkAttachments = Map.empty, ast_ObservedGeneration = 1, ast_AppliedInputSecretHash = '''',
       ast_LastAppliedTopology = None\<rparr>\<rparr>"

definition exampleInspectorObject :: IronicInspector where
  "exampleInspectorObject = \<lparr>ins_Meta = exampleMeta ''ironic-inspector'',
     ins_Spec = inspectorSpecFor exampleLib (exampleIronic [] []),
     ins_Status = \<lparr>ist_Hash = None, ist_APIEndpoints = None, ist_Conditions = None, ist_DatabaseHostname = '''',
       ist_ReadyCount = 1, ist_TransportURLSecret = '''', ist_NotificationsURLSecret = None,
       ist_NetworkAttachments = Map.empty, ist_ObservedGeneration = 1, ist_AppliedInputSecretHash = '''',
       ist_LastAppliedTopology = None\<rparr>\<rparr>"

definition exampleAgentObject :: IronicNeutronAgent where
  "exampleAgentObject = \<lparr>na_Meta = exampleMeta ''ironic-ironic-neutron-agent'',
     na_Spec = neutronAgentSpecFor (exampleIronic [] []),
     na_Status = \<lparr>nst_Hash = None, nst_Conditions = None, nst_ReadyCount = 1, nst_TransportURLSecret = '''',
       nst_NotificationsURLSecret = None, nst_ObservedGeneration = 1, nst_AppliedInputSecretHash = '''',
       nst_LastAppliedTopology = None\<rparr>\<rparr>"

definition exampleTransport :: TransportURL where
  "exampleTransport = \<lparr>tu_Name = ''ironic-transport'', tu_Namespace = ''openstack'',
     tu_RabbitmqClusterName = ''rabbitmq'', tu_Username = '''', tu_Vhost = '''', tu_Owner = None,
     tu_StatusSecretName = ''transport-secret''\<rparr>"

definition exampleDatabase :: Database where
  "exampleDatabase = \<lparr>db_Hostname = ''db'', db_UserName = ''ironic'', db_Password = ''pw'', db_ClientConfig = (\<lambda>_. '''')\<rparr>"

text \<open>Reading gives the object \<open>x\<close>; storing gives back what was stored, with the
  status \<open>settle\<close> writes.\<close>

definition exampleCrud :: "'o \<Rightarrow> ('o \<Rightarrow> 'o) \<Rightarrow> 'o crud" where
  "exampleCrud x settle = \<lparr>cr_Get = (\<lambda>_ _ _. Inr x), cr_GetOrNew = (\<lambda>_ _ _. Inr x),
     cr_Store = (\<lambda>_ o'. Inr (settle o', OpNone)), cr_SetController = (\<lambda>_ o'. Inr o')\<rparr>"

lemma exampleCrud_simps [simp]:
  "cr_Get (exampleCrud x settle) cs n ns = Inr x" "cr_GetOrNew (exampleCrud x settle) cs n ns = Inr x"
  "cr_Store (exampleCrud x settle) cs y = Inr (settle y, OpNone)" "cr_SetController (exampleCrud x settle) m y = Inr y"
  by (simp_all add: exampleCrud_def)

definition settleTransport :: "TransportURL \<Rightarrow> TransportURL" where
  "settleTransport x = x\<lparr>tu_StatusSecretName := ''transport-secret''\<rparr>"

definition settleConductor :: "IronicConductor \<Rightarrow> IronicConductor" where
  "settleConductor x = x\<lparr>con_Status := (con_Status exampleConductorObject)
     \<lparr>cst_ObservedGeneration := Generation (con_Meta x), cst_AppliedInputSecretHash := askedHash (con_Meta x)\<rparr>\<rparr>"

definition settleAPI :: "IronicAPI \<Rightarrow> IronicAPI" where
  "settleAPI x = x\<lparr>api_Status := (api_Status exampleAPIObject)
     \<lparr>ast_ObservedGeneration := Generation (api_Meta x), ast_AppliedInputSecretHash := askedHash (api_Meta x)\<rparr>\<rparr>"

definition settleInspector :: "IronicInspector \<Rightarrow> IronicInspector" where
  "settleInspector x = x\<lparr>ins_Status := (ins_Status exampleInspectorObject)
     \<lparr>ist_ObservedGeneration := Generation (ins_Meta x)\<rparr>\<rparr>"

definition settleAgent :: "IronicNeutronAgent \<Rightarrow> IronicNeutronAgent" where
  "settleAgent x = x\<lparr>na_Status := (na_Status exampleAgentObject)
     \<lparr>nst_ObservedGeneration := Generation (na_Meta x)\<rparr>\<rparr>"

text \<open>The conductors and the API have the name they are asked for.\<close>

definition namedConductor :: "string \<Rightarrow> string \<Rightarrow> IronicConductor" where
  "namedConductor n ns = exampleConductorObject\<lparr>con_Meta := (exampleMeta n)\<lparr>Kind := ''IronicConductor'', Namespace := ns\<rparr>\<rparr>"

definition namedAPI :: "string \<Rightarrow> string \<Rightarrow> IronicAPI" where
  "namedAPI n ns = exampleAPIObject\<lparr>api_Meta := (exampleMeta n)\<lparr>Kind := ''IronicAPI'', Namespace := ns\<rparr>\<rparr>"

definition exampleConductors :: "IronicConductor crud" where
  "exampleConductors = (exampleCrud exampleConductorObject settleConductor)
     \<lparr>cr_GetOrNew := (\<lambda>_ n ns. Inr (namedConductor n ns))\<rparr>"

definition exampleAPIs :: "IronicAPI crud" where
  "exampleAPIs = (exampleCrud exampleAPIObject settleAPI)\<lparr>cr_GetOrNew := (\<lambda>_ n ns. Inr (namedAPI n ns))\<rparr>"

lemma exampleCruds_simps [simp]:
  "cr_Get exampleConductors cs n ns = Inr exampleConductorObject" "cr_GetOrNew exampleConductors cs n ns = Inr (namedConductor n ns)"
  "cr_Store exampleConductors cs x = Inr (settleConductor x, OpNone)" "cr_SetController exampleConductors m x = Inr x"
  "cr_Get exampleAPIs cs n ns = Inr exampleAPIObject" "cr_GetOrNew exampleAPIs cs n ns = Inr (namedAPI n ns)"
  "cr_Store exampleAPIs cs y = Inr (settleAPI y, OpNone)" "cr_SetController exampleAPIs m y = Inr y"
  by (simp_all add: exampleConductors_def exampleAPIs_def)

text \<open>The parent of the sub-resources, with its service account in place.\<close>

definition exampleParent :: Ironic where
  "exampleParent = (exampleIronic [] [])\<lparr>Status := exampleStatus\<lparr>st_Conditions :=
     Some (map (\<lambda>t. \<lparr>c_type = t, c_status = CondTrue, c_severity = '''', c_reason = '''', c_message = []\<rparr>)
       [''ServiceAccountReadyCondition'', ''RoleReadyCondition'', ''RoleBindingReadyCondition''])\<rparr>\<rparr>"

section \<open>Environment\<close>

definition exampleSecret :: secretData where
  "exampleSecret = [''transport_url'' \<mapsto> ''rabbit://'', ''quorumqueues'' \<mapsto> ''true'',
     ''IronicPassword'' \<mapsto> ''pw'', ''ACIDSecretKey'' \<mapsto> ''id'', ''ACSecretSecretKey'' \<mapsto> ''secret'']"

text \<open>A workload is rolled out as soon as it is stored.\<close>

definition exampleServices :: serviceEnv where
  "exampleServices = \<lparr>on_ListSecrets = (\<lambda>_ _ _. Inr [(''ironic-config-data'', Inr ''config-hash'')]),
     on_ValidateCACertSecret = (\<lambda>_ _ _. Inr ''ca-hash''), on_ValidateCertSecrets = (\<lambda>_ _ _. Inr ''cert-hash''),
     on_GetNAD = (\<lambda>_ n _. Inr (Some (Opaque n))), NetworksAnnotation = (\<lambda>_. Inr Map.empty),
     on_GetIngressController = (\<lambda>_. Inr (StatusMap [''domain'' \<mapsto> UText ''apps.example''])),
     on_CreateOrPatch = (\<lambda>_ wl. (emptyResult, None, \<lparr>ob_Name = wl_Name wl, ob_Namespace = wl_Namespace wl,
       ob_Generation = 1, ob_ObservedGeneration = 1, ob_ReadyReplicas = 1, ob_IsReady = True\<rparr>)),
     on_VerifyNetworkStatus = (\<lambda>_ _ _ _. Inr (True, Map.empty)), on_IsReadyForInput = (\<lambda>_ _ _ _. Inr True),
     on_EnsureDeletedTopologyRef = (\<lambda>_ _ _. (emptyResult, None)),
     on_ListPods = (\<lambda>_ _ _. Inr [''ironic-conductor-0'']), on_FetchService = (\<lambda>_ x. (x, None)),
     on_StoreService = (\<lambda>_ _. None), AddServiceOwner = (\<lambda>n x. Inr (x\<lparr>svc_Owners := [\<lparr>or_Kind = ''Pod'', or_Name = n\<rparr>]\<rparr>)),
     on_FetchRoute = (\<lambda>_ x. (x, None)), on_StoreRoute = (\<lambda>_ _. None),
     AddRouteOwner = (\<lambda>n x. Inr (x\<lparr>rt_Owners := [\<lparr>or_Kind = ''Pod'', or_Name = n\<rparr>]\<rparr>)),
     on_ListIronicAPI = (\<lambda>_ _ _. Inr [exampleAPIObject]), MarshalTraits = (\<lambda>_. Inr ''''),
     NewService = (\<lambda>d. Inr d), ServiceType = (\<lambda>_. ''ClusterIP''), ServiceHostname = (\<lambda>d. gs_Name d),
     on_CreateOrPatchService = (\<lambda>_ _. (emptyResult, None)), GetAPIEndpoint = (\<lambda>_ d _. Inr (gs_Name d)),
     publicFirst = (\<lambda>_. True), on_FetchKeystone = (\<lambda>_ _ n _. Inr \<lparr>ko_Name = n, ko_Meta = exampleMeta n\<rparr>),
     on_UpdateKeystone = (\<lambda>_ _ _. None)\<rparr>"

definition exampleEnv :: env where
  "exampleEnv = \<lparr>isNotFound = (\<lambda>e. e = ErrExternal ''NotFound''), errText = (\<lambda>_. ''error''),
     tus = exampleCrud exampleTransport settleTransport, conductors = exampleConductors,
     apis = exampleAPIs, inspectors = exampleCrud exampleInspectorObject settleInspector,
     agents = exampleCrud exampleAgentObject settleAgent, ironics = exampleCrud exampleParent (\<lambda>x. x),
     on_Delete = (\<lambda>_ _ _ _. None), on_GetSecret = (\<lambda>_ _ _. Inr exampleSecret),
     on_VerifySecretFields = (\<lambda>_ _ _ _. (''secret-hash'', emptyResult, None)),
     on_GetKeystoneAPI = (\<lambda>_ _. Inr \<lparr>ks_Endpoint = (\<lambda>t. Inr (''http://keystone-'' @ t)), ks_Region = ''regionOne''\<rparr>),
     on_ReconcileRbac = (\<lambda>_ _ _ cs. ((emptyResult, None), cs)),
     on_EnsureServiceTopology = (\<lambda>_ _ _ _. Inr None), on_Finalizer = (\<lambda>_ _. None),
     on_FinalizeSecretRotation = (\<lambda>_ _ old new _ ready. Inr (if ready then new else old)),
     on_EnsureSecrets = (\<lambda>_ _ vars. Inr vars), on_DoJob = (\<lambda>_ _ _. (emptyResult, None, None)),
     on_GetDatabase = (\<lambda>_ _ _ _. Inr exampleDatabase), on_DeleteDatabaseFinalizer = (\<lambda>_. None),
     on_EnsureMariaDBAccount = (\<lambda>_ _ _ _. None), on_CreateOrPatchAllDB = (\<lambda>_ _. (emptyResult, None)),
     on_WaitForDBCreated = (\<lambda>_. (emptyResult, None, exampleDatabase)),
     on_DeleteUnusedMariaDBAccountFinalizers = (\<lambda>_ _ _ _. None),
     on_KeystoneService = (\<lambda>_. ((emptyResult, None), [])), on_KeystoneEndpoint = (\<lambda>_. ((emptyResult, None), [])),
     ObjectHash = (\<lambda>xs. Inr (exampleDigest xs)), EnvHash = (\<lambda>_. Inr ''input-hash''), 
     SetHash = (\<lambda>m n h. if m \<noteq> None \<and> the m n = Some h then (m, False)
       else (Some ((case m of None \<Rightarrow> Map.empty | Some x \<Rightarrow> x)(n \<mapsto> h)), True)),
     GetLabels = (\<lambda>_. Map.empty), 
     AddFinalizer = (\<lambda>m. if ''openstack.org/ironic'' \<in> set (Finalizers m) then (m, False)
       else (m\<lparr>Finalizers := Finalizers m @ [''openstack.org/ironic'']\<rparr>, True)),
     DropFinalizer = (\<lambda>m. m\<lparr>Finalizers := []\<rparr>), HasFinalizer = (\<lambda>m. Finalizers m \<noteq> []),
     services = exampleServices\<rparr>"

lemma exampleEnv_simps [simp]:
  "isNotFound exampleEnv e \<longleftrightarrow> e = ErrExternal ''NotFound''"
  "tus exampleEnv = exampleCrud exampleTransport settleTransport" "conductors exampleEnv = exampleConductors"
  "apis exampleEnv = exampleAPIs" "inspectors exampleEnv = exampleCrud exampleInspectorObject settleInspector"
  "agents exampleEnv = exampleCrud exampleAgentObject settleAgent" "ironics exampleEnv = exampleCrud exampleParent (\<lambda>x. x)"
  "on_Delete exampleEnv cs k n ns = None" "on_GetSecret exampleEnv cs n ns = Inr exampleSecret"
  "on_VerifySecretFields exampleEnv cs n s f = (''secret-hash'', emptyResult, None)"
  "on_GetKeystoneAPI exampleEnv cs ns = Inr \<lparr>ks_Endpoint = (\<lambda>t. Inr (''http://keystone-'' @ t)), ks_Region = ''regionOne''\<rparr>"
  "on_ReconcileRbac exampleEnv cs n ns old = ((emptyResult, None), old)"
  "on_EnsureServiceTopology exampleEnv cs r q f = Inr None" "on_Finalizer exampleEnv cs c = None"
  "on_FinalizeSecretRotation exampleEnv cs ns s n f ready = Inr (if ready then n else s)"
  "on_EnsureSecrets exampleEnv cs ts vars = Inr vars" "on_DoJob exampleEnv cs j oldHash = (emptyResult, None, None)"
  "on_GetDatabase exampleEnv cs n a ns = Inr exampleDatabase" "on_DeleteDatabaseFinalizer exampleEnv cs = None"
  "on_EnsureMariaDBAccount exampleEnv cs n a ns = None" "on_CreateOrPatchAllDB exampleEnv cs nd = (emptyResult, None)"
  "on_WaitForDBCreated exampleEnv cs = (emptyResult, None, exampleDatabase)"
  "on_DeleteUnusedMariaDBAccountFinalizers exampleEnv cs n a ns = None"
  "on_KeystoneService exampleEnv cs = ((emptyResult, None), [])" "on_KeystoneEndpoint exampleEnv cs = ((emptyResult, None), [])"
  "ObjectHash exampleEnv xs = Inr (exampleDigest xs)" "EnvHash exampleEnv vars = Inr ''input-hash''"
  "GetLabels exampleEnv s = Map.empty"
  "DropFinalizer exampleEnv meta = meta\<lparr>Finalizers := []\<rparr>" "services exampleEnv = exampleServices"
  by (simp_all add: exampleEnv_def)

lemma exampleEnv_laws: "setHash_law exampleEnv" "finalizer_law exampleEnv"
  by (auto simp: setHash_law_def finalizer_law_def exampleEnv_def)

lemma example_finalizer [simp]:
  "''openstack.org/ironic'' \<in> set (Finalizers m) \<Longrightarrow> AddFinalizer exampleEnv m = (m, False)"
  by (simp add: exampleEnv_def)

lemma exampleMeta_Finalizers [simp]: "Finalizers (exampleMeta n) = [''openstack.org/ironic'']"
  by (simp add: exampleMeta_def)

end
