(* ===== verification/Steady.thy ===== *)
theory Steady
  imports Actions
begin

text \<open>
  Computations that give the same again: when two runs start from objects that agree on
  a part \<open>F\<close>, whatever else they hold and whatever was called before, the results agree.
\<close>

definition steady :: "('o \<Rightarrow> 'k) \<Rightarrow> ('o, 'c, 'r, 'a) act \<Rightarrow> bool" where
  "steady F m \<longleftrightarrow> (\<forall>s t. F (obj s) = F (obj t) \<longrightarrow> fst (m s) = fst (m t))"

named_theorems steady \<open>introduction rules for steady\<close>

lemma steadyD: "steady F m \<Longrightarrow> F (obj s) = F (obj t) \<Longrightarrow> fst (m s) = fst (m t)"
  unfolding steady_def by blast

lemma steady_ret [steady]: "steady F (ret x)"
  by (simp add: steady_def step_simps)

lemma steady_exit [steady]: "steady F (exit r)"
  by (simp add: steady_def step_simps)

lemma steady_modObj [steady]: "steady F (modObj f)"
  by (simp add: steady_def step_simps)

text \<open>An answer that does not depend on the calls made before.\<close>

lemma steady_ask [steady]: "(\<And>cs. f cs = f []) \<Longrightarrow> steady F (ask c f)"
  unfolding steady_def run_ask by (metis fst_conv)

lemma steady_bnd [steady]:
  fixes m :: "('o, 'c, 'r, 'a) act"
  assumes "steady F m" and "leaves F m" and "\<And>x. steady F (f x)"
  shows "steady F (bnd m f)"
  unfolding steady_def
proof (intro allI impI)
  fix s t :: "('o, 'c) st" assume st: "F (obj s) = F (obj t)"
  obtain r s' where s': "m s = (r, s')" by force
  obtain r' t' where t': "m t = (r', t')" by force
  have "r = r'"
    using steadyD [OF assms(1) st] s' t' by simp
  moreover have "F (obj s') = F (obj t')"
    using leavesD [OF assms(2), of s] leavesD [OF assms(2), of t] st s' t' by simp
  then have "fst (f x s') = fst (f x t')" for x
    by (rule steadyD [OF assms(3)])
  ultimately show "fst (bnd m f s) = fst (bnd m f t)"
    using s' t' by (simp add: bnd_def split: step.split)
qed

lemma steady_thn [steady]: "steady F m \<Longrightarrow> leaves F m \<Longrightarrow> steady F n \<Longrightarrow> steady F (thn m n)"
  unfolding thn_def by (rule steady_bnd)

text \<open>What is done with the object depends on the part only.\<close>

lemma steady_getObj:
  fixes f :: "'a \<Rightarrow> ('a, 'b, 'r, 'c) act"
  assumes "\<And>i j. F i = F j \<Longrightarrow> f i = f j" and "\<And>i. steady F (f i)"
  shows "steady F (bnd getObj f)"
  unfolding steady_def bnd_getObj
proof (intro allI impI)
  fix s t :: "('a, 'b) st" assume st: "F (obj s) = F (obj t)"
  show "fst (f (obj s) s) = fst (f (obj t) t)"
    unfolding assms(1) [OF st] by (rule steadyD [OF assms(2) st])
qed

lemma steady_func [steady]:
  assumes "steady F m"
  shows "steady F (func m)"
proof -
  have "fst (func m s) = (case fst (m s) of Continue x \<Rightarrow> Continue x | Return x \<Rightarrow> Continue x)" for s
    by (simp add: func_def split: prod.split step.split)
  then show ?thesis
    unfolding steady_def using steadyD [OF assms] by metis
qed

lemma steady_whenM [steady]: "(b \<Longrightarrow> steady F m) \<Longrightarrow> steady F (whenM b m)"
  unfolding whenM_def by (simp add: steady_ret)

lemma steady_foreach [steady]:
  "(\<And>x a. steady F (f x a)) \<Longrightarrow> (\<And>x a. leaves F (f x a)) \<Longrightarrow> steady F (foreach xs acc f)"
  by (induction xs arbitrary: acc) (simp_all add: steady_ret steady_bnd)

lemma steady_cases [steady]:
  "(b \<Longrightarrow> steady F m) \<Longrightarrow> (\<not> b \<Longrightarrow> steady F n) \<Longrightarrow> steady F (if b then m else n)"
  "(\<And>y z. steady F (g y z)) \<Longrightarrow> steady F (case p of (y, z) \<Rightarrow> g y z)"
  "(\<And>y. steady F (h y)) \<Longrightarrow> steady F (let y = a in h y)"
  "steady F m' \<Longrightarrow> (\<And>y. steady F (h' y)) \<Longrightarrow> steady F (case q of None \<Rightarrow> m' | Some y \<Rightarrow> h' y)"
  by (auto split: prod.split option.split)

lemma steady_sum [steady]:
  "(\<And>y. steady F (f y)) \<Longrightarrow> (\<And>y. steady F (g y)) \<Longrightarrow> steady F (case x of Inl y \<Rightarrow> f y | Inr y \<Rightarrow> g y)"
  by (cases x) simp_all

lemma steady_prod_app [steady]: "(\<And>y z. steady F (g y z a)) \<Longrightarrow> steady F ((case p of (y, z) \<Rightarrow> g y z) a)"
  by (cases p) simp

text \<open>A part that depends on another.\<close>

lemma steady_mono: "steady F m \<Longrightarrow> (\<And>i j. G i = G j \<Longrightarrow> F i = F j) \<Longrightarrow> steady G m"
  unfolding steady_def by blast

text \<open>One value for all runs that start with a given part and go on.\<close>

definition valued :: "('o \<Rightarrow> 'k) \<Rightarrow> 'k \<Rightarrow> ('o, 'c, 'r, 'a) act \<Rightarrow> 'a \<Rightarrow> bool" where
  "valued F b m v \<longleftrightarrow> (\<forall>s x. F (obj s) = b \<longrightarrow> fst (m s) = Continue x \<longrightarrow> x = v)"

lemma steady_value:
  fixes m :: "('o, 'c, 'r, 'a) act"
  assumes "steady F m"
  obtains v where "valued F b m v"
proof (cases "\<exists>s x. F (obj s) = b \<and> fst (m s) = Continue x")
  case True
  then obtain s v where "F (obj s) = b" "fst (m s) = Continue v"
    by blast
  then have "valued F b m v"
    using steadyD [OF assms, of s] unfolding valued_def by (metis step.inject(1))
  then show thesis by (rule that)
next
  case False
  then have "valued F b m undefined"
    unfolding valued_def by blast
  then show thesis by (rule that)
qed

lemma runs_valued:
  "valued F b m v \<Longrightarrow> runs P m Q \<Longrightarrow> (\<And>s. P s \<Longrightarrow> F (obj s) = b) \<Longrightarrow> runs P m (\<lambda>x s. x = v \<and> Q x s)"
  by (fastforce simp: valued_def valid_def split: prod.splits step.splits)

text \<open>A part the computation leaves alone, beside what is known of it.\<close>

lemma runs_leaves:
  fixes m :: "('o, 'c, 'r, 'a) act"
  assumes "runs P m Q" and "leaves K m"
  shows "runs (\<lambda>s. P s \<and> K (obj s) = k) m (\<lambda>x s. Q x s \<and> K (obj s) = k)"
  using valid_conj [OF assms(1) valid_leaves [OF assms(2), where G = "\<lambda>x. x = k"]] by (rule valid_weaken) simp_all

text \<open>A computation that returns early.\<close>

lemma stopsE:
  assumes "valid P m (\<lambda>_ _. False) R" and "P s"
  obtains r s' where "m s = (Return r, s')" "R r s'"
  using assms by (cases "m s"; cases "fst (m s)") (auto simp: valid_def)

end
