(* ===== verification/Progress.thy ===== *)
theory Progress
  imports Examples Steady
begin

text \<open>
  Progress of the Ironic controller: in an environment that answers every call,
  with sub-resources that have caught up, \<open>reconcileNormal\<close> runs to its end when the
  hash of its inputs is the recorded one, and else records it and is given up.
\<close>

section \<open>Settled environments\<close>

text \<open>Storing an object succeeds, and what comes back satisfies \<open>Q\<close> for what was stored.\<close>

definition settledCrud :: "'o crud \<Rightarrow> ('o \<Rightarrow> 'o \<Rightarrow> bool) \<Rightarrow> bool" where
  "settledCrud C Q \<longleftrightarrow>
     (\<forall>cs n ns. \<not> isl (cr_GetOrNew C cs n ns)) \<and> (\<forall>m x. \<not> isl (cr_SetController C m x)) \<and>
     (\<forall>cs x. \<not> isl (cr_Store C cs x) \<and> Q x (fst (projr (cr_Store C cs x))))"

text \<open>Every call succeeds, transport URLs have their secret, the sub-resources have
  seen their generation and applied the input they are asked for, and a rotation is
  finalized once the services are ready.\<close>

definition settledSecret :: "secretData \<Rightarrow> bool" where
  "settledSecret d \<longleftrightarrow> d ''transport_url'' \<noteq> None \<and> d ''ACIDSecretKey'' \<noteq> None \<and> d ''ACIDSecretKey'' \<noteq> Some '''' \<and>
     d ''ACSecretSecretKey'' \<noteq> None \<and> d ''ACSecretSecretKey'' \<noteq> Some ''''"

definition settled :: "env \<Rightarrow> bool" where
  "settled E \<longleftrightarrow>
     settledCrud (tus E) (\<lambda>_ tu. tu_StatusSecretName tu \<noteq> '''') \<and>
     settledCrud (conductors E) (\<lambda>x. conductorCurrent (askedHash (con_Meta x))) \<and>
     settledCrud (apis E) (\<lambda>x. apiCurrent (askedHash (api_Meta x))) \<and>
     ownerOnly con_Meta con_Spec (conductors E) \<and> ownerOnly api_Meta api_Spec (apis E) \<and>
     settledCrud (inspectors E) (\<lambda>_ x. Generation (ins_Meta x) = ist_ObservedGeneration (ins_Status x)) \<and>
     settledCrud (agents E) (\<lambda>_ x. Generation (na_Meta x) = nst_ObservedGeneration (na_Status x)) \<and>
     (\<forall>cs n ns. \<not> isl (cr_Get (inspectors E) cs n ns)) \<and>
     (\<forall>cs n ns. \<not> isl (cr_Get (agents E) cs n ns)) \<and>
     (\<forall>cs k n ns. on_Delete E cs k n ns = None) \<and>
     (\<forall>cs n ns. \<not> isl (on_GetSecret E cs n ns) \<and> settledSecret (projr (on_GetSecret E cs n ns))) \<and>
     (\<forall>cs n s f. snd (on_VerifySecretFields E cs n s f) = (emptyResult, None)) \<and>
     (\<forall>cs ns. \<not> isl (on_GetKeystoneAPI E cs ns) \<and> (\<forall>t. \<not> isl (ks_Endpoint (projr (on_GetKeystoneAPI E cs ns)) t))) \<and>
     (\<forall>cs n ns c. fst (on_ReconcileRbac E cs n ns c) = (emptyResult, None)) \<and>
     (\<forall>cs c. on_Finalizer E cs c = None) \<and>
     (\<forall>cs ns old new f. on_FinalizeSecretRotation E cs ns old new f True = Inr new) \<and>
     (\<forall>cs ts v. \<not> isl (on_EnsureSecrets E cs ts v)) \<and>
     (\<forall>cs j x. fst (on_DoJob E cs j x) = emptyResult \<and> fst (snd (on_DoJob E cs j x)) = None) \<and>
     (\<forall>cs n a ns. on_EnsureMariaDBAccount E cs n a ns = None) \<and>
     (\<forall>cs nd. on_CreateOrPatchAllDB E cs nd = (emptyResult, None)) \<and>
     (\<forall>cs. fst (on_WaitForDBCreated E cs) = emptyResult \<and> fst (snd (on_WaitForDBCreated E cs)) = None) \<and>
     (\<forall>cs n a ns. on_DeleteUnusedMariaDBAccountFinalizers E cs n a ns = None) \<and>
     (\<forall>xs. \<not> isl (ObjectHash E xs)) \<and>
     (\<forall>v. \<not> isl (EnvHash E v))"

lemma settled_example: "settled exampleEnv"
  unfolding settled_def
  by (intro conjI) (simp_all add: settledCrud_def settledSecret_def exampleSecret_def settleTransport_def
      settleConductor_def settleAPI_def settleInspector_def settleAgent_def conductorCurrent_def apiCurrent_def
      ownerOnly_def exampleConductorObject_def exampleAPIObject_def)

lemma settledCrud_simps:
  "settledCrud C Q \<Longrightarrow> \<not> isl (cr_GetOrNew C cs n ns)" "settledCrud C Q \<Longrightarrow> \<not> isl (cr_SetController C m x)"
  "settledCrud C Q \<Longrightarrow> \<not> isl (cr_Store C cs x)" "settledCrud C Q \<Longrightarrow> Q x (fst (projr (cr_Store C cs x)))"
  by (simp_all add: settledCrud_def)

text \<open>The same as rewrite rules: no call of a settled environment fails.\<close>

lemma settled_simps:
  assumes "settled E"
  shows "on_Delete E cs k n ns = None" "on_Finalizer E cs c = None"
    "on_FinalizeSecretRotation E cs ns s n f True = Inr n"
    "on_EnsureMariaDBAccount E cs n a ns = None" "on_CreateOrPatchAllDB E cs nd = (emptyResult, None)"
    "on_DeleteUnusedMariaDBAccountFinalizers E cs n a ns = None" "\<not> isl (ObjectHash E xs)"
    "\<not> isl (cr_Get (inspectors E) cs n ns)" "\<not> isl (cr_Get (agents E) cs n ns)"
    "\<not> isl (on_GetSecret E cs n ns)" "settledSecret (projr (on_GetSecret E cs n ns))"
    "snd (on_VerifySecretFields E cs n s f) = (emptyResult, None)"
    "\<not> isl (on_GetKeystoneAPI E cs ns)" "\<not> isl (ks_Endpoint (projr (on_GetKeystoneAPI E cs ns)) t)"
    "fst (on_ReconcileRbac E cs n ns rc) = (emptyResult, None)" "\<not> isl (on_EnsureSecrets E cs ts v')"
    "fst (on_DoJob E cs j x) = emptyResult" "fst (snd (on_DoJob E cs j x)) = None"
    "fst (on_WaitForDBCreated E cs) = emptyResult" "fst (snd (on_WaitForDBCreated E cs)) = None" "\<not> isl (EnvHash E v')"
  using assms by (simp_all add: settled_def)

lemma settled_cruds:
  assumes "settled E"
  shows "settledCrud (tus E) (\<lambda>_ tu. tu_StatusSecretName tu \<noteq> '''')" "settledCrud (conductors E) (\<lambda>x. conductorCurrent (askedHash (con_Meta x)))"
    "settledCrud (apis E) (\<lambda>x. apiCurrent (askedHash (api_Meta x)))"
    "settledCrud (inspectors E) (\<lambda>_ x. Generation (ins_Meta x) = ist_ObservedGeneration (ins_Status x))"
    "settledCrud (agents E) (\<lambda>_ x. Generation (na_Meta x) = nst_ObservedGeneration (na_Status x))"
    "ownerOnly con_Meta con_Spec (conductors E)" "ownerOnly api_Meta api_Spec (apis E)"
  using assms by (simp_all add: settled_def)

text \<open>What the inputs of a run are made of stays as it is: the answers about transport URLs,
  secrets, certificates, endpoints and databases do not depend on the calls made before.\<close>

definition atRest :: "env \<Rightarrow> bool" where
  "atRest E \<longleftrightarrow>
     (\<forall>cs n ns. cr_GetOrNew (tus E) cs n ns = cr_GetOrNew (tus E) [] n ns) \<and>
     (\<forall>cs x. fst (projr (cr_Store (tus E) cs x)) = fst (projr (cr_Store (tus E) [] x))) \<and>
     (\<forall>cs n ns. on_GetSecret E cs n ns = on_GetSecret E [] n ns) \<and>
     (\<forall>cs ns n f. on_VerifySecretFields E cs ns n f = on_VerifySecretFields E [] ns n f) \<and>
     (\<forall>cs ns. on_GetKeystoneAPI E cs ns = on_GetKeystoneAPI E [] ns) \<and>
     (\<forall>cs n a ns. on_GetDatabase E cs n a ns = on_GetDatabase E [] n a ns) \<and>
     (\<forall>cs. on_WaitForDBCreated E cs = on_WaitForDBCreated E []) \<and>
     (\<forall>cs ts v. on_EnsureSecrets E cs ts v = on_EnsureSecrets E [] ts v) \<and>
     (\<forall>cs ns n. on_ListSecrets (services E) cs ns n = on_ListSecrets (services E) [] ns n) \<and>
     (\<forall>cs n ns. on_ValidateCACertSecret (services E) cs n ns = on_ValidateCACertSecret (services E) [] n ns) \<and>
     (\<forall>cs t ns. on_ValidateCertSecrets (services E) cs t ns = on_ValidateCertSecrets (services E) [] t ns) \<and>
     (\<forall>cs. on_ListIronicAPI (services E) cs = on_ListIronicAPI (services E) [])"

lemma atRest_same:
  assumes "atRest E"
  shows "cr_GetOrNew (tus E) cs n ns = cr_GetOrNew (tus E) [] n ns"
    "fst (projr (cr_Store (tus E) cs tu)) = fst (projr (cr_Store (tus E) [] tu))"
    "on_GetSecret E cs n ns = on_GetSecret E [] n ns" "on_VerifySecretFields E cs ns n f = on_VerifySecretFields E [] ns n f"
    "on_GetKeystoneAPI E cs ns = on_GetKeystoneAPI E [] ns" "on_GetDatabase E cs n a ns = on_GetDatabase E [] n a ns"
    "on_WaitForDBCreated E cs = on_WaitForDBCreated E []" "on_EnsureSecrets E cs ts v = on_EnsureSecrets E [] ts v"
    "on_ListSecrets (services E) cs ns n = on_ListSecrets (services E) [] ns n"
    "on_ValidateCACertSecret (services E) cs n ns = on_ValidateCACertSecret (services E) [] n ns"
    "on_ValidateCertSecrets (services E) cs t ns = on_ValidateCertSecrets (services E) [] t ns"
    "on_ListIronicAPI (services E) cs = on_ListIronicAPI (services E) []"
  using assms by (simp_all only: atRest_def)

lemma atRest_example: "atRest exampleEnv"
  by (simp add: atRest_def exampleServices_def)

section \<open>The sections\<close>

definition deployable :: "Ironic \<Rightarrow> bool" where
  "deployable i \<longleftrightarrow> ins_Replicas (sp_IronicInspector (Spec i)) \<noteq> None \<and>
     Replicas (sp_IronicNeutronAgent (Spec i)) \<noteq> None"

lemmas run_simps = step_simps split_beta sum.case_eq_if option.case_eq_if settled_simps
  orFail_def getOrFail_def finalizerCall_def finalizeRotation_def modStatus_def markTrue_def setCond_def
  Ironic_updConds_def Let_def

lemma runs_rbac:
  "settled E \<Longrightarrow> runs (\<lambda>s. Spec (obj s) = sp) (rbacSection E i) (\<lambda>_ s. Spec (obj s) = sp)"
  unfolding rbacSection_def valid_def by (auto simp: run_simps)

lemma runs_jsonRpc:
  "settled E \<Longrightarrow> runs (\<lambda>s. Spec (obj s) = sp) (jsonRpcTransport L E i)
     (\<lambda>ct s. Spec (obj s) = sp \<and> ct = ('''', ''''))"
  unfolding jsonRpcTransport_def valid_def by (auto simp: run_simps whenM_def)

lemma runs_inputSecret:
  "settled E \<Longrightarrow> runs (\<lambda>s. Spec (obj s) = sp) (inputSecretSection L E i) (\<lambda>_ s. Spec (obj s) = sp)"
  unfolding inputSecretSection_def valid_def by (auto simp: run_simps)

lemma runs_keystone:
  "settled E \<Longrightarrow> runs (\<lambda>s. Spec (obj s) = sp) (keystoneSection E i) (\<lambda>_ s. Spec (obj s) = sp)"
  unfolding keystoneSection_def valid_def by (auto simp: run_simps)

lemma runs_ensureDB:
  "settled E \<Longrightarrow> runs (\<lambda>s. Spec (obj s) = sp) (ensureDB L E i)
     (\<lambda>db s. Spec (obj s) = sp \<and> st_DatabaseHostname (Status (obj s)) = db_Hostname db)"
  unfolding ensureDB_def valid_def by (auto simp: run_simps)

lemma runs_acSecrets:
  "settled E \<Longrightarrow> runs (\<lambda>s. Spec (obj s) = sp) (acSecretSection L E i) (\<lambda>_ s. Spec (obj s) = sp)"
  unfolding acSecretSection_def manageACSecret_def valid_def by (auto simp: run_simps whenM_def)

lemma runs_upgrade:
  "settled E \<Longrightarrow> runs (\<lambda>s. Spec (obj s) = sp) (func (reconcileUpgrade L E P lbl))
     (\<lambda>r s. Spec (obj s) = sp \<and> r = (emptyResult, None))"
  unfolding reconcileUpgrade_def func_def valid_def by (auto simp: run_simps split: option.split)

lemma runs_createOrUpdate:
  assumes "settledCrud C Q" and "\<And>cur. \<not> isl (f cur)" and "\<And>cur new y. f cur = Inr new \<Longrightarrow> Q new y \<Longrightarrow> Q' y"
  shows "runs (\<lambda>s. obj s = i) (createOrUpdate C kind mk name ns f)
     (\<lambda>r s. obj s = i \<and> \<not> isl r \<and> Q' (fst (projr r)))"
proof -
  have "Q' (fst (projr (cr_Store C cs (projr (f cur)))))" for cs cur
    using assms(3) [of cur "projr (f cur)"] assms(2) [of cur] settledCrud_simps(4) [OF assms(1)] by auto
  then show ?thesis
    unfolding createOrUpdate_def valid_def
    using assms(2) settledCrud_simps(1,3) [OF assms(1)] by (auto simp: run_simps)
qed

lemma runs_createOrUpdate_spec:
  assumes "settledCrud C Q" and "\<And>cur. \<not> isl (f cur)" and "\<And>cur new y. f cur = Inr new \<Longrightarrow> Q new y \<Longrightarrow> Q' y"
  shows "runs (\<lambda>s. Spec (obj s) = sp) (createOrUpdate C kind mk name ns f)
     (\<lambda>r s. Spec (obj s) = sp \<and> \<not> isl r \<and> Q' (fst (projr r)))"
  using runs_createOrUpdate [OF assms] by (fastforce simp: valid_def split: prod.splits step.splits)

lemma runs_transportURL:
  "settled E \<Longrightarrow> runs (\<lambda>s. obj s = i) (transportURLCreateOrUpdate E j suffix cfg)
     (\<lambda>r s. obj s = i \<and> \<not> isl r \<and> tu_StatusSecretName (fst (projr r)) \<noteq> '''')"
  unfolding transportURLCreateOrUpdate_def
  by (rule runs_createOrUpdate [OF settled_cruds(1)]) (simp_all add: settledCrud_simps(2) [OF settled_cruds(1)])

lemma runs_notifications:
  assumes "settled E"
  shows "runs (\<lambda>s. Spec (obj s) = sp) (func (ensureNotificationsTransportURL L E bus Ironic_setNotif
     (transportURLCreateOrUpdate E i) (conditionsIn L Ironic_updConds)))
     (\<lambda>r s. Spec (obj s) = sp \<and> r = (emptyResult, None))"
proof -
  have create: "runs (\<lambda>s. Spec (obj s) = sp) (transportURLCreateOrUpdate E i suffix cfg)
      (\<lambda>r s. Spec (obj s) = sp \<and> \<not> isl r \<and> tu_StatusSecretName (fst (projr r)) \<noteq> '''')" for suffix cfg
    using runs_transportURL [OF assms] by (fastforce simp: valid_def split: prod.splits step.splits)
  show ?thesis
    unfolding ensureNotificationsTransportURL_def
    by (rule valid_func, rule valid_if, rule valid_thn [where Q' = "\<lambda>s. Spec (obj s) = sp"],
        simp add: valid_def step_simps Ironic_setNotif_def, rule valid_bnd [OF runs_valid [OF create]])
       (auto simp: valid_def run_simps Ironic_setNotif_def conditionsIn_def)
qed

lemma runs_oslo:
  assumes "settled E"
  shows "runs (\<lambda>s. Spec (obj s) = sp) (osloTransport L E i)
     (\<lambda>ct s. Spec (obj s) = sp \<and> fst ct \<noteq> '''')"
proof -
  have create: "runs (\<lambda>s. Spec (obj s) = sp) (transportURLCreateOrUpdate E i suffix cfg)
      (\<lambda>r s. Spec (obj s) = sp \<and> \<not> isl r \<and> tu_StatusSecretName (fst (projr r)) \<noteq> '''')" for suffix cfg
    using runs_transportURL [OF assms] by (fastforce simp: valid_def split: prod.splits step.splits)
  note notif = runs_notifications [OF assms, of sp L "NotificationsBus (Spec i)" i]
  show ?thesis
    unfolding osloTransport_def
    apply (rule valid_bnd [OF create], rule valid_sum, simp add: valid_def, rule valid_prod, rule valid_if, simp add: valid_def, rule valid_let)
    apply (rule valid_thn [where Q' = "\<lambda>s. Spec (obj s) = sp"], simp add: valid_def run_simps)
    apply (rule valid_thn [where Q' = "\<lambda>s. Spec (obj s) = sp"], simp add: valid_def run_simps settled_simps [OF assms])
    apply (rule valid_thn [where Q' = "\<lambda>s. Spec (obj s) = sp"], simp add: valid_def run_simps)
    apply (rule valid_bnd [OF notif], rule valid_prod)
    apply (auto simp: valid_def run_simps settled_simps [OF assms] emptyResult_def whenM_def)
    done
qed

lemma settled_secret:
  assumes "settled E"
  shows "projr (on_GetSecret E cs n ns) ''transport_url'' \<noteq> None"
    "projr (on_GetSecret E cs n ns) ''ACIDSecretKey'' \<noteq> None" "projr (on_GetSecret E cs n ns) ''ACIDSecretKey'' \<noteq> Some ''''"
    "projr (on_GetSecret E cs n ns) ''ACSecretSecretKey'' \<noteq> None" "projr (on_GetSecret E cs n ns) ''ACSecretSecretKey'' \<noteq> Some ''''"
  using settled_simps(11) [OF assms, of cs n ns] by (simp_all add: settledSecret_def)

lemma gives_getTransportURL: "settled E \<Longrightarrow> gives (getTransportURL E j n) (\<lambda>r. \<not> isl r)"
  unfolding getTransportURL_def getSecret_def gives_def
  by (auto simp: run_simps settled_secret)

lemma gives_getNotifications:
  "settled E \<Longrightarrow> gives (getNotificationsTransportURL E n u ns tp) (\<lambda>r. snd r = None)"
  unfolding getNotificationsTransportURL_def getSecret_def gives_def
  by (auto simp: run_simps settled_secret)

lemma gives_getQuorum: "settled E \<Longrightarrow> gives (getQuorumQueues E n ns) (\<lambda>r. \<not> isl r)"
  unfolding getQuorumQueues_def getSecret_def gives_def by (auto simp: run_simps)

lemma gives_acParams:
  "settled E \<Longrightarrow> gives (setApplicationCredentialParams E n ns tp) (\<lambda>r. snd r = None)"
  unfolding setApplicationCredentialParams_def getSecret_def gives_def
  by (auto simp: run_simps settled_secret)

lemma gives_authParams: "settled E \<Longrightarrow> gives (authParams E i ke kr tp) (\<lambda>_. True)"
  unfolding authParams_def setApplicationCredentialParams_def getSecret_def gives_def
  by (auto simp: run_simps settled_secret)

lemma runs_configMaps:
  assumes "settled E"
  shows "runs (\<lambda>s. Spec (obj s) = sp) (generateServiceConfigMaps E i v ke kr db t) (\<lambda>r s. Spec (obj s) = sp \<and> fst r = None)"
proof -
  note pieces = gives_runs [where G = "\<lambda>i. Spec i = sp"]
  show ?thesis
    unfolding generateServiceConfigMaps_def
    apply (rule valid_let)+
    apply (rule valid_bnd [OF pieces [OF gives_getTransportURL [OF assms]]])
    apply (rule valid_sum, simp add: valid_def)
    apply (rule valid_bnd [where Q' = "\<lambda>_ s. Spec (obj s) = sp"], simp add: valid_def step_simps)
    apply (rule valid_bnd [OF pieces [OF gives_getNotifications [OF assms]]], rule valid_prod, rule valid_if, force simp: valid_def)
    apply (rule valid_bnd [where Q' = "\<lambda>q s. Spec (obj s) = sp \<and> \<not> isl q"])
     apply (rule valid_if, rule valid_weaken [OF pieces [OF gives_getQuorum [OF assms]]], simp, simp, simp, simp add: valid_def step_simps)
    apply (rule valid_sum, simp add: valid_def)
    apply (rule valid_pre, rule valid_bnd [OF pieces [OF gives_authParams [OF assms]]])
     apply (simp_all add: valid_def run_simps settled_simps [OF assms])
    done
qed

lemma runs_conductor:
  assumes "settled E"
  shows "runs (\<lambda>s. Spec (obj s) = sp) (deployConductor L E ke kr t h c acc) (\<lambda>r s. Spec (obj s) = sp \<and> r = acc)"
proof -
  have create: "runs (\<lambda>s. Spec (obj s) = sp) (conductorDeploymentCreateOrUpdate E i c ke kr t h)
      (\<lambda>r s. Spec (obj s) = sp \<and> \<not> isl r \<and> conductorCurrent h (fst (projr r)))" for i
    unfolding conductorDeploymentCreateOrUpdate_def
  proof (rule runs_createOrUpdate_spec [OF settled_cruds(2) [OF assms]])
    show "\<not> isl (conductorMutate E i c ke kr t h cur)" for cur
      unfolding conductorMutate_def Let_def by (rule settledCrud_simps(2) [OF settled_cruds(2) [OF assms]])
  qed (use asked_conductor [OF settled_cruds(6) [OF assms]] in auto)
  show ?thesis
    unfolding deployConductor_def
    apply (rule valid_bnd [OF valid_getObj], assumption, rule valid_bnd [OF create])
    apply (auto simp: valid_def run_simps mirrorFrom_def split: sum.split)
    done
qed

lemma runs_conductors:
  assumes "settled E"
  shows "runs (\<lambda>s. Spec (obj s) = sp) (deployConductors L E i ke kr t h) (\<lambda>r s. Spec (obj s) = sp \<and> r)"
proof -
  have "runs (\<lambda>s. Spec (obj s) = sp \<and> (True, False) = (True, False)) (foreach (sp_IronicConductors (Spec i)) (True, False)
     (deployConductor L E ke kr t h)) (\<lambda>r s. Spec (obj s) = sp \<and> r = (True, False))"
    by (rule valid_foreach [where I = "\<lambda>_ acc s. Spec (obj s) = sp \<and> acc = (True, False)"])
       (use runs_conductor [OF assms] in \<open>force simp: valid_def\<close>)
  then have loop: "runs (\<lambda>s. Spec (obj s) = sp) (foreach (sp_IronicConductors (Spec i)) (True, False)
     (deployConductor L E ke kr t h)) (\<lambda>r s. Spec (obj s) = sp \<and> r = (True, False))"
    by simp
  show ?thesis
    unfolding deployConductors_def
    by (rule valid_bnd [OF loop]) (auto simp: valid_def run_simps)
qed

lemma runs_API:
  assumes "settled E"
  shows "runs (\<lambda>s. Spec (obj s) = sp) (deployAPI L E ke kr t h ready) (\<lambda>r s. Spec (obj s) = sp \<and> r = ready)"
proof -
  have create: "runs (\<lambda>s. Spec (obj s) = sp) (apiDeploymentCreateOrUpdate E i ke kr t h)
      (\<lambda>r s. Spec (obj s) = sp \<and> \<not> isl r \<and> apiCurrent h (fst (projr r)))" for i
    unfolding apiDeploymentCreateOrUpdate_def
  proof (rule runs_createOrUpdate_spec [OF settled_cruds(3) [OF assms]])
    show "\<not> isl (apiMutate E i ke kr t h cur)" for cur
      unfolding apiMutate_def by (rule settledCrud_simps(2) [OF settled_cruds(3) [OF assms]])
  qed (use asked_API [OF settled_cruds(7) [OF assms]] in auto)
  show ?thesis
    unfolding deployAPI_def
    by (rule valid_bnd [OF valid_getObj], assumption, rule valid_bnd [OF create])
       (auto simp: valid_def run_simps mirrorFrom_def split: sum.split)
qed

text \<open>The last two services, from a spec that gives their replicas.\<close>

lemma runs_delete:
  assumes "settled E" and "\<And>m x. \<not> isl (cr_SetController C m x)" and "\<And>cs n ns. \<not> isl (cr_Get C cs n ns)"
    and "\<And>j. Spec (f j) = Spec j"
  shows "runs (\<lambda>s. Spec (obj s) = sp) (func (deleteSubResource E i C kind name fresh f))
     (\<lambda>r s. Spec (obj s) = sp \<and> r = None)"
  unfolding deleteSubResource_def valid_def
  using assms by (auto simp: run_simps func_def)

lemma runs_inspector:
  assumes "settled E"
  shows "runs (\<lambda>s. deployable (obj s)) (deployInspector L E W fresh ready) (\<lambda>r s. deployable (obj s) \<and> r = ready)"
proof -
  have create: "runs (\<lambda>s. Spec (obj s) = sp) (inspectorDeploymentCreateOrUpdate E W i)
      (\<lambda>r s. Spec (obj s) = sp \<and> \<not> isl r \<and>
         Generation (ins_Meta (fst (projr r))) = ist_ObservedGeneration (ins_Status (fst (projr r))))" for i sp
    unfolding inspectorDeploymentCreateOrUpdate_def
    by (rule runs_createOrUpdate_spec [OF settled_cruds(4) [OF assms]])
       (simp_all add: settledCrud_simps(2) [OF settled_cruds(4) [OF assms]])
  have delete: "runs (\<lambda>s. Spec (obj s) = sp) (func (inspectorDeploymentDelete L E i fresh)) (\<lambda>r s. Spec (obj s) = sp \<and> r = None)" for i sp
    unfolding inspectorDeploymentDelete_def
    by (rule runs_delete [OF assms])
       (simp_all add: settled_simps [OF assms] settledCrud_simps(2) [OF settled_cruds(4) [OF assms]] Ironic_updConds_def)
  show ?thesis
    unfolding deployInspector_def
    by (rule valid_bnd [where Q' = "\<lambda>i s. deployable i \<and> Spec (obj s) = Spec i"], simp add: valid_def step_simps,
        rule valid_imp, rule valid_option, simp add: deployable_def, rule valid_if, rule valid_bnd [OF create])
       (force simp: valid_def run_simps mirrorFrom_def deployable_def split: sum.split,
        rule valid_bnd [OF delete], auto simp: valid_def run_simps deployable_def)
qed

lemma runs_agent:
  assumes "settled E"
  shows "runs (\<lambda>s. deployable (obj s)) (deployNeutronAgent L E fresh ready) (\<lambda>r s. r = ready)"
proof -
  have create: "runs (\<lambda>s. Spec (obj s) = sp) (ironicNeutronAgentDeploymentCreateOrUpdate E i)
      (\<lambda>r s. Spec (obj s) = sp \<and> \<not> isl r \<and>
         Generation (na_Meta (fst (projr r))) = nst_ObservedGeneration (na_Status (fst (projr r))))" for i sp
    unfolding ironicNeutronAgentDeploymentCreateOrUpdate_def
    by (rule runs_createOrUpdate_spec [OF settled_cruds(5) [OF assms]])
       (simp_all add: settledCrud_simps(2) [OF settled_cruds(5) [OF assms]])
  have delete: "runs (\<lambda>s. Spec (obj s) = sp) (func (ironicNeutronAgentDeploymentDelete L E i fresh)) (\<lambda>r s. Spec (obj s) = sp \<and> r = None)" for i sp
    unfolding ironicNeutronAgentDeploymentDelete_def
    by (rule runs_delete [OF assms])
       (simp_all add: settled_simps [OF assms] settledCrud_simps(2) [OF settled_cruds(5) [OF assms]] Ironic_updConds_def)
  show ?thesis
    unfolding deployNeutronAgent_def
    by (rule valid_bnd [where Q' = "\<lambda>i s. deployable i \<and> Spec (obj s) = Spec i"], simp add: valid_def step_simps,
        rule valid_imp, rule valid_option, simp add: deployable_def, rule valid_if, rule valid_bnd [OF create])
       (force simp: valid_def run_simps mirrorFrom_def deployable_def split: sum.split,
        rule valid_bnd [OF delete], auto simp: valid_def run_simps deployable_def)
qed

lemma runs_services:
  assumes "settled E" and "deployable i"
  shows "runs (\<lambda>s. Spec (obj s) = Spec i) (servicesSection L E W fi fa i ke kr t) (\<lambda>r s. r)"
proof -
  have interface: "runs (\<lambda>s. Spec (obj s) = Spec i \<and> r) (inspectInterfaceSection i) (\<lambda>_ s. deployable (obj s) \<and> r)" for r
    using assms(2) by (auto simp: inspectInterfaceSection_def valid_def run_simps whenM_def deployable_def)
  have api: "runs (\<lambda>s. Spec (obj s) = Spec i \<and> r) (deployAPI L E ke kr t h r) (\<lambda>r' s. Spec (obj s) = Spec i \<and> r')" for r h
    by (rule valid_frame [OF runs_API [OF assms(1)]]) simp_all
  have inspector: "runs (\<lambda>s. deployable (obj s) \<and> r) (deployInspector L E W fi r) (\<lambda>r' s. deployable (obj s) \<and> r')" for r
    by (rule valid_frame [OF runs_inspector [OF assms(1)]]) simp_all
  have agent: "runs (\<lambda>s. deployable (obj s) \<and> r) (deployNeutronAgent L E fa r) (\<lambda>r' s. r')" for r
    by (rule valid_frame [OF runs_agent [OF assms(1)]]) simp_all
  have deploy: "runs (\<lambda>s. Spec (obj s) = Spec i) (bnd (deployConductors L E i ke kr t h) (\<lambda>ready.
     bnd (deployAPI L E ke kr t h ready) (\<lambda>ready. thn (inspectInterfaceSection i)
       (bnd (deployInspector L E W fi ready) (\<lambda>ready. deployNeutronAgent L E fa ready))))) (\<lambda>r s. r)" for h
    by (rule valid_bnd [OF runs_conductors [OF assms(1)]], rule valid_bnd [OF api], rule valid_thn [OF interface],
        rule valid_bnd [OF inspector], rule agent)
  show ?thesis
    unfolding servicesSection_def
    by (rule valid_bnd [where Q' = "\<lambda>_ s. Spec (obj s) = Spec i"], simp add: valid_def step_simps,
        rule valid_bnd [where Q' = "\<lambda>_ s. Spec (obj s) = Spec i"],
        simp add: valid_def run_simps settled_simps [OF assms(1)], rule deploy)
qed

text \<open>What the end of the function leaves: the application credential secrets of the
  spec and the current transport secret are the tracked ones, and the transport
  rotation was finalized.\<close>

definition credentialsTracked :: "Ironic \<Rightarrow> Ironic \<Rightarrow> bool" where
  "credentialsTracked i j \<longleftrightarrow>
     st_ApplicationCredentialSecret (Status j) = ApplicationCredentialSecret (Auth (Spec i)) \<and>
     st_InspectorApplicationCredentialSecret (Status j) =
       ApplicationCredentialSecret (ins_Auth (sp_IronicInspector (Spec i)))"

definition finished :: "Ironic \<Rightarrow> string \<Rightarrow> string \<Rightarrow> (Ironic, call) st \<Rightarrow> bool" where
  "finished i ot ct s \<longleftrightarrow> credentialsTracked i (obj s) \<and> st_TransportURLSecret (Status (obj s)) = ct \<and>
     FinalizeSecretRotation (Namespace (Meta i)) ot ct TransportConsumerFinalizer True \<in> set (calls s)"

lemma runs_finish:
  assumes "settled E"
  shows "runs (\<lambda>_. True) (finishSection L E i ot ct on cn True) (\<lambda>r s. r = (emptyResult, None) \<and> finished i ot ct s)"
proof -
  note run = valid_def run_simps settled_simps [OF assms] whenM_def finished_def credentialsTracked_def
  have ac: "runs (\<lambda>_. True) (acRotationSection E i True) (\<lambda>_ s. credentialsTracked i (obj s))"
    unfolding acRotationSection_def by (simp add: run)
  have transport: "runs (\<lambda>s. credentialsTracked i (obj s)) (transportRotationSection E i ot ct True) (\<lambda>_. finished i ot ct)"
    unfolding transportRotationSection_def by (simp add: run)
  have notif: "runs (finished i ot ct) (notifRotationSection E i on cn True) (\<lambda>_. finished i ot ct)"
    unfolding notifRotationSection_def by (auto simp: run)
  have prune: "runs (finished i ot ct) (pruneSection E i ct cn) (\<lambda>_. finished i ot ct)"
    unfolding pruneSection_def by (auto simp: run)
  have ready: "runs (finished i ot ct) (readySection L) (\<lambda>r s. r = (emptyResult, None) \<and> finished i ot ct s)"
    unfolding readySection_def by (auto simp: run)
  show ?thesis
    unfolding finishSection_def
    by (rule valid_thn [where Q' = "\<lambda>_. True"], simp add: run, rule valid_thn [OF ac], rule valid_thn [OF transport],
        rule valid_thn [OF notif], rule valid_thn [OF prune], rule ready)
qed

lemma runs_transport:
  "settled E \<Longrightarrow> runs (\<lambda>s. Spec (obj s) = sp) (transportSection L E i)
     (\<lambda>ct s. ((fst ct = '''') \<longleftrightarrow> RPCTransport (Spec i) \<noteq> ''oslo'') \<and> Spec (obj s) = sp)"
  unfolding transportSection_def
  by (rule valid_if; rule valid_weaken [OF runs_oslo] valid_weaken [OF runs_jsonRpc]; force)

section \<open>The values of the sections\<close>

text \<open>The part of the instance that a run does not change, and what it records of its
  inputs and of the transport.\<close>

definition wanted :: "Ironic \<Rightarrow> ObjectMeta \<times> IronicSpec" where
  "wanted i = (Meta i, Spec i)"

definition ironicKey :: "Ironic \<Rightarrow> (ObjectMeta \<times> IronicSpec) \<times> string option \<times> string" where
  "ironicKey i = (wanted i, recorded (st_Hash (Status i)), st_TransportURLSecret (Status i))"

text \<open>What the configuration is made of besides.\<close>

definition configPart :: "Ironic \<Rightarrow> string option \<times> string" where
  "configPart i = (st_NotificationsURLSecret (Status i), st_DatabaseHostname (Status i))"

lemma ironicKey_simps [simp]:
  "ironicKey (Ironic_updConds f i) = ironicKey i" "ironicKey (Ironic_setNotif n i) = ironicKey i"
  "st_NotificationsURLSecret (Status (Ironic_updConds f i)) = st_NotificationsURLSecret (Status i)"
  "st_NotificationsURLSecret (Status (Ironic_setNotif n i)) = n"
  by (simp_all add: ironicKey_def wanted_def Ironic_updConds_def Ironic_setNotif_def)

lemma ironicKey_wanted: "ironicKey i = (w, r, t) \<Longrightarrow> wanted i = w"
  by (simp add: ironicKey_def)

lemma wanted_cong:
  assumes "wanted j = wanted i"
  shows "transportSection L E j = transportSection L E i" "inputSecretSection L E j = inputSecretSection L E i"
    "keystoneSection E j = keystoneSection E i" "ensureDB L E j = ensureDB L E i"
    "configSection L E j = configSection L E i"
proof -
  have same: "Meta j = Meta i" "Spec j = Spec i"
    using assms by (simp_all add: wanted_def)
  note config = configSection_def generateServiceConfigMaps_def getTransportURL_def authParams_def
  show "transportSection L E j = transportSection L E i" "inputSecretSection L E j = inputSecretSection L E i"
    "keystoneSection E j = keystoneSection E i" "ensureDB L E j = ensureDB L E i"
    unfolding transportSection_def osloTransport_def jsonRpcTransport_def transportURLCreateOrUpdate_def inputSecretSection_def
      keystoneSection_def ensureDB_def databaseFor_def same by (rule refl)+
  show "configSection L E j = configSection L E i"
    by (intro ext) (unfold config same, rule refl)
qed

lemma steady_sections:
  assumes "settled E" and "atRest E"
  shows "steady wanted (inputSecretSection L E i)" "steady wanted (keystoneSection E i)" "steady wanted (ensureDB L E i)"
  unfolding inputSecretSection_def keystoneSection_def ensureDB_def failWith_def setCond_def markTrue_def modStatus_def getOrFail_def
  by (intro steady keeps atRest_same [OF assms(2)]; simp add: wanted_def Ironic_updConds_def settled_simps [OF assms(1)])+

lemma steady_configMaps:
  assumes "atRest E"
  shows "steady configPart (generateServiceConfigMaps E i v ke kr db t)"
proof -
  have secret: "steady F (getSecret E n ns)" for F :: "Ironic \<Rightarrow> 'k" and n ns
    unfolding getSecret_def by (intro steady atRest_same [OF assms])
  have url: "steady configPart (getTransportURL E i n)" for n
    unfolding getTransportURL_def by (intro steady secret keeps)
  have notif: "steady configPart (getNotificationsTransportURL E n u ns tp)" for n u ns tp
    unfolding getNotificationsTransportURL_def by (intro steady secret keeps)
  have quorum: "steady configPart (getQuorumQueues E n ns)" for n ns
    unfolding getQuorumQueues_def by (intro steady secret keeps)
  have auth: "steady configPart (authParams E i ke kr tp)" for tp
    unfolding authParams_def setApplicationCredentialParams_def by (intro steady secret keeps)
  show ?thesis
    unfolding generateServiceConfigMaps_def
    apply (intro steady_cases(3))
    apply (rule steady_bnd [OF url], rule keeps, rule steady_sum, rule steady)
    apply (rule steady_getObj)
    subgoal premises same
      unfolding same [unfolded configPart_def prod.inject, THEN conjunct1] same [unfolded configPart_def prod.inject, THEN conjunct2]
      by (rule refl)
    apply (intro steady notif quorum auth keeps atRest_same [OF assms])
    done
qed

text \<open>The transport URLs, and the names that come from them.\<close>

lemma gives_createOrUpdate:
  assumes "\<And>cs. cr_GetOrNew C cs n ns = Inr cur" and "f cur = Inr new" and "\<And>cs. \<exists>op. cr_Store C cs new = Inr (x, op)"
  shows "gives (createOrUpdate C kind mk n ns f) (\<lambda>r. \<exists>op. r = Inr (x, op))"
  using assms(3) unfolding createOrUpdate_def gives_def by (simp add: step_simps assms(1,2))

lemma transportURL_value:
  assumes "settled E" and "atRest E"
  obtains tu where "tu_StatusSecretName tu \<noteq> ''''"
    "\<forall>G. runs (\<lambda>s. G (obj s)) (transportURLCreateOrUpdate E i suffix cfg) (\<lambda>r s. G (obj s) \<and> (\<exists>op. r = Inr (tu, op)))"
proof -
  let ?n = "Name (Meta i) @ ''-transport'' @ suffix" and ?ns = "Namespace (Meta i)"
  let ?f = "\<lambda>tu. cr_SetController (tus E) (Meta i) (tu\<lparr>tu_RabbitmqClusterName := rmq_Cluster cfg, tu_Username := rmq_User cfg,
    tu_Vhost := rmq_Vhost cfg\<rparr>)"
  note crud = settledCrud_simps [OF settled_cruds(1) [OF assms(1)]]
  obtain cur where cur: "cr_GetOrNew (tus E) [] ?n ?ns = Inr cur"
    using crud(1) by (metis sum.collapse(2))
  then have get: "cr_GetOrNew (tus E) cs ?n ?ns = Inr cur" for cs
    by (rule trans [OF atRest_same(1) [OF assms(2)]])
  obtain new where new: "?f cur = Inr new"
    using crud(2) by (metis sum.collapse(2))
  define tu where "tu = fst (projr (cr_Store (tus E) [] new))"
  have store: "\<exists>op. cr_Store (tus E) cs new = Inr (tu, op)" for cs
    unfolding tu_def using atRest_same(2) [OF assms(2), of cs new] crud(3) [of cs new]
    by (metis prod.collapse sum.collapse(2))
  have "gives (transportURLCreateOrUpdate E i suffix cfg) (\<lambda>r. \<exists>op. r = Inr (tu, op))"
    unfolding transportURLCreateOrUpdate_def by (rule gives_createOrUpdate, rule get, rule new, rule store)
  moreover have "tu_StatusSecretName tu \<noteq> ''''"
    unfolding tu_def by (rule crud(4))
  ultimately show thesis
    by (intro that [of tu] allI gives_runs)
qed

lemma notifications_value:
  assumes "settled E" and "atRest E"
  obtains n where "\<forall>w r t. runs (\<lambda>s. ironicKey (obj s) = (w, r, t)) (func (ensureNotificationsTransportURL L E bus Ironic_setNotif
       (transportURLCreateOrUpdate E i) (conditionsIn L Ironic_updConds)))
     (\<lambda>x s. x = (emptyResult, None) \<and> ironicKey (obj s) = (w, r, t) \<and> st_NotificationsURLSecret (Status (obj s)) = n)"
proof -
  obtain tu where tu: "tu_StatusSecretName tu \<noteq> ''''"
    "\<forall>G. runs (\<lambda>s. G (obj s)) (transportURLCreateOrUpdate E i ''-notifications'' (the bus) :: _ iact) (\<lambda>r s. G (obj s) \<and> (\<exists>op. r = Inr (tu, op)))"
    by (rule transportURL_value [OF assms, where i = i and suffix = "''-notifications''" and cfg = "the bus"], rule that)
  let ?n = "if bus \<noteq> None \<and> rmq_Cluster (the bus) \<noteq> '''' then Some (tu_StatusSecretName tu) else None"
  show thesis
  proof (rule that [of ?n], intro allI)
    show "runs (\<lambda>s. ironicKey (obj s) = (w, r, t)) (func (ensureNotificationsTransportURL L E bus Ironic_setNotif
         (transportURLCreateOrUpdate E i) (conditionsIn L Ironic_updConds)))
       (\<lambda>x s. x = (emptyResult, None) \<and> ironicKey (obj s) = (w, r, t) \<and> st_NotificationsURLSecret (Status (obj s)) = ?n)" for w r t
      unfolding ensureNotificationsTransportURL_def
      by (rule valid_func, rule valid_if, rule valid_thn [where Q' = "\<lambda>s. ironicKey (obj s) = (w, r, t)"],
          simp add: valid_def step_simps,
          rule valid_bnd [OF runs_valid [OF tu(2) [THEN spec, where x = "\<lambda>j. ironicKey j = (w, r, t)"]]], rule valid_sum)
         (use tu(1) in \<open>auto simp: valid_def step_simps conditionsIn_def\<close>)
  qed
qed

text \<open>The secret the status tracks after the transport section.\<close>

definition trackedThen :: "Ironic \<Rightarrow> string \<Rightarrow> string \<Rightarrow> string" where
  "trackedThen i ct t = (if RPCTransport (Spec i) \<noteq> ''oslo'' then '''' else if t = '''' then ct else t)"

lemma valid_pair: "valid P (f (fst p) (snd p)) Q R \<Longrightarrow> valid P (case p of (y, z) \<Rightarrow> f y z) Q R"
  by (simp add: split_beta)

lemma valid_imp_post: "(C \<Longrightarrow> valid P m Q R) \<Longrightarrow> valid (\<lambda>s. P s \<and> C) m Q R"
  by (simp add: valid_def)

lemma jsonRpc_value:
  assumes "settled E"
  shows "runs (\<lambda>s. ironicKey (obj s) = (w, r, t)) (jsonRpcTransport L E i) (\<lambda>x s. x = ('''', '''') \<and>
    ironicKey (obj s) = (w, r, '''') \<and> st_NotificationsURLSecret (Status (obj s)) = None)"
proof -
  have drop: "runs (\<lambda>s. ironicKey (obj s) = (w, r, t)) (whenM b (orFail (finalizerCall E c))) (\<lambda>_ s. ironicKey (obj s) = (w, r, t))"
    for b c
    by (simp add: valid_def whenM_def orFail_def finalizerCall_def step_simps settled_simps [OF assms])
  show ?thesis
    unfolding jsonRpcTransport_def
    apply (rule valid_bnd [OF valid_getObj], assumption, rule valid_thn [OF drop], rule valid_thn [OF drop])
    apply (simp add: valid_def step_simps modStatus_def markTrue_def)
    apply (simp add: ironicKey_def wanted_def)
    done
qed

lemma transport_value:
  assumes "settled E" and "atRest E"
  obtains ct n where "fst ct = '''' \<longleftrightarrow> RPCTransport (Spec i) \<noteq> ''oslo''"
    "\<forall>r t. runs (\<lambda>s. ironicKey (obj s) = (wanted i, r, t)) (transportSection L E i) (\<lambda>x s. x = ct \<and>
       ironicKey (obj s) = (wanted i, r, trackedThen i (fst ct) t) \<and> st_NotificationsURLSecret (Status (obj s)) = n)"
proof (cases "RPCTransport (Spec i) = ''oslo''")
  case True
  obtain tu where tu: "tu_StatusSecretName tu \<noteq> ''''"
    "\<forall>G. runs (\<lambda>s. G (obj s)) (transportURLCreateOrUpdate E i '''' (MessagingBus (Spec i)) :: _ iact) (\<lambda>r s. G (obj s) \<and> (\<exists>op. r = Inr (tu, op)))"
    by (rule transportURL_value [OF assms, where i = i and suffix = "''''" and cfg = "MessagingBus (Spec i)"], rule that)
  obtain n where n: "\<forall>w r t. runs (\<lambda>s. ironicKey (obj s) = (w, r, t)) (func (ensureNotificationsTransportURL L E (NotificationsBus (Spec i))
       Ironic_setNotif (transportURLCreateOrUpdate E i) (conditionsIn L Ironic_updConds)) :: ret iact)
     (\<lambda>x s. x = (emptyResult, None) \<and> ironicKey (obj s) = (w, r, t) \<and> st_NotificationsURLSecret (Status (obj s)) = n)"
    by (rule notifications_value [OF assms, where i = i and L = L and bus = "NotificationsBus (Spec i)"], rule that)
  let ?c = "tu_StatusSecretName tu"
  show thesis
  proof (rule that [of "(?c, optText n)"])
    have "runs (\<lambda>s. ironicKey (obj s) = (wanted i, r, t)) (transportSection L E i) (\<lambda>x s. x = (?c, optText n) \<and>
       ironicKey (obj s) = (wanted i, r, trackedThen i (fst (?c, optText n)) t) \<and> st_NotificationsURLSecret (Status (obj s)) = n)" for r t
      unfolding transportSection_def if_P [OF True] osloTransport_def
    proof (rule valid_bnd [OF tu(2) [THEN spec, where x = "\<lambda>j. ironicKey j = (wanted i, r, t)"]], rule valid_imp_post,
        elim exE, hypsubst, unfold sum.case prod.case if_not_P [OF tu(1)] Let_def)
      let ?K = "\<lambda>s. ironicKey (obj s) = (wanted i, r, trackedThen i ?c t)"
      have track: "runs (\<lambda>s. ironicKey (obj s) = (wanted i, r, t)) (modStatus (\<lambda>st.
          if st_TransportURLSecret st = '''' \<or> st_TransportURLSecret st = ?c then st\<lparr>st_TransportURLSecret := ?c\<rparr> else st)) (\<lambda>_. ?K)"
        using True by (auto simp: valid_def step_simps modStatus_def ironicKey_def wanted_def trackedThen_def)
      have hold: "runs Q (whenM b (orFail (finalizerCall E c))) (\<lambda>_. Q)" "runs Q (orFail (finalizerCall E c)) (\<lambda>_. Q)"
        if "\<And>s l. Q s \<Longrightarrow> Q (s\<lparr>calls := l\<rparr>)" for Q b c
        using that by (simp_all add: valid_def whenM_def orFail_def finalizerCall_def step_simps settled_simps [OF assms(1)])
      have notif: "runs ?K (bnd (func (ensureNotificationsTransportURL L E (NotificationsBus (Spec i)) Ironic_setNotif
            (transportURLCreateOrUpdate E i) (conditionsIn L Ironic_updConds))) (\<lambda>(result, err).
            if err \<noteq> None \<or> RequeueAfter result > 0 then exit (result, err)
            else bnd getObj (\<lambda>j. thn (whenM (optText (st_NotificationsURLSecret (Status j)) \<noteq> '''')
                (orFail (finalizerCall E (ManageSecretConsumerFinalizer (Namespace (Meta i)) (optText (st_NotificationsURLSecret (Status j)))
                   TransportConsumerFinalizer)))) (ret (?c, optText (st_NotificationsURLSecret (Status j)))))))
          (\<lambda>x s. x = (?c, optText n) \<and> ?K s \<and> st_NotificationsURLSecret (Status (obj s)) = n)"
        by (rule valid_bnd [OF n [THEN spec, THEN spec, THEN spec]])
           (auto simp: valid_def run_simps settled_simps [OF assms(1)] emptyResult_def whenM_def)
      show "runs (\<lambda>s. ironicKey (obj s) = (wanted i, r, t)) (thn (modStatus (\<lambda>st.
          if st_TransportURLSecret st = '''' \<or> st_TransportURLSecret st = ?c then st\<lparr>st_TransportURLSecret := ?c\<rparr> else st))
          (thn (orFail (finalizerCall E (ManageSecretConsumerFinalizer (Namespace (Meta i)) ?c TransportConsumerFinalizer)))
          (thn (markTrue L ''RabbitMqTransportURLReadyCondition'' [''RabbitMqTransportURLReadyMessage'']) (bnd (func
            (ensureNotificationsTransportURL L E (NotificationsBus (Spec i)) Ironic_setNotif
            (transportURLCreateOrUpdate E i) (conditionsIn L Ironic_updConds))) (\<lambda>(result, err).
            if err \<noteq> None \<or> RequeueAfter result > 0 then exit (result, err)
            else bnd getObj (\<lambda>j. thn (whenM (optText (st_NotificationsURLSecret (Status j)) \<noteq> '''')
                (orFail (finalizerCall E (ManageSecretConsumerFinalizer (Namespace (Meta i)) (optText (st_NotificationsURLSecret (Status j)))
                   TransportConsumerFinalizer)))) (ret (?c, optText (st_NotificationsURLSecret (Status j))))))))))
        (\<lambda>x s. x = (?c, optText n) \<and> ironicKey (obj s) = (wanted i, r, trackedThen i (fst (?c, optText n)) t) \<and>
           st_NotificationsURLSecret (Status (obj s)) = n)"
        unfolding fst_conv
        by (rule valid_thn [OF track], rule valid_thn [OF hold(2)], simp, rule valid_thn [OF _ notif])
           (simp add: valid_def step_simps markTrue_def)
    qed
    then show "\<forall>r t. runs (\<lambda>s. ironicKey (obj s) = (wanted i, r, t)) (transportSection L E i) (\<lambda>x s. x = (?c, optText n) \<and>
       ironicKey (obj s) = (wanted i, r, trackedThen i (fst (?c, optText n)) t) \<and> st_NotificationsURLSecret (Status (obj s)) = n)"
      by (intro allI)
  qed (use True tu(1) in simp)
next
  case False
  show thesis
  proof (rule that [of "('''', '''')" None])
    show "\<forall>r t. runs (\<lambda>s. ironicKey (obj s) = (wanted i, r, t)) (transportSection L E i) (\<lambda>x s. x = ('''', '''') \<and>
       ironicKey (obj s) = (wanted i, r, trackedThen i (fst ('''', '''')) t) \<and> st_NotificationsURLSecret (Status (obj s)) = None)"
      using jsonRpc_value [OF assms(1)] False by (simp add: transportSection_def trackedThen_def)
  qed (use False in simp)
qed

text \<open>A recorded hash lets the run go on, any other ends it and is recorded.\<close>

lemma hash_value:
  assumes "setHash_law E" and "EnvHash E v = Inr h"
  shows "runs (\<lambda>s. ironicKey (obj s) = (w, Some h, t)) (createHashOfInputHashes E v)
      (\<lambda>x s. x = (h, False, None) \<and> ironicKey (obj s) = (w, Some h, t))"
    and "r \<noteq> Some h \<Longrightarrow> runs (\<lambda>s. ironicKey (obj s) = (w, r, t)) (createHashOfInputHashes E v)
      (\<lambda>x s. x = (h, True, None) \<and> ironicKey (obj s) = (w, Some h, t))"
proof -
  have same: "SetHash E (st_Hash (Status i)) ''InputHashName'' h = (st_Hash (Status i), False)"
    if "ironicKey i = (w, Some h, t)" for i
    using setHash_same [OF assms(1)] that by (simp add: ironicKey_def)
  show "runs (\<lambda>s. ironicKey (obj s) = (w, Some h, t)) (createHashOfInputHashes E v)
      (\<lambda>x s. x = (h, False, None) \<and> ironicKey (obj s) = (w, Some h, t))"
    by (simp add: valid_def createHashOfInputHashes_def assms(2) step_simps same whenM_def)
  show "runs (\<lambda>s. ironicKey (obj s) = (w, r, t)) (createHashOfInputHashes E v)
      (\<lambda>x s. x = (h, True, None) \<and> ironicKey (obj s) = (w, Some h, t))" if "r \<noteq> Some h"
    unfolding valid_def
  proof (intro allI impI)
    fix s :: "(Ironic, call) st" assume s: "ironicKey (obj s) = (w, r, t)"
    then have "recorded (st_Hash (Status (obj s))) \<noteq> Some h"
      using that by (simp add: ironicKey_def)
    from setHash_new [OF assms(1) this] obtain m where
      "SetHash E (st_Hash (Status (obj s))) ''InputHashName'' h = (m, True)" "recorded m = Some h"
      by blast
    then show "case createHashOfInputHashes E v s of
        (Continue x, s') \<Rightarrow> x = (h, True, None) \<and> ironicKey (obj s') = (w, Some h, t) | (Return _, _) \<Rightarrow> False"
      using s by (simp add: createHashOfInputHashes_def assms(2) step_simps whenM_def modStatus_def ironicKey_def wanted_def)
  qed
qed

lemma config_value:
  assumes "settled E" and "atRest E" and "setHash_law E"
  obtains h where "\<exists>v. EnvHash E v = Inr h"
    "\<forall>t. runs (\<lambda>s. ironicKey (obj s) = (wanted i, Some h, t) \<and> configPart (obj s) = c) (configSection L E i v ke kr db ct)
       (\<lambda>_ s. ironicKey (obj s) = (wanted i, Some h, t))"
    "\<forall>r t. r \<noteq> Some h \<longrightarrow> valid (\<lambda>s. ironicKey (obj s) = (wanted i, r, t) \<and> configPart (obj s) = c) (configSection L E i v ke kr db ct)
       (\<lambda>_ _. False) (\<lambda>x s. x = (emptyResult, None) \<and> ironicKey (obj s) = (wanted i, Some h, t))"
proof -
  let ?maps = "generateServiceConfigMaps E i v ke kr db ct"
  let ?K = "\<lambda>r t s. ironicKey (obj s) = (wanted i, r, t)" and ?C = "\<lambda>s. configPart (obj s) = c"
  have leaves: "leaves ironicKey ?maps"
    unfolding generateServiceConfigMaps_def getTransportURL_def getNotificationsTransportURL_def getQuorumQueues_def getSecret_def
      authParams_def setApplicationCredentialParams_def by (intro keeps)
  have maps: "runs (\<lambda>s. ?K r t s \<and> ?C s) ?maps (\<lambda>x s. fst x = None \<and> ?K r t s)" for r t
    by (rule valid_weaken [OF runs_leaves [OF runs_configMaps [OF assms(1), of "Spec i"] leaves, of "(wanted i, r, t)"]])
      (auto simp: ironicKey_def wanted_def)
  obtain x where x: "valued configPart c ?maps x"
    by (rule steady_value [OF steady_configMaps [OF assms(2)]])
  have "runs (\<lambda>s. ?K r t s \<and> ?C s) ?maps (\<lambda>y s. y = x \<and> fst y = None \<and> ?K r t s)" for r t
    by (rule runs_valued [OF x maps]) simp
  then have maps: "runs (\<lambda>s. ?K r t s \<and> ?C s) (func ?maps) (\<lambda>y s. y = x \<and> fst y = None \<and> ?K r t s)" for r t
    by (rule valid_func [OF runs_valid])
  obtain h where h: "EnvHash E (snd x) = Inr h"
    using settled_simps(21) [OF assms(1), of "snd x"] by (metis sum.collapse(2))
  note hash = hash_value [OF assms(3) h]
  show thesis
  proof (rule that [of h])
    show "\<exists>v. EnvHash E v = Inr h"
      using h by blast
    have go: "runs (\<lambda>s. y = x \<and> fst y = None \<and> ?K (Some h) t s) (case y of (err, vars) \<Rightarrow> case err of
          Some e \<Rightarrow> failWith L E ''ServiceConfigReadyCondition'' ''ServiceConfigReadyErrorMessage'' e
        | None \<Rightarrow> bnd (createHashOfInputHashes E vars) (\<lambda>(_, hashChanged, err). case err of
            Some e \<Rightarrow> failWith L E ''ServiceConfigReadyCondition'' ''ServiceConfigReadyErrorMessage'' e
          | None \<Rightarrow> if hashChanged then exit (emptyResult, None) else ret ())) (\<lambda>_. ?K (Some h) t)" for y t
      by (rule valid_imp, rule valid_imp, hypsubst, simp add: split_beta, rule valid_bnd [OF hash(1)]) (auto simp: valid_def step_simps)
    have stop: "valid (\<lambda>s. y = x \<and> fst y = None \<and> ?K r t s) (case y of (err, vars) \<Rightarrow> case err of
          Some e \<Rightarrow> failWith L E ''ServiceConfigReadyCondition'' ''ServiceConfigReadyErrorMessage'' e
        | None \<Rightarrow> bnd (createHashOfInputHashes E vars) (\<lambda>(_, hashChanged, err). case err of
            Some e \<Rightarrow> failWith L E ''ServiceConfigReadyCondition'' ''ServiceConfigReadyErrorMessage'' e
          | None \<Rightarrow> if hashChanged then exit (emptyResult, None) else ret ())) (\<lambda>_ _. False)
        (\<lambda>z s. z = (emptyResult, None) \<and> ?K (Some h) t s)" if "r \<noteq> Some h" for y r t
      by (rule valid_imp, rule valid_imp, hypsubst, simp add: split_beta, rule valid_bnd [OF runs_valid [OF hash(2) [OF that]]])
        (auto simp: valid_def step_simps)
    show "\<forall>t. runs (\<lambda>s. ?K (Some h) t s \<and> ?C s) (configSection L E i v ke kr db ct) (\<lambda>_. ?K (Some h) t)"
      unfolding configSection_def by (rule allI, rule valid_bnd [OF maps go])
    show "\<forall>r t. r \<noteq> Some h \<longrightarrow> valid (\<lambda>s. ?K r t s \<and> ?C s) (configSection L E i v ke kr db ct) (\<lambda>_ _. False)
        (\<lambda>z s. z = (emptyResult, None) \<and> ?K (Some h) t s)"
      unfolding configSection_def by (intro allI impI, rule valid_bnd [OF runs_valid [OF maps] stop])
  qed
qed

section \<open>The function\<close>

text \<open>The sections before the configuration: they go on, with a value that only depends on
  metadata and spec, and leave what is recorded.\<close>

definition ironicKey2 :: "Ironic \<Rightarrow> ((ObjectMeta \<times> IronicSpec) \<times> string option \<times> string) \<times> string option" where
  "ironicKey2 i = (ironicKey i, st_NotificationsURLSecret (Status i))"

lemma section_value:
  assumes "runs (\<lambda>s. Spec (obj s) = Spec i) m Q" and "leaves ironicKey2 m" and "valued wanted (wanted i) m v"
  shows "runs (\<lambda>s. ironicKey2 (obj s) = ((wanted i, r, t), n)) m
    (\<lambda>x s. x = v \<and> Q x s \<and> ironicKey2 (obj s) = ((wanted i, r, t), n))"
proof (rule runs_valued [OF assms(3)])
  show "runs (\<lambda>s. ironicKey2 (obj s) = ((wanted i, r, t), n)) m (\<lambda>x s. Q x s \<and> ironicKey2 (obj s) = ((wanted i, r, t), n))"
    by (rule valid_weaken [OF runs_leaves [OF assms(1,2), of "((wanted i, r, t), n)"]])
      (auto simp: ironicKey2_def ironicKey_def wanted_def)
qed (auto simp: ironicKey2_def ironicKey_def)

lemma leaves_sections:
  "leaves ironicKey (rbacSection E i)" "leaves ironicKey2 (inputSecretSection L E i)" "leaves ironicKey2 (keystoneSection E i)"
  "leaves ironicKey2 (ensureDB L E i)"
  unfolding rbacSection_def inputSecretSection_def keystoneSection_def ensureDB_def failWith_def setCond_def markTrue_def
    modStatus_def getOrFail_def
  by (intro keeps; simp add: ironicKey2_def ironicKey_def wanted_def Ironic_updConds_def)+

text \<open>The sections after it.\<close>

lemma runs_deployment:
  assumes "settled E" and "deployable i" and "ct = '''' \<longleftrightarrow> RPCTransport (Spec i) \<noteq> ''oslo''"
  shows "runs (\<lambda>s. Spec (obj s) = Spec i)
    (thn (acSecretSection L E i) (bnd (func (reconcileUpgrade L E P lbl)) (\<lambda>(ctrlResult, err).
       if err \<noteq> None then exit (ctrlResult, err)
       else if ctrlResult \<noteq> emptyResult then exit (ctrlResult, None)
       else bnd (servicesSection L E W fi fa i ke kr ct) (finishSection L E i ot ct on cn))))
    (\<lambda>r s. r = (emptyResult, None) \<and> finished i ot ct s)" (is "runs _ _ ?Q")
proof -
  have finish: "runs (\<lambda>s. r) (finishSection L E i ot ct on cn r) ?Q" for r
    using runs_finish [OF assms(1)] by (cases r) (fastforce simp: valid_def split: prod.splits step.splits)+
  have services: "runs (\<lambda>s. Spec (obj s) = Spec i) (bnd (servicesSection L E W fi fa i ke kr ct) (finishSection L E i ot ct on cn)) ?Q"
    by (rule valid_bnd [OF runs_services [OF assms(1,2)] finish])
  show ?thesis
    by (rule valid_thn [OF runs_acSecrets [OF assms(1)]], rule valid_bnd [OF runs_upgrade [OF assms(1)]], rule valid_prod,
        rule valid_if, force simp: valid_def, rule valid_if, force simp: valid_def, rule valid_pre [OF services], simp)
qed

text \<open>What the sections up to the database give.\<close>

lemma runs_before:
  assumes "settled E" and "valued wanted (wanted i) (inputSecretSection L E i) v"
    and "valued wanted (wanted i) (keystoneSection E i) ke" and "valued wanted (wanted i) (ensureDB L E i) db"
    and transport: "\<forall>r t. runs (\<lambda>s. ironicKey (obj s) = (wanted i, r, t)) (transportSection L E i) (\<lambda>x s. x = ct \<and>
       ironicKey (obj s) = (wanted i, r, trackedThen i (fst ct) t) \<and> st_NotificationsURLSecret (Status (obj s)) = n)"
    and j: "wanted j = wanted i"
    and rest: "valid (\<lambda>s. ironicKey (obj s) = (wanted i, recorded (st_Hash (Status j)), trackedThen i (fst ct)
         (st_TransportURLSecret (Status j))) \<and> configPart (obj s) = (n, db_Hostname db))
       (thn (configSection L E i v (fst ke) (snd ke) db (fst ct)) (thn (acSecretSection L E j)
         (bnd (func (reconcileUpgrade L E P [''AppSelector'' \<mapsto> ServiceName])) (\<lambda>(ctrlResult, err).
            if err \<noteq> None then exit (ctrlResult, err)
            else if ctrlResult \<noteq> emptyResult then exit (ctrlResult, None)
            else bnd (servicesSection L E W fi fa j (fst ke) (snd ke) (fst ct)) (finishSection L E j
              (st_TransportURLSecret (Status j)) (fst ct) (optText (st_NotificationsURLSecret (Status j))) (snd ct)))))) Q R"
  shows "valid (\<lambda>s. obj s = j) (reconcileNormalFrom L E P W fi fa j) Q R"
proof -
  let ?r = "recorded (st_Hash (Status j))" and ?t = "st_TransportURLSecret (Status j)"
  let ?K = "\<lambda>s. ironicKey (obj s) = (wanted i, ?r, ?t)" and ?K2 = "\<lambda>s. ironicKey2 (obj s) = ((wanted i, ?r, trackedThen i (fst ct) ?t), n)"
  have rbac: "runs (\<lambda>s. obj s = j) (rbacSection E j) (\<lambda>_. ?K)"
    by (rule valid_weaken [OF runs_leaves [OF runs_rbac [OF assms(1), of "Spec i"] leaves_sections(1), of "(wanted i, ?r, ?t)"]])
      (use j in \<open>auto simp: ironicKey_def wanted_def\<close>)
  have count: "runs ?K (modStatus (\<lambda>st. st\<lparr>st_IronicConductorReadyCount := Map.empty\<rparr>)) (\<lambda>_. ?K)"
    by (simp add: valid_def step_simps modStatus_def ironicKey_def wanted_def)
  have transport: "runs ?K (transportSection L E i) (\<lambda>x s. x = ct \<and> ?K2 s)"
    by (rule valid_weaken [OF transport [THEN spec, THEN spec]]) (auto simp: ironicKey2_def)
  have input: "runs ?K2 (inputSecretSection L E i) (\<lambda>x s. x = v \<and> ?K2 s)"
    by (rule valid_weaken [OF section_value [OF runs_inputSecret [OF assms(1)] leaves_sections(2) assms(2)]]) (blast+)
  have keystone: "runs ?K2 (keystoneSection E i) (\<lambda>x s. x = ke \<and> ?K2 s)"
    by (rule valid_weaken [OF section_value [OF runs_keystone [OF assms(1)] leaves_sections(3) assms(3)]]) (blast+)
  have database: "runs ?K2 (ensureDB L E i) (\<lambda>x s. x = db \<and> st_DatabaseHostname (Status (obj s)) = db_Hostname db \<and> ?K2 s)"
    by (rule valid_weaken [OF section_value [OF runs_ensureDB [OF assms(1)] leaves_sections(4) assms(4)]]) auto
  show ?thesis
    unfolding reconcileNormalFrom_def Let_def wanted_cong [OF j]
    by (rule valid_thn [OF runs_valid [OF rbac]], rule valid_thn [OF runs_valid [OF count]],
        rule valid_bnd [OF runs_valid [OF transport]], rule valid_imp, hypsubst, rule valid_pair,
        rule valid_bnd [OF runs_valid [OF input]], rule valid_imp, hypsubst,
        rule valid_bnd [OF runs_valid [OF keystone]], rule valid_imp, hypsubst, rule valid_pair,
        rule valid_bnd [OF runs_valid [OF database]], rule valid_imp, hypsubst, rule valid_pre,
        use rest in \<open>simp add: ironicKey2_def configPart_def\<close>)
       (simp_all add: ironicKey2_def configPart_def)
qed

text \<open>With the hash of its inputs recorded a run comes to its end; with any other it records
  it and is given up. The hash depends on metadata and spec only.\<close>

lemma reconcile_values:
  assumes "settled E" and "atRest E" and "setHash_law E" and "deployable i"
  obtains h ct where "\<exists>v. EnvHash E v = Inr h" "ct = '''' \<longleftrightarrow> RPCTransport (Spec i) \<noteq> ''oslo''"
    "\<forall>j. wanted j = wanted i \<longrightarrow> recorded (st_Hash (Status j)) = Some h \<longrightarrow>
       runs (\<lambda>s. obj s = j) (reconcileNormalFrom L E P W fi fa j)
         (\<lambda>r s. r = (emptyResult, None) \<and> finished j (st_TransportURLSecret (Status j)) ct s)"
    "\<forall>j. wanted j = wanted i \<longrightarrow> recorded (st_Hash (Status j)) \<noteq> Some h \<longrightarrow>
       valid (\<lambda>s. obj s = j) (reconcileNormalFrom L E P W fi fa j) (\<lambda>_ _. False)
         (\<lambda>r s. r = (emptyResult, None) \<and> ironicKey (obj s) = (wanted i, Some h, trackedThen i ct (st_TransportURLSecret (Status j))))"
proof -
  obtain ct n where ct: "fst ct = '''' \<longleftrightarrow> RPCTransport (Spec i) \<noteq> ''oslo''"
    and transport: "\<forall>r t. runs (\<lambda>s. ironicKey (obj s) = (wanted i, r, t)) (transportSection L E i) (\<lambda>x s. x = ct \<and>
       ironicKey (obj s) = (wanted i, r, trackedThen i (fst ct) t) \<and> st_NotificationsURLSecret (Status (obj s)) = n)"
    by (rule transport_value [OF assms(1,2)], rule that)
  obtain v where v: "valued wanted (wanted i) (inputSecretSection L E i) v"
    by (rule steady_value [OF steady_sections(1) [OF assms(1,2)]])
  obtain ke where ke: "valued wanted (wanted i) (keystoneSection E i) ke"
    by (rule steady_value [OF steady_sections(2) [OF assms(1,2)]])
  obtain db where db: "valued wanted (wanted i) (ensureDB L E i) db"
    by (rule steady_value [OF steady_sections(3) [OF assms(1,2)]])
  obtain h where h: "\<exists>v. EnvHash E v = Inr h"
    and go: "\<forall>t. runs (\<lambda>s. ironicKey (obj s) = (wanted i, Some h, t) \<and> configPart (obj s) = (n, db_Hostname db))
       (configSection L E i v (fst ke) (snd ke) db (fst ct)) (\<lambda>_ s. ironicKey (obj s) = (wanted i, Some h, t))"
    and stop: "\<forall>r t. r \<noteq> Some h \<longrightarrow> valid (\<lambda>s. ironicKey (obj s) = (wanted i, r, t) \<and> configPart (obj s) = (n, db_Hostname db))
       (configSection L E i v (fst ke) (snd ke) db (fst ct)) (\<lambda>_ _. False)
       (\<lambda>x s. x = (emptyResult, None) \<and> ironicKey (obj s) = (wanted i, Some h, t))"
    by (rule config_value [OF assms(1-3)], rule that)
  note before = runs_before [OF assms(1) v ke db transport]
  have tail: "runs (\<lambda>s. ironicKey (obj s) = (wanted i, r, t)) (thn (acSecretSection L E j)
      (bnd (func (reconcileUpgrade L E P lbl)) (\<lambda>(ctrlResult, err).
         if err \<noteq> None then exit (ctrlResult, err)
         else if ctrlResult \<noteq> emptyResult then exit (ctrlResult, None)
         else bnd (servicesSection L E W fi fa j (fst ke) (snd ke) (fst ct)) (finishSection L E j ot (fst ct) on cn))))
      (\<lambda>r s. r = (emptyResult, None) \<and> finished j ot (fst ct) s)" if "wanted j = wanted i" for j r t lbl ot on cn
    by (rule valid_pre [OF runs_deployment [OF assms(1)]])
      (use that assms(4) ct in \<open>auto simp: wanted_def deployable_def ironicKey_def\<close>)
  show thesis
  proof (rule that [of h "fst ct"])
    show "\<forall>j. wanted j = wanted i \<longrightarrow> recorded (st_Hash (Status j)) = Some h \<longrightarrow>
       runs (\<lambda>s. obj s = j) (reconcileNormalFrom L E P W fi fa j)
         (\<lambda>r s. r = (emptyResult, None) \<and> finished j (st_TransportURLSecret (Status j)) (fst ct) s)"
      by (intro allI impI, rule before, assumption, rule valid_thn, simp only:, rule go [THEN spec], rule tail)
    show "\<forall>j. wanted j = wanted i \<longrightarrow> recorded (st_Hash (Status j)) \<noteq> Some h \<longrightarrow>
       valid (\<lambda>s. obj s = j) (reconcileNormalFrom L E P W fi fa j) (\<lambda>_ _. False)
         (\<lambda>r s. r = (emptyResult, None) \<and> ironicKey (obj s) = (wanted i, Some h, trackedThen i (fst ct) (st_TransportURLSecret (Status j))))"
      by (intro allI impI, rule before, assumption, rule valid_thn, rule stop [THEN spec, THEN spec, THEN mp], assumption)
        (simp add: valid_def)
  qed (use h ct in \<open>simp_all\<close>)
qed

text \<open>A run that goes to its end.\<close>

definition completes ::
  "condLib \<Rightarrow> env \<Rightarrow> podLib \<Rightarrow> webhookLib \<Rightarrow> IronicInspector \<Rightarrow> IronicNeutronAgent \<Rightarrow> Ironic \<Rightarrow> (Ironic, call) st \<Rightarrow> bool" where
  "completes L E P W fi fa i s \<longleftrightarrow>
     reconcileNormal L E P W fi fa \<lparr>obj = i, calls = []\<rparr> = (Continue (emptyResult, None), s) \<and>
     (\<exists>ct. (ct = '''' \<longleftrightarrow> RPCTransport (Spec i) \<noteq> ''oslo'') \<and> finished i (st_TransportURLSecret (Status i)) ct s)"

text \<open>A run that is given up because the inputs changed: it has recorded their hash, and
  kept metadata, spec and the old transport secret.\<close>

definition givenUp ::
  "condLib \<Rightarrow> env \<Rightarrow> podLib \<Rightarrow> webhookLib \<Rightarrow> IronicInspector \<Rightarrow> IronicNeutronAgent \<Rightarrow> string \<Rightarrow> Ironic \<Rightarrow> (Ironic, call) st \<Rightarrow> bool" where
  "givenUp L E P W fi fa h i s \<longleftrightarrow>
     reconcileNormal L E P W fi fa \<lparr>obj = i, calls = []\<rparr> = (Return (emptyResult, None), s) \<and>
     wanted (obj s) = wanted i \<and> recorded (st_Hash (Status (obj s))) = Some h \<and>
     (RPCTransport (Spec i) \<noteq> ''oslo'' \<or> st_TransportURLSecret (Status i) = '''' \<or>
        st_TransportURLSecret (Status (obj s)) = st_TransportURLSecret (Status i))"

lemma settled_progress:
  assumes "settled E" and "atRest E" and "setHash_law E" and "deployable i"
  shows "\<exists>h v. EnvHash E v = Inr h \<and> (\<forall>j. wanted j = wanted i \<longrightarrow>
     (if recorded (st_Hash (Status j)) = Some h then \<exists>s. completes L E P W fi fa j s
      else \<exists>s. givenUp L E P W fi fa h j s))"
proof (rule reconcile_values [OF assms])
  fix h ct
  assume h: "\<exists>v. EnvHash E v = Inr h" and ct: "ct = '''' \<longleftrightarrow> RPCTransport (Spec i) \<noteq> ''oslo''"
    and go: "\<forall>j. wanted j = wanted i \<longrightarrow> recorded (st_Hash (Status j)) = Some h \<longrightarrow>
       runs (\<lambda>s. obj s = j) (reconcileNormalFrom L E P W fi fa j)
         (\<lambda>r s. r = (emptyResult, None) \<and> finished j (st_TransportURLSecret (Status j)) ct s)"
    and stop: "\<forall>j. wanted j = wanted i \<longrightarrow> recorded (st_Hash (Status j)) \<noteq> Some h \<longrightarrow>
       valid (\<lambda>s. obj s = j) (reconcileNormalFrom L E P W fi fa j) (\<lambda>_ _. False)
         (\<lambda>r s. r = (emptyResult, None) \<and> ironicKey (obj s) = (wanted i, Some h, trackedThen i ct (st_TransportURLSecret (Status j))))"
  have "if recorded (st_Hash (Status j)) = Some h then \<exists>s. completes L E P W fi fa j s
      else \<exists>s. givenUp L E P W fi fa h j s" if j: "wanted j = wanted i" for j
  proof (cases "recorded (st_Hash (Status j)) = Some h")
    case True
    with go j have "runs (\<lambda>s. obj s = j) (reconcileNormalFrom L E P W fi fa j)
         (\<lambda>r s. r = (emptyResult, None) \<and> finished j (st_TransportURLSecret (Status j)) ct s)"
      by blast
    then show ?thesis
      using True ct j by (auto elim!: runsE [where s = "\<lparr>obj = j, calls = []\<rparr>"]
          simp: completes_def reconcileNormal_def step_simps wanted_def)
  next
    case False
    with stop j have "valid (\<lambda>s. obj s = j) (reconcileNormalFrom L E P W fi fa j) (\<lambda>_ _. False)
         (\<lambda>r s. r = (emptyResult, None) \<and> ironicKey (obj s) = (wanted i, Some h, trackedThen i ct (st_TransportURLSecret (Status j))))"
      by blast
    then obtain s where "reconcileNormalFrom L E P W fi fa j \<lparr>obj = j, calls = []\<rparr> = (Return (emptyResult, None), s)"
      "ironicKey (obj s) = (wanted i, Some h, trackedThen i ct (st_TransportURLSecret (Status j)))"
      by (rule stopsE [where s = "\<lparr>obj = j, calls = []\<rparr>"]) (use that in auto)
    then have "givenUp L E P W fi fa h j s"
      using j by (auto simp: givenUp_def reconcileNormal_def step_simps ironicKey_def trackedThen_def wanted_def)
    then show ?thesis
      using False by auto
  qed
  with h show ?thesis by blast
qed

text \<open>In the example environment the hash of the inputs is always the same.\<close>

lemma example_completes:
  assumes "deployable i" and "recorded (st_Hash (Status i)) = Some ''input-hash''"
  shows "\<exists>s. completes L exampleEnv P W fi fa i s"
  using settled_progress [OF settled_example atRest_example exampleEnv_laws(1) assms(1), of L P W fi fa] assms(2) by auto

lemma example_gives_up:
  assumes "deployable i" and "recorded (st_Hash (Status i)) \<noteq> Some ''input-hash''"
  shows "\<exists>s. givenUp L exampleEnv P W fi fa ''input-hash'' i s"
  using settled_progress [OF settled_example atRest_example exampleEnv_laws(1) assms(1), of L P W fi fa] assms(2) by auto

end
