(* ===== verification/ReconcileProps.thy ===== *)
theory ReconcileProps
  imports Progress
begin

text \<open>
  The properties of the Ironic controller: rollout before release, progress,
  what a run may touch and call, the secrets it keeps, the names and specs of
  the sub-resources, deletion and the status update.
\<close>

section \<open>Rotation of secrets\<close>

text \<open>C2. A credential rotation is finalized as ready only after the rollout: in every run of
  \<open>reconcileNormal\<close> and for every environment, the calls before a
  \<open>FinalizeSecretRotation\<close> with \<open>allServicesReady\<close> contain, for one input hash, the
  store of every conductor's desired object and of the API's, each answered with an object that has
  seen its generation and applied that hash.\<close>

theorem rollout_before_release:
  assumes "reconcileNormal L E P W fi fa \<lparr>obj = i, calls = []\<rparr> = (r, s)"
    and "calls s = pre @ FinalizeSecretRotation ns old new fin True # post"
  shows "\<exists>h. (\<forall>c\<in>set (sp_IronicConductors (Spec i)). conductorApplied E i c h pre) \<and> apiApplied E i h pre"
proof -
  have "guarded E i (calls s)"
    using valid_final [OF reconcileNormal_guarded, of "\<lparr>obj = i, calls = []\<rparr>" i] assms(1)
    by (metis (no_types, lifting) snd_conv st.select_convs)
  then show ?thesis
    using assms(2) by (simp add: guards_def rolledOut_def finalizes_def)
qed


lemma example_deployable: "deployable (exampleIronic cs rs)"
  by (simp add: deployable_def exampleIronic_def exampleSpec_def exampleInspector_def IronicSpecCore.defs
      IronicServiceTemplate.defs exampleTemplate_def)

text \<open>An instance that has nothing recorded yet.\<close>

definition exampleFresh :: Ironic where
  "exampleFresh = (exampleIronic [exampleConductor '''' []] [])\<lparr>Status := exampleStatus\<lparr>st_Hash := None\<rparr>\<rparr>"


lemma example_run:
  obtains s pre new post where "reconcileNormal exampleConds exampleEnv examplePodLib exampleLib exampleInspectorObject
       exampleAgentObject \<lparr>obj = exampleIronic [exampleConductor '''' []] [], calls = []\<rparr>
     = (Continue (emptyResult, None), s)"
     "calls s = pre @ FinalizeSecretRotation ''openstack'' '''' new TransportConsumerFinalizer True # post"
proof -
  let ?i = "exampleIronic [exampleConductor '''' []] []"
  have "recorded (st_Hash (Status ?i)) = Some ''input-hash''"
    by (simp add: exampleStatus_def)
  from example_completes [OF example_deployable this, of exampleConds examplePodLib exampleLib exampleInspectorObject exampleAgentObject]
  obtain s where "completes exampleConds exampleEnv examplePodLib exampleLib exampleInspectorObject exampleAgentObject ?i s"
    by blast
  then show thesis
    using that [of s] by (auto simp: completes_def finished_def exampleIronic_def exampleMeta_def exampleStatus_def dest!: split_list)
qed

theorem rollout_before_release_witness:
  "\<exists>s pre new post. reconcileNormal exampleConds exampleEnv examplePodLib exampleLib exampleInspectorObject
       exampleAgentObject \<lparr>obj = exampleIronic [exampleConductor '''' []] [], calls = []\<rparr>
     = (Continue (emptyResult, None), s) \<and>
     calls s = pre @ FinalizeSecretRotation ''openstack'' '''' new TransportConsumerFinalizer True # post \<and>
     (\<exists>h. \<forall>c\<in>set (sp_IronicConductors (Spec (exampleIronic [exampleConductor '''' []] []))).
        conductorApplied exampleEnv (exampleIronic [exampleConductor '''' []] []) c h pre)"
proof (rule example_run)
  fix s pre new post
  assume run: "reconcileNormal exampleConds exampleEnv examplePodLib exampleLib exampleInspectorObject
       exampleAgentObject \<lparr>obj = exampleIronic [exampleConductor '''' []] [], calls = []\<rparr>
     = (Continue (emptyResult, None), s)"
    and log: "calls s = pre @ FinalizeSecretRotation ''openstack'' '''' new TransportConsumerFinalizer True # post"
  show ?thesis
    using rollout_before_release [OF run log] run log by blast
qed

section \<open>What a run may call\<close>

definition routine :: "call \<Rightarrow> bool" where
  "routine c \<longleftrightarrow> \<not> transportCall c \<and>
     (case c of GetKeystoneAPI _ \<Rightarrow> False | Delete k _ _ \<Rightarrow> k \<noteq> ''TransportURL'' | StoreIronic _ \<Rightarrow> False | _ \<Rightarrow> True)"

lemmas routine_simps = routine_def transportCall_def

lemma reconcileNormalFrom_emits:
  assumes "\<And>c. routine c \<Longrightarrow> A c"
    and "\<And>c. RPCTransport (Spec i) = ''oslo'' \<Longrightarrow> transportCall c \<Longrightarrow> A c"
    and "\<And>ns. \<not> Standalone (Spec i) \<Longrightarrow> A (GetKeystoneAPI ns)"
    and "\<And>n ns. optText (st_NotificationsURLSecret (Status i)) \<noteq> '''' \<Longrightarrow> A (Delete ''TransportURL'' n ns)"
  shows "emits A (reconcileNormalFrom L E P W fi fa i)"
  unfolding reconcileNormalFrom_def section_defs servicesSection_def deployConductors_def deployConductor_def
    conductorDeploymentCreateOrUpdate_def deployAPI_def apiDeploymentCreateOrUpdate_def inspectInterfaceSection_def
    deployInspector_def inspectorDeploymentCreateOrUpdate_def inspectorDeploymentDelete_def deployNeutronAgent_def
    ironicNeutronAgentDeploymentCreateOrUpdate_def ironicNeutronAgentDeploymentDelete_def deleteSubResource_def
    finishSection_def acRotationSection_def transportRotationSection_def notifRotationSection_def
    pruneSection_def readySection_def
  by (intro keeps; simp add: assms routine_simps)

text \<open>The calls the spec and the tracked secrets of an instance permit.\<close>

definition permitted :: "Ironic \<Rightarrow> call \<Rightarrow> bool" where
  "permitted i c \<longleftrightarrow> (case c of
       StoreTransportURL _ \<Rightarrow> RPCTransport (Spec i) = ''oslo''
     | Fetch k _ _ \<Rightarrow> k \<noteq> ''TransportURL'' \<or> RPCTransport (Spec i) = ''oslo''
     | GetKeystoneAPI _ \<Rightarrow> \<not> Standalone (Spec i)
     | Delete k _ _ \<Rightarrow> k \<noteq> ''TransportURL'' \<or> optText (st_NotificationsURLSecret (Status i)) \<noteq> ''''
     | StoreIronic _ \<Rightarrow> False
     | _ \<Rightarrow> True)"

text \<open>C33. What a run of \<open>reconcileNormal\<close> may call depends on the spec: without the oslo transport no
  transport URL is read or stored, a standalone Ironic never asks for Keystone, no transport URL is
  deleted unless the instance came in tracking a notifications secret, and the instance itself is not
  stored before the end of the reconcile.\<close>

theorem calls_permitted:
  "list_all (permitted i) (calls (snd (reconcileNormal L E P W fi fa \<lparr>obj = i, calls = []\<rparr>)))"
proof -
  have "emits (permitted i) (reconcileNormalFrom L E P W fi fa i)"
    by (rule reconcileNormalFrom_emits) (auto simp: routine_simps permitted_def split: call.splits)
  then show ?thesis
    by (auto simp: reconcileNormal_def step_simps dest: emitsD [where s = "\<lparr>obj = i, calls = []\<rparr>"])
qed

section \<open>Secrets in use are kept\<close>

text \<open>A call that neither takes hold of a transport secret nor prunes the holders; a
  call that takes hold of none but the two given ones and prunes neither.\<close>

definition holdsNone :: "call \<Rightarrow> bool" where
  "holdsNone c \<longleftrightarrow> (case c of
       ManageSecretConsumerFinalizer _ n f \<Rightarrow> f \<noteq> TransportConsumerFinalizer
     | PruneSecretConsumerFinalizers _ f _ \<Rightarrow> f \<noteq> TransportConsumerFinalizer
     | _ \<Rightarrow> True)"

definition holdsOnly :: "string \<Rightarrow> string \<Rightarrow> call \<Rightarrow> bool" where
  "holdsOnly ct cn c \<longleftrightarrow> (case c of
       ManageSecretConsumerFinalizer _ n f \<Rightarrow> f \<noteq> TransportConsumerFinalizer \<or> n \<in> {ct, cn}
     | PruneSecretConsumerFinalizers _ f keep \<Rightarrow> f \<noteq> TransportConsumerFinalizer \<or> {ct, cn} \<subseteq> set keep
     | _ \<Rightarrow> True)"

lemma holdsNone_Only: "holdsNone c \<Longrightarrow> holdsOnly ct cn c"
  by (auto simp: holdsNone_def holdsOnly_def split: call.splits)

lemma transportCall_holdsNone: "transportCall c \<Longrightarrow> holdsNone c"
  by (auto simp: transportCall_def holdsNone_def split: call.splits)

lemma consumer_finalizers [simp]:
  "ACConsumerFinalizer \<noteq> TransportConsumerFinalizer" "InspectorACConsumerFinalizer \<noteq> TransportConsumerFinalizer"
  by (simp_all add: ACConsumerFinalizer_def InspectorACConsumerFinalizer_def TransportConsumerFinalizer_def)

text \<open>The transport secrets a log takes hold of, and a log whose prunes spare them.\<close>

definition held :: "call list \<Rightarrow> string list" where
  "held log = concat (map (\<lambda>c. case c of
       ManageSecretConsumerFinalizer _ n f \<Rightarrow> if f = TransportConsumerFinalizer then [n] else []
     | _ \<Rightarrow> []) log)"

definition prunesSafely :: "call list \<Rightarrow> bool" where
  "prunesSafely log \<longleftrightarrow> list_all (\<lambda>c. case c of
       PruneSecretConsumerFinalizers _ f keep \<Rightarrow> f \<noteq> TransportConsumerFinalizer \<or> set (held log) \<subseteq> set keep
     | _ \<Rightarrow> True) log"

lemma holdsOnly_held: "list_all (holdsOnly ct cn) log \<Longrightarrow> set (held log) \<subseteq> {ct, cn}"
  by (auto simp: held_def holdsOnly_def list_all_iff split: call.splits if_splits)

lemma holdsOnly_safe:
  assumes "list_all (holdsOnly ct cn) log"
  shows "prunesSafely log"
  unfolding prunesSafely_def list_all_iff
proof
  fix c assume "c \<in> set log"
  then have "holdsOnly ct cn c"
    using assms by (simp add: list_all_iff)
  then show "case c of PruneSecretConsumerFinalizers _ f keep \<Rightarrow>
      f \<noteq> TransportConsumerFinalizer \<or> set (held log) \<subseteq> set keep | _ \<Rightarrow> True"
    using holdsOnly_held [OF assms] by (auto simp: holdsOnly_def split: call.split)
qed

text \<open>Before the notifications secret is known, one secret may be held; nothing is pruned.\<close>

definition unpruned :: "string \<Rightarrow> call \<Rightarrow> bool" where
  "unpruned ct c \<longleftrightarrow> (case c of
       ManageSecretConsumerFinalizer _ n f \<Rightarrow> f \<noteq> TransportConsumerFinalizer \<or> n = ct
     | PruneSecretConsumerFinalizers _ f _ \<Rightarrow> f \<noteq> TransportConsumerFinalizer
     | _ \<Rightarrow> True)"

lemma unpruned_Only: "unpruned ct c \<Longrightarrow> holdsOnly ct cn c"
  by (auto simp: unpruned_def holdsOnly_def split: call.splits)

lemma holdsNone_unpruned: "holdsNone c \<Longrightarrow> unpruned ct c"
  by (auto simp: unpruned_def holdsNone_def split: call.splits)

lemma safe_step:
  assumes "emits (holdsOnly ct cn) m"
  shows "valid (\<lambda>s. list_all (holdsOnly ct cn) (calls s)) m (\<lambda>_ s. list_all (holdsOnly ct cn) (calls s))
    (\<lambda>_ s. prunesSafely (calls s))"
  using valid_emits [OF assms] by (rule valid_weaken) (auto intro: holdsOnly_safe)

lemma jsonRpc_holds: "emits holdsNone (jsonRpcTransport L E i)"
  unfolding jsonRpcTransport_def by (intro keeps; simp add: holdsNone_def)

lemma holding_step:
  assumes "emits A m" and "\<And>c. A c \<Longrightarrow> holdsOnly ct ct' c"
  shows "valid (\<lambda>s. list_all A (calls s)) m (\<lambda>_ s. list_all A (calls s)) (\<lambda>_ s. prunesSafely (calls s))"
  using valid_emits [OF assms(1)]
  by (rule valid_weaken) (auto intro: holdsOnly_safe list_all_mono assms(2))

lemma oslo_holds:
  "valid (\<lambda>s. list_all holdsNone (calls s)) (osloTransport L E i)
     (\<lambda>(ct, cn) s. list_all (holdsOnly ct cn) (calls s)) (\<lambda>_ s. prunesSafely (calls s))" (is "valid ?P _ ?Q ?R")
proof -
  have create: "emits holdsNone (transportURLCreateOrUpdate E i suffix cfg :: (_, _, ret, _) act)" for suffix cfg
    by (rule emits_mono [OF ironic_transport.create_emits transportCall_holdsNone])
  have notif: "emits (unpruned ct) (func (ensureNotificationsTransportURL L E bus Ironic_setNotif
      (transportURLCreateOrUpdate E i) (conditionsIn L Ironic_updConds)) :: (_, _, ret, _) act)" for ct bus
    by (intro emits_func emits_mono [OF ironic_transport.notifications_emits])
       (rule holdsNone_unpruned [OF transportCall_holdsNone])
  have early: "valid ?P m ?Q ?R" if "emits holdsNone m" for m
    using valid_emits [OF that]
    by (rule valid_weaken) (auto intro: holdsOnly_safe [of "''''" "''''"] holdsNone_Only list_all_mono)
  have before: "valid (\<lambda>s. list_all (unpruned ct) (calls s)) m (\<lambda>_ s. list_all (unpruned ct) (calls s)) ?R"
    if "emits (unpruned ct) m" for m :: "'a iact" and ct
    using that unpruned_Only by (rule holding_step)
  have after: "valid (\<lambda>s. list_all (unpruned ct) (calls s))
     (thn (modStatus f) (thn (orFail (finalizerCall E (ManageSecretConsumerFinalizer ns ct TransportConsumerFinalizer)))
     (thn (markTrue L ''RabbitMqTransportURLReadyCondition'' [''RabbitMqTransportURLReadyMessage''])
     (bnd (func (ensureNotificationsTransportURL L E bus Ironic_setNotif (transportURLCreateOrUpdate E i)
        (conditionsIn L Ironic_updConds))) (\<lambda>(result, err).
      if err \<noteq> None \<or> RequeueAfter result > 0 then exit (result, err)
      else bnd getObj (\<lambda>i. let currentNotif = optText (st_NotificationsURLSecret (Status i)) in
        thn (whenM (currentNotif \<noteq> '''') (orFail (finalizerCall E
              (ManageSecretConsumerFinalizer ns currentNotif TransportConsumerFinalizer))))
            (ret (ct, currentNotif)))))))) ?Q ?R" for f ct ns bus
    apply (rule valid_thn, rule before, intro keeps)
    apply (rule valid_thn, rule before, intro keeps, simp add: unpruned_def)
    apply (rule valid_thn, rule before, intro keeps)
    apply (rule valid_bnd, rule before, rule notif, rule valid_prod, rule valid_if)
     apply (rule valid_exit, auto intro: holdsOnly_safe list_all_mono unpruned_Only)[1]
    apply (rule valid_bnd [where Q' = "\<lambda>_ s. list_all (unpruned ct) (calls s)"], rule valid_getObj, simp, rule valid_let)
    subgoal for r result err j cn
      apply (rule valid_pre [where P' = "\<lambda>s. list_all (holdsOnly ct cn) (calls s)"])
      apply (rule valid_thn, rule safe_step, intro keeps, simp add: holdsOnly_def)
      apply (rule valid_ret, simp)
      apply (auto intro: list_all_mono unpruned_Only)
      done
    done
  show ?thesis
    unfolding osloTransport_def
    apply (rule valid_bnd)
     apply (rule holding_step [OF create holdsNone_Only], assumption)
    apply (rule valid_sum)
     apply (rule early, intro keeps)
    apply (rule valid_prod, rule valid_if)
     apply (rule early, intro keeps)
    apply (rule valid_let)
    apply (rule valid_pre [OF after]; auto intro: holdsNone_unpruned list_all_mono)
    done
qed

lemma transport_holds:
  "valid (\<lambda>s. list_all holdsNone (calls s)) (transportSection L E i)
     (\<lambda>(ct, cn) s. list_all (holdsOnly ct cn) (calls s)) (\<lambda>_ s. prunesSafely (calls s))"
  unfolding transportSection_def
proof (rule valid_if [OF oslo_holds])
  show "valid (\<lambda>s. list_all holdsNone (calls s)) (jsonRpcTransport L E i)
     (\<lambda>(ct, cn) s. list_all (holdsOnly ct cn) (calls s)) (\<lambda>_ s. prunesSafely (calls s))"
    using valid_emits [OF jsonRpc_holds]
    by (rule valid_weaken) (auto intro: holdsOnly_safe [of "''''" "''''"] holdsNone_Only list_all_mono)
qed

lemma before_holds:
  "emits holdsNone (rbacSection E i)" "emits holdsNone (modStatus f)" "emits holdsNone (inputSecretSection L E i)"
  "emits holdsNone (keystoneSection E i)" "emits holdsNone (ensureDB L E i)"
  "emits holdsNone (configSection L E i v ke kr db t)" "emits holdsNone (acSecretSection L E i)"
  "emits holdsNone (func (reconcileUpgrade L E P lbl))" "emits holdsNone (servicesSection L E W fi fa i ke kr t)"
  unfolding section_defs servicesSection_def deployConductors_def deployConductor_def
    conductorDeploymentCreateOrUpdate_def deployAPI_def apiDeploymentCreateOrUpdate_def inspectInterfaceSection_def
    deployInspector_def inspectorDeploymentCreateOrUpdate_def inspectorDeploymentDelete_def deployNeutronAgent_def
    ironicNeutronAgentDeploymentCreateOrUpdate_def ironicNeutronAgentDeploymentDelete_def deleteSubResource_def
  by (intro keeps; simp add: holdsNone_def)+

lemma finish_holds: "emits (holdsOnly ct cn) (finishSection L E i ot ct on cn ready)"
  unfolding finishSection_def acRotationSection_def transportRotationSection_def notifRotationSection_def
    pruneSection_def readySection_def
  by (intro keeps; simp add: holdsOnly_def)

text \<open>C6. A secret in use is never pruned: in every run of \<open>reconcileNormal\<close>, whatever the environment
  answers, every prune of the transport consumer finalizer names each secret the run took hold of among
  the secrets to keep.\<close>

theorem secrets_in_use_kept:
  "prunesSafely (calls (snd (reconcileNormal L E P W fi fa \<lparr>obj = i, calls = []\<rparr>)))"
proof -
  have first: "valid (\<lambda>s. list_all holdsNone (calls s)) m (\<lambda>_ s. list_all holdsNone (calls s))
      (\<lambda>_ s. prunesSafely (calls s))" if "emits holdsNone m" for m :: "'a iact"
    using that by (rule holding_step) (rule holdsNone_Only [of _ "''''" "''''"])
  have after: "valid (\<lambda>s. list_all (holdsOnly ct cn) (calls s)) m (\<lambda>_ s. list_all (holdsOnly ct cn) (calls s))
      (\<lambda>_ s. prunesSafely (calls s))" if "emits holdsNone m" for m :: "'a iact" and ct cn
    by (rule safe_step, rule emits_mono [OF that holdsNone_Only])
  have "valid (\<lambda>s. list_all holdsNone (calls s)) (reconcileNormalFrom L E P W fi fa i)
      (\<lambda>_ s. prunesSafely (calls s)) (\<lambda>_ s. prunesSafely (calls s))"
    unfolding reconcileNormalFrom_def
    apply (rule valid_thn, rule first, rule before_holds)
    apply (rule valid_thn, rule first, rule before_holds, rule valid_let, rule valid_let)
    apply (rule valid_bnd, rule transport_holds, rule valid_prod, simp only: prod.case)
    apply (rule after before_holds finish_holds [THEN safe_step] valid_thn valid_bnd valid_prod valid_if valid_exit holdsOnly_safe | assumption)+
    apply (rule valid_weaken [OF finish_holds [THEN safe_step]], assumption, erule holdsOnly_safe, assumption)
    done
  from valid_final [OF this, of "\<lparr>obj = i, calls = []\<rparr>"] show ?thesis
    by (simp add: reconcileNormal_def step_simps)
qed

end
