(* ===== verification/ReconcileProps2.thy ===== *)
theory ReconcileProps2
  imports ReconcileProps
begin

text \<open>
  More properties of the Ironic controller: what a run changes of the instance,
  the names and specs of the sub-resources, the readiness it reports, deletion
  and the status update.
\<close>

section \<open>The instance\<close>

text \<open>C29. A run of \<open>reconcileNormal\<close> changes the status of the instance and nothing else but the
  replicas of the inspector: metadata and the rest of the spec are those it started with, whatever the
  environment answers and however the run ends.\<close>

theorem reconcile_changes_status_only:
  "let j = obj (snd (reconcileNormal L E P W fi fa \<lparr>obj = i, calls = cs\<rparr>)) in
     Meta j = Meta i \<and> (\<exists>r. Spec j = (Spec i)\<lparr>sp_IronicInspector := (sp_IronicInspector (Spec i))\<lparr>ins_Replicas := r\<rparr>\<rparr>)"
proof -
  define j where "j = obj (snd (reconcileNormal L E P W fi fa \<lparr>obj = i, calls = cs\<rparr>))"
  have "kept j = kept i"
    using leavesD [OF leaves_reconcileNormal, of L E P W fi fa "\<lparr>obj = i, calls = cs\<rparr>"] by (simp add: j_def)
  then have eq: "Meta j = Meta i" "specKey j = specKey i"
    by (simp_all add: kept_def)
  have "Spec j = (specKey j)\<lparr>sp_IronicInspector := (sp_IronicInspector (specKey j))
      \<lparr>ins_Replicas := ins_Replicas (sp_IronicInspector (Spec j))\<rparr>\<rparr>"
    by (simp add: specKey_def)
  also have "\<dots> = (Spec i)\<lparr>sp_IronicInspector := (sp_IronicInspector (Spec i))
      \<lparr>ins_Replicas := ins_Replicas (sp_IronicInspector (Spec j))\<rparr>\<rparr>"
    unfolding eq(2) by (simp add: specKey_def)
  finally show ?thesis
    unfolding j_def [symmetric] Let_def using eq(1) by blast
qed

section \<open>Names and specs of the sub-resources\<close>

lemma ToLower_append: "ToLower (a @ b) = ToLower a @ ToLower b"
  by (simp add: ToLower_def)

lemma ToLower_Cons: "ToLower (c # a) = toLowerChar c # ToLower a"
  by (simp add: ToLower_def)

lemma length_ToLower [simp]: "length (ToLower a) = length a"
  by (simp add: ToLower_def)

lemma conductor_names_agree:
  "ConductorGroup a \<noteq> '''' \<Longrightarrow> ConductorGroup b \<noteq> '''' \<Longrightarrow>
     conductorName n a = conductorName n b \<longleftrightarrow> ToLower (ConductorGroup a) = ToLower (ConductorGroup b)"
  by (simp add: conductorName_def Let_def ToLower_append ToLower_Cons)

text \<open>Two conductors of one Ironic share their object exactly when their groups agree up to ASCII case,
  both unset or both set.\<close>

theorem conductor_name_exact:
  "conductorName n a = conductorName n b \<longleftrightarrow>
     (ConductorGroup a = '''') = (ConductorGroup b = '''') \<and> ToLower (ConductorGroup a) = ToLower (ConductorGroup b)"
proof (cases "ConductorGroup a = ''''"; cases "ConductorGroup b = ''''")
  assume "ConductorGroup a = ''''" "ConductorGroup b \<noteq> ''''"
  then have "length (conductorName n a) \<noteq> length (conductorName n b)"
    by (simp add: conductorName_def Let_def)
  then show ?thesis using \<open>ConductorGroup a = ''''\<close> \<open>ConductorGroup b \<noteq> ''''\<close> by auto
next
  assume "ConductorGroup a \<noteq> ''''" "ConductorGroup b = ''''"
  then have "length (conductorName n a) \<noteq> length (conductorName n b)"
    by (simp add: conductorName_def Let_def)
  then show ?thesis using \<open>ConductorGroup a \<noteq> ''''\<close> \<open>ConductorGroup b = ''''\<close> by auto
qed (simp_all add: conductor_names_agree, simp add: conductorName_def)

lemma rack: "ToLower ''Rack'' = ToLower ''rack''"
  by code_simp


text \<open>The conductor's spec: images, database account, credentials, transport secrets and keystone
  data are those of the instance, node selector and topology are inherited when the template has none,
  and the fields for graphical consoles stay empty whatever the instance asks for.\<close>

theorem conductor_spec_inherits:
  fixes i t ke kr ts
  defines "c \<equiv> conductorSpecFor i t ke kr ts"
  shows "NodeSelector c = (if NodeSelector t = None then sp_NodeSelector (Spec i) else NodeSelector t) \<and>
    TopologyRef c = (if TopologyRef t = None then sp_TopologyRef (Spec i) else TopologyRef t) \<and>
    Replicas c = Replicas t \<and> ConductorGroup c = ConductorGroup t \<and> con_DHCPRanges c = con_DHCPRanges t \<and>
    cs_ContainerImage c = im_Conductor (Images (Spec i)) \<and> cs_PxeContainerImage c = im_Pxe (Images (Spec i)) \<and>
    cs_DatabaseHostname c = st_DatabaseHostname (Status i) \<and> cs_DatabaseAccount c = DatabaseAccount (Spec i) \<and>
    cs_TransportURLSecret c = ts \<and> cs_NotificationsURLSecret c = optText (st_NotificationsURLSecret (Status i)) \<and>
    cs_Auth c = Auth (Spec i) \<and> cs_KeystoneEndpoints c = ke \<and> cs_Region c = kr \<and>
    cs_GraphicalConsoles c = '''' \<and> cs_NoVNCProxyImage c = '''' \<and> cs_ConsoleImage c = ''''"
  by (auto simp: c_def conductorSpecFor_def Let_def IronicConductorTemplate.defs)

section \<open>Readiness of the conductors\<close>

text \<open>Conductor \<open>c\<close> was stored, and its readiness is the one in the status, if it has any.\<close>

definition reportsConductor :: "condLib \<Rightarrow> env \<Rightarrow> string \<Rightarrow> IronicConductorTemplate \<Rightarrow> Ironic \<Rightarrow> bool" where
  "reportsConductor L E h c i \<longleftrightarrow> (\<exists>log inst ke kr ts cur o' x op.
     conductorMutate E inst c ke kr ts h cur = Inr o' \<and> cr_Store (conductors E) log o' = Inr (x, op) \<and>
     conductorCurrent h x \<and>
     (\<forall>m. cl_Mirror L ''IronicConductorReady'' (conds (cst_Conditions (con_Status x))) = Some m \<longrightarrow>
        cl_IsTrue L ''IronicConductorReady'' (conds (st_Conditions (Status i))) = (c_status m = CondTrue)))"

text \<open>What mirroring relies on: it gives a condition of the type it is asked for.\<close>

definition mirror_law :: "condLib \<Rightarrow> bool" where
  "mirror_law L \<longleftrightarrow> (\<forall>t cs m. cl_Mirror L t cs = Some m \<longrightarrow> c_type m = t)"

lemma valid_pure: "(C \<Longrightarrow> valid (\<lambda>_. True) m Q R) \<Longrightarrow> valid (\<lambda>_. C) m Q R"
  by (simp add: valid_def)

lemma valid_True: "valid P m (\<lambda>_ _. True) (\<lambda>_ _. True)"
  by (simp add: valid_def split: prod.split step.split)

lemma mirror_reports:
  "condLib_laws L \<Longrightarrow> mirror_law L \<Longrightarrow> valid P (mirrorFrom L t cs)
     (\<lambda>_ s. \<forall>m. cl_Mirror L t cs = Some m \<longrightarrow>
        cl_IsTrue L t (conds (st_Conditions (Status (obj s)))) = (c_status m = CondTrue)) R"
  by (auto simp: valid_def mirrorFrom_def setCond_def step_simps Ironic_updConds_def condLib_IsTrue_Set
      mirror_law_def split: option.split)

lemma conductor_reports:
  assumes "condLib_laws L" and "mirror_law L"
  shows "valid (\<lambda>s. snd acc = (\<not> fst acc)) (deployConductor L E ke kr ts h c acc)
     (\<lambda>acc' s. snd acc' = (\<not> fst acc') \<and> (fst acc' \<longrightarrow> reportsConductor L E h c (obj s))) (\<lambda>_ _. True)"
proof -
  have stored: "valid P (conductorDeploymentCreateOrUpdate E inst c ke kr ts h)
      (\<lambda>r s. \<forall>x op. r = Inr (x, op) \<longrightarrow> (\<exists>log o' cur. conductorMutate E inst c ke kr ts h cur = Inr o' \<and>
         cr_Store (conductors E) log o' = Inr (x, op))) R" for inst P and R :: "ret \<Rightarrow> (Ironic, call) st \<Rightarrow> bool"
    unfolding conductorDeploymentCreateOrUpdate_def
    by (rule valid_createOrUpdate) auto
  show ?thesis
    unfolding deployConductor_def
    apply (rule valid_bnd [where Q' = "\<lambda>_ s. snd acc = (\<not> fst acc)"], rule valid_getObj, assumption,
      rule valid_pure, rule valid_bnd [OF stored], rule valid_pure, rule valid_sum)
     apply (simp add: valid_def quiet_defs step_simps)
    apply (rule valid_prod, rule valid_if, rule valid_let)
     apply (rule valid_thn, rule valid_weaken [OF valid_True], assumption, assumption, rule TrueI)
     apply (rule valid_thn, rule mirror_reports [OF assms])
     apply (rule valid_ret, unfold reportsConductor_def, blast)
    apply (rule valid_ret, simp)
    done
qed


lemma exampleConds_mirror [simp]: "mirror_law exampleConds"
  by (auto simp: mirror_law_def exampleConds_def split: list.split)


section \<open>Tear-down of the notifications transport\<close>

lemma oslo_untracks:
  assumes "NotificationsBus (Spec i) = None"
  shows "valid P (osloTransport L E i) (\<lambda>_ s. st_NotificationsURLSecret (Status (obj s)) = None) (\<lambda>_ _. True)"
proof -
  have notif: "valid P (func (ensureNotificationsTransportURL L E (NotificationsBus (Spec i)) Ironic_setNotif
        (transportURLCreateOrUpdate E i) (conditionsIn L Ironic_updConds)))
     (\<lambda>_ s. st_NotificationsURLSecret (Status (obj s)) = None) (\<lambda>_ _. True)" for P
    by (simp add: assms ensureNotificationsTransportURL_def valid_def func_def step_simps Ironic_setNotif_def
        conditionsIn_def Ironic_updConds_def)
  have rest: "valid (\<lambda>s. st_NotificationsURLSecret (Status (obj s)) = None) m
      (\<lambda>_ s. st_NotificationsURLSecret (Status (obj s)) = None) (\<lambda>_ _. True)"
    if "leaves (\<lambda>i. st_NotificationsURLSecret (Status i)) m" for m :: "'b iact"
    using valid_leaves [OF that, of "\<lambda>x. x = None"] by (rule valid_weaken) simp_all
  show ?thesis
    unfolding osloTransport_def
    apply (rule valid_bnd, rule valid_True, rule valid_sum, simp add: valid_def quiet_defs step_simps)
    apply (rule valid_prod, rule valid_if, simp add: valid_def quiet_defs step_simps, rule valid_let)
    apply (rule valid_thn, rule valid_True, rule valid_thn, rule valid_True, rule valid_thn, rule valid_True)
    apply (rule valid_bnd, rule notif, rule valid_prod, rule valid_if, simp add: valid_def step_simps)
    apply (rule rest, intro keeps)
    done
qed


definition exampleOslo :: Ironic where
  "exampleOslo = (exampleIronic [exampleConductor '''' []] [])
     \<lparr>Spec := (Spec (exampleIronic [exampleConductor '''' []] []))\<lparr>RPCTransport := ''oslo''\<rparr>\<rparr>"


section \<open>Deletion\<close>

text \<open>The calls of \<open>X\<close> are in the log and the instance is \<open>i\<close>.\<close>

definition logged :: "Ironic \<Rightarrow> call set \<Rightarrow> (Ironic, call) st \<Rightarrow> bool" where
  "logged i X s \<longleftrightarrow> obj s = i \<and> X \<subseteq> set (calls s)"

definition keptOnError :: "Ironic \<Rightarrow> ret \<Rightarrow> (Ironic, call) st \<Rightarrow> bool" where
  "keptOnError i r s \<longleftrightarrow> obj s = i \<and> snd r \<noteq> None"

lemma logged_finalizer:
  "valid (logged i X) (orFail (finalizerCall E c)) (\<lambda>_. logged i (insert c X)) (keptOnError i)"
  by (auto simp: valid_def orFail_def finalizerCall_def step_simps logged_def keptOnError_def split: option.split)

lemma logged_remove:
  "valid (logged i X) (removeFinalizers E ns fin names)
     (\<lambda>_. logged i (X \<union> (\<lambda>n. RemoveSecretConsumerFinalizer ns n fin) ` set names)) (keptOnError i)"
proof -
  have "valid (logged i (X \<union> (\<lambda>n. RemoveSecretConsumerFinalizer ns n fin) ` set []))
      (removeFinalizers E ns fin names)
      (\<lambda>_. logged i (X \<union> (\<lambda>n. RemoveSecretConsumerFinalizer ns n fin) ` set names)) (keptOnError i)"
    unfolding removeFinalizers_def
    by (rule valid_foreach [where I = "\<lambda>xs _. logged i (X \<union> (\<lambda>n. RemoveSecretConsumerFinalizer ns n fin) ` set xs)"])
       (rule valid_weaken [OF logged_finalizer], assumption, simp add: insert_commute, assumption)
  then show ?thesis by simp
qed

lemma logged_live:
  "valid (logged i X) (foreach names acc (liveTransportSecret E ns))
     (\<lambda>r. logged i (X \<union> (\<lambda>n. Fetch ''TransportURL'' n ns) ` set names)) (keptOnError i)"
proof -
  have "valid (logged i (X \<union> (\<lambda>n. Fetch ''TransportURL'' n ns) ` set [])) (foreach names acc (liveTransportSecret E ns))
      (\<lambda>r. logged i (X \<union> (\<lambda>n. Fetch ''TransportURL'' n ns) ` set names)) (keptOnError i)"
    by (rule valid_foreach [where I = "\<lambda>xs _. logged i (X \<union> (\<lambda>n. Fetch ''TransportURL'' n ns) ` set xs)"])
       (auto simp: valid_def liveTransportSecret_def step_simps logged_def keptOnError_def split: sum.split)
  then show ?thesis by simp
qed

text \<open>What a deletion must have asked for before the finalizer may go.\<close>

definition deletionCalls :: "Ironic \<Rightarrow> call set" where
  "deletionCalls i = (let ns = Namespace (Meta i) in
     {GetDatabaseByNameAndAccount DatabaseCRName (DatabaseAccount (Spec i)) ns,
      RemoveSecretConsumerFinalizer ns (st_ApplicationCredentialSecret (Status i)) ACConsumerFinalizer,
      RemoveSecretConsumerFinalizer ns (ApplicationCredentialSecret (Auth (Spec i))) ACConsumerFinalizer,
      RemoveSecretConsumerFinalizer ns (st_InspectorApplicationCredentialSecret (Status i)) InspectorACConsumerFinalizer,
      RemoveSecretConsumerFinalizer ns (ApplicationCredentialSecret (ins_Auth (sp_IronicInspector (Spec i))))
        InspectorACConsumerFinalizer,
      PruneSecretConsumerFinalizers ns TransportConsumerFinalizer [], PruneSecretConsumerFinalizers ns ACConsumerFinalizer [],
      PruneSecretConsumerFinalizers ns InspectorACConsumerFinalizer []})"

lemma delete_valid:
  "valid (\<lambda>s. obj s = i) (reconcileDelete E)
     (\<lambda>r s. r = (emptyResult, None) \<and> logged (i\<lparr>Meta := DropFinalizer E (Meta i)\<rparr>) (deletionCalls i) s) (keptOnError i)"
proof -
  let ?get = "GetDatabaseByNameAndAccount DatabaseCRName (DatabaseAccount (Spec i)) (Namespace (Meta i))"
  have db: "valid (logged i X) (case db of Inl err \<Rightarrow> if isNotFound E err then ret () else exit (emptyResult, Some err)
      | Inr _ \<Rightarrow> orFail (ask DeleteDatabaseFinalizer (on_DeleteDatabaseFinalizer E))) (\<lambda>_. logged i X) (keptOnError i)" for db X
    by (auto simp: valid_def orFail_def step_simps logged_def keptOnError_def split: sum.split option.split)
  show ?thesis
    unfolding reconcileDelete_def
    apply (rule valid_bnd [where Q' = "\<lambda>j s. j = i \<and> logged i {} s"], simp add: valid_def step_simps logged_def)
    apply (rule valid_imp, hypsubst, rule valid_let, rule valid_let)
    apply (rule valid_bnd [where Q' = "\<lambda>_. logged i {?get}"], simp add: valid_def step_simps logged_def)
    apply (rule valid_thn, rule db, rule valid_thn, rule logged_remove, rule valid_thn, rule logged_remove)
    apply (rule valid_bnd, rule logged_live, rule valid_thn, rule logged_remove)
    apply (rule valid_thn, rule logged_finalizer)+
    apply (auto simp: valid_def step_simps logged_def deletionCalls_def Let_def)
    done
qed

text \<open>C7. Deletion: when \<open>reconcileDelete\<close> fails, it fails with an error and the instance, its finalizer
  included, is as before. When it succeeds, it has asked for the database, removed the consumer
  finalizers of the tracked and the configured application credential secrets and pruned all three
  consumer finalizers, and only then dropped the finalizer of the instance.\<close>

theorem delete_exact:
  "case reconcileDelete E \<lparr>obj = i, calls = cs\<rparr> of
     (Continue r, s) \<Rightarrow> r = (emptyResult, None) \<and> obj s = i\<lparr>Meta := DropFinalizer E (Meta i)\<rparr> \<and>
       deletionCalls i \<subseteq> set (calls s)
   | (Return r, s) \<Rightarrow> obj s = i \<and> snd r \<noteq> None"
  using delete_valid [of i E, unfolded valid_def, rule_format, of "\<lparr>obj = i, calls = cs\<rparr>"]
  by (auto simp: logged_def keptOnError_def split: prod.splits step.splits)

section \<open>The reconcile entry point\<close>

definition storedLast :: "ret \<Rightarrow> (Ironic, call) st \<Rightarrow> bool" where
  "storedLast res s \<longleftrightarrow> snd res = Some ErrPanic \<or> (\<exists>log. calls s = log @ [StoreIronic (obj s)])"

lemma patchDeferred_stores:
  "valid (\<lambda>_. True) (patchDeferred L E saved res) storedLast (\<lambda>_ _. False)"
proof -
  have mirror: "valid (\<lambda>_. True) (whenM b (case m of None \<Rightarrow> ret () | Some c \<Rightarrow> setCond L c))
      (\<lambda>_ _. True) (\<lambda>_ _. False)" for b m
    by (auto simp: valid_def setCond_def whenM_def step_simps split: option.split)
  have store: "valid (\<lambda>s. obj s = i) (bnd (ask (StoreIronic i) f) (\<lambda>r.
      case r of Inl err \<Rightarrow> ret (fst res, Some err) | Inr _ \<Rightarrow> ret res)) storedLast (\<lambda>_ _. False)"
    for i and f :: "call list \<Rightarrow> goerr + Ironic \<times> opResult"
    by (auto simp: valid_def step_simps storedLast_def split: sum.split)
  show ?thesis
    unfolding patchDeferred_def
    apply (cases "snd res = Some ErrPanic")
     apply (simp add: valid_def step_simps storedLast_def)
    apply simp
    apply (rule valid_thn [where Q' = "\<lambda>_. True"], simp add: valid_def step_simps)
    apply (rule valid_bnd [where Q' = "\<lambda>_ _. True"], simp add: valid_def step_simps)
    apply (rule valid_thn [where Q' = "\<lambda>_. True"], rule mirror)
    apply (rule valid_bnd [where Q' = "\<lambda>i s. obj s = i"], simp add: valid_def step_simps, rule store)
    done
qed

lemma Reconcile_stores:
  "valid (\<lambda>_. True) (Reconcile L E P W fi fa) storedLast (\<lambda>_ _. False)"
proof -
  have body: "valid (\<lambda>_. True) (func m) (\<lambda>_ _. True) (\<lambda>_ _. False)" for m :: "(Ironic, call, ret, ret) act"
    by (auto simp: valid_def func_def split: prod.split step.split)
  show ?thesis
    unfolding Reconcile_def
    apply (rule valid_bnd [where Q' = "\<lambda>_ _. True"], simp add: valid_def step_simps)
    apply (rule valid_let, rule valid_let)
    apply (rule valid_thn [where Q' = "\<lambda>_. True"], simp add: valid_def whenM_def modStatus_def step_simps)
    apply (rule valid_bnd, rule body)
    apply (rule valid_weaken [OF patchDeferred_stores], auto)
    done
qed

text \<open>C34. A reconcile ends by storing the instance as it then is, after every other call, unless it ended
  in a panic.\<close>

theorem reconcile_stores_last:
  "\<exists>res s. Reconcile L E P W fi fa \<lparr>obj = i, calls = cs\<rparr> = (Continue res, s) \<and>
     (snd res = Some ErrPanic \<or> (\<exists>log. calls s = log @ [StoreIronic (obj s)]))"
  using Reconcile_stores [of L E P W fi fa, unfolded valid_def, rule_format, of "\<lparr>obj = i, calls = cs\<rparr>"]
  by (auto simp: storedLast_def split: prod.splits step.splits)

end
