(* ===== verification/ServiceController.thy ===== *)
theory ServiceController
  imports IronicController
begin

text \<open>
  What the controllers of the four sub-resources have in common. The source
  repeats these steps in every controller with the type of its instance; here
  each step is written once over a record of the fields it reads and writes
  (\<open>service\<close>), and the controllers' own definitions apply it to their type.
  Each controller's theory maps the lines of its own copy.
\<close>

section \<open>The instance of a sub-resource controller\<close>

type_synonym ('o, 'a) sact = "('o, call, ret, 'a) act"

record 'o service =
  sv_Meta :: "'o \<Rightarrow> ObjectMeta"
  sv_setMeta :: "ObjectMeta \<Rightarrow> 'o \<Rightarrow> 'o"
  sv_Conditions :: "'o \<Rightarrow> conditions option"
  sv_setConditions :: "conditions option \<Rightarrow> 'o \<Rightarrow> 'o"
  sv_RbacConditionsSet :: "condLib \<Rightarrow> condition \<Rightarrow> 'o \<Rightarrow> 'o"
  sv_setObservedGeneration :: "int \<Rightarrow> 'o \<Rightarrow> 'o"
  sv_Hash :: "'o \<Rightarrow> (string \<rightharpoonup> string) option"
  sv_setHash :: "(string \<rightharpoonup> string) option \<Rightarrow> 'o \<Rightarrow> 'o"
  sv_ReadyCount :: "'o \<Rightarrow> int"
  sv_setReadyCount :: "int \<Rightarrow> 'o \<Rightarrow> 'o"
  sv_setNetworks :: "(string \<rightharpoonup> string list) \<Rightarrow> 'o \<Rightarrow> 'o"
  sv_Applied :: "'o \<Rightarrow> string"
  sv_setApplied :: "string \<Rightarrow> 'o \<Rightarrow> 'o"
  sv_topology :: "'o topologyHandler"
  sv_Secret :: "'o \<Rightarrow> string"
  sv_PasswordSelector :: "'o \<Rightarrow> string"
  sv_CaBundle :: "'o \<Rightarrow> string"
  sv_NetworkAttachments :: "'o \<Rightarrow> string list"
  sv_RbacName :: "'o \<Rightarrow> string"
  sv_Store :: "'o \<Rightarrow> call"
  sv_crud :: "env \<Rightarrow> 'o crud"

definition sv_updConds :: "'o service \<Rightarrow> (conditions \<Rightarrow> conditions) \<Rightarrow> 'o \<Rightarrow> 'o" where
  "sv_updConds V f i = sv_setConditions V (Some (f (conds (sv_Conditions V i)))) i"

definition sv_ns :: "'o service \<Rightarrow> 'o \<Rightarrow> string" where
  "sv_ns V i = Namespace (sv_Meta V i)"

definition sv_owner :: "'o service \<Rightarrow> 'o \<Rightarrow> string" where
  "sv_owner V i = GetOwningIronicName (OwnerReferences (sv_Meta V i))"

text \<open>A duration is a number of nanoseconds.\<close>

definition seconds :: "int \<Rightarrow> int" where
  "seconds n = n * 1000000000"

definition requeueAfter :: "int \<Rightarrow> result" where
  "requeueAfter d = emptyResult\<lparr>RequeueAfter := d\<rparr>"

section \<open>Steps\<close>

definition svSet :: "'o service \<Rightarrow> condLib \<Rightarrow> condition \<Rightarrow> ('o, call, 'r, unit) act" where
  "svSet V L c = modObj (sv_updConds V (cl_Set L c))"

definition svTrue :: "'o service \<Rightarrow> condLib \<Rightarrow> string \<Rightarrow> string \<Rightarrow> ('o, call, 'r, unit) act" where
  "svTrue V L t m = modObj (sv_updConds V (cl_MarkTrue L t [m]))"

definition svWarn :: "'o service \<Rightarrow> condLib \<Rightarrow> string \<Rightarrow> string list \<Rightarrow> ('o, call, 'r, unit) act" where
  "svWarn V L t m = svSet V L (FalseCondition L t ''ErrorReason'' ''SeverityWarning'' m)"

definition svFail :: "'o service \<Rightarrow> condLib \<Rightarrow> env \<Rightarrow> string \<Rightarrow> string \<Rightarrow> goerr \<Rightarrow> ('o, 'a) sact" where
  "svFail V L E t m err = thn (svSet V L (errorCondition L E t m err)) (exit (emptyResult, Some err))"

text \<open>The handling of the result and error of a called function.\<close>

definition checked :: "('o, call, ret, ret) act \<Rightarrow> ('o, unit) sact" where
  "checked m = bnd (func m) (\<lambda>(ctrlResult, err).
     if err \<noteq> None then exit (ctrlResult, err)
     else if ctrlResult \<noteq> emptyResult then exit (ctrlResult, None)
     else ret ())"

text \<open>A panic of the callee is the result \<^term>\<open>(emptyResult, Some ErrPanic)\<close>.\<close>

definition orPanic :: "(goerr + 'a) option \<Rightarrow> ('o, 'a) sact" where
  "orPanic r = (case r of
       None \<Rightarrow> exit (emptyResult, Some ErrPanic)
     | Some (Inl err) \<Rightarrow> exit (emptyResult, Some err)
     | Some (Inr x) \<Rightarrow> ret x)"

definition askService :: "serviceCall \<Rightarrow> (call list \<Rightarrow> 'a) \<Rightarrow> ('o, call, 'r, 'a) act" where
  "askService c f = ask (OnService c) f"

section \<open>Service account and parent\<close>

definition rbacConditions :: "string list" where
  "rbacConditions = [''ServiceAccountReadyCondition'', ''RoleReadyCondition'', ''RoleBindingReadyCondition'']"

definition checkParentResourceExist ::
  "'o service \<Rightarrow> condLib \<Rightarrow> env \<Rightarrow> string \<Rightarrow> string \<Rightarrow> ('o, call, ret, ret) act" where
  "checkParentResourceExist V L E reason severity =
     bnd getObj (\<lambda>instance.
     bnd (ask (Fetch ''Ironic'' (sv_owner V instance) (sv_ns V instance))
            (\<lambda>cs. cr_Get (ironics E) cs (sv_owner V instance) (sv_ns V instance))) (\<lambda>got.
     case got of
       Inl err \<Rightarrow>
         if isNotFound E err then
           thn (foreach rbacConditions () (\<lambda>condType _.
                  modObj (sv_RbacConditionsSet V L
                    (FalseCondition L condType reason severity [''Parent Ironic resource not found'']))))
               (exit (requeueAfter (seconds 10), None))
         else exit (emptyResult, Some err)
     | Inr _ \<Rightarrow> ret (emptyResult, None)))"

definition checkParentRbacConditions :: "'o service \<Rightarrow> condLib \<Rightarrow> env \<Rightarrow> ('o, call, ret, ret) act" where
  "checkParentRbacConditions V L E =
     bnd getObj (\<lambda>instance.
     bnd (ask (Fetch ''Ironic'' (sv_owner V instance) (sv_ns V instance))
            (\<lambda>cs. cr_Get (ironics E) cs (sv_owner V instance) (sv_ns V instance))) (\<lambda>got.
     case got of
       Inl err \<Rightarrow> exit (emptyResult, Some err)
     | Inr parentIronic \<Rightarrow>
         bnd (foreach rbacConditions True (\<lambda>condType allReady.
           case cl_Get L condType (conds (st_Conditions (Status parentIronic))) of
             Some parentCondition \<Rightarrow>
               thn (modObj (sv_RbacConditionsSet V L parentCondition))
                   (ret (allReady \<and> c_status parentCondition = CondTrue))
           | None \<Rightarrow>
               thn (modObj (sv_RbacConditionsSet V L
                      (UnknownCondition L condType ''InitReason'' [''Parent RBAC condition not yet available''])))
                   (ret False))) (\<lambda>allConditionsReady.
         if \<not> allConditionsReady then exit (requeueAfter (seconds 10), None)
         else ret (emptyResult, None))))"

definition reconcileRbac :: "'o service \<Rightarrow> env \<Rightarrow> ('o, call, ret, ret) act" where
  "reconcileRbac V E =
     bnd getObj (\<lambda>i.
     bnd (ask (ReconcileRbac (sv_RbacName V i) (sv_ns V i))
            (\<lambda>cs. on_ReconcileRbac E cs (sv_RbacName V i) (sv_ns V i) (conds (sv_Conditions V i)))) (\<lambda>(res, cs').
     thn (modObj (sv_updConds V (\<lambda>_. cs'))) (ret res)))"

definition svAccount :: "'o service \<Rightarrow> condLib \<Rightarrow> env \<Rightarrow> string \<Rightarrow> string \<Rightarrow> ('o, unit) sact" where
  "svAccount V L E reason severity =
     bnd getObj (\<lambda>instance.
     if sv_owner V instance = '''' then checked (reconcileRbac V E)
     else thn (checked (checkParentResourceExist V L E reason severity))
              (checked (checkParentRbacConditions V L E)))"

section \<open>Inputs\<close>

text \<open>The hashes of the secrets the parent labels; failing to list them is only
  logged.\<close>

definition svLabelledSecrets :: "'o service \<Rightarrow> condLib \<Rightarrow> env \<Rightarrow> ('o, string \<rightharpoonup> string) sact" where
  "svLabelledSecrets V L E =
     bnd getObj (\<lambda>instance.
     bnd (askService (ListSecrets (sv_ns V instance) (sv_owner V instance))
            (\<lambda>cs. on_ListSecrets (services E) cs (sv_ns V instance) (sv_owner V instance))) (\<lambda>secrets.
     case secrets of
       Inl _ \<Rightarrow> ret Map.empty
     | Inr items \<Rightarrow>
         foreach items Map.empty (\<lambda>(name, hash) configMapVars.
           case hash of
             Inl err \<Rightarrow>
               if isNotFound E err then
                 thn (svWarn V L ''InputReadyCondition'' [''InputReadyWaitingMessage''])
                     (exit (requeueAfter (seconds 10), None))
               else svFail V L E ''InputReadyCondition'' ''InputReadyErrorMessage'' err
           | Inr h \<Rightarrow> ret (configMapVars(name \<mapsto> h)))))"

text \<open>One secret and its field; \<open>waiting\<close> is the condition while it is missing.\<close>

definition svVerifySecret ::
  "'o service \<Rightarrow> condLib \<Rightarrow> env \<Rightarrow> string \<Rightarrow> string \<Rightarrow> condition \<Rightarrow> ('o, string) sact" where
  "svVerifySecret V L E name field waiting =
     bnd getObj (\<lambda>instance.
     bnd (ask (VerifySecretFields (sv_ns V instance) name field)
            (\<lambda>cs. on_VerifySecretFields E cs (sv_ns V instance) name field)) (\<lambda>(hash, ctrlResult, err).
     case err of
       Some e \<Rightarrow> thn (svSet V L (errorCondition L E ''InputReadyCondition'' ''InputReadyErrorMessage'' e))
                     (exit (ctrlResult, Some e))
     | None \<Rightarrow>
         if ctrlResult \<noteq> emptyResult then thn (svSet V L waiting) (exit (ctrlResult, None))
         else ret hash))"

definition warnWaiting :: "condLib \<Rightarrow> condition" where
  "warnWaiting L = FalseCondition L ''InputReadyCondition'' ''ErrorReason'' ''SeverityWarning''
     [''InputReadyWaitingMessage'']"

definition infoWaiting :: "condLib \<Rightarrow> condition" where
  "infoWaiting L = FalseCondition L ''InputReadyCondition'' ''RequestedReason'' ''SeverityInfo''
     [''InputReadyWaitingMessage'']"

definition svPassword :: "'o service \<Rightarrow> condLib \<Rightarrow> env \<Rightarrow> (string \<rightharpoonup> string) \<Rightarrow> ('o, string \<rightharpoonup> string) sact" where
  "svPassword V L E configMapVars =
     bnd getObj (\<lambda>instance.
     bnd (svVerifySecret V L E (sv_Secret V instance) (sv_PasswordSelector V instance) (warnWaiting L)) (\<lambda>hash.
     ret (configMapVars(sv_Secret V instance \<mapsto> hash))))"

definition svTransport ::
  "'o service \<Rightarrow> condLib \<Rightarrow> env \<Rightarrow> bool \<Rightarrow> string \<Rightarrow> (string \<rightharpoonup> string) \<Rightarrow> ('o, string \<rightharpoonup> string) sact" where
  "svTransport V L E needed secretName configMapVars =
     (if needed then
        bnd (svVerifySecret V L E secretName ''transport_url'' (infoWaiting L)) (\<lambda>hash.
        ret (configMapVars(secretName \<mapsto> hash)))
      else ret configMapVars)"

text \<open>The hash of the parent's input secret, as the annotation has it.\<close>

definition svExpectedHash :: "'o service \<Rightarrow> 'o \<Rightarrow> string" where
  "svExpectedHash V i =
     (case Annotations (sv_Meta V i) of
        None \<Rightarrow> '''' | Some ann \<Rightarrow> optText (ann inputHashAnnotation))"

text \<open>\<open>missing\<close> is the result while the bundle's secret does not exist.\<close>

definition svCaCert ::
  "'o service \<Rightarrow> condLib \<Rightarrow> env \<Rightarrow> result \<Rightarrow> (string \<rightharpoonup> string) \<Rightarrow> ('o, string \<rightharpoonup> string) sact" where
  "svCaCert V L E missing configMapVars =
     bnd getObj (\<lambda>instance.
     let bundle = sv_CaBundle V instance; ns = sv_ns V instance in
     if bundle \<noteq> '''' then
       bnd (askService (ValidateCACertSecret bundle ns)
              (\<lambda>cs. on_ValidateCACertSecret (services E) cs bundle ns)) (\<lambda>r.
       case r of
         Inl err \<Rightarrow>
           if isNotFound E err then
             thn (svWarn V L ''TLSInputReadyCondition'' [''TLSInputReadyWaitingMessage'', bundle])
                 (exit (missing, None))
           else svFail V L E ''TLSInputReadyCondition'' ''TLSInputErrorMessage'' err
       | Inr hash \<Rightarrow> ret (if hash \<noteq> '''' then configMapVars(''CABundleKey'' \<mapsto> hash) else configMapVars))
     else ret configMapVars)"

text \<open>The certificates of the endpoints.\<close>

definition svCerts ::
  "'o service \<Rightarrow> condLib \<Rightarrow> env \<Rightarrow> ('o \<Rightarrow> tlsAPI) \<Rightarrow> result \<Rightarrow> (string \<rightharpoonup> string) \<Rightarrow> ('o, string \<rightharpoonup> string) sact" where
  "svCerts V L E tlsOf missing configMapVars =
     bnd getObj (\<lambda>instance.
     bnd (askService (ValidateCertSecrets (tlsOf instance) (sv_ns V instance))
            (\<lambda>cs. on_ValidateCertSecrets (services E) cs (tlsOf instance) (sv_ns V instance))) (\<lambda>r.
     case r of
       Inl err \<Rightarrow>
         if isNotFound E err then
           thn (svSet V L (FalseCondition L ''TLSInputReadyCondition'' ''RequestedReason'' ''SeverityInfo''
                  [''TLSInputReadyWaitingMessage'', errText E err]))
               (exit (missing, None))
         else svFail V L E ''TLSInputReadyCondition'' ''TLSInputErrorMessage'' err
     | Inr certsHash \<Rightarrow> ret (configMapVars(''TLSHashName'' \<mapsto> certsHash))))"

text \<open>In a function that generates configuration: an error ends it, with the input
  hashes as they were.\<close>

definition orErr ::
  "(string \<rightharpoonup> string) \<Rightarrow> ('o, call, goerr option \<times> (string \<rightharpoonup> string), goerr + 'a) act \<Rightarrow>
   ('a \<Rightarrow> ('o, call, goerr option \<times> (string \<rightharpoonup> string), 'b) act) \<Rightarrow>
   ('o, call, goerr option \<times> (string \<rightharpoonup> string), 'b) act" where
  "orErr envVars m f = bnd m (\<lambda>r. case r of Inl err \<Rightarrow> exit (Some err, envVars) | Inr x \<Rightarrow> f x)"

text \<open>Writing the configuration: \<open>generate\<close> gives the error, or the input hashes
  with those of the secrets it wrote.\<close>

definition svConfig ::
  "'o service \<Rightarrow> condLib \<Rightarrow> env \<Rightarrow>
   ('o, call, goerr option \<times> (string \<rightharpoonup> string), goerr option \<times> (string \<rightharpoonup> string)) act \<Rightarrow>
   ('o, string \<rightharpoonup> string) sact" where
  "svConfig V L E generate =
     bnd (func generate) (\<lambda>(err, configMapVars).
     case err of
       Some e \<Rightarrow> svFail V L E ''ServiceConfigReadyCondition'' ''ServiceConfigReadyErrorMessage'' e
     | None \<Rightarrow> ret configMapVars)"

definition svCreateHash :: "'o service \<Rightarrow> env \<Rightarrow> (string \<rightharpoonup> string) \<Rightarrow> ('o, call, 'r, string \<times> bool \<times> goerr option) act" where
  "svCreateHash V E envVars =
     (case EnvHash E envVars of
        Inl err \<Rightarrow> ret ('''', False, Some err)
      | Inr hash \<Rightarrow>
          bnd getObj (\<lambda>i.
            let (hashMap, changed) = SetHash E (sv_Hash V i) ''InputHashName'' hash in
            thn (whenM changed (modObj (sv_setHash V hashMap)))
                (ret (hash, changed, None))))"

text \<open>\<open>changedResult\<close> is the result of a run that finds the inputs changed.\<close>

definition svInputHash ::
  "'o service \<Rightarrow> condLib \<Rightarrow> env \<Rightarrow> result \<Rightarrow> (string \<rightharpoonup> string) \<Rightarrow> ('o, string) sact" where
  "svInputHash V L E changedResult configMapVars =
     bnd (svCreateHash V E configMapVars) (\<lambda>(inputHash, hashChanged, err).
     case err of
       Some e \<Rightarrow> svFail V L E ''ServiceConfigReadyCondition'' ''ServiceConfigReadyErrorMessage'' e
     | None \<Rightarrow>
         if hashChanged then exit (changedResult, None)
         else thn (svTrue V L ''ServiceConfigReadyCondition'' ''ServiceConfigReadyMessage'') (ret inputHash))"

section \<open>Networks and topology\<close>

definition svNetworks :: "'o service \<Rightarrow> condLib \<Rightarrow> env \<Rightarrow> ('o, string \<rightharpoonup> string) sact" where
  "svNetworks V L E =
     bnd getObj (\<lambda>instance.
     bnd (foreach (sv_NetworkAttachments V instance) [] (\<lambda>netAtt nadList.
       bnd (askService (GetNAD netAtt (sv_ns V instance))
              (\<lambda>cs. on_GetNAD (services E) cs netAtt (sv_ns V instance))) (\<lambda>r.
       case r of
         Inl err \<Rightarrow>
           if isNotFound E err then
             thn (svWarn V L ''NetworkAttachmentsReadyCondition'' [''NetworkAttachmentsReadyWaitingMessage'', netAtt])
                 (exit (requeueAfter (seconds 10), None))
           else svFail V L E ''NetworkAttachmentsReadyCondition'' ''NetworkAttachmentsReadyErrorMessage'' err
       | Inr None \<Rightarrow> ret nadList
       | Inr (Some nad) \<Rightarrow> ret (nadList @ [nad])))) (\<lambda>nadList.
     case NetworksAnnotation (services E) nadList of
       Inl err \<Rightarrow> exit (emptyResult, Some (ErrWrap ''failed create network annotation'' err))
     | Inr serviceAnnotations \<Rightarrow> ret serviceAnnotations))"

definition svTopology :: "'o service \<Rightarrow> condLib \<Rightarrow> env \<Rightarrow> ('o, opaque option) sact" where
  "svTopology V L E =
     bnd getObj (\<lambda>instance.
     bnd (func (ensureTopology L E (sv_topology V) (Name (sv_Meta V instance)) (conditionsIn L (sv_updConds V)))) (\<lambda>r.
     case r of
       Inl err \<Rightarrow>
         thn (svSet V L (errorCondition L E ''TopologyReadyCondition'' ''TopologyReadyErrorMessage'' err))
             (exit (emptyResult, Some (ErrWrap ''waiting for Topology requirements'' err)))
     | Inr topology \<Rightarrow> ret topology))"

section \<open>The workload and its readiness\<close>

definition svStoreWorkload ::
  "'o service \<Rightarrow> condLib \<Rightarrow> env \<Rightarrow> (workload \<Rightarrow> serviceCall) \<Rightarrow> workload \<Rightarrow> ('o, observed) sact" where
  "svStoreWorkload V L E mk wl =
     bnd (askService (mk wl) (\<lambda>cs. on_CreateOrPatch (services E) cs wl)) (\<lambda>(ctrlResult, err, deploy).
     case err of
       Some e \<Rightarrow>
         thn (svSet V L (errorCondition L E ''DeploymentReadyCondition'' ''DeploymentReadyErrorMessage'' e))
             (exit (ctrlResult, Some e))
     | None \<Rightarrow>
         if ctrlResult \<noteq> emptyResult then
           thn (svSet V L (requestedCondition L ''DeploymentReadyCondition'' ''DeploymentReadyRunningMessage''))
               (exit (ctrlResult, None))
         else ret deploy)"

definition svNetworkStatus :: "'o service \<Rightarrow> condLib \<Rightarrow> env \<Rightarrow> (string \<rightharpoonup> string) \<Rightarrow> ('o, unit) sact" where
  "svNetworkStatus V L E serviceLabels =
     bnd getObj (\<lambda>instance.
     bnd (getOrFail (askService (VerifyNetworkStatus (sv_NetworkAttachments V instance) serviceLabels (sv_ReadyCount V instance))
            (\<lambda>cs. on_VerifyNetworkStatus (services E) cs (sv_NetworkAttachments V instance) serviceLabels
                    (sv_ReadyCount V instance)))) (\<lambda>(networkReady, networkAttachmentStatus).
     thn (modObj (sv_setNetworks V networkAttachmentStatus))
    (if networkReady then
       svTrue V L ''NetworkAttachmentsReadyCondition'' ''NetworkAttachmentsReadyMessage''
     else
       svFail V L E ''NetworkAttachmentsReadyCondition'' ''NetworkAttachmentsReadyErrorMessage''
         (ErrWrap ''network attachments'' ErrNetworkAttachmentConfig))))"

text \<open>\<open>networks\<close> is the check of the network attachments, for the services that
  have them.\<close>

definition svReady ::
  "'o service \<Rightarrow> condLib \<Rightarrow> env \<Rightarrow> ('o, unit) sact \<Rightarrow> string \<Rightarrow> observed \<Rightarrow> ('o, bool) sact" where
  "svReady V L E networks inputHash deploy =
     (if ob_Generation deploy = ob_ObservedGeneration deploy then
        thn (modObj (sv_setReadyCount V (ob_ReadyReplicas deploy)))
       (thn networks
       (bnd (if ob_IsReady deploy then
               getOrFail (askService (IsReadyForInput (ob_Name deploy) (ob_Namespace deploy) inputHash)
                 (\<lambda>cs. on_IsReadyForInput (services E) cs (ob_Name deploy) (ob_Namespace deploy) inputHash))
             else ret False) (\<lambda>ready.
        thn (if ready then svTrue V L ''DeploymentReadyCondition'' ''DeploymentReadyMessage''
             else svSet V L (requestedCondition L ''DeploymentReadyCondition'' ''DeploymentReadyRunningMessage''))
            (ret ready))))
      else ret False)"

definition svApply :: "'o service \<Rightarrow> bool \<Rightarrow> string \<Rightarrow> ('o, unit) sact" where
  "svApply V ready expectedHash = whenM ready (modObj (sv_setApplied V expectedHash))"

definition svFinish :: "'o service \<Rightarrow> condLib \<Rightarrow> ('o, ret) sact" where
  "svFinish V L =
     bnd getObj (\<lambda>i.
     thn (whenM (cl_AllSubConditionIsTrue L (conds (sv_Conditions V i)))
           (svTrue V L ''ReadyCondition'' ''ReadyMessage''))
         (ret (emptyResult, None)))"

section \<open>Deletion\<close>

definition svReleaseTopology :: "'o service \<Rightarrow> env \<Rightarrow> ('o, unit) sact" where
  "svReleaseTopology V E =
     bnd getObj (\<lambda>i.
     let tr = GetLastAppliedTopology (sv_topology V) i; name = Name (sv_Meta V i) in
     bnd (askService (EnsureDeletedTopologyRef tr name)
            (\<lambda>cs. on_EnsureDeletedTopologyRef (services E) cs tr name)) (\<lambda>(ctrlResult, err).
     if err \<noteq> None then exit (ctrlResult, err) else ret ()))"

definition svDropFinalizer :: "'o service \<Rightarrow> env \<Rightarrow> ('o, unit) sact" where
  "svDropFinalizer V E = modObj (\<lambda>i. sv_setMeta V (DropFinalizer E (sv_Meta V i)) i)"

section \<open>The reconcile entry point\<close>

text \<open>The initial conditions; a later change of the list they were made from does
  not reach the instance.\<close>

definition unknowns :: "condLib \<Rightarrow> (string \<times> string) list \<Rightarrow> condition list" where
  "unknowns L = map (\<lambda>(t, m). UnknownCondition L t ''InitReason'' [m])"

definition rbacInit :: "(string \<times> string) list" where
  "rbacInit =
     [(''ServiceAccountReadyCondition'', ''ServiceAccountReadyInitMessage''),
      (''RoleReadyCondition'', ''RoleReadyInitMessage''),
      (''RoleBindingReadyCondition'', ''RoleBindingReadyInitMessage'')]"

definition svPatch :: "'o service \<Rightarrow> condLib \<Rightarrow> env \<Rightarrow> conditions \<Rightarrow> ret \<Rightarrow> ('o, call, 'r, ret) act" where
  "svPatch V L E savedConditions res =
     (if snd res = Some ErrPanic then ret res
      else
        thn (modObj (sv_updConds V (\<lambda>cs. cl_RestoreLastTransitionTimes L cs savedConditions)))
       (bnd getObj (\<lambda>i.
        thn (whenM (cl_IsUnknown L ''ReadyCondition'' (conds (sv_Conditions V i)))
              (case cl_Mirror L ''ReadyCondition'' (conds (sv_Conditions V i)) of
                 None \<Rightarrow> ret () | Some c \<Rightarrow> svSet V L c))
       (bnd getObj (\<lambda>i.
        bnd (ask (sv_Store V i) (\<lambda>cs. cr_Store (sv_crud V E) cs i)) (\<lambda>r.
        case r of Inl err \<Rightarrow> ret (fst res, Some err) | Inr _ \<Rightarrow> ret res))))))"

text \<open>\<open>initial\<close> are the initial conditions of an instance, \<open>prepare\<close> makes the maps
  of its status.\<close>

definition svBody ::
  "'o service \<Rightarrow> condLib \<Rightarrow> env \<Rightarrow> ('o \<Rightarrow> conditions) \<Rightarrow> ('o \<Rightarrow> 'o) \<Rightarrow> ('o, ret) sact \<Rightarrow> ('o, ret) sact \<Rightarrow> bool \<Rightarrow>
   ('o, ret) sact" where
  "svBody V L E initial prepare onDelete normal isNewInstance =
     thn (modObj (\<lambda>i. sv_updConds V (cl_Init L (initial i)) i))
    (thn (modObj (\<lambda>i. sv_setObservedGeneration V (Generation (sv_Meta V i)) i))
    (bnd getObj (\<lambda>i.
     let (meta', added) =
       (if DeletionTimestamp (sv_Meta V i) = None then AddFinalizer E (sv_Meta V i) else (sv_Meta V i, False)) in
     thn (modObj (sv_setMeta V meta'))
    (if added \<or> isNewInstance then exit (emptyResult, None)
     else
       thn (modObj prepare)
      (bnd getObj (\<lambda>i.
       if DeletionTimestamp (sv_Meta V i) \<noteq> None then onDelete else normal))))))"

definition svReconcile ::
  "'o service \<Rightarrow> condLib \<Rightarrow> env \<Rightarrow> ('o \<Rightarrow> conditions) \<Rightarrow> ('o \<Rightarrow> 'o) \<Rightarrow> ('o, ret) sact \<Rightarrow> ('o, ret) sact \<Rightarrow>
   ('o, ret) sact" where
  "svReconcile V L E initial prepare onDelete normal =
     bnd getObj (\<lambda>instance.
     let isNewInstance = (sv_Conditions V instance = None);
         savedConditions = conds (sv_Conditions V instance) in
     thn (whenM isNewInstance (modObj (sv_setConditions V (Some []))))
    (bnd (func (svBody V L E initial prepare onDelete normal isNewInstance)) (\<lambda>res.
     svPatch V L E savedConditions res)))"

section \<open>Services and routes of pods\<close>

text \<open>Making the service of a pod: created when there is none, else written back
  as it was read. The same for a route.\<close>

definition svEnsureService :: "env \<Rightarrow> string \<Rightarrow> k8sService \<Rightarrow> ('o, unit) sact" where
  "svEnsureService E podName wanted =
     (case AddServiceOwner (services E) podName wanted of
        Inl err \<Rightarrow> exit (emptyResult, Some err)
      | Inr svc \<Rightarrow>
          bnd (askService (FetchService (svc_Name svc) (svc_Namespace svc))
                 (\<lambda>cs. on_FetchService (services E) cs svc)) (\<lambda>(got, err).
          if err \<noteq> None \<and> isNotFound E (the err)
          then orFail (askService (CreateService got) (\<lambda>cs. on_StoreService (services E) cs got))
          else orFail (askService (UpdateService got) (\<lambda>cs. on_StoreService (services E) cs got))))"

definition svEnsureRoute :: "env \<Rightarrow> string \<Rightarrow> k8sRoute \<Rightarrow> ('o, unit) sact" where
  "svEnsureRoute E podName wanted =
     (case AddRouteOwner (services E) podName wanted of
        Inl err \<Rightarrow> exit (emptyResult, Some err)
      | Inr route \<Rightarrow>
          bnd (askService (FetchRoute (rt_Name route) (rt_Namespace route))
                 (\<lambda>cs. on_FetchRoute (services E) cs route)) (\<lambda>(got, err).
          if err \<noteq> None \<and> isNotFound E (the err)
          then orFail (askService (CreateRoute got) (\<lambda>cs. on_StoreRoute (services E) cs got))
          else orFail (askService (UpdateRoute got) (\<lambda>cs. on_StoreRoute (services E) cs got))))"

section \<open>Watches\<close>

text \<open>The requests for a changed source: the instances whose owner its label
  names, then those the indexed fields find; a failed list ends the search.\<close>

fun indexedRequests :: "(string \<Rightarrow> goerr + ObjectMeta list) \<Rightarrow> string list \<Rightarrow> (string \<times> string) list" where
  "indexedRequests listBy [] = []"
| "indexedRequests listBy (field # rest) =
     (case listBy field of
        Inl _ \<Rightarrow> []
      | Inr items \<Rightarrow> map (\<lambda>m. (Name m, Namespace m)) items @ indexedRequests listBy rest)"

definition svFindObjectsForSrc ::
  "goerr + ObjectMeta list \<Rightarrow> string option \<Rightarrow> (string \<Rightarrow> goerr + ObjectMeta list) \<Rightarrow> string list \<Rightarrow>
   (string \<times> string) list" where
  "svFindObjectsForSrc listed ownerLabel listBy watchFields =
     (case (listed, ownerLabel) of
        (Inr items, Some lbl) \<Rightarrow>
          map (\<lambda>m. (Name m, Namespace m)) (filter (\<lambda>m. lbl = GetOwningIronicName (OwnerReferences m)) items)
      | _ \<Rightarrow> []) @ indexedRequests listBy watchFields"

end
