(* ===== verification/ConductorController.thy ===== *)
theory ConductorController
  imports ServiceController
begin

text \<open>
  The controller of \<open>IronicConductor\<close>
  (\<open>internal/controller/ironicconductor_controller.go\<close>): its steps in the order
  of the code, over the shared steps of \<open>ServiceController\<close>.
\<close>

type_synonym 'a cact = "(IronicConductor, call, ret, 'a) act"

section \<open>The instance\<close>

definition IronicConductor_RbacConditionsSet :: "condLib \<Rightarrow> condition \<Rightarrow> IronicConductor \<Rightarrow> IronicConductor" where
  "IronicConductor_RbacConditionsSet L c = IronicConductor_updConds (cl_SetShared L c)"

definition conductorService :: "IronicConductor service" where
  "conductorService =
     \<lparr>sv_Meta = con_Meta, sv_setMeta = (\<lambda>m i. i\<lparr>con_Meta := m\<rparr>),
      sv_Conditions = (\<lambda>i. cst_Conditions (con_Status i)),
      sv_setConditions = (\<lambda>c i. i\<lparr>con_Status := (con_Status i)\<lparr>cst_Conditions := c\<rparr>\<rparr>),
      sv_RbacConditionsSet = IronicConductor_RbacConditionsSet,
      sv_setObservedGeneration = (\<lambda>g i. i\<lparr>con_Status := (con_Status i)\<lparr>cst_ObservedGeneration := g\<rparr>\<rparr>),
      sv_Hash = (\<lambda>i. cst_Hash (con_Status i)),
      sv_setHash = (\<lambda>h i. i\<lparr>con_Status := (con_Status i)\<lparr>cst_Hash := h\<rparr>\<rparr>),
      sv_ReadyCount = (\<lambda>i. cst_ReadyCount (con_Status i)),
      sv_setReadyCount = (\<lambda>n i. i\<lparr>con_Status := (con_Status i)\<lparr>cst_ReadyCount := n\<rparr>\<rparr>),
      sv_setNetworks = (\<lambda>n i. i\<lparr>con_Status := (con_Status i)\<lparr>cst_NetworkAttachments := n\<rparr>\<rparr>),
      sv_Applied = (\<lambda>i. cst_AppliedInputSecretHash (con_Status i)),
      sv_setApplied = (\<lambda>h i. i\<lparr>con_Status := (con_Status i)\<lparr>cst_AppliedInputSecretHash := h\<rparr>\<rparr>),
      sv_topology = IronicConductor_topology,
      sv_Secret = (\<lambda>i. cs_Secret (con_Spec i)),
      sv_PasswordSelector = (\<lambda>i. ps_Service (cs_PasswordSelectors (con_Spec i))),
      sv_CaBundle = (\<lambda>i. CaBundleSecretName (cs_TLS (con_Spec i))),
      sv_NetworkAttachments = (\<lambda>i. con_NetworkAttachments (con_Spec i)),
      sv_RbacName = IronicConductor_RbacResourceName,
      sv_Store = StoreConductor, sv_crud = conductors\<rparr>"

section \<open>Inputs\<close>

definition conductorAccount :: "condLib \<Rightarrow> env \<Rightarrow> unit cact" where
  "conductorAccount L E = svAccount conductorService L E ''RequestedReason'' ''SeverityInfo''"

definition conductorParentExist :: "condLib \<Rightarrow> env \<Rightarrow> (IronicConductor, call, ret, ret) act" where
  "conductorParentExist L E = checkParentResourceExist conductorService L E ''RequestedReason'' ''SeverityInfo''"

definition conductorParentRbac :: "condLib \<Rightarrow> env \<Rightarrow> (IronicConductor, call, ret, ret) act" where
  "conductorParentRbac L E = checkParentRbacConditions conductorService L E"

text \<open>The labelled secrets, the service password and the transport secret.\<close>

definition conductorInputs :: "condLib \<Rightarrow> env \<Rightarrow> (string \<rightharpoonup> string) cact" where
  "conductorInputs L E =
     bnd (svLabelledSecrets conductorService L E) (\<lambda>configMapVars.
     bnd (svPassword conductorService L E configMapVars) (\<lambda>configMapVars.
     bnd getObj (\<lambda>instance.
     bnd (svTransport conductorService L E (cs_RPCTransport (con_Spec instance) = ''oslo'')
            (cs_TransportURLSecret (con_Spec instance)) configMapVars) (\<lambda>configMapVars.
     thn (svTrue conductorService L ''InputReadyCondition'' ''InputReadyMessage'')
         (ret configMapVars)))))"

definition conductorTLS :: "condLib \<Rightarrow> env \<Rightarrow> (string \<rightharpoonup> string) \<Rightarrow> (string \<rightharpoonup> string) cact" where
  "conductorTLS L E configMapVars =
     bnd (svCaCert conductorService L E emptyResult configMapVars) (\<lambda>configMapVars.
     thn (svTrue conductorService L ''TLSInputReadyCondition'' ''InputReadyMessage'')
         (ret configMapVars))"

section \<open>Configuration\<close>

definition conductorGetTransportURL :: "env \<Rightarrow> (IronicConductor, call, 'r, goerr + string) act" where
  "conductorGetTransportURL E =
     bnd getObj (\<lambda>instance.
     if cs_RPCTransport (con_Spec instance) \<noteq> ''oslo'' then ret (Inr ''fake://'')
     else bnd (getSecret E (cs_TransportURLSecret (con_Spec instance)) (Namespace (con_Meta instance))) (\<lambda>s.
        case s of
          Inl err \<Rightarrow> ret (Inl err)
        | Inr d \<Rightarrow>
            (case d ''transport_url'' of
               None \<Rightarrow> ret (Inl (ErrKeyNotFound ''transport_url''))
             | Some url \<Rightarrow> ret (Inr url))))"

text \<open>The part of the parameters that depends on whether the deployment is
  standalone.\<close>

definition conductorAuthParams ::
  "env \<Rightarrow> IronicConductor \<Rightarrow> (string \<rightharpoonup> string) \<Rightarrow> templateParams \<Rightarrow>
   (IronicConductor, call, goerr option \<times> (string \<rightharpoonup> string), templateParams) act" where
  "conductorAuthParams E instance envVars tp =
     (let sp = con_Spec instance; ns = Namespace (con_Meta instance) in
      if \<not> cs_Standalone sp then
        bnd (getSecret E (cs_Secret sp) ns) (\<lambda>s.
          case s of
            Inl err \<Rightarrow> exit (Some err, envVars)
          | Inr ospSecret \<Rightarrow>
              (let tp = tp(''KeystoneInternalURL'' \<mapsto> TVString (ke_Internal (cs_KeystoneEndpoints sp)),
                           ''KeystonePublicURL'' \<mapsto> TVString (ke_Public (cs_KeystoneEndpoints sp)),
                           ''ServiceUser'' \<mapsto> TVString (cs_ServiceUser sp),
                           ''ServicePassword'' \<mapsto>
                              TVString (dataText ospSecret (ps_Service (cs_PasswordSelectors sp))));
                   tp = (if cs_Region sp \<noteq> '''' then tp(''Region'' \<mapsto> TVString (cs_Region sp)) else tp)
               in bnd (setApplicationCredentialParams E (ApplicationCredentialSecret (cs_Auth sp)) ns tp) (\<lambda>(tp, err).
                  if err \<noteq> None then exit (err, envVars) else ret tp)))
      else
        bnd (askService (ListIronicAPI ns) id) (\<lambda>cs.
        case GetIronicAPI (on_ListIronicAPI (services E) cs) ns [] of
          Inl err \<Rightarrow> exit (Some err, envVars)
        | Inr ironicAPI \<Rightarrow>
            (case IronicAPI_GetEndpoint ironicAPI ''public'' of
               Inl err \<Rightarrow> exit (Some err, envVars)
             | Inr ironicPublicURL \<Rightarrow> ret (tp(''IronicPublicURL'' \<mapsto> TVString ironicPublicURL)))))"

text \<open>The traits as a map; of two entries of one name the later stays.\<close>

definition traitMap :: "TraitBasedNetworkingEntry list \<Rightarrow> (string \<rightharpoonup> int \<times> TraitBasedNetworkingAction list)" where
  "traitMap entries =
     foldl (\<lambda>tbnMap entry. tbnMap(tbe_Name entry \<mapsto> (tbe_Order entry, tbe_Actions entry))) Map.empty entries"

text \<open>A range list the prefixes of which cannot be parsed is only logged.\<close>

definition conductorConfigMaps ::
  "env \<Rightarrow> webhookLib \<Rightarrow> (ip \<Rightarrow> string) \<Rightarrow> (string \<rightharpoonup> string) \<Rightarrow>
   (IronicConductor, call, goerr option \<times> (string \<rightharpoonup> string), goerr option \<times> (string \<rightharpoonup> string)) act" where
  "conductorConfigMaps E W maskText envVars =
     bnd getObj (\<lambda>instance.
     let sp = con_Spec instance; ns = Namespace (con_Meta instance); name = Name (con_Meta instance) in
     bnd (ask (GetDatabaseByNameAndAccount DatabaseCRName (cs_DatabaseAccount sp) ns)
            (\<lambda>cs. on_GetDatabase E cs DatabaseCRName (cs_DatabaseAccount sp) ns)) (\<lambda>r.
     case r of
       Inl err \<Rightarrow> exit (Some err, envVars)
     | Inr db \<Rightarrow>
         (let customData = Map.empty(''04-conductor-custom.conf'' \<mapsto> CustomServiceConfig sp,
                                     ''my.cnf'' \<mapsto> db_ClientConfig db (CaBundleSecretName (cs_TLS sp) \<noteq> ''''))
                           ++ DefaultConfigOverwrite sp
          in
     bnd (conductorAuthParams E instance envVars (Map.empty(''RPCTransport'' \<mapsto> TVString (cs_RPCTransport sp)))) (\<lambda>tp.
     bnd (conductorGetTransportURL E) (\<lambda>r.
     case r of
       Inl err \<Rightarrow> exit (Some err, envVars)
     | Inr transportURL \<Rightarrow>
     bnd (if cs_RPCTransport sp = ''oslo'' then getQuorumQueues E (cs_TransportURLSecret sp) ns
          else ret (Inr False)) (\<lambda>q.
     case q of
       Inl err \<Rightarrow> exit (Some err, envVars)
     | Inr quorumQueues \<Rightarrow>
         (let tbn = tbnEnabled instance;
              tp = tp(''TransportURL'' \<mapsto> TVString transportURL,
                      ''QuorumQueues'' \<mapsto> TVBool quorumQueues,
                      ''DHCPRanges'' \<mapsto> TVRanges (fst (PrefixOrNetmaskFromCIDR W maskText (con_DHCPRanges sp))),
                      ''Standalone'' \<mapsto> TVBool (cs_Standalone sp),
                      ''DefaultInspectInterface'' \<mapsto> TVString (getInspectInterface (Annotations (con_Meta instance))),
                      ''ConductorGroup'' \<mapsto> TVString (ConductorGroup sp),
                      ''LogPath'' \<mapsto> TVString conductor_LogPath,
                      ''GracefulShutdownTimeout'' \<mapsto> TVOptInt (con_TerminationGracePeriodSeconds sp),
                      ''TraitBasedNetworkingEnabled'' \<mapsto> TVBool tbn,
                      ''DatabaseConnection'' \<mapsto> TVString (databaseConnection db (cs_DatabaseHostname sp) DatabaseName))
          in
     bnd (if tbn then
            (case MarshalTraits (services E) (traitMap (tbn_Config (the (con_TraitBasedNetworking sp)))) of
               Inl err \<Rightarrow> exit (Some err, envVars)
             | Inr tbnYAML \<Rightarrow> ret (customData(''trait_based_networking.yaml'' \<mapsto> tbnYAML)))
          else ret customData) (\<lambda>customData.
     let cms = [\<lparr>tm_Name = name @ ''-scripts'', tm_Namespace = ns,
                  tm_Type = ''TemplateTypeScripts'', tm_InstanceType = Kind (con_Meta instance),
                  tm_CustomData = Map.empty, tm_ConfigOptions = Map.empty,
                  tm_AdditionalTemplate =
                    [(''common.sh'', ''/common/bin/common.sh''), (''get_net_ip'', ''/common/bin/get_net_ip''),
                     (''inotify_watch.py'', ''/common/bin/inotify_watch.py''),
                     (''runlogwatch.sh'', ''/common/bin/runlogwatch.sh''),
                     (''pxe-init.sh'', ''/common/bin/pxe-init.sh''), (''init.sh'', ''/ironicconductor/bin/init.sh''),
                     (''live_check_conductor'', ''/ironicconductor/bin/live_check_conductor'')],
                  tm_CommonTemplates = [], tm_Labels = GetLabels E ServiceName\<rparr>,
                \<lparr>tm_Name = name @ ''-config-data'', tm_Namespace = ns,
                  tm_Type = ''TemplateTypeConfig'', tm_InstanceType = Kind (con_Meta instance),
                  tm_CustomData = customData, tm_ConfigOptions = tp,
                  tm_AdditionalTemplate =
                    [(''ironic.conf'', ''/common/config/ironic.conf''),
                     (''01-conductor.conf'', ''/ironicconductor/config/01-conductor.conf''),
                     (''03-init-container-conductor.conf'', ''/ironicconductor/config/03-init-container-conductor.conf''),
                     (''dnsmasq.conf'', ''/common/config/dnsmasq.conf'')],
                  tm_CommonTemplates = [], tm_Labels = GetLabels E ServiceName\<rparr>]
     in bnd (ask (EnsureSecrets cms) (\<lambda>cs. on_EnsureSecrets E cs cms envVars)) (\<lambda>r.
        case r of Inl err \<Rightarrow> ret (Some err, envVars) | Inr envVars' \<Rightarrow> ret (None, envVars'))))))))))"

definition conductorConfig ::
  "condLib \<Rightarrow> env \<Rightarrow> webhookLib \<Rightarrow> (ip \<Rightarrow> string) \<Rightarrow> (string \<rightharpoonup> string) \<Rightarrow> (string \<rightharpoonup> string) cact" where
  "conductorConfig L E W maskText configMapVars =
     svConfig conductorService L E (conductorConfigMaps E W maskText configMapVars)"

definition conductorCreateHash ::
  "env \<Rightarrow> (string \<rightharpoonup> string) \<Rightarrow> (IronicConductor, call, 'r, string \<times> bool \<times> goerr option) act" where
  "conductorCreateHash E envVars = svCreateHash conductorService E envVars"

definition conductorInputHash :: "condLib \<Rightarrow> env \<Rightarrow> (string \<rightharpoonup> string) \<Rightarrow> string cact" where
  "conductorInputHash L E configMapVars = svInputHash conductorService L E emptyResult configMapVars"

section \<open>Services of the pods\<close>

definition conductorLabels :: "string \<Rightarrow> IronicConductor \<Rightarrow> (string \<rightharpoonup> string)" where
  "conductorLabels component instance =
     Map.empty(''AppSelector'' \<mapsto> ServiceName, ''ComponentSelector'' \<mapsto> component,
       ConductorGroupSelector \<mapsto>
         (if ConductorGroup (con_Spec instance) \<noteq> '''' then ToLower (ConductorGroup (con_Spec instance))
          else ConductorGroupNull))"

definition conductorPods :: "env \<Rightarrow> IronicConductor \<Rightarrow> (string \<rightharpoonup> string) \<Rightarrow> (IronicConductor, call, 'r, goerr + string list) act" where
  "conductorPods E instance serviceLabels =
     askService (ListPods (Namespace (con_Meta instance)) serviceLabels)
       (\<lambda>cs. on_ListPods (services E) cs (Namespace (con_Meta instance)) serviceLabels)"

definition conductorReconcileServices :: "env \<Rightarrow> (string \<rightharpoonup> string) \<Rightarrow> ret cact" where
  "conductorReconcileServices E serviceLabels =
     bnd getObj (\<lambda>instance.
     bnd (getOrFail (conductorPods E instance serviceLabels)) (\<lambda>pods.
     thn (foreach pods () (\<lambda>podName _.
           thn (case conductor_Service podName instance (conductorLabels ConductorComponent instance) of
                  None \<Rightarrow> ret ()
                | Some svc \<Rightarrow> svEnsureService E podName svc)
               (whenM (con_ProvisionNetwork (con_Spec instance) = '''')
                  (svEnsureRoute E podName
                     (conductor_Route podName instance (conductorLabels HttpbootComponent instance))))))
         (ret (emptyResult, None))))"

section \<open>The StatefulSet\<close>

definition conductorNetworks :: "condLib \<Rightarrow> env \<Rightarrow> (string \<rightharpoonup> string) cact" where
  "conductorNetworks L E = svNetworks conductorService L E"

definition conductorIngress :: "env \<Rightarrow> string cact" where
  "conductorIngress E =
     bnd (askService GetIngressController (on_GetIngressController (services E))) (\<lambda>got. orPanic (GetIngressDomain got))"

definition conductorTopology :: "condLib \<Rightarrow> env \<Rightarrow> opaque option cact" where
  "conductorTopology L E = svTopology conductorService L E"

definition conductorStatefulSet ::
  "condLib \<Rightarrow> env \<Rightarrow> podLib \<Rightarrow> string \<Rightarrow> (string \<rightharpoonup> string) \<Rightarrow> string \<Rightarrow> (string \<rightharpoonup> string) \<Rightarrow> opaque option \<Rightarrow>
   observed cact" where
  "conductorStatefulSet L E P inputHash serviceLabels ingressDomain serviceAnnotations topology =
     bnd getObj (\<lambda>instance.
     bnd (orPanic (conductor_StatefulSet P instance inputHash serviceLabels ingressDomain serviceAnnotations topology)) (\<lambda>ss.
     svStoreWorkload conductorService L E CreateOrPatchStatefulSet ss))"

definition conductorReady ::
  "condLib \<Rightarrow> env \<Rightarrow> (string \<rightharpoonup> string) \<Rightarrow> string \<Rightarrow> observed \<Rightarrow> bool cact" where
  "conductorReady L E serviceLabels inputHash deploy =
     svReady conductorService L E (svNetworkStatus conductorService L E serviceLabels) inputHash deploy"

section \<open>reconcileNormal\<close>

definition conductorReconcileNormal ::
  "condLib \<Rightarrow> env \<Rightarrow> podLib \<Rightarrow> webhookLib \<Rightarrow> (ip \<Rightarrow> string) \<Rightarrow> ret cact" where
  "conductorReconcileNormal L E P W maskText =
     thn (conductorAccount L E)
    (bnd (conductorInputs L E) (\<lambda>configMapVars.
     bnd getObj (\<lambda>instance.
     let expectedHash = svExpectedHash conductorService instance in
     bnd (conductorTLS L E configMapVars) (\<lambda>configMapVars.
     bnd (conductorConfig L E W maskText configMapVars) (\<lambda>configMapVars.
     bnd (conductorInputHash L E configMapVars) (\<lambda>inputHash.
     let serviceLabels = conductorLabels ConductorComponent instance in
     bnd (conductorNetworks L E) (\<lambda>serviceAnnotations.
     bnd (conductorIngress E) (\<lambda>ingressDomain.
     bnd (conductorTopology L E) (\<lambda>topology.
     bnd (conductorStatefulSet L E P inputHash serviceLabels ingressDomain serviceAnnotations topology) (\<lambda>deploy.
     thn (checked (conductorReconcileServices E serviceLabels))
    (bnd (conductorReady L E serviceLabels inputHash deploy) (\<lambda>ready.
     thn (svApply conductorService ready expectedHash)
         (svFinish conductorService L)))))))))))))"

section \<open>Deletion and entry point\<close>

definition conductorReconcileDelete :: "env \<Rightarrow> ret cact" where
  "conductorReconcileDelete E =
     thn (svReleaseTopology conductorService E)
    (thn (svDropFinalizer conductorService E)
         (ret (emptyResult, None)))"

definition conductorInitConditions :: "condLib \<Rightarrow> conditions" where
  "conductorInitConditions L = cl_CreateList L (unknowns L
     ([(''ReadyCondition'', ''ReadyInitMessage''),
       (''InputReadyCondition'', ''InputReadyInitMessage''),
       (''ServiceConfigReadyCondition'', ''ServiceConfigReadyInitMessage''),
       (''DeploymentReadyCondition'', ''DeploymentReadyInitMessage''),
       (''NetworkAttachmentsReadyCondition'', ''NetworkAttachmentsReadyInitMessage''),
       (''TLSInputReadyCondition'', ''InputReadyInitMessage'')] @ rbacInit))"

text \<open>The network attachments of a status are a partial map, which a nil map and an
  empty one both are.\<close>

definition conductorPrepare :: "IronicConductor \<Rightarrow> IronicConductor" where
  "conductorPrepare i = i\<lparr>con_Status := (con_Status i)\<lparr>cst_Hash :=
     Some (case cst_Hash (con_Status i) of None \<Rightarrow> Map.empty | Some h \<Rightarrow> h)\<rparr>\<rparr>"

definition conductorReconcile ::
  "condLib \<Rightarrow> env \<Rightarrow> podLib \<Rightarrow> webhookLib \<Rightarrow> (ip \<Rightarrow> string) \<Rightarrow> ret cact" where
  "conductorReconcile L E P W maskText =
     svReconcile conductorService L E (\<lambda>_. conductorInitConditions L) conductorPrepare
       (conductorReconcileDelete E) (conductorReconcileNormal L E P W maskText)"

definition ironicConductorWatchFields :: "string list" where
  "ironicConductorWatchFields =
     [''passwordSecretField'', ''caBundleSecretNameField'', ''transportURLSecretField'', ''topologyField'',
      ''authAppCredSecretField'']"

definition conductorFindObjectsForSrc ::
  "goerr + ObjectMeta list \<Rightarrow> string option \<Rightarrow> (string \<Rightarrow> goerr + ObjectMeta list) \<Rightarrow> (string \<times> string) list" where
  "conductorFindObjectsForSrc listed ownerLabel listBy =
     svFindObjectsForSrc listed ownerLabel listBy ironicConductorWatchFields"

end
