(* ===== verification/EndpointService.thy ===== *)
theory EndpointService
  imports ServiceController
begin

text \<open>
  What the controllers of the two services with endpoints, \<open>IronicAPI\<close> and
  \<open>IronicInspector\<close>, have in common: the virtual hosts of the configuration, the
  Kubernetes services of the endpoints, and releasing the objects of
  keystone-operator. The source repeats these in both controllers.
\<close>

section \<open>Virtual hosts\<close>

text \<open>The virtual host of an endpoint; \<open>baseName\<close> is the first part of its name.\<close>

definition httpdVhost :: "podLib \<Rightarrow> tlsAPI \<Rightarrow> string \<Rightarrow> string \<Rightarrow> int option \<Rightarrow> string \<Rightarrow> string \<times> vhost" where
  "httpdVhost P tls baseName namespace timeout endpt =
     (endpt, \<lparr>vh_ServerName = baseName @ ''-'' @ endpt @ ''.'' @ namespace @ ''.svc'',
        vh_TLS = tls_Enabled P tls endpt,
        vh_Certificate = (if tls_Enabled P tls endpt
          then Some (''/etc/pki/tls/certs/'' @ endpt @ ''.crt'', ''/etc/pki/tls/private/'' @ endpt @ ''.key'')
          else None),
        vh_TimeOut = timeout\<rparr>)"

section \<open>Exposing a service\<close>

text \<open>The service as it is sent: the annotations say which endpoint it is and
  whether an ingress is to be made.\<close>

definition annotateService :: "serviceEnv \<Rightarrow> string \<Rightarrow> genericService \<Rightarrow> genericService" where
  "annotateService X endpointType svc =
     (let ann = (gs_Annotations svc)(''AnnotationEndpointKey'' \<mapsto> endpointType);
          ann = (if endpointType = ''public'' \<and> ServiceType X svc = ''ClusterIP''
                 then ann(''AnnotationIngressCreateKey'' \<mapsto> ''true'')
                 else (let ann = ann(''AnnotationIngressCreateKey'' \<mapsto> ''false'') in
                       if ServiceType X svc = ''LoadBalancer''
                       then ann(''AnnotationHostnameKey'' \<mapsto> ServiceHostname X svc) else ann))
      in svc\<lparr>gs_Annotations := ann\<rparr>)"

definition exposeEndpoint ::
  "'o service \<Rightarrow> condLib \<Rightarrow> env \<Rightarrow> podLib \<Rightarrow> tlsAPI \<Rightarrow> OverrideSpec \<Rightarrow> string \<Rightarrow> (string \<rightharpoonup> string) \<Rightarrow>
   string \<times> int \<Rightarrow> (string \<rightharpoonup> string) \<Rightarrow> ('o, string \<rightharpoonup> string) sact" where
  "exposeEndpoint V L E P tls override baseName serviceLabels = (\<lambda>(endpointType, port) apiEndpoints.
     bnd getObj (\<lambda>instance.
     case NewService (services E)
         \<lparr>gs_Name = baseName @ ''-'' @ endpointType, gs_Namespace = sv_ns V instance,
          gs_Labels = serviceLabels(''AnnotationEndpointKey'' \<mapsto> endpointType), gs_Selector = serviceLabels,
          gs_PortName = baseName @ ''-'' @ endpointType, gs_Port = port, gs_Annotations = Map.empty,
          gs_Override = Service override endpointType\<rparr> of
       Inl err \<Rightarrow> svFail V L E ''CreateServiceReadyCondition'' ''CreateServiceReadyErrorMessage'' err
     | Inr made \<Rightarrow>
         (let svc = annotateService (services E) endpointType made in
          bnd (askService (CreateOrPatchService svc) (\<lambda>cs. (cs, on_CreateOrPatchService (services E) cs svc)))
            (\<lambda>(cs, ctrlResult, err).
          case err of
            Some e \<Rightarrow>
              thn (svSet V L (errorCondition L E ''CreateServiceReadyCondition'' ''CreateServiceReadyErrorMessage'' e))
                  (exit (ctrlResult, Some e))
          | None \<Rightarrow>
              if ctrlResult \<noteq> emptyResult then
                thn (svSet V L (requestedCondition L ''CreateServiceReadyCondition'' ''CreateServiceReadyRunningMessage''))
                    (exit (ctrlResult, None))
              else
                (case GetAPIEndpoint (services E) cs svc (if tls_Enabled P tls endpointType then ''https'' else '''') of
                   Inl err \<Rightarrow> exit (emptyResult, Some err)
                 | Inr url \<Rightarrow> ret (apiEndpoints(endpointType \<mapsto> url)))))))"

text \<open>The Go map of the two endpoints, in the order it is ranged over.\<close>

definition rangeEndpoints :: "env \<Rightarrow> call list \<Rightarrow> int \<Rightarrow> int \<Rightarrow> (string \<times> int) list" where
  "rangeEndpoints E cs publicPort internalPort =
     (if publicFirst (services E) cs then [(''public'', publicPort), (''internal'', internalPort)]
      else [(''internal'', internalPort), (''public'', publicPort)])"

text \<open>The log, for what depends on it without being a call.\<close>

definition getLog :: "('o, 'c, 'r, 'c list) act" where
  "getLog = (\<lambda>s. (Continue (calls s), s))"

section \<open>Deletion\<close>

text \<open>Taking the finalizer off one object of keystone-operator, unless it is gone.\<close>

definition releaseKeystone :: "'o service \<Rightarrow> env \<Rightarrow> string \<Rightarrow> string \<Rightarrow> ('o, unit) sact" where
  "releaseKeystone V E kind name =
     bnd getObj (\<lambda>i.
     bnd (askService (FetchKeystone kind name (sv_ns V i))
            (\<lambda>cs. on_FetchKeystone (services E) cs kind name (sv_ns V i))) (\<lambda>got.
     case got of
       Inl err \<Rightarrow> if isNotFound E err then ret () else exit (emptyResult, Some err)
     | Inr ko \<Rightarrow>
         whenM (HasFinalizer E (ko_Meta ko))
           (let ko' = ko\<lparr>ko_Meta := DropFinalizer E (ko_Meta ko)\<rparr> in
            bnd (askService (UpdateKeystone kind ko') (\<lambda>cs. on_UpdateKeystone (services E) cs kind ko')) (\<lambda>err.
            if err \<noteq> None \<and> \<not> isNotFound E (the err) then exit (emptyResult, err) else ret ()))))"

end
