(* ===== verification/ApiController.thy ===== *)
theory ApiController
  imports EndpointService
begin

text \<open>
  The controller of \<open>IronicAPI\<close>
  (\<open>internal/controller/ironicapi_controller.go\<close>): its steps in the order of the
  code, over the shared steps of \<open>ServiceController\<close>.
\<close>

type_synonym 'a aact = "(IronicAPI, call, ret, 'a) act"

section \<open>The instance\<close>

definition IronicAPI_RbacConditionsSet :: "condLib \<Rightarrow> condition \<Rightarrow> IronicAPI \<Rightarrow> IronicAPI" where
  "IronicAPI_RbacConditionsSet L c = IronicAPI_updConds (cl_SetShared L c)"

definition apiService :: "IronicAPI service" where
  "apiService =
     \<lparr>sv_Meta = api_Meta, sv_setMeta = (\<lambda>m i. i\<lparr>api_Meta := m\<rparr>),
      sv_Conditions = (\<lambda>i. ast_Conditions (api_Status i)),
      sv_setConditions = (\<lambda>c i. i\<lparr>api_Status := (api_Status i)\<lparr>ast_Conditions := c\<rparr>\<rparr>),
      sv_RbacConditionsSet = IronicAPI_RbacConditionsSet,
      sv_setObservedGeneration = (\<lambda>g i. i\<lparr>api_Status := (api_Status i)\<lparr>ast_ObservedGeneration := g\<rparr>\<rparr>),
      sv_Hash = (\<lambda>i. ast_Hash (api_Status i)),
      sv_setHash = (\<lambda>h i. i\<lparr>api_Status := (api_Status i)\<lparr>ast_Hash := h\<rparr>\<rparr>),
      sv_ReadyCount = (\<lambda>i. ast_ReadyCount (api_Status i)),
      sv_setReadyCount = (\<lambda>n i. i\<lparr>api_Status := (api_Status i)\<lparr>ast_ReadyCount := n\<rparr>\<rparr>),
      sv_setNetworks = (\<lambda>n i. i\<lparr>api_Status := (api_Status i)\<lparr>ast_NetworkAttachments := n\<rparr>\<rparr>),
      sv_Applied = (\<lambda>i. ast_AppliedInputSecretHash (api_Status i)),
      sv_setApplied = (\<lambda>h i. i\<lparr>api_Status := (api_Status i)\<lparr>ast_AppliedInputSecretHash := h\<rparr>\<rparr>),
      sv_topology = IronicAPI_topology,
      sv_Secret = (\<lambda>i. as_Secret (api_Spec i)),
      sv_PasswordSelector = (\<lambda>i. ps_Service (as_PasswordSelectors (api_Spec i))),
      sv_CaBundle = (\<lambda>i. CaBundleSecretName (api_TLS (api_Spec i))),
      sv_NetworkAttachments = (\<lambda>i. api_NetworkAttachments (api_Spec i)),
      sv_RbacName = IronicAPI_RbacResourceName,
      sv_Store = StoreAPI, sv_crud = apis\<rparr>"

section \<open>Inputs\<close>

definition apiAccount :: "condLib \<Rightarrow> env \<Rightarrow> unit aact" where
  "apiAccount L E = svAccount apiService L E ''RequestedReason'' ''SeverityInfo''"

definition apiParentExist :: "condLib \<Rightarrow> env \<Rightarrow> (IronicAPI, call, ret, ret) act" where
  "apiParentExist L E = checkParentResourceExist apiService L E ''RequestedReason'' ''SeverityInfo''"

definition apiParentRbac :: "condLib \<Rightarrow> env \<Rightarrow> (IronicAPI, call, ret, ret) act" where
  "apiParentRbac L E = checkParentRbacConditions apiService L E"

definition apiInputs :: "condLib \<Rightarrow> env \<Rightarrow> (string \<rightharpoonup> string) aact" where
  "apiInputs L E =
     bnd (svLabelledSecrets apiService L E) (\<lambda>configMapVars.
     bnd (svPassword apiService L E configMapVars) (\<lambda>configMapVars.
     bnd getObj (\<lambda>instance.
     bnd (svTransport apiService L E (as_RPCTransport (api_Spec instance) = ''oslo'')
            (as_TransportURLSecret (api_Spec instance)) configMapVars) (\<lambda>configMapVars.
     thn (svTrue apiService L ''InputReadyCondition'' ''InputReadyMessage'')
         (ret configMapVars)))))"

text \<open>The CA bundle and the certificates of the endpoints.\<close>

definition apiTLS :: "condLib \<Rightarrow> env \<Rightarrow> (string \<rightharpoonup> string) \<Rightarrow> (string \<rightharpoonup> string) aact" where
  "apiTLS L E configMapVars =
     bnd (svCaCert apiService L E emptyResult configMapVars) (\<lambda>configMapVars.
     bnd (svCerts apiService L E (\<lambda>i. api_TLS (api_Spec i)) emptyResult configMapVars) (\<lambda>configMapVars.
     thn (svTrue apiService L ''TLSInputReadyCondition'' ''InputReadyMessage'')
         (ret configMapVars)))"

section \<open>Configuration\<close>

definition apiGetTransportURL :: "env \<Rightarrow> (IronicAPI, call, 'r, goerr + string) act" where
  "apiGetTransportURL E =
     bnd getObj (\<lambda>instance.
     if as_RPCTransport (api_Spec instance) \<noteq> ''oslo'' then ret (Inr ''fake://'')
     else bnd (getSecret E (as_TransportURLSecret (api_Spec instance)) (Namespace (api_Meta instance))) (\<lambda>s.
        case s of
          Inl err \<Rightarrow> ret (Inl err)
        | Inr d \<Rightarrow>
            (case d ''transport_url'' of
               None \<Rightarrow> ret (Inl (ErrKeyNotFound ''transport_url''))
             | Some url \<Rightarrow> ret (Inr url))))"

definition apiAuthParams ::
  "env \<Rightarrow> IronicAPI \<Rightarrow> (string \<rightharpoonup> string) \<Rightarrow> templateParams \<Rightarrow>
   (IronicAPI, call, goerr option \<times> (string \<rightharpoonup> string), templateParams) act" where
  "apiAuthParams E instance envVars tp =
     (let sp = api_Spec instance; ns = Namespace (api_Meta instance) in
      if \<not> as_Standalone sp then
        bnd (getSecret E (as_Secret sp) ns) (\<lambda>s.
          case s of
            Inl err \<Rightarrow> exit (Some err, envVars)
          | Inr ospSecret \<Rightarrow>
              (let tp = tp(''KeystoneInternalURL'' \<mapsto> TVString (ke_Internal (as_KeystoneEndpoints sp)),
                           ''KeystonePublicURL'' \<mapsto> TVString (ke_Public (as_KeystoneEndpoints sp)),
                           ''ServiceUser'' \<mapsto> TVString (as_ServiceUser sp),
                           ''ServicePassword'' \<mapsto>
                              TVString (dataText ospSecret (ps_Service (as_PasswordSelectors sp))));
                   tp = (if as_Region sp \<noteq> '''' then tp(''Region'' \<mapsto> TVString (as_Region sp)) else tp)
               in bnd (setApplicationCredentialParams E (ApplicationCredentialSecret (as_Auth sp)) ns tp) (\<lambda>(tp, err).
                  if err \<noteq> None then exit (err, envVars) else ret tp)))
      else ret (tp(''IronicPublicURL'' \<mapsto> TVString '''')))"

definition apiConfigMaps ::
  "env \<Rightarrow> podLib \<Rightarrow> (string \<rightharpoonup> string) \<Rightarrow>
   (IronicAPI, call, goerr option \<times> (string \<rightharpoonup> string), goerr option \<times> (string \<rightharpoonup> string)) act" where
  "apiConfigMaps E P envVars =
     bnd getObj (\<lambda>instance.
     let sp = api_Spec instance; ns = Namespace (api_Meta instance); name = Name (api_Meta instance) in
     bnd (ask (GetDatabaseByNameAndAccount DatabaseCRName (as_DatabaseAccount sp) ns)
            (\<lambda>cs. on_GetDatabase E cs DatabaseCRName (as_DatabaseAccount sp) ns)) (\<lambda>r.
     case r of
       Inl err \<Rightarrow> exit (Some err, envVars)
     | Inr db \<Rightarrow>
     bnd (apiGetTransportURL E) (\<lambda>r.
     case r of
       Inl err \<Rightarrow> exit (Some err, envVars)
     | Inr transportURL \<Rightarrow>
     bnd (if as_RPCTransport sp = ''oslo'' then getQuorumQueues E (as_TransportURLSecret sp) ns
          else ret (Inr False)) (\<lambda>q.
     case q of
       Inl err \<Rightarrow> exit (Some err, envVars)
     | Inr quorumQueues \<Rightarrow>
     bnd (apiAuthParams E instance envVars
            (Map.empty(''RPCTransport'' \<mapsto> TVString (as_RPCTransport sp), ''ConductorGroup'' \<mapsto> TVNil,
               ''TransportURL'' \<mapsto> TVString transportURL, ''QuorumQueues'' \<mapsto> TVBool quorumQueues))) (\<lambda>tp.
     let customData = Map.empty(''03-api-custom.conf'' \<mapsto> CustomServiceConfig sp,
                                ''my.cnf'' \<mapsto> db_ClientConfig db (CaBundleSecretName (api_TLS sp) \<noteq> ''''))
                      ++ DefaultConfigOverwrite sp;
         tp = tp(''Standalone'' \<mapsto> TVBool (as_Standalone sp),
                 ''DefaultInspectInterface'' \<mapsto> TVString (getInspectInterface (Annotations (api_Meta instance))),
                 ''LogPath'' \<mapsto> TVString LogPath,
                 ''DatabaseConnection'' \<mapsto> TVString (databaseConnection db (as_DatabaseHostname sp) DatabaseName),
                 ''VHosts'' \<mapsto> TVHosts (map (httpdVhost P (api_TLS sp) ServiceName ns (Some (as_APITimeout sp)))
                                    [''internal'', ''public'']));
         cms = [\<lparr>tm_Name = name @ ''-scripts'', tm_Namespace = ns,
                  tm_Type = ''TemplateTypeScripts'', tm_InstanceType = Kind (api_Meta instance),
                  tm_CustomData = Map.empty, tm_ConfigOptions = Map.empty,
                  tm_AdditionalTemplate = [(''common.sh'', ''/common/bin/common.sh''),
                                           (''init.sh'', ''/common/bin/ironic-init.sh'')],
                  tm_CommonTemplates = [], tm_Labels = GetLabels E ServiceName\<rparr>,
                \<lparr>tm_Name = name @ ''-config-data'', tm_Namespace = ns,
                  tm_Type = ''TemplateTypeConfig'', tm_InstanceType = Kind (api_Meta instance),
                  tm_CustomData = customData, tm_ConfigOptions = tp,
                  tm_AdditionalTemplate = [(''ironic.conf'', ''/common/config/ironic.conf''),
                                           (''01-api.conf'', ''/ironicapi/config/01-api.conf'')],
                  tm_CommonTemplates = [''ssl.conf''], tm_Labels = GetLabels E ServiceName\<rparr>]
     in bnd (ask (EnsureSecrets cms) (\<lambda>cs. on_EnsureSecrets E cs cms envVars)) (\<lambda>r.
        case r of Inl err \<Rightarrow> ret (Some err, envVars) | Inr envVars' \<Rightarrow> ret (None, envVars')))))))"

definition apiConfig :: "condLib \<Rightarrow> env \<Rightarrow> podLib \<Rightarrow> (string \<rightharpoonup> string) \<Rightarrow> (string \<rightharpoonup> string) aact" where
  "apiConfig L E P configMapVars = svConfig apiService L E (apiConfigMaps E P configMapVars)"

definition apiCreateHash :: "env \<Rightarrow> (string \<rightharpoonup> string) \<Rightarrow> (IronicAPI, call, 'r, string \<times> bool \<times> goerr option) act" where
  "apiCreateHash E envVars = svCreateHash apiService E envVars"

definition apiInputHash :: "condLib \<Rightarrow> env \<Rightarrow> (string \<rightharpoonup> string) \<Rightarrow> string aact" where
  "apiInputHash L E configMapVars = svInputHash apiService L E emptyResult configMapVars"

definition apiNetworks :: "condLib \<Rightarrow> env \<Rightarrow> (string \<rightharpoonup> string) aact" where
  "apiNetworks L E = svNetworks apiService L E"

section \<open>Exposing the service\<close>

definition keystoneServices :: "(string \<times> string \<times> string) list" where
  "keystoneServices = [(''baremetal'', ServiceName, ''Ironic baremetal provisioning service'')]"

definition apiExpose :: "condLib \<Rightarrow> env \<Rightarrow> podLib \<Rightarrow> (string \<rightharpoonup> string) \<Rightarrow> unit aact" where
  "apiExpose L E P serviceLabels =
     bnd getObj (\<lambda>instance.
     bnd getLog (\<lambda>cs.
     bnd (foreach (rangeEndpoints E cs IronicPublicPort IronicInternalPort) Map.empty
            (exposeEndpoint apiService L E P (api_TLS (api_Spec instance)) (api_Override (api_Spec instance))
               ServiceName serviceLabels)) (\<lambda>apiEndpoints.
     thn (modObj (\<lambda>i. i\<lparr>api_Status := (api_Status i)\<lparr>ast_APIEndpoints :=
            map_option (\<lambda>m. m(ServiceName \<mapsto> apiEndpoints)) (ast_APIEndpoints (api_Status i))\<rparr>\<rparr>))
         (svTrue apiService L ''CreateServiceReadyCondition'' ''CreateServiceReadyMessage''))))"

definition apiRegistration :: "IronicAPI \<Rightarrow> (string \<rightharpoonup> string) \<Rightarrow> string \<times> string \<times> string \<Rightarrow> ServiceRegistration" where
  "apiRegistration instance serviceLabels = (\<lambda>(typ, name, desc).
     (let sp = api_Spec instance in
      \<lparr>sr_Namespace = Namespace (api_Meta instance), sr_ServiceType = typ, sr_ServiceName = name,
       sr_ServiceDescription = desc, sr_ServiceUser = as_ServiceUser sp, sr_Secret = as_Secret sp,
       sr_PasswordSelector = ps_Service (as_PasswordSelectors sp),
       sr_Endpoints = (case (case ast_APIEndpoints (api_Status instance) of None \<Rightarrow> None | Some m \<Rightarrow> m name) of
                         None \<Rightarrow> Map.empty | Some e \<Rightarrow> e),
       sr_Labels = serviceLabels, sr_TimeoutSeconds = 10\<rparr>))"

definition apiReconcileInit :: "condLib \<Rightarrow> env \<Rightarrow> podLib \<Rightarrow> (string \<rightharpoonup> string) \<Rightarrow> ret aact" where
  "apiReconcileInit L E P serviceLabels =
     thn (apiExpose L E P serviceLabels)
    (bnd getObj (\<lambda>instance.
     thn (whenM (\<not> as_Standalone (api_Spec instance))
           (foreach keystoneServices () (\<lambda>ksSvc _.
              bnd getObj (\<lambda>i.
              checked (EnsureRegistration L E (apiRegistration i serviceLabels ksSvc) IronicAPI_updConds)))))
         (ret (emptyResult, None))))"

section \<open>The Deployment\<close>

definition apiLabels :: "string \<rightharpoonup> string" where
  "apiLabels = Map.empty(''AppSelector'' \<mapsto> ServiceName, ''ComponentSelector'' \<mapsto> APIComponent)"

definition apiTopology :: "condLib \<Rightarrow> env \<Rightarrow> opaque option aact" where
  "apiTopology L E = svTopology apiService L E"

definition apiDeployment ::
  "condLib \<Rightarrow> env \<Rightarrow> podLib \<Rightarrow> string \<Rightarrow> (string \<rightharpoonup> string) \<Rightarrow> opaque option \<Rightarrow> observed aact" where
  "apiDeployment L E P inputHash serviceAnnotations topology =
     bnd getObj (\<lambda>instance.
     case api_Deployment P instance inputHash apiLabels serviceAnnotations topology of
       Inl err \<Rightarrow> svFail apiService L E ''DeploymentReadyCondition'' ''DeploymentReadyErrorMessage'' err
     | Inr depl \<Rightarrow> svStoreWorkload apiService L E CreateOrPatchDeployment depl)"

definition apiReady :: "condLib \<Rightarrow> env \<Rightarrow> string \<Rightarrow> observed \<Rightarrow> bool aact" where
  "apiReady L E inputHash deploy =
     svReady apiService L E (svNetworkStatus apiService L E apiLabels) inputHash deploy"

section \<open>reconcileNormal\<close>

definition apiReconcileNormal :: "condLib \<Rightarrow> env \<Rightarrow> podLib \<Rightarrow> ret aact" where
  "apiReconcileNormal L E P =
     thn (apiAccount L E)
    (bnd (apiInputs L E) (\<lambda>configMapVars.
     bnd getObj (\<lambda>instance.
     let expectedHash = svExpectedHash apiService instance in
     bnd (apiTLS L E configMapVars) (\<lambda>configMapVars.
     bnd (apiConfig L E P configMapVars) (\<lambda>configMapVars.
     bnd (apiInputHash L E configMapVars) (\<lambda>inputHash.
     bnd (apiNetworks L E) (\<lambda>serviceAnnotations.
     thn (checked (apiReconcileInit L E P apiLabels))
    (bnd (apiTopology L E) (\<lambda>topology.
     bnd (apiDeployment L E P inputHash serviceAnnotations topology) (\<lambda>deploy.
     bnd (apiReady L E inputHash deploy) (\<lambda>ready.
     thn (svApply apiService ready expectedHash)
         (svFinish apiService L))))))))))))"

section \<open>Deletion and entry point\<close>

definition apiReconcileDelete :: "env \<Rightarrow> ret aact" where
  "apiReconcileDelete E =
     thn (foreach keystoneServices () (\<lambda>(_, name, _) _.
            thn (releaseKeystone apiService E ''KeystoneEndpoint'' name)
                (releaseKeystone apiService E ''KeystoneService'' name)))
    (thn (svReleaseTopology apiService E)
    (thn (svDropFinalizer apiService E)
         (ret (emptyResult, None))))"

definition apiInitConditions :: "condLib \<Rightarrow> IronicAPI \<Rightarrow> conditions" where
  "apiInitConditions L instance =
     cl_CreateList L (unknowns L
       ([(''ReadyCondition'', ''ReadyInitMessage''),
         (''CreateServiceReadyCondition'', ''CreateServiceReadyInitMessage''),
         (''InputReadyCondition'', ''InputReadyInitMessage''),
         (''ServiceConfigReadyCondition'', ''ServiceConfigReadyInitMessage''),
         (''DeploymentReadyCondition'', ''DeploymentReadyInitMessage''),
         (''NetworkAttachmentsReadyCondition'', ''NetworkAttachmentsReadyInitMessage''),
         (''TLSInputReadyCondition'', ''InputReadyInitMessage'')] @ rbacInit)) @
     (if \<not> as_Standalone (api_Spec instance)
      then unknowns L [(''KeystoneServiceReadyCondition'', ''''), (''KeystoneEndpointReadyCondition'', '''')]
      else [])"

definition apiPrepare :: "IronicAPI \<Rightarrow> IronicAPI" where
  "apiPrepare i = i\<lparr>api_Status := (api_Status i)
     \<lparr>ast_Hash := Some (case ast_Hash (api_Status i) of None \<Rightarrow> Map.empty | Some h \<Rightarrow> h),
      ast_APIEndpoints := Some (case ast_APIEndpoints (api_Status i) of None \<Rightarrow> Map.empty | Some m \<Rightarrow> m)\<rparr>\<rparr>"

definition apiReconcile :: "condLib \<Rightarrow> env \<Rightarrow> podLib \<Rightarrow> ret aact" where
  "apiReconcile L E P =
     svReconcile apiService L E (apiInitConditions L) apiPrepare
       (apiReconcileDelete E) (apiReconcileNormal L E P)"

section \<open>Watches\<close>

definition ironicAPIWatchFields :: "string list" where
  "ironicAPIWatchFields =
     [''passwordSecretField'', ''caBundleSecretNameField'', ''tlsAPIInternalField'', ''tlsAPIPublicField'',
      ''transportURLSecretField'', ''topologyField'', ''authAppCredSecretField'']"

definition apiFindObjectsForSrc ::
  "goerr + ObjectMeta list \<Rightarrow> string option \<Rightarrow> (string \<Rightarrow> goerr + ObjectMeta list) \<Rightarrow> (string \<times> string) list" where
  "apiFindObjectsForSrc listed ownerLabel listBy =
     svFindObjectsForSrc listed ownerLabel listBy ironicAPIWatchFields"

end
