(* ===== verification/TransportService.thy ===== *)
theory TransportService
  imports ServiceController
begin

text \<open>
  What the controllers of the neutron agent and the inspector have in common
  beyond \<open>ServiceController\<close>: each owns the transport URLs of its service, holds
  their secrets with a consumer finalizer of its own, and rotates them. The
  source repeats these steps in both controllers.
\<close>

record 'o transportView =
  tv_Secret :: "'o \<Rightarrow> string"
  tv_setSecret :: "string \<Rightarrow> 'o \<Rightarrow> 'o"
  tv_Notif :: "'o \<Rightarrow> string option"
  tv_setNotif :: "string option \<Rightarrow> 'o \<Rightarrow> 'o"
  tv_MessagingBus :: "'o \<Rightarrow> RabbitMqConfig"
  tv_NotificationsBus :: "'o \<Rightarrow> RabbitMqConfig option"
  tv_finalizer :: string

section \<open>Transport URLs\<close>

definition tvCreateOrUpdate ::
  "'o service \<Rightarrow> env \<Rightarrow> 'o \<Rightarrow> string \<Rightarrow> RabbitMqConfig \<Rightarrow> ('o, call, 'r, goerr + (TransportURL \<times> opResult)) act" where
  "tvCreateOrUpdate V E instance suffix rabbitMqConfig =
     createOrUpdate (tus E) ''TransportURL'' StoreTransportURL
       (Name (sv_Meta V instance) @ ''-transport'' @ suffix) (sv_ns V instance)
       (\<lambda>tu. cr_SetController (tus E) (sv_Meta V instance)
          (tu\<lparr>tu_RabbitmqClusterName := rmq_Cluster rabbitMqConfig,
              tu_Username := rmq_User rabbitMqConfig,
              tu_Vhost := rmq_Vhost rabbitMqConfig\<rparr>))"

definition tvHold :: "'o service \<Rightarrow> 'o transportView \<Rightarrow> env \<Rightarrow> string \<Rightarrow> ('o, unit) sact" where
  "tvHold V T E name =
     bnd getObj (\<lambda>instance.
     orFail (finalizerCall E (ManageSecretConsumerFinalizer (sv_ns V instance) name (tv_finalizer T))))"

text \<open>The current transport secret, the empty text while it is pending: a pending
  secret ends the step with no error and no requeue, so the caller goes on.\<close>

definition tvReconcileTransportURL ::
  "'o service \<Rightarrow> 'o transportView \<Rightarrow> condLib \<Rightarrow> env \<Rightarrow> ('o, string) sact" where
  "tvReconcileTransportURL V T L E =
     bnd getObj (\<lambda>instance.
     bnd (tvCreateOrUpdate V E instance '''' (tv_MessagingBus T instance)) (\<lambda>r.
     case r of
       Inl err \<Rightarrow>
         svFail V L E ''RabbitMqTransportURLReadyCondition'' ''RabbitMqTransportURLReadyErrorMessage'' err
     | Inr (transportURL, op) \<Rightarrow>
         (let secretName = tu_StatusSecretName transportURL in
          if secretName = '''' then
            thn (svSet V L (requestedCondition L ''RabbitMqTransportURLReadyCondition''
                   ''RabbitMqTransportURLReadyRunningMessage''))
                (ret '''')
          else
            thn (tvHold V T E secretName)
           (thn (modObj (\<lambda>i. if tv_Secret T i = '''' \<or> tv_Secret T i = secretName
                             then tv_setSecret T secretName i else i))
           (thn (svTrue V L ''RabbitMqTransportURLReadyCondition'' ''RabbitMqTransportURLReadyMessage'')
           (bnd (func (ensureNotificationsTransportURL L E (tv_NotificationsBus T instance) (tv_setNotif T)
                   (tvCreateOrUpdate V E instance) (conditionsIn L (sv_updConds V)))) (\<lambda>(result, err).
            if err \<noteq> None \<or> RequeueAfter result > 0 then exit (result, err)
            else bnd getObj (\<lambda>i.
              let newNotifSecret = optText (tv_Notif T i) in
              thn (whenM (newNotifSecret \<noteq> '''') (tvHold V T E newNotifSecret))
                  (ret secretName)))))))))"

definition tvInputSecretHash :: "'o transportView \<Rightarrow> env \<Rightarrow> string \<Rightarrow> ('o, string \<times> string) sact" where
  "tvInputSecretHash T E newTransportURLSecret =
     bnd getObj (\<lambda>i.
     let notifSecret = optText (tv_Notif T i) in
     bnd (getOrFail (ret (ObjectHash E [newTransportURLSecret, notifSecret]))) (\<lambda>inputSecretHash.
     ret (notifSecret, inputSecretHash)))"

section \<open>Rotation\<close>

definition tvRotateNotif ::
  "'o service \<Rightarrow> 'o transportView \<Rightarrow> env \<Rightarrow> string \<Rightarrow> string \<Rightarrow> bool \<Rightarrow> ('o, unit) sact" where
  "tvRotateNotif V T E oldNotifSecret notifSecret ready =
     bnd getObj (\<lambda>instance.
     let ns = sv_ns V instance; tuName = Name (sv_Meta V instance) @ ''-transport-notifications'' in
     if notifSecret \<noteq> '''' then
       bnd (getOrFail (finalizeRotation E ns oldNotifSecret notifSecret (tv_finalizer T) ready)) (\<lambda>notifSecretName.
       modObj (tv_setNotif T (Some notifSecretName)))
     else if oldNotifSecret \<noteq> '''' then
       (if ready then
          thn (orFail (finalizerCall E (RemoveSecretConsumerFinalizer ns oldNotifSecret (tv_finalizer T))))
         (bnd (ask (Delete ''TransportURL'' tuName ns) (\<lambda>cs. on_Delete E cs ''TransportURL'' tuName ns)) (\<lambda>err.
          if err \<noteq> None \<and> \<not> isNotFound E (the err) then exit (emptyResult, err)
          else modObj (tv_setNotif T None)))
        else modObj (tv_setNotif T (Some oldNotifSecret)))
     else modObj (tv_setNotif T None))"

definition tvRotate ::
  "'o service \<Rightarrow> 'o transportView \<Rightarrow> env \<Rightarrow> string \<Rightarrow> string \<Rightarrow> string \<Rightarrow> bool \<Rightarrow> ('o, unit) sact" where
  "tvRotate V T E newTransportURLSecret oldNotifSecret notifSecret ready =
     bnd getObj (\<lambda>instance.
     bnd (getOrFail (finalizeRotation E (sv_ns V instance) (tv_Secret T instance) newTransportURLSecret
            (tv_finalizer T) ready)) (\<lambda>transportSecretName.
     thn (modObj (tv_setSecret T transportSecretName))
    (thn (tvRotateNotif V T E oldNotifSecret notifSecret ready)
    (bnd getObj (\<lambda>i.
     orFail (finalizerCall E (PruneSecretConsumerFinalizers (sv_ns V i) (tv_finalizer T)
       [tv_Secret T i, newTransportURLSecret, optText (tv_Notif T i), notifSecret])))))))"

section \<open>Deletion\<close>

definition tvReleaseTransport :: "'o service \<Rightarrow> 'o transportView \<Rightarrow> env \<Rightarrow> ('o, unit) sact" where
  "tvReleaseTransport V T E =
     bnd getObj (\<lambda>instance.
     let ns = sv_ns V instance; name = Name (sv_Meta V instance) in
     bnd (foreach [name @ ''-transport'', name @ ''-transport-notifications''] [tv_Secret T instance]
            (\<lambda>tuName acc.
             bnd (ask (Fetch ''TransportURL'' tuName ns) (\<lambda>cs. cr_Get (tus E) cs tuName ns)) (\<lambda>got.
             case got of
               Inl err \<Rightarrow> if isNotFound E err then ret acc else exit (emptyResult, Some err)
             | Inr tu \<Rightarrow> ret (acc @ [tu_StatusSecretName tu])))) (\<lambda>transportSecrets.
     foreach (transportSecrets @ (case tv_Notif T instance of None \<Rightarrow> [] | Some s \<Rightarrow> [s])) () (\<lambda>secretName _.
       orFail (finalizerCall E (RemoveSecretConsumerFinalizer ns secretName (tv_finalizer T))))))"

end
