(* ===== verification/AgentController.thy ===== *)
theory AgentController
  imports TransportService
begin

text \<open>
  The controller of \<open>IronicNeutronAgent\<close>
  (\<open>internal/controller/ironicneutronagent_controller.go\<close>), over the shared steps
  of \<open>ServiceController\<close> and \<open>TransportService\<close>. An early return of one of its
  functions carries an error or a result that is not empty, so its caller
  returns it as it stands; it is written as an early return of the whole.
\<close>

type_synonym 'a nact = "(IronicNeutronAgent, call, ret, 'a) act"

section \<open>The instance\<close>

definition IronicNeutronAgent_RbacConditionsSet ::
  "condLib \<Rightarrow> condition \<Rightarrow> IronicNeutronAgent \<Rightarrow> IronicNeutronAgent" where
  "IronicNeutronAgent_RbacConditionsSet L c = IronicNeutronAgent_updConds (cl_SetShared L c)"

definition agentService :: "IronicNeutronAgent service" where
  "agentService =
     \<lparr>sv_Meta = na_Meta, sv_setMeta = (\<lambda>m i. i\<lparr>na_Meta := m\<rparr>),
      sv_Conditions = (\<lambda>i. nst_Conditions (na_Status i)),
      sv_setConditions = (\<lambda>c i. i\<lparr>na_Status := (na_Status i)\<lparr>nst_Conditions := c\<rparr>\<rparr>),
      sv_RbacConditionsSet = IronicNeutronAgent_RbacConditionsSet,
      sv_setObservedGeneration = (\<lambda>g i. i\<lparr>na_Status := (na_Status i)\<lparr>nst_ObservedGeneration := g\<rparr>\<rparr>),
      sv_Hash = (\<lambda>i. nst_Hash (na_Status i)),
      sv_setHash = (\<lambda>h i. i\<lparr>na_Status := (na_Status i)\<lparr>nst_Hash := h\<rparr>\<rparr>),
      sv_ReadyCount = (\<lambda>i. nst_ReadyCount (na_Status i)),
      sv_setReadyCount = (\<lambda>n i. i\<lparr>na_Status := (na_Status i)\<lparr>nst_ReadyCount := n\<rparr>\<rparr>),
      sv_setNetworks = (\<lambda>_ i. i),
      sv_Applied = (\<lambda>i. nst_AppliedInputSecretHash (na_Status i)),
      sv_setApplied = (\<lambda>h i. i\<lparr>na_Status := (na_Status i)\<lparr>nst_AppliedInputSecretHash := h\<rparr>\<rparr>),
      sv_topology = IronicNeutronAgent_topology,
      sv_Secret = (\<lambda>i. ns_Secret (na_Spec i)),
      sv_PasswordSelector = (\<lambda>i. ps_Service (ns_PasswordSelectors (na_Spec i))),
      sv_CaBundle = (\<lambda>i. CaBundleSecretName (ns_TLS (na_Spec i))),
      sv_NetworkAttachments = (\<lambda>_. []),
      sv_RbacName = IronicNeutronAgent_RbacResourceName,
      sv_Store = StoreNeutronAgent, sv_crud = agents\<rparr>"

definition agentTransport :: "IronicNeutronAgent transportView" where
  "agentTransport =
     \<lparr>tv_Secret = (\<lambda>i. nst_TransportURLSecret (na_Status i)),
      tv_setSecret = (\<lambda>s i. i\<lparr>na_Status := (na_Status i)\<lparr>nst_TransportURLSecret := s\<rparr>\<rparr>),
      tv_Notif = (\<lambda>i. nst_NotificationsURLSecret (na_Status i)),
      tv_setNotif = (\<lambda>s i. i\<lparr>na_Status := (na_Status i)\<lparr>nst_NotificationsURLSecret := s\<rparr>\<rparr>),
      tv_MessagingBus = (\<lambda>i. na_MessagingBus (na_Spec i)),
      tv_NotificationsBus = (\<lambda>i. na_NotificationsBus (na_Spec i)),
      tv_finalizer = NeutronAgentTransportConsumerFinalizer\<rparr>"

section \<open>Transport\<close>

definition agentTransportURLCreateOrUpdate ::
  "env \<Rightarrow> IronicNeutronAgent \<Rightarrow> string \<Rightarrow> RabbitMqConfig \<Rightarrow>
   (IronicNeutronAgent, call, 'r, goerr + (TransportURL \<times> opResult)) act" where
  "agentTransportURLCreateOrUpdate E = tvCreateOrUpdate agentService E"

definition agentReconcileTransportURL :: "condLib \<Rightarrow> env \<Rightarrow> string nact" where
  "agentReconcileTransportURL L E = tvReconcileTransportURL agentService agentTransport L E"

definition agentGetTransportURL :: "env \<Rightarrow> string \<Rightarrow> (IronicNeutronAgent, call, 'r, goerr + string) act" where
  "agentGetTransportURL E transportURLSecretName =
     bnd getObj (\<lambda>instance.
     bnd (getSecret E transportURLSecretName (Namespace (na_Meta instance))) (\<lambda>s.
     case s of
       Inl err \<Rightarrow> ret (Inl err)
     | Inr d \<Rightarrow>
         (case d ''transport_url'' of
            None \<Rightarrow> ret (Inl (ErrKeyNotFound ''transport_url''))
          | Some url \<Rightarrow> ret (Inr url))))"

section \<open>Configuration\<close>

definition agentServiceSecrets ::
  "env \<Rightarrow> string \<Rightarrow> (string \<rightharpoonup> string) \<Rightarrow>
   (IronicNeutronAgent, call, goerr option \<times> (string \<rightharpoonup> string), goerr option \<times> (string \<rightharpoonup> string)) act" where
  "agentServiceSecrets E transportURLSecretName envVars =
     bnd getObj (\<lambda>instance.
     let sp = na_Spec instance; ns = Namespace (na_Meta instance) in
     bnd (ask (GetKeystoneAPI ns) (\<lambda>cs. on_GetKeystoneAPI E cs ns)) (\<lambda>r.
     case r of
       Inl err \<Rightarrow> exit (Some err, envVars)
     | Inr keystoneAPI \<Rightarrow>
     orErr envVars (ret (ks_Endpoint keystoneAPI ''internal'')) (\<lambda>keystoneInternalURL.
     orErr envVars (ret (ks_Endpoint keystoneAPI ''public'')) (\<lambda>keystonePublicURL.
     orErr envVars (agentGetTransportURL E transportURLSecretName) (\<lambda>transportURL.
     bnd (getQuorumQueues E transportURLSecretName ns) (\<lambda>q.
     case q of
       Inl err \<Rightarrow> exit (Some err, envVars)
     | Inr quorumQueues \<Rightarrow>
     bnd (getSecret E (ns_Secret sp) ns) (\<lambda>s.
     case s of
       Inl err \<Rightarrow> exit (Some err, envVars)
     | Inr ospSecret \<Rightarrow>
     bnd getObj (\<lambda>i.
     bnd (getNotificationsTransportURL E (nst_NotificationsURLSecret (na_Status i)) transportURL ns
            (Map.empty(''ServiceUser'' \<mapsto> TVString (ns_ServiceUser sp),
               ''KeystoneInternalURL'' \<mapsto> TVString keystoneInternalURL,
               ''KeystonePublicURL'' \<mapsto> TVString keystonePublicURL,
               ''TransportURL'' \<mapsto> TVString transportURL,
               ''QuorumQueues'' \<mapsto> TVBool quorumQueues))) (\<lambda>(tp, err).
     if err \<noteq> None then exit (err, envVars)
     else
       (let servicePassword = TVString (dataText ospSecret (ps_Service (ns_PasswordSelectors sp)));
            tp = tp(''Region'' \<mapsto> TVString (ks_Region keystoneAPI),
                    ''ServicePassword'' \<mapsto> servicePassword, ''keystone_authtoken'' \<mapsto> servicePassword,
                    ''service_catalog'' \<mapsto> servicePassword, ''ironic'' \<mapsto> servicePassword)
        in
     bnd (setApplicationCredentialParams E (ApplicationCredentialSecret (ns_Auth sp)) ns tp) (\<lambda>(tp, err).
     if err \<noteq> None then exit (err, envVars)
     else
       (let cms = [\<lparr>tm_Name = Name (na_Meta instance) @ ''-config-data'', tm_Namespace = ns,
                     tm_Type = ''TemplateTypeConfig'', tm_InstanceType = Kind (na_Meta instance),
                     tm_CustomData = Map.empty(''02-ironic_neutron_agent-custom.conf'' \<mapsto> CustomServiceConfig sp)
                                     ++ DefaultConfigOverwrite sp,
                     tm_ConfigOptions = tp, tm_AdditionalTemplate = [], tm_CommonTemplates = [],
                     tm_Labels = GetLabels E agent_ServiceName\<rparr>]
        in bnd (ask (EnsureSecrets cms) (\<lambda>cs. on_EnsureSecrets E cs cms envVars)) (\<lambda>r.
           case r of Inl err \<Rightarrow> ret (Some err, envVars) | Inr envVars' \<Rightarrow> ret (None, envVars'))))))))))))))"

definition agentCreateHash ::
  "env \<Rightarrow> (string \<rightharpoonup> string) \<Rightarrow> (IronicNeutronAgent, call, 'r, string \<times> bool \<times> goerr option) act" where
  "agentCreateHash E envVars = svCreateHash agentService E envVars"

text \<open>The first half of \<open>reconcileConfigMapsAndSecrets\<close>: the secrets and the CA
  bundle.\<close>

definition agentInputs :: "condLib \<Rightarrow> env \<Rightarrow> string \<Rightarrow> (string \<rightharpoonup> string) nact" where
  "agentInputs L E transportURLSecretName =
     bnd (svPassword agentService L E Map.empty) (\<lambda>configMapVars.
     bnd (svTransport agentService L E (transportURLSecretName \<noteq> '''') transportURLSecretName configMapVars) (\<lambda>configMapVars.
     thn (svTrue agentService L ''InputReadyCondition'' ''InputReadyMessage'')
    (bnd (svCaCert agentService L E (requeueAfter (seconds 10)) configMapVars) (\<lambda>configMapVars.
     thn (svTrue agentService L ''TLSInputReadyCondition'' ''InputReadyMessage'')
         (ret configMapVars)))))"

definition agentReconcileConfigMapsAndSecrets :: "condLib \<Rightarrow> env \<Rightarrow> string \<Rightarrow> string nact" where
  "agentReconcileConfigMapsAndSecrets L E transportURLSecretName =
     bnd (agentInputs L E transportURLSecretName) (\<lambda>configMapVars.
     bnd (svConfig agentService L E (agentServiceSecrets E transportURLSecretName configMapVars)) (\<lambda>configMapVars.
     svInputHash agentService L E (requeueAfter (seconds 5)) configMapVars))"

section \<open>The Deployment\<close>

definition agentReconcileDeployment ::
  "condLib \<Rightarrow> env \<Rightarrow> podLib \<Rightarrow> string \<Rightarrow> (string \<rightharpoonup> string) \<Rightarrow> bool nact" where
  "agentReconcileDeployment L E P inputHash serviceLabels =
     bnd (svTopology agentService L E) (\<lambda>topology.
     bnd getObj (\<lambda>instance.
     bnd (svStoreWorkload agentService L E CreateOrPatchDeployment
            (agent_Deployment P instance inputHash serviceLabels topology)) (\<lambda>deploy.
     svReady agentService L E (ret ()) inputHash deploy)))"

section \<open>reconcileNormal\<close>

definition agentAccount :: "condLib \<Rightarrow> env \<Rightarrow> unit nact" where
  "agentAccount L E = svAccount agentService L E ''ErrorReason'' ''SeverityWarning''"

definition agentParentExist :: "condLib \<Rightarrow> env \<Rightarrow> (IronicNeutronAgent, call, ret, ret) act" where
  "agentParentExist L E = checkParentResourceExist agentService L E ''ErrorReason'' ''SeverityWarning''"

definition agentParentRbac :: "condLib \<Rightarrow> env \<Rightarrow> (IronicNeutronAgent, call, ret, ret) act" where
  "agentParentRbac L E = checkParentRbacConditions agentService L E"

definition agentLabels :: "string \<rightharpoonup> string" where
  "agentLabels = Map.empty(''AppSelector'' \<mapsto> agent_ServiceName, ''ComponentSelector'' \<mapsto> agent_ServiceName)"

definition agentReconcileInit :: "ret nact" where
  "agentReconcileInit = ret (emptyResult, None)"

text \<open>Rotation and pruning at the end of the run.\<close>

definition agentRotate :: "env \<Rightarrow> string \<Rightarrow> string \<Rightarrow> string \<Rightarrow> bool \<Rightarrow> unit nact" where
  "agentRotate E newTransportURLSecret oldNotifSecret notifSecret ready =
     tvRotate agentService agentTransport E newTransportURLSecret oldNotifSecret notifSecret ready"

definition agentReconcileNormal :: "condLib \<Rightarrow> env \<Rightarrow> podLib \<Rightarrow> ret nact" where
  "agentReconcileNormal L E P =
     thn (agentAccount L E)
    (bnd getObj (\<lambda>instance.
     let oldNotifSecret = optText (nst_NotificationsURLSecret (na_Status instance)) in
     bnd (agentReconcileTransportURL L E) (\<lambda>newTransportURLSecret.
     bnd (tvInputSecretHash agentTransport E newTransportURLSecret) (\<lambda>(notifSecret, inputSecretHash).
     bnd (agentReconcileConfigMapsAndSecrets L E newTransportURLSecret) (\<lambda>inputHash.
     thn (checked agentReconcileInit)
    (bnd (agentReconcileDeployment L E P inputHash agentLabels) (\<lambda>ready.
     thn (svApply agentService ready inputSecretHash)
    (thn (agentRotate E newTransportURLSecret oldNotifSecret notifSecret ready)
         (svFinish agentService L)))))))))"

section \<open>Deletion and entry point\<close>

definition agentReconcileDelete :: "env \<Rightarrow> ret nact" where
  "agentReconcileDelete E =
     thn (svReleaseTopology agentService E)
    (thn (tvReleaseTransport agentService agentTransport E)
    (thn (svDropFinalizer agentService E)
         (ret (emptyResult, None))))"

definition agentInitConditions :: "condLib \<Rightarrow> conditions" where
  "agentInitConditions L = cl_CreateList L (unknowns L
     ([(''InputReadyCondition'', ''InputReadyInitMessage''),
       (''RabbitMqTransportURLReadyCondition'', ''RabbitMqTransportURLReadyInitMessage''),
       (''ServiceConfigReadyCondition'', ''ServiceConfigReadyInitMessage''),
       (''DeploymentReadyCondition'', ''DeploymentReadyInitMessage''),
       (''TLSInputReadyCondition'', ''InputReadyInitMessage'')] @ rbacInit))"

definition agentPrepare :: "IronicNeutronAgent \<Rightarrow> IronicNeutronAgent" where
  "agentPrepare i = i\<lparr>na_Status := (na_Status i)\<lparr>nst_Hash :=
     Some (case nst_Hash (na_Status i) of None \<Rightarrow> Map.empty | Some h \<Rightarrow> h)\<rparr>\<rparr>"

definition agentReconcile :: "condLib \<Rightarrow> env \<Rightarrow> podLib \<Rightarrow> ret nact" where
  "agentReconcile L E P =
     svReconcile agentService L E (\<lambda>_. agentInitConditions L) agentPrepare
       (agentReconcileDelete E) (agentReconcileNormal L E P)"

section \<open>Watches\<close>

definition ironicNeutronAgentWatchFields :: "string list" where
  "ironicNeutronAgentWatchFields =
     [''passwordSecretField'', ''caBundleSecretNameField'', ''topologyField'', ''authAppCredSecretField'']"

definition agentFindObjectsForSrc :: "(string \<Rightarrow> goerr + ObjectMeta list) \<Rightarrow> (string \<times> string) list" where
  "agentFindObjectsForSrc listBy = indexedRequests listBy ironicNeutronAgentWatchFields"

definition agentFindObjectForSrc :: "goerr + ObjectMeta list \<Rightarrow> (string \<times> string) list" where
  "agentFindObjectForSrc listed =
     (case listed of Inl _ \<Rightarrow> [] | Inr items \<Rightarrow> map (\<lambda>m. (Name m, Namespace m)) items)"

end
