(* ===== verification/InspectorController.thy ===== *)
theory InspectorController
  imports EndpointService TransportService
begin

text \<open>
  The controller of \<open>IronicInspector\<close>
  (\<open>internal/controller/ironicinspector_controller.go\<close>), over the shared steps
  of \<open>ServiceController\<close>, \<open>EndpointService\<close> and \<open>TransportService\<close>. As in the
  agent's controller, an early return of one of its functions carries an error
  or a result that is not empty, so it is written as an early return of the
  whole.
\<close>

type_synonym 'a insact = "(IronicInspector, call, ret, 'a) act"

section \<open>The instance\<close>

definition IronicInspector_RbacConditionsSet :: "condLib \<Rightarrow> condition \<Rightarrow> IronicInspector \<Rightarrow> IronicInspector" where
  "IronicInspector_RbacConditionsSet L c = IronicInspector_updConds (cl_SetShared L c)"

definition inspectorService :: "IronicInspector service" where
  "inspectorService =
     \<lparr>sv_Meta = ins_Meta, sv_setMeta = (\<lambda>m i. i\<lparr>ins_Meta := m\<rparr>),
      sv_Conditions = (\<lambda>i. ist_Conditions (ins_Status i)),
      sv_setConditions = (\<lambda>c i. i\<lparr>ins_Status := (ins_Status i)\<lparr>ist_Conditions := c\<rparr>\<rparr>),
      sv_RbacConditionsSet = IronicInspector_RbacConditionsSet,
      sv_setObservedGeneration = (\<lambda>g i. i\<lparr>ins_Status := (ins_Status i)\<lparr>ist_ObservedGeneration := g\<rparr>\<rparr>),
      sv_Hash = (\<lambda>i. ist_Hash (ins_Status i)),
      sv_setHash = (\<lambda>h i. i\<lparr>ins_Status := (ins_Status i)\<lparr>ist_Hash := h\<rparr>\<rparr>),
      sv_ReadyCount = (\<lambda>i. ist_ReadyCount (ins_Status i)),
      sv_setReadyCount = (\<lambda>n i. i\<lparr>ins_Status := (ins_Status i)\<lparr>ist_ReadyCount := n\<rparr>\<rparr>),
      sv_setNetworks = (\<lambda>n i. i\<lparr>ins_Status := (ins_Status i)\<lparr>ist_NetworkAttachments := n\<rparr>\<rparr>),
      sv_Applied = (\<lambda>i. ist_AppliedInputSecretHash (ins_Status i)),
      sv_setApplied = (\<lambda>h i. i\<lparr>ins_Status := (ins_Status i)\<lparr>ist_AppliedInputSecretHash := h\<rparr>\<rparr>),
      sv_topology = IronicInspector_topology,
      sv_Secret = (\<lambda>i. is_Secret (ins_Spec i)),
      sv_PasswordSelector = (\<lambda>i. ips_Service (ins_PasswordSelectors (ins_Spec i))),
      sv_CaBundle = (\<lambda>i. CaBundleSecretName (tls_Ca (ins_TLS (ins_Spec i)))),
      sv_NetworkAttachments = (\<lambda>i. ins_NetworkAttachments (ins_Spec i)),
      sv_RbacName = IronicInspector_RbacResourceName,
      sv_Store = StoreInspector, sv_crud = inspectors\<rparr>"

definition inspectorTransport :: "IronicInspector transportView" where
  "inspectorTransport =
     \<lparr>tv_Secret = (\<lambda>i. ist_TransportURLSecret (ins_Status i)),
      tv_setSecret = (\<lambda>s i. i\<lparr>ins_Status := (ins_Status i)\<lparr>ist_TransportURLSecret := s\<rparr>\<rparr>),
      tv_Notif = (\<lambda>i. ist_NotificationsURLSecret (ins_Status i)),
      tv_setNotif = (\<lambda>s i. i\<lparr>ins_Status := (ins_Status i)\<lparr>ist_NotificationsURLSecret := s\<rparr>\<rparr>),
      tv_MessagingBus = (\<lambda>i. is_MessagingBus (ins_Spec i)),
      tv_NotificationsBus = (\<lambda>i. is_NotificationsBus (ins_Spec i)),
      tv_finalizer = InspectorTransportConsumerFinalizer\<rparr>"

definition inspectorLabels :: "string \<rightharpoonup> string" where
  "inspectorLabels = Map.empty(''AppSelector'' \<mapsto> ServiceName, ''ComponentSelector'' \<mapsto> InspectorComponent)"

section \<open>Service account and transport\<close>

definition inspectorAccount :: "condLib \<Rightarrow> env \<Rightarrow> unit insact" where
  "inspectorAccount L E = svAccount inspectorService L E ''RequestedReason'' ''SeverityInfo''"

definition inspectorParentExist :: "condLib \<Rightarrow> env \<Rightarrow> (IronicInspector, call, ret, ret) act" where
  "inspectorParentExist L E = checkParentResourceExist inspectorService L E ''RequestedReason'' ''SeverityInfo''"

definition inspectorParentRbac :: "condLib \<Rightarrow> env \<Rightarrow> (IronicInspector, call, ret, ret) act" where
  "inspectorParentRbac L E = checkParentRbacConditions inspectorService L E"

definition inspectorTransportURLCreateOrUpdate ::
  "env \<Rightarrow> IronicInspector \<Rightarrow> string \<Rightarrow> RabbitMqConfig \<Rightarrow>
   (IronicInspector, call, 'r, goerr + (TransportURL \<times> opResult)) act" where
  "inspectorTransportURLCreateOrUpdate E = tvCreateOrUpdate inspectorService E"

text \<open>Without oslo the tracked secrets are forgotten, their finalizers kept.\<close>

definition inspectorReconcileTransportURL :: "condLib \<Rightarrow> env \<Rightarrow> string insact" where
  "inspectorReconcileTransportURL L E =
     bnd getObj (\<lambda>instance.
     if is_RPCTransport (ins_Spec instance) = ''oslo'' then
       tvReconcileTransportURL inspectorService inspectorTransport L E
     else
       thn (modObj (\<lambda>i. i\<lparr>ins_Status := (ins_Status i)
              \<lparr>ist_TransportURLSecret := '''', ist_NotificationsURLSecret := None\<rparr>\<rparr>))
      (thn (svTrue inspectorService L ''RabbitMqTransportURLReadyCondition'' ''RabbitMqTransportURL disabled'')
           (ret '''')))"

definition inspectorGetTransportURL :: "env \<Rightarrow> string \<Rightarrow> (IronicInspector, call, 'r, goerr + string) act" where
  "inspectorGetTransportURL E transportURLSecretName =
     bnd getObj (\<lambda>instance.
     if is_RPCTransport (ins_Spec instance) \<noteq> ''oslo'' then ret (Inr ''fake://'')
     else bnd (getSecret E transportURLSecretName (Namespace (ins_Meta instance))) (\<lambda>s.
        case s of
          Inl err \<Rightarrow> ret (Inl err)
        | Inr d \<Rightarrow>
            (case d ''transport_url'' of
               None \<Rightarrow> ret (Inl (ErrKeyNotFound ''transport_url''))
             | Some url \<Rightarrow> ret (Inr url))))"

section \<open>Database\<close>

definition inspectorDatabase :: "IronicInspector \<Rightarrow> newDatabase" where
  "inspectorDatabase instance =
     \<lparr>nd_Instance = is_DatabaseInstance (ins_Spec instance), nd_Name = inspector_DatabaseName,
      nd_CRName = inspector_DatabaseCRName, nd_Account = ins_DatabaseAccount (ins_Spec instance),
      nd_Namespace = Namespace (ins_Meta instance)\<rparr>"

text \<open>While the database is not there: the condition, then the result as it is.\<close>

definition inspectorDBWaiting :: "condLib \<Rightarrow> result \<Rightarrow> 'a insact" where
  "inspectorDBWaiting L ctrlResult =
     thn (svSet inspectorService L (requestedCondition L ''DBReadyCondition'' ''DBReadyRunningMessage''))
         (exit (ctrlResult, None))"

definition inspectorDBinstance :: "condLib \<Rightarrow> env \<Rightarrow> Database insact" where
  "inspectorDBinstance L E =
     bnd getObj (\<lambda>instance.
     let account = ins_DatabaseAccount (ins_Spec instance); ns = Namespace (ins_Meta instance);
         new = inspectorDatabase instance in
     bnd (ask (EnsureMariaDBAccount account ns ''ironic_inspector'')
            (\<lambda>cs. on_EnsureMariaDBAccount E cs account ns ''ironic_inspector'')) (\<lambda>err.
     case err of
       Some e \<Rightarrow> svFail inspectorService L E ''MariaDBAccountReadyCondition'' ''MariaDBAccountNotReadyMessage'' e
     | None \<Rightarrow>
         thn (svTrue inspectorService L ''MariaDBAccountReadyCondition'' ''MariaDBAccountReadyMessage'')
        (bnd (ask (CreateOrPatchAllDB new) (\<lambda>cs. on_CreateOrPatchAllDB E cs new)) (\<lambda>(ctrlResult, err).
         case err of
           Some e \<Rightarrow> svFail inspectorService L E ''DBReadyCondition'' ''DBReadyErrorMessage'' e
         | None \<Rightarrow>
             if ctrlResult \<noteq> emptyResult then inspectorDBWaiting L ctrlResult
             else
               bnd (ask WaitForDBCreated (on_WaitForDBCreated E)) (\<lambda>(ctrlResult, err, db).
               case err of
                 Some e \<Rightarrow>
                   thn (svSet inspectorService L (errorCondition L E ''DBReadyCondition'' ''DBReadyErrorMessage'' e))
                       (exit (ctrlResult, Some e))
               | None \<Rightarrow>
                   if ctrlResult \<noteq> emptyResult then inspectorDBWaiting L ctrlResult
                   else
                     thn (modObj (\<lambda>i. i\<lparr>ins_Status := (ins_Status i)\<lparr>ist_DatabaseHostname := db_Hostname db\<rparr>\<rparr>))
                    (thn (svTrue inspectorService L ''DBReadyCondition'' ''DBReadyMessage'')
                         (ret db)))))))"

definition inspectorDBsync :: "condLib \<Rightarrow> env \<Rightarrow> podLib \<Rightarrow> (string \<rightharpoonup> string) \<Rightarrow> ret insact" where
  "inspectorDBsync L E P serviceLabels =
     bnd getObj (\<lambda>instance.
     let dbSyncHash = (case ist_Hash (ins_Status instance) of None \<Rightarrow> None | Some h \<Rightarrow> h DbSyncHash);
         jobDef = inspector_DbSyncJob P instance serviceLabels
     in bnd (ask (DoJob jobDef dbSyncHash) (\<lambda>cs. on_DoJob E cs jobDef dbSyncHash)) (\<lambda>(ctrlResult, err, newHash).
        if ctrlResult \<noteq> emptyResult then
          thn (svSet inspectorService L (requestedCondition L ''DBSyncReadyCondition'' ''DBSyncReadyRunningMessage''))
              (exit (ctrlResult, None))
        else case err of
          Some e \<Rightarrow> svFail inspectorService L E ''DBSyncReadyCondition'' ''DBSyncReadyErrorMessage'' e
        | None \<Rightarrow>
            thn (case newHash of
                   None \<Rightarrow> ret ()
                 | Some h \<Rightarrow> modObj (\<lambda>i. i\<lparr>ins_Status := (ins_Status i)
                     \<lparr>ist_Hash := map_option (\<lambda>m. m(DbSyncHash \<mapsto> h)) (ist_Hash (ins_Status i))\<rparr>\<rparr>))
           (thn (svTrue inspectorService L ''DBSyncReadyCondition'' ''DBSyncReadyMessage'')
                (ret (emptyResult, None)))))"

section \<open>Configuration\<close>

text \<open>The parameters of the keystone side, or of a standalone deployment.\<close>

definition inspectorAuthParams ::
  "env \<Rightarrow> (string \<rightharpoonup> string) \<Rightarrow> templateParams \<Rightarrow>
   (IronicInspector, call, goerr option \<times> (string \<rightharpoonup> string), templateParams) act" where
  "inspectorAuthParams E envVars tp =
     bnd getObj (\<lambda>instance.
     let sp = ins_Spec instance; ns = Namespace (ins_Meta instance) in
     if \<not> is_Standalone sp then
       bnd (ask (GetKeystoneAPI ns) (\<lambda>cs. on_GetKeystoneAPI E cs ns)) (\<lambda>r.
       case r of
         Inl err \<Rightarrow> exit (Some err, envVars)
       | Inr keystoneAPI \<Rightarrow>
       orErr envVars (ret (ks_Endpoint keystoneAPI ''internal'')) (\<lambda>keystoneInternalURL.
       orErr envVars (ret (ks_Endpoint keystoneAPI ''public'')) (\<lambda>keystonePublicURL.
       bnd (getSecret E (is_Secret sp) ns) (\<lambda>r.
       case r of
         Inl err \<Rightarrow> exit (Some err, envVars)
       | Inr ospSecret \<Rightarrow>
           (let servicePassword = TVString (dataText ospSecret (ips_Service (ins_PasswordSelectors sp)));
                tp = tp(''ServiceUser'' \<mapsto> TVString (ins_ServiceUser sp), ''ServicePassword'' \<mapsto> servicePassword,
                        ''KeystoneInternalURL'' \<mapsto> TVString keystoneInternalURL,
                        ''KeystonePublicURL'' \<mapsto> TVString keystonePublicURL,
                        ''Region'' \<mapsto> TVString (ks_Region keystoneAPI),
                        ''keystone_authtoken'' \<mapsto> servicePassword, ''service_catalog'' \<mapsto> servicePassword,
                        ''ironic'' \<mapsto> servicePassword, ''swift'' \<mapsto> servicePassword)
            in bnd (setApplicationCredentialParams E (ApplicationCredentialSecret (ins_Auth sp)) ns tp) (\<lambda>(tp, err).
               if err \<noteq> None then exit (err, envVars) else ret tp))))))
     else
       bnd (askService (ListIronicAPI ns) id) (\<lambda>cs.
       case GetIronicAPI (on_ListIronicAPI (services E) cs) ns [] of
         Inl err \<Rightarrow> exit (Some err, envVars)
       | Inr ironicAPI \<Rightarrow>
           orErr envVars (ret (IronicAPI_GetEndpoint ironicAPI ''internal'')) (\<lambda>ironicInternalURL.
           ret (tp(''IronicInternalURL'' \<mapsto> TVString ironicInternalURL)))))"

definition inspectorServiceSecrets ::
  "env \<Rightarrow> podLib \<Rightarrow> webhookLib \<Rightarrow> (ip \<Rightarrow> string) \<Rightarrow> Database \<Rightarrow> string \<Rightarrow> (string \<rightharpoonup> string) \<Rightarrow>
   (IronicInspector, call, goerr option \<times> (string \<rightharpoonup> string), goerr option \<times> (string \<rightharpoonup> string)) act" where
  "inspectorServiceSecrets E P W maskText db transportURLSecretName envVars =
     bnd getObj (\<lambda>instance.
     let sp = ins_Spec instance; ns = Namespace (ins_Meta instance); name = Name (ins_Meta instance);
         customData = Map.empty(''02-inspector-custom.conf'' \<mapsto> ins_CustomServiceConfig sp,
                                ''my.cnf'' \<mapsto> db_ClientConfig db (CaBundleSecretName (tls_Ca (ins_TLS sp)) \<noteq> ''''))
                      ++ ins_DefaultConfigOverwrite sp in
     bnd (inspectorGetTransportURL E transportURLSecretName) (\<lambda>r.
     case r of
       Inl err \<Rightarrow> exit (Some err, envVars)
     | Inr transportURL \<Rightarrow>
     bnd (getNotificationsTransportURL E (ist_NotificationsURLSecret (ins_Status instance)) transportURL ns
            (Map.empty(''TransportURL'' \<mapsto> TVString transportURL))) (\<lambda>(tp, err).
     if err \<noteq> None then exit (err, envVars)
     else
     bnd (if is_RPCTransport sp = ''oslo'' then getQuorumQueues E transportURLSecretName ns
          else ret (Inr False)) (\<lambda>q.
     case q of
       Inl err \<Rightarrow> exit (Some err, envVars)
     | Inr quorumQueues \<Rightarrow>
     bnd (inspectorAuthParams E envVars (tp(''QuorumQueues'' \<mapsto> TVBool quorumQueues))) (\<lambda>tp.
     let tp = tp(''DHCPRanges'' \<mapsto> TVRanges (fst (PrefixOrNetmaskFromCIDR W maskText (ins_DHCPRanges sp))),
                 ''Standalone'' \<mapsto> TVBool (is_Standalone sp),
                 ''DatabaseConnection'' \<mapsto> TVString
                   (databaseConnection db (ist_DatabaseHostname (ins_Status instance)) inspector_DatabaseName),
                 ''VHosts'' \<mapsto> TVHosts (map (httpdVhost P (ins_TLS sp) inspectorName ns None)
                                    [''internal'', ''public'']),
                 ''TimeOut'' \<mapsto> TVInt (is_APITimeout sp));
         cms = [\<lparr>tm_Name = name @ ''-scripts'', tm_Namespace = ns,
                  tm_Type = ''TemplateTypeScripts'', tm_InstanceType = Kind (ins_Meta instance),
                  tm_CustomData = Map.empty, tm_ConfigOptions = Map.empty,
                  tm_AdditionalTemplate =
                    [(''common.sh'', ''/common/bin/common.sh''), (''get_net_ip'', ''/common/bin/get_net_ip''),
                     (''inotify_watch.py'', ''/common/bin/inotify_watch.py''),
                     (''runlogwatch.sh'', ''/common/bin/runlogwatch.sh''),
                     (''pxe-init.sh'', ''/common/bin/pxe-init.sh'')],
                  tm_CommonTemplates = [], tm_Labels = GetLabels E ServiceName\<rparr>,
                \<lparr>tm_Name = name @ ''-config-data'', tm_Namespace = ns,
                  tm_Type = ''TemplateTypeConfig'', tm_InstanceType = Kind (ins_Meta instance),
                  tm_CustomData = customData, tm_ConfigOptions = tp, tm_AdditionalTemplate = [],
                  tm_CommonTemplates = [''ssl.conf''], tm_Labels = GetLabels E ServiceName\<rparr>]
     in bnd (ask (EnsureSecrets cms) (\<lambda>cs. on_EnsureSecrets E cs cms envVars)) (\<lambda>r.
        case r of Inl err \<Rightarrow> ret (Some err, envVars) | Inr envVars' \<Rightarrow> ret (None, envVars')))))))"

definition inspectorCreateHash ::
  "env \<Rightarrow> (string \<rightharpoonup> string) \<Rightarrow> (IronicInspector, call, 'r, string \<times> bool \<times> goerr option) act" where
  "inspectorCreateHash E envVars = svCreateHash inspectorService E envVars"

text \<open>The secrets, the CA bundle and the certificates.\<close>

definition inspectorInputs :: "condLib \<Rightarrow> env \<Rightarrow> string \<Rightarrow> (string \<rightharpoonup> string) insact" where
  "inspectorInputs L E transportURLSecretName =
     bnd (svPassword inspectorService L E Map.empty) (\<lambda>configMapVars.
     bnd (svTransport inspectorService L E (transportURLSecretName \<noteq> '''') transportURLSecretName configMapVars)
       (\<lambda>configMapVars.
     thn (svTrue inspectorService L ''InputReadyCondition'' ''InputReadyMessage'')
    (bnd (svCaCert inspectorService L E (requeueAfter (seconds 10)) configMapVars) (\<lambda>configMapVars.
     bnd (svCerts inspectorService L E (\<lambda>i. ins_TLS (ins_Spec i)) (requeueAfter (seconds 10)) configMapVars)
       (\<lambda>configMapVars.
     thn (svTrue inspectorService L ''TLSInputReadyCondition'' ''InputReadyMessage'')
         (ret configMapVars))))))"

definition inspectorConfigMapsAndSecrets ::
  "condLib \<Rightarrow> env \<Rightarrow> podLib \<Rightarrow> webhookLib \<Rightarrow> (ip \<Rightarrow> string) \<Rightarrow> Database \<Rightarrow> string \<Rightarrow> string insact" where
  "inspectorConfigMapsAndSecrets L E P W maskText db transportURLSecretName =
     bnd (inspectorInputs L E transportURLSecretName) (\<lambda>configMapVars.
     bnd (svConfig inspectorService L E
            (inspectorServiceSecrets E P W maskText db transportURLSecretName configMapVars)) (\<lambda>configMapVars.
     svInputHash inspectorService L E (requeueAfter (seconds 5)) configMapVars))"

definition inspectorNetworks :: "condLib \<Rightarrow> env \<Rightarrow> (string \<rightharpoonup> string) insact" where
  "inspectorNetworks L E = svNetworks inspectorService L E"

section \<open>Exposing the service\<close>

definition inspectorExpose :: "condLib \<Rightarrow> env \<Rightarrow> podLib \<Rightarrow> (string \<rightharpoonup> string) \<Rightarrow> ret insact" where
  "inspectorExpose L E P serviceLabels =
     bnd getObj (\<lambda>instance.
     bnd getLog (\<lambda>cs.
     bnd (foreach (rangeEndpoints E cs IronicInspectorPublicPort IronicInspectorInternalPort) Map.empty
            (exposeEndpoint inspectorService L E P (ins_TLS (ins_Spec instance)) (ins_Override (ins_Spec instance))
               inspectorName serviceLabels)) (\<lambda>apiEndpoints.
     thn (modObj (\<lambda>i. i\<lparr>ins_Status := (ins_Status i)\<lparr>ist_APIEndpoints :=
            map_option (\<lambda>m. m(inspectorName \<mapsto> apiEndpoints)) (ist_APIEndpoints (ins_Status i))\<rparr>\<rparr>))
    (thn (svTrue inspectorService L ''CreateServiceReadyCondition'' ''CreateServiceReadyMessage'')
         (ret (emptyResult, None))))))"

definition inspectorKeystoneServices :: "(string \<times> string \<times> string) list" where
  "inspectorKeystoneServices =
     [(''baremetal-introspection'', ''ironic-inspector'', ''OpenStack Baremetal-Introspection Service'')]"

definition inspectorRegistration ::
  "IronicInspector \<Rightarrow> (string \<rightharpoonup> string) \<Rightarrow> string \<times> string \<times> string \<Rightarrow> ServiceRegistration" where
  "inspectorRegistration instance serviceLabels = (\<lambda>(typ, name, desc).
     (let sp = ins_Spec instance in
      \<lparr>sr_Namespace = Namespace (ins_Meta instance), sr_ServiceType = typ, sr_ServiceName = name,
       sr_ServiceDescription = desc, sr_ServiceUser = ins_ServiceUser sp, sr_Secret = is_Secret sp,
       sr_PasswordSelector = ips_Service (ins_PasswordSelectors sp),
       sr_Endpoints = (case (case ist_APIEndpoints (ins_Status instance) of None \<Rightarrow> None | Some m \<Rightarrow> m name) of
                         None \<Rightarrow> Map.empty | Some e \<Rightarrow> e),
       sr_Labels = serviceLabels, sr_TimeoutSeconds = 10\<rparr>))"

definition inspectorUsersAndEndpoints :: "condLib \<Rightarrow> env \<Rightarrow> (string \<rightharpoonup> string) \<Rightarrow> ret insact" where
  "inspectorUsersAndEndpoints L E serviceLabels =
     bnd getObj (\<lambda>instance.
     thn (whenM (\<not> is_Standalone (ins_Spec instance))
           (foreach inspectorKeystoneServices () (\<lambda>ksSvc _.
              bnd getObj (\<lambda>i.
              checked (EnsureRegistration L E (inspectorRegistration i serviceLabels ksSvc) IronicInspector_updConds)))))
         (ret (emptyResult, None)))"

definition inspectorReconcileInit :: "condLib \<Rightarrow> env \<Rightarrow> podLib \<Rightarrow> (string \<rightharpoonup> string) \<Rightarrow> ret insact" where
  "inspectorReconcileInit L E P serviceLabels =
     thn (checked (inspectorDBsync L E P serviceLabels))
    (thn (checked (inspectorExpose L E P serviceLabels))
    (thn (checked (inspectorUsersAndEndpoints L E serviceLabels))
         (ret (emptyResult, None))))"

section \<open>The StatefulSet and the services of its pods\<close>

definition inspectorStatefulSet ::
  "condLib \<Rightarrow> env \<Rightarrow> podLib \<Rightarrow> string \<Rightarrow> (string \<rightharpoonup> string) \<Rightarrow> (string \<rightharpoonup> string) \<Rightarrow> observed insact" where
  "inspectorStatefulSet L E P inputHash serviceLabels serviceAnnotations =
     bnd (askService GetIngressController (on_GetIngressController (services E))) (\<lambda>got.
     bnd (orPanic (GetIngressDomain got)) (\<lambda>ingressDomain.
     bnd (svTopology inspectorService L E) (\<lambda>topology.
     bnd getObj (\<lambda>instance.
     case inspector_StatefulSet P instance inputHash serviceLabels ingressDomain serviceAnnotations topology of
       Inl err \<Rightarrow> svFail inspectorService L E ''DeploymentReadyCondition'' ''DeploymentReadyErrorMessage'' err
     | Inr ss \<Rightarrow> svStoreWorkload inspectorService L E CreateOrPatchStatefulSet ss))))"

text \<open>Unlike the other controllers, a workload that is not ready for its inputs
  ends the run, to come back after ten seconds.\<close>

definition inspectorReady :: "condLib \<Rightarrow> env \<Rightarrow> (string \<rightharpoonup> string) \<Rightarrow> string \<Rightarrow> observed \<Rightarrow> bool insact" where
  "inspectorReady L E serviceLabels inputHash deploy =
     bnd (svReady inspectorService L E (svNetworkStatus inspectorService L E serviceLabels) inputHash deploy) (\<lambda>ready.
     if ob_Generation deploy = ob_ObservedGeneration deploy \<and> \<not> ready
     then exit (requeueAfter (seconds 10), None) else ret ready)"

definition inspectorReconcileStatefulSet ::
  "condLib \<Rightarrow> env \<Rightarrow> podLib \<Rightarrow> string \<Rightarrow> (string \<rightharpoonup> string) \<Rightarrow> (string \<rightharpoonup> string) \<Rightarrow> bool insact" where
  "inspectorReconcileStatefulSet L E P inputHash serviceLabels serviceAnnotations =
     bnd (inspectorStatefulSet L E P inputHash serviceLabels serviceAnnotations) (\<lambda>deploy.
     inspectorReady L E serviceLabels inputHash deploy)"

definition inspectorPods ::
  "env \<Rightarrow> IronicInspector \<Rightarrow> (string \<rightharpoonup> string) \<Rightarrow> (IronicInspector, call, 'r, goerr + string list) act" where
  "inspectorPods E instance serviceLabels =
     askService (ListPods (Namespace (ins_Meta instance)) serviceLabels)
       (\<lambda>cs. on_ListPods (services E) cs (Namespace (ins_Meta instance)) serviceLabels)"

definition inspectorReconcileServices :: "env \<Rightarrow> (string \<rightharpoonup> string) \<Rightarrow> ret insact" where
  "inspectorReconcileServices E serviceLabels =
     bnd getObj (\<lambda>instance.
     bnd (getOrFail (inspectorPods E instance serviceLabels)) (\<lambda>pods.
     thn (foreach pods () (\<lambda>podName _.
           thn (case inspector_Service podName instance inspectorLabels of
                  None \<Rightarrow> ret ()
                | Some svc \<Rightarrow> svEnsureService E podName svc)
               (whenM (ins_InspectionNetwork (ins_Spec instance) = '''')
                  (svEnsureRoute E podName
                     (inspector_Route podName instance
                        (Map.empty(''AppSelector'' \<mapsto> ServiceName,
                           ''ComponentSelector'' \<mapsto> InspectorComponent @ ''-'' @ HttpbootComponent)))))))
         (ret (emptyResult, None))))"

section \<open>reconcileNormal\<close>

definition inspectorReleaseAccounts :: "env \<Rightarrow> unit insact" where
  "inspectorReleaseAccounts E =
     bnd getObj (\<lambda>instance.
     let account = ins_DatabaseAccount (ins_Spec instance); ns = Namespace (ins_Meta instance) in
     orFail (ask (DeleteUnusedMariaDBAccountFinalizers inspector_DatabaseCRName account ns)
       (\<lambda>cs. on_DeleteUnusedMariaDBAccountFinalizers E cs inspector_DatabaseCRName account ns)))"

text \<open>Rotation and pruning at the end of the run.\<close>

definition inspectorRotate :: "env \<Rightarrow> string \<Rightarrow> string \<Rightarrow> string \<Rightarrow> bool \<Rightarrow> unit insact" where
  "inspectorRotate E newTransportURLSecret oldNotifSecret notifSecret ready =
     tvRotate inspectorService inspectorTransport E newTransportURLSecret oldNotifSecret notifSecret ready"

definition inspectorReconcileNormal ::
  "condLib \<Rightarrow> env \<Rightarrow> podLib \<Rightarrow> webhookLib \<Rightarrow> (ip \<Rightarrow> string) \<Rightarrow> ret insact" where
  "inspectorReconcileNormal L E P W maskText =
     thn (inspectorAccount L E)
    (bnd getObj (\<lambda>instance.
     let oldNotifSecret = optText (ist_NotificationsURLSecret (ins_Status instance)) in
     bnd (inspectorReconcileTransportURL L E) (\<lambda>newTransportURLSecret.
     bnd (tvInputSecretHash inspectorTransport E newTransportURLSecret) (\<lambda>(notifSecret, inputSecretHash).
     bnd (inspectorDBinstance L E) (\<lambda>db.
     bnd (inspectorConfigMapsAndSecrets L E P W maskText db newTransportURLSecret) (\<lambda>inputHash.
     bnd (inspectorNetworks L E) (\<lambda>serviceAnnotations.
     thn (checked (inspectorReconcileInit L E P inspectorLabels))
    (bnd (inspectorReconcileStatefulSet L E P inputHash inspectorLabels serviceAnnotations) (\<lambda>ready.
     thn (checked (inspectorReconcileServices E inspectorLabels))
    (thn (inspectorReleaseAccounts E)
    (thn (svApply inspectorService ready inputSecretHash)
    (thn (inspectorRotate E newTransportURLSecret oldNotifSecret notifSecret ready)
         (svFinish inspectorService L)))))))))))))"

section \<open>Deletion and entry point\<close>

definition inspectorDeleteKeystoneServices :: "env \<Rightarrow> unit insact" where
  "inspectorDeleteKeystoneServices E =
     foreach inspectorKeystoneServices () (\<lambda>(_, name, _) _.
       thn (releaseKeystone inspectorService E ''KeystoneEndpoint'' name)
           (releaseKeystone inspectorService E ''KeystoneService'' name))"

definition inspectorDeleteDatabase :: "env \<Rightarrow> unit insact" where
  "inspectorDeleteDatabase E =
     bnd getObj (\<lambda>instance.
     let account = ins_DatabaseAccount (ins_Spec instance); ns = Namespace (ins_Meta instance) in
     bnd (ask (GetDatabaseByNameAndAccount inspector_DatabaseCRName account ns)
            (\<lambda>cs. on_GetDatabase E cs inspector_DatabaseCRName account ns)) (\<lambda>db.
     case db of
       Inl err \<Rightarrow> if isNotFound E err then ret () else exit (emptyResult, Some err)
     | Inr _ \<Rightarrow> orFail (ask DeleteDatabaseFinalizer (on_DeleteDatabaseFinalizer E))))"

definition inspectorReconcileDelete :: "env \<Rightarrow> ret insact" where
  "inspectorReconcileDelete E =
     thn (inspectorDeleteKeystoneServices E)
    (thn (inspectorDeleteDatabase E)
    (thn (svReleaseTopology inspectorService E)
    (thn (tvReleaseTransport inspectorService inspectorTransport E)
    (thn (svDropFinalizer inspectorService E)
         (ret (emptyResult, None))))))"

definition inspectorInitConditions :: "condLib \<Rightarrow> IronicInspector \<Rightarrow> conditions" where
  "inspectorInitConditions L instance =
     cl_CreateList L (unknowns L
       ([(''CreateServiceReadyCondition'', ''CreateServiceReadyInitMessage''),
         (''InputReadyCondition'', ''InputReadyInitMessage''),
         (''ServiceConfigReadyCondition'', ''ServiceConfigReadyInitMessage''),
         (''DeploymentReadyCondition'', ''DeploymentReadyInitMessage''),
         (''NetworkAttachmentsReadyCondition'', ''NetworkAttachmentsReadyInitMessage''),
         (''RabbitMqTransportURLReadyCondition'', ''RabbitMqTransportURLReadyInitMessage''),
         (''TLSInputReadyCondition'', ''InputReadyInitMessage'')] @ rbacInit)) @
     (if \<not> is_Standalone (ins_Spec instance)
      then unknowns L [(''KeystoneServiceReadyCondition'', ''''), (''KeystoneEndpointReadyCondition'', '''')]
      else [])"

definition inspectorPrepare :: "IronicInspector \<Rightarrow> IronicInspector" where
  "inspectorPrepare i = i\<lparr>ins_Status := (ins_Status i)
     \<lparr>ist_Hash := Some (case ist_Hash (ins_Status i) of None \<Rightarrow> Map.empty | Some h \<Rightarrow> h),
      ist_APIEndpoints := Some (case ist_APIEndpoints (ins_Status i) of None \<Rightarrow> Map.empty | Some m \<Rightarrow> m)\<rparr>\<rparr>"

definition inspectorReconcile ::
  "condLib \<Rightarrow> env \<Rightarrow> podLib \<Rightarrow> webhookLib \<Rightarrow> (ip \<Rightarrow> string) \<Rightarrow> ret insact" where
  "inspectorReconcile L E P W maskText =
     svReconcile inspectorService L E (inspectorInitConditions L) inspectorPrepare
       (inspectorReconcileDelete E) (inspectorReconcileNormal L E P W maskText)"

section \<open>Watches\<close>

definition ironicInspectorWatchFields :: "string list" where
  "ironicInspectorWatchFields =
     [''passwordSecretField'', ''caBundleSecretNameField'', ''topologyField'', ''authAppCredSecretField'']"

definition inspectorFindObjectsForSrc :: "(string \<Rightarrow> goerr + ObjectMeta list) \<Rightarrow> (string \<times> string) list" where
  "inspectorFindObjectsForSrc listBy = indexedRequests listBy ironicInspectorWatchFields"

definition inspectorFindObjectForSrc :: "goerr + ObjectMeta list \<Rightarrow> (string \<times> string) list" where
  "inspectorFindObjectForSrc listed =
     (case listed of Inl _ \<Rightarrow> [] | Inr items \<Rightarrow> map (\<lambda>m. (Name m, Namespace m)) items)"

text \<open>The requests for a changed config map of the given namespace.\<close>

definition inspectorConfigMapFn ::
  "goerr + ObjectMeta list \<Rightarrow> string option \<Rightarrow> string \<Rightarrow> (string \<times> string) list" where
  "inspectorConfigMapFn listed ownerLabel namespace =
     (case (listed, ownerLabel) of
        (Inr items, Some l) \<Rightarrow>
          map (\<lambda>m. (Name m, namespace)) (filter (\<lambda>m. l = GetOwningIronicName (OwnerReferences m)) items)
      | _ \<Rightarrow> [])"

end
