(* ===== verification/Watches.thy ===== *)
theory Watches
  imports ConductorController ApiController AgentController InspectorController
begin

text \<open>
  The field indexes the controllers register in \<open>SetupWithManager\<close>, and which
  instances a changed secret or topology wakes through them. The client's answer
  to a list by an indexed field is the instances of the namespace whose index
  has the name, as controller-runtime documents it (\<open>selectBy\<close>).
\<close>

section \<open>Indexes\<close>

definition indexText :: "string \<Rightarrow> string list" where
  "indexText s = (if s = '''' then [] else [s])"

definition indexOption :: "string option \<Rightarrow> string list" where
  "indexOption s = (case s of None \<Rightarrow> [] | Some t \<Rightarrow> [t])"

definition indexTopology :: "TopoRef option \<Rightarrow> string list" where
  "indexTopology r = (case r of None \<Rightarrow> [] | Some t \<Rightarrow> [tr_Name t])"

definition conductorIndex :: "string \<Rightarrow> IronicConductor \<Rightarrow> string list" where
  "conductorIndex field cr =
     (let sp = con_Spec cr in
      if field = ''passwordSecretField'' then indexText (cs_Secret sp)
      else if field = ''caBundleSecretNameField'' then indexText (CaBundleSecretName (cs_TLS sp))
      else if field = ''transportURLSecretField'' then indexText (cs_TransportURLSecret sp)
      else if field = ''topologyField'' then indexTopology (TopologyRef sp)
      else if field = ''authAppCredSecretField'' then indexText (ApplicationCredentialSecret (cs_Auth sp))
      else [])"

definition apiIndex :: "string \<Rightarrow> IronicAPI \<Rightarrow> string list" where
  "apiIndex field cr =
     (let sp = api_Spec cr in
      if field = ''passwordSecretField'' then indexText (as_Secret sp)
      else if field = ''caBundleSecretNameField'' then indexText (CaBundleSecretName (api_TLS sp))
      else if field = ''tlsAPIInternalField'' then indexOption (tls_InternalSecretName (api_TLS sp))
      else if field = ''tlsAPIPublicField'' then indexOption (tls_PublicSecretName (api_TLS sp))
      else if field = ''transportURLSecretField'' then indexText (as_TransportURLSecret sp)
      else if field = ''topologyField'' then indexTopology (TopologyRef sp)
      else if field = ''authAppCredSecretField'' then indexText (ApplicationCredentialSecret (as_Auth sp))
      else [])"

definition agentIndex :: "string \<Rightarrow> IronicNeutronAgent \<Rightarrow> string list" where
  "agentIndex field cr =
     (let sp = na_Spec cr in
      if field = ''passwordSecretField'' then indexText (ns_Secret sp)
      else if field = ''caBundleSecretNameField'' then indexText (CaBundleSecretName (ns_TLS sp))
      else if field = ''topologyField'' then indexTopology (TopologyRef sp)
      else if field = ''authAppCredSecretField'' then indexText (ApplicationCredentialSecret (ns_Auth sp))
      else [])"

definition inspectorIndex :: "string \<Rightarrow> IronicInspector \<Rightarrow> string list" where
  "inspectorIndex field cr =
     (let sp = ins_Spec cr in
      if field = ''passwordSecretField'' then indexText (is_Secret sp)
      else if field = ''caBundleSecretNameField'' then indexText (CaBundleSecretName (tls_Ca (ins_TLS sp)))
      else if field = ''topologyField'' then indexTopology (ins_TopologyRef sp)
      else if field = ''authAppCredSecretField'' then indexText (ApplicationCredentialSecret (ins_Auth sp))
      else [])"

section \<open>Searching by the indexes\<close>

definition selectBy ::
  "(string \<Rightarrow> 'o \<Rightarrow> string list) \<Rightarrow> ('o \<Rightarrow> ObjectMeta) \<Rightarrow> 'o list \<Rightarrow> string \<Rightarrow> string \<Rightarrow> goerr + ObjectMeta list" where
  "selectBy index metaOf items src field =
     Inr (map metaOf (filter (\<lambda>cr. src \<in> set (index field cr)) items))"

definition requestFor :: "ObjectMeta \<Rightarrow> string \<times> string" where
  "requestFor m = (Name m, Namespace m)"

text \<open>What an instance refers to through a list of indexed fields.\<close>

definition references :: "(string \<Rightarrow> 'o \<Rightarrow> string list) \<Rightarrow> string list \<Rightarrow> 'o \<Rightarrow> string list" where
  "references index watched cr = concat (map (\<lambda>field. index field cr) watched)"

lemma indexedRequests_selectBy:
  "set (indexedRequests (selectBy index metaOf items src) watched) =
     (\<lambda>cr. requestFor (metaOf cr)) ` {cr \<in> set items. src \<in> set (references index watched cr)}"
  by (induction watched) (auto simp: selectBy_def requestFor_def references_def)

lemma indexText_set: "set (indexText s) = {s} - {''''}"
  by (simp add: indexText_def)

lemma indexOption_set: "set (indexOption s) = set_option s"
  by (cases s) (simp_all add: indexOption_def)

lemma indexTopology_set: "set (indexTopology r) = tr_Name ` set_option r"
  by (cases r) (simp_all add: indexTopology_def)

lemmas index_sets = indexText_set indexOption_set indexTopology_set

lemma svFindObjectsForSrc_selectBy:
  "set (svFindObjectsForSrc (Inr (map metaOf items)) lbl (selectBy index metaOf items src) watched) =
     (\<lambda>cr. requestFor (metaOf cr)) ` {cr \<in> set items.
       lbl = Some (GetOwningIronicName (OwnerReferences (metaOf cr))) \<or> src \<in> set (references index watched cr)}"
  by (cases lbl) (auto simp: svFindObjectsForSrc_def indexedRequests_selectBy requestFor_def image_iff)

section \<open>Who is woken\<close>

text \<open>C39. A changed secret or topology wakes exactly the API instances that its
  owner label names, or whose spec refers to it: as password secret, CA bundle,
  transport secret, application credential, certificate of either endpoint, or
  topology.\<close>

theorem api_woken_by_references:
  "set (apiFindObjectsForSrc (Inr (map api_Meta items)) lbl (selectBy apiIndex api_Meta items src)) =
     (\<lambda>cr. requestFor (api_Meta cr)) ` {cr \<in> set items.
       lbl = Some (GetOwningIronicName (OwnerReferences (api_Meta cr))) \<or>
       src \<in> {as_Secret (api_Spec cr), CaBundleSecretName (api_TLS (api_Spec cr)),
               as_TransportURLSecret (api_Spec cr), ApplicationCredentialSecret (as_Auth (api_Spec cr))} - {''''} \<or>
       src \<in> set_option (tls_InternalSecretName (api_TLS (api_Spec cr))) \<or>
       src \<in> set_option (tls_PublicSecretName (api_TLS (api_Spec cr))) \<or>
       src \<in> tr_Name ` set_option (TopologyRef (api_Spec cr))}"
  unfolding apiFindObjectsForSrc_def svFindObjectsForSrc_selectBy
  by (rule arg_cong [of _ _ "image _"])
    (auto simp: references_def ironicAPIWatchFields_def apiIndex_def index_sets Let_def)

text \<open>C40. A changed secret wakes exactly the inspectors that refer to it as
  password secret, CA bundle or application credential, or to a topology of that
  name: the secrets of the endpoint certificates, which the inspector validates,
  hashes and mounts, wake none.\<close>

theorem inspector_woken_by_references:
  "set (inspectorFindObjectsForSrc (selectBy inspectorIndex ins_Meta items src)) =
     (\<lambda>cr. requestFor (ins_Meta cr)) ` {cr \<in> set items.
       src \<in> {is_Secret (ins_Spec cr), CaBundleSecretName (tls_Ca (ins_TLS (ins_Spec cr))),
               ApplicationCredentialSecret (ins_Auth (ins_Spec cr))} - {''''} \<or>
       src \<in> tr_Name ` set_option (ins_TopologyRef (ins_Spec cr))}"
  unfolding inspectorFindObjectsForSrc_def indexedRequests_selectBy
  by (rule arg_cong [of _ _ "image _"])
    (auto simp: references_def ironicInspectorWatchFields_def inspectorIndex_def index_sets Let_def)

end
