(* ===== verification/ServiceLemmas.thy ===== *)
theory ServiceLemmas
  imports Watches IronicProps
begin

text \<open>
  What the shared steps of the sub-resources' controllers keep. The contract of
  the records \<open>service\<close> and \<open>transportView\<close> are the locales \<open>service_view\<close> and
  \<open>transport_view\<close>: writing one part of the status leaves the applied input
  hash, the metadata and the spec alone. They are interpreted on the four
  controllers.
\<close>

section \<open>Calls and functions\<close>

lemma leaves_checked [keeps]: "leaves F m \<Longrightarrow> leaves F (checked m)"
  unfolding checked_def by (intro keeps; simp)

lemma emits_checked [keeps]: "emits A m \<Longrightarrow> emits A (checked m)"
  unfolding checked_def by (intro keeps; simp)

lemma leaves_askService [keeps]: "leaves F (askService c f)"
  by (simp add: askService_def keeps)

lemma emits_askService [keeps]: "A (OnService c) \<Longrightarrow> emits A (askService c f)"
  by (simp add: askService_def keeps)

lemma leaves_orPanic [keeps]: "leaves F (orPanic r)"
  unfolding orPanic_def by (intro keeps; simp)

lemma emits_orPanic [keeps]: "emits A (orPanic r)"
  unfolding orPanic_def by (intro keeps; simp)

lemma leaves_orErr [keeps]: "leaves F m \<Longrightarrow> (\<And>x. leaves F (f x)) \<Longrightarrow> leaves F (orErr envVars m f)"
  unfolding orErr_def by (intro keeps; simp)

lemma emits_orErr [keeps]: "emits A m \<Longrightarrow> (\<And>x. emits A (f x)) \<Longrightarrow> emits A (orErr envVars m f)"
  unfolding orErr_def by (intro keeps; simp)

lemma leaves_getLog [keeps]: "leaves F getLog"
  by (simp add: leaves_def getLog_def)

lemma emits_getLog [keeps]: "emits A getLog"
  by (simp add: emits_def getLog_def)

lemma leaves_tvCreateOrUpdate [keeps]: "leaves F (tvCreateOrUpdate V E i suffix cfg)"
  unfolding tvCreateOrUpdate_def by (rule leaves_createOrUpdate)

lemma emits_tvCreateOrUpdate [keeps]:
  "(\<And>n ns. A (Fetch ''TransportURL'' n ns)) \<Longrightarrow> (\<And>tu. A (StoreTransportURL tu)) \<Longrightarrow>
     emits A (tvCreateOrUpdate V E i suffix cfg)"
  unfolding tvCreateOrUpdate_def by (rule emits_createOrUpdate) simp_all

interpretation service_transport: transport_creator "tvCreateOrUpdate V E i" for V :: "'o service" and E i
proof
  show "leaves (\<lambda>i. i) (tvCreateOrUpdate V E i suffix cfg)" for suffix cfg
    by (rule leaves_tvCreateOrUpdate)
  show "emits transportCall (tvCreateOrUpdate V E i suffix cfg)" for suffix cfg
    by (rule emits_tvCreateOrUpdate) (simp_all add: transportCall_def)
  show "\<exists>r. fst (tvCreateOrUpdate V E i suffix cfg s) = Continue r" for suffix cfg s
    unfolding tvCreateOrUpdate_def by (rule createOrUpdate_continues)
qed

section \<open>Calm steps\<close>

text \<open>The calls that let go of a credential, those that store an instance, those that
  take hold of credentials or prune the rest, and the calls that do none of it.\<close>

fun letsGo :: "call \<Rightarrow> bool" where
  "letsGo (FinalizeSecretRotation _ _ _ _ ready) = ready"
| "letsGo (RemoveSecretConsumerFinalizer _ _ _) = True"
| "letsGo (Delete _ _ _) = True"
| "letsGo _ = False"

fun storesInstance :: "call \<Rightarrow> bool" where
  "storesInstance (StoreIronic _) = True"
| "storesInstance (StoreConductor _) = True"
| "storesInstance (StoreAPI _) = True"
| "storesInstance (StoreInspector _) = True"
| "storesInstance (StoreNeutronAgent _) = True"
| "storesInstance _ = False"

fun takesHold :: "call \<Rightarrow> bool" where
  "takesHold (ManageSecretConsumerFinalizer _ _ _) = True"
| "takesHold (PruneSecretConsumerFinalizers _ _ _) = True"
| "takesHold _ = False"

abbreviation calm :: "call \<Rightarrow> bool" where
  "calm c \<equiv> \<not> letsGo c \<and> \<not> storesInstance c \<and> \<not> takesHold c"

lemma emits_conditions [keeps]:
  "emits A (svSet V L cnd)"
  "emits A (svTrue V L t txt)"
  "emits A (svWarn V L t txts)"
  "emits A (svFail V L E t txt err)"
  unfolding svFail_def svWarn_def svTrue_def svSet_def by (intro keeps; simp)+

text \<open>Every step before the end of a run is calm.\<close>

lemma calm_account [keeps]: "emits calm (svAccount V L E reason severity)"
  unfolding svAccount_def checkParentResourceExist_def checkParentRbacConditions_def reconcileRbac_def
  by (intro keeps; simp)

lemma calm_inputs [keeps]:
  "emits calm (svLabelledSecrets V L E)"
  "emits calm (svPassword V L E vars)"
  "emits calm (svTransport V L E needed n vars)"
  "emits calm (svCaCert V L E missing vars)"
  "emits calm (svCerts V L E tlsOf missing vars)"
  "emits calm (svInputHash V L E changed vars)"
  unfolding svLabelledSecrets_def svPassword_def svTransport_def svVerifySecret_def svCaCert_def svCerts_def
    svInputHash_def svCreateHash_def
  by (intro keeps; simp)+

lemma calm_config [keeps]: "emits calm m \<Longrightarrow> emits calm (svConfig V L E m)"
  unfolding svConfig_def by (intro keeps; simp)

lemma calm_networks [keeps]:
  "emits calm (svNetworks V L E)"
  "emits calm (svTopology V L E)"
  "emits calm (svNetworkStatus V L E labels)"
  unfolding svNetworks_def svTopology_def ensureTopology_def conditionsIn_def svNetworkStatus_def
  by (intro keeps; simp)+

lemma calm_workload [keeps]:
  "emits calm (svStoreWorkload V L E mk wl)"
  unfolding svStoreWorkload_def by (intro keeps; simp)

lemma calm_podObjects [keeps]:
  "emits calm (svEnsureService E podName svc)"
  "emits calm (svEnsureRoute E podName route)"
  unfolding svEnsureService_def svEnsureRoute_def by (intro keeps; simp)+

lemma calm_endpoint [keeps]: "emits calm (exposeEndpoint V L E P tls ov n labels ep acc)"
  unfolding exposeEndpoint_def by (intro keeps; simp)

lemma calm_registration [keeps]: "emits calm (EnsureRegistration L E reg upd)"
  unfolding EnsureRegistration_def by (intro keeps; simp)

lemma calm_inputSecretHash [keeps]: "emits calm (tvInputSecretHash T E n)"
  unfolding tvInputSecretHash_def by (intro keeps; simp)

lemma transport_keeps_hold:
  "emits (\<lambda>c. \<not> letsGo c \<and> \<not> storesInstance c) (tvReconcileTransportURL V T L E)"
  unfolding tvReconcileTransportURL_def tvHold_def ensureNotificationsTransportURL_def conditionsIn_def
  by (intro keeps; simp)

lemma emits_svFinish [keeps]: "emits A (svFinish V L)"
  unfolding svFinish_def svTrue_def by (intro keeps; simp)

lemma calm_letsGo: "emits calm m \<Longrightarrow> emits (\<lambda>c. \<not> letsGo c) m"
  by (erule emits_mono) simp

section \<open>The contract of a service view\<close>

text \<open>\<open>key\<close> is the metadata, the spec and the applied input hash of an instance: the
  part that only \<open>sv_setApplied\<close> and the finalizer steps change.\<close>

definition withApplied :: "string \<Rightarrow> 'm \<times> 's \<times> string \<Rightarrow> 'm \<times> 's \<times> string" where
  "withApplied h k = (fst k, fst (snd k), h)"

locale service_steps =
  fixes V :: "'o service" and key :: "'o \<Rightarrow> 'm \<times> 's \<times> string"
  assumes key_setConditions [simp]: "key (sv_setConditions V c i) = key i"
    and key_setRbac [simp]: "key (sv_RbacConditionsSet V L d i) = key i"
    and key_setReadyCount [simp]: "key (sv_setReadyCount V n i) = key i"
    and key_setNetworks [simp]: "key (sv_setNetworks V ns i) = key i"
    and key_setTopology [simp]: "key (SetLastAppliedTopology (sv_topology V) t i) = key i"
    and key_setApplied [simp]: "key (sv_setApplied V a i) = withApplied a (key i)"
begin

lemma key_updConds [simp]: "key (sv_updConds V f i) = key i"
  by (simp add: sv_updConds_def)

lemma leaves_svSet [keeps]: "leaves key (svSet V L c)"
  by (simp add: svSet_def keeps)

lemma leaves_svTrue [keeps]: "leaves key (svTrue V L t m)"
  by (simp add: svTrue_def keeps)

lemma leaves_svWarn [keeps]: "leaves key (svWarn V L t m)"
  by (simp add: svWarn_def keeps)

lemma leaves_svFail [keeps]: "leaves key (svFail V L E t m err)"
  by (simp add: svFail_def keeps)

lemma leaves_svAccount [keeps]: "leaves key (svAccount V L E reason severity)"
  unfolding svAccount_def checkParentResourceExist_def checkParentRbacConditions_def reconcileRbac_def
  by (intro keeps; simp)

lemma leaves_svLabelledSecrets [keeps]: "leaves key (svLabelledSecrets V L E)"
  unfolding svLabelledSecrets_def by (intro keeps; simp)

lemma leaves_svVerifySecret [keeps]: "leaves key (svVerifySecret V L E name field waiting)"
  unfolding svVerifySecret_def by (intro keeps; simp)

lemma leaves_svPassword [keeps]: "leaves key (svPassword V L E vars)"
  unfolding svPassword_def by (intro keeps; simp)

lemma leaves_svTransport [keeps]: "leaves key (svTransport V L E needed name vars)"
  unfolding svTransport_def by (intro keeps; simp)

lemma leaves_svCaCert [keeps]: "leaves key (svCaCert V L E missing vars)"
  unfolding svCaCert_def by (intro keeps; simp)

lemma leaves_svCerts [keeps]: "leaves key (svCerts V L E tlsOf missing vars)"
  unfolding svCerts_def by (intro keeps; simp)

lemma leaves_svConfig [keeps]: "leaves key m \<Longrightarrow> leaves key (svConfig V L E m)"
  unfolding svConfig_def by (intro keeps; simp)

lemma leaves_svNetworks [keeps]: "leaves key (svNetworks V L E)"
  unfolding svNetworks_def by (intro keeps; simp)

lemma leaves_svTopology [keeps]: "leaves key (svTopology V L E)"
  unfolding svTopology_def ensureTopology_def conditionsIn_def by (intro keeps; simp)

lemma leaves_svStoreWorkload [keeps]: "leaves key (svStoreWorkload V L E mk wl)"
  unfolding svStoreWorkload_def by (intro keeps; simp)

lemma leaves_svNetworkStatus [keeps]: "leaves key (svNetworkStatus V L E labels)"
  unfolding svNetworkStatus_def by (intro keeps; simp)

lemma leaves_svReady [keeps]: "leaves key networks \<Longrightarrow> leaves key (svReady V L E networks h deploy)"
  unfolding svReady_def by (intro keeps; simp)

lemma leaves_svFinish [keeps]: "leaves key (svFinish V L)"
  unfolding svFinish_def by (intro keeps; simp)

lemma leaves_svEnsureService [keeps]: "leaves key (svEnsureService E podName svc)"
  unfolding svEnsureService_def by (intro keeps; simp)

lemma leaves_svEnsureRoute [keeps]: "leaves key (svEnsureRoute E podName route)"
  unfolding svEnsureRoute_def by (intro keeps; simp)

lemma leaves_exposeEndpoint [keeps]: "leaves key (exposeEndpoint V L E P tls ov n labels ep acc)"
  unfolding exposeEndpoint_def by (intro keeps; simp)

end

text \<open>A key that the recorded hash of the inputs is no part of.\<close>

locale service_view = service_steps V key for V :: "'o service" and key :: "'o \<Rightarrow> 'm \<times> 's \<times> string" +
  assumes key_setHash [simp]: "key (sv_setHash V h i) = key i"
begin

lemma leaves_svInputHash [keeps]: "leaves key (svInputHash V L E changed vars)"
  unfolding svInputHash_def svCreateHash_def by (intro keeps; simp)

end

text \<open>The transport secrets of the status.\<close>

locale transport_view = service_view V key for V :: "'o service" and key :: "'o \<Rightarrow> 'm \<times> 's \<times> string" +
  fixes T :: "'o transportView"
  assumes key_setSecret [simp]: "key (tv_setSecret T s i) = key i"
    and key_setNotif [simp]: "key (tv_setNotif T n i) = key i"
    and Secret_setSecret [simp]: "tv_Secret T (tv_setSecret T s i) = s"
    and Notif_setNotif [simp]: "tv_Notif T (tv_setNotif T n i) = n"
    and Secret_setNotif [simp]: "tv_Secret T (tv_setNotif T n i) = tv_Secret T i"
    and Notif_setSecret [simp]: "tv_Notif T (tv_setSecret T s i) = tv_Notif T i"
begin

lemma leaves_tvHold [keeps]: "leaves key (tvHold V T E name)"
  unfolding tvHold_def by (intro keeps; simp)

lemma leaves_tvReconcileTransportURL [keeps]: "leaves key (tvReconcileTransportURL V T L E)"
  unfolding tvReconcileTransportURL_def ensureNotificationsTransportURL_def conditionsIn_def
  by (intro keeps; simp)

lemma leaves_tvInputSecretHash [keeps]: "leaves key (tvInputSecretHash T E name)"
  unfolding tvInputSecretHash_def by (intro keeps; simp)

lemma leaves_tvRotate [keeps]: "leaves key (tvRotate V T E new oldNotif notif ready)"
  unfolding tvRotate_def tvRotateNotif_def by (intro keeps; simp)

end

section \<open>The four controllers\<close>

definition conductorKey :: "IronicConductor \<Rightarrow> ObjectMeta \<times> IronicConductorSpec \<times> string" where
  "conductorKey i = (con_Meta i, con_Spec i, cst_AppliedInputSecretHash (con_Status i))"

definition apiKey :: "IronicAPI \<Rightarrow> ObjectMeta \<times> IronicAPISpec \<times> string" where
  "apiKey i = (api_Meta i, api_Spec i, ast_AppliedInputSecretHash (api_Status i))"

definition agentKey :: "IronicNeutronAgent \<Rightarrow> ObjectMeta \<times> IronicNeutronAgentSpec \<times> string" where
  "agentKey i = (na_Meta i, na_Spec i, nst_AppliedInputSecretHash (na_Status i))"

definition inspectorKey :: "IronicInspector \<Rightarrow> ObjectMeta \<times> IronicInspectorSpec \<times> string" where
  "inspectorKey i = (ins_Meta i, ins_Spec i, ist_AppliedInputSecretHash (ins_Status i))"

interpretation conductor: service_view conductorService conductorKey
  by unfold_locales
    (simp_all add: conductorService_def withApplied_def conductorKey_def IronicConductor_RbacConditionsSet_def
      IronicConductor_updConds_def IronicConductor_topology_def)

interpretation api: service_view apiService apiKey
  by unfold_locales
    (simp_all add: apiService_def withApplied_def apiKey_def IronicAPI_RbacConditionsSet_def IronicAPI_updConds_def
      IronicAPI_topology_def)

interpretation agent: transport_view agentService agentKey agentTransport
  by unfold_locales
    (simp_all add: agentService_def agentTransport_def withApplied_def agentKey_def IronicNeutronAgent_RbacConditionsSet_def
      IronicNeutronAgent_updConds_def IronicNeutronAgent_topology_def)

interpretation inspector: transport_view inspectorService inspectorKey inspectorTransport
  by unfold_locales
    (simp_all add: inspectorService_def inspectorTransport_def withApplied_def inspectorKey_def
      IronicInspector_RbacConditionsSet_def IronicInspector_updConds_def IronicInspector_topology_def)

lemma key_IronicAPI_updConds [simp]: "apiKey (IronicAPI_updConds f i) = apiKey i"
  by (simp add: apiKey_def IronicAPI_updConds_def)

lemma key_IronicInspector_updConds [simp]: "inspectorKey (IronicInspector_updConds f i) = inspectorKey i"
  by (simp add: inspectorKey_def IronicInspector_updConds_def)

lemma inspectorKey_status [simp]:
  "ist_AppliedInputSecretHash st = ist_AppliedInputSecretHash (ins_Status i) \<Longrightarrow>
     inspectorKey (i\<lparr>ins_Status := st\<rparr>) = inspectorKey i"
  by (simp add: inspectorKey_def)

lemma apiKey_status [simp]:
  "ast_AppliedInputSecretHash st = ast_AppliedInputSecretHash (api_Status i) \<Longrightarrow>
     apiKey (i\<lparr>api_Status := st\<rparr>) = apiKey i"
  by (simp add: apiKey_def)

lemma leaves_EnsureRegistration [keeps]:
  "(\<And>f i. F (upd f i) = F i) \<Longrightarrow> leaves F (EnsureRegistration L E reg upd)"
  unfolding EnsureRegistration_def by (intro keeps; simp)

end
