(* ===== verification/Rollout.thy ===== *)
theory Rollout
  imports ServiceLemmas
begin

text \<open>
  The rollout of the workload of a sub-resource, and the common end of the
  controllers' runs: the applied input hash only advances, and credentials are
  only let go, after the rollout.
\<close>

section \<open>The rollout of a workload\<close>

text \<open>The workload was stored, and the object answered.\<close>

definition storedAs :: "env \<Rightarrow> (workload \<Rightarrow> serviceCall) \<Rightarrow> workload \<Rightarrow> observed \<Rightarrow> call list \<Rightarrow> bool" where
  "storedAs E mk wl ob log \<longleftrightarrow> (\<exists>pre post. log = pre @ OnService (mk wl) # post \<and>
     on_CreateOrPatch (services E) pre wl = (emptyResult, None, ob))"

text \<open>The workload was stored, the object answered has its generation observed and
  is ready, and after that the pods were found ready for the inputs.\<close>

definition rolledOutFor :: "env \<Rightarrow> (workload \<Rightarrow> serviceCall) \<Rightarrow> workload \<Rightarrow> string \<Rightarrow> call list \<Rightarrow> bool" where
  "rolledOutFor E mk wl h log \<longleftrightarrow> (\<exists>ob pre mid post.
     log = pre @ OnService (mk wl) # mid @ OnService (IsReadyForInput (ob_Name ob) (ob_Namespace ob) h) # post \<and>
     on_CreateOrPatch (services E) pre wl = (emptyResult, None, ob) \<and>
     ob_Generation ob = ob_ObservedGeneration ob \<and> ob_IsReady ob \<and>
     on_IsReadyForInput (services E) (pre @ OnService (mk wl) # mid) (ob_Name ob) (ob_Namespace ob) h = Inr True)"

lemma grows_storedAs: "grows (storedAs E mk wl ob)"
  unfolding grows_def storedAs_def by (metis append_assoc append_Cons)

lemma grows_rolledOutFor: "grows (rolledOutFor E mk wl h)"
  unfolding grows_def rolledOutFor_def by (metis append_assoc append_Cons)

text \<open>A step that leaves a part alone, and one that only adds to the log as well.\<close>

lemma key_step:
  "leaves F m \<Longrightarrow> valid (\<lambda>s. F (obj s) = k) m (\<lambda>_ s. F (obj s) = k) (\<lambda>_ s. F (obj s) = k)"
  by (rule valid_leaves [where G = "\<lambda>x. x = k"])

lemma key_log_step:
  assumes "leaves F m" and "emits (\<lambda>_. True) m" and "grows G"
  shows "valid (\<lambda>s. F (obj s) = k \<and> G (calls s)) m (\<lambda>_ s. F (obj s) = k \<and> G (calls s)) (\<lambda>_ s. F (obj s) = k)"
  by (rule valid_weaken [OF valid_conj [OF key_step [OF assms(1)] valid_grows [OF assms(2,3)]]]) auto

lemma key_keeps_log:
  assumes "leaves F m" and "emits (\<lambda>_. True) m" and "\<And>x. grows (G x)"
  shows "valid (\<lambda>s. G (F (obj s)) (calls s)) m (\<lambda>_ s. G (F (obj s)) (calls s)) (\<lambda>_ s. G (F (obj s)) (calls s))"
proof -
  have "valid (\<lambda>s. F (obj s) = x \<and> G x (calls s)) m (\<lambda>_ s. F (obj s) = x \<and> G x (calls s))
      (\<lambda>_ s. F (obj s) = x \<and> G x (calls s))" for x
    by (rule valid_conj [OF key_step [OF assms(1)] valid_grows [OF assms(2,3)]])
  then show ?thesis
    unfolding valid_def by (fastforce split: prod.splits step.splits)
qed

lemma valid_bnd_getObj:
  "(\<And>x. F x = k \<Longrightarrow> valid (\<lambda>s. F (obj s) = k) (f x) Q R) \<Longrightarrow> valid (\<lambda>s. F (obj s) = k) (bnd getObj f) Q R"
  by (simp add: valid_def step_simps)

lemma valid_bnd_getObj_quiet:
  "(\<And>x. F x = k \<Longrightarrow> valid (\<lambda>s. F (obj s) = k \<and> C s) (f x) Q R) \<Longrightarrow>
     valid (\<lambda>s. F (obj s) = k \<and> C s) (bnd getObj f) Q R"
  by (simp add: valid_def step_simps)

lemma valid_ex:
  assumes "\<And>x. valid (P x) m Q R"
  shows "valid (\<lambda>s. \<exists>x. P x s) m Q R"
  unfolding valid_def
proof (intro allI impI, elim exE)
  fix s x assume "P x s"
  then show "case m s of (Continue y, s') \<Rightarrow> Q y s' | (Return r, s') \<Rightarrow> R r s'"
    using assms [of x] by (simp add: valid_def)
qed

context service_view begin

lemma valid_apply:
  assumes "leaves key fin" and "emits (\<lambda>_. True) fin" and "grows G"
  shows "valid (\<lambda>s. key (obj s) = k \<and> (ready \<longrightarrow> G (calls s))) (thn (svApply V ready h) fin)
     (\<lambda>_ s. key (obj s) = k \<or> key (obj s) = withApplied h k \<and> G (calls s))
     (\<lambda>_ s. key (obj s) = k \<or> key (obj s) = withApplied h k \<and> G (calls s))"
proof (rule valid_thn)
  let ?J = "\<lambda>x log. x = k \<or> x = withApplied h k \<and> G log"
  show "valid (\<lambda>s. key (obj s) = k \<and> (ready \<longrightarrow> G (calls s))) (svApply V ready h)
      (\<lambda>_ s. ?J (key (obj s)) (calls s)) (\<lambda>_ s. ?J (key (obj s)) (calls s))"
    by (auto simp: valid_def svApply_def whenM_def step_simps)
  show "valid (\<lambda>s. ?J (key (obj s)) (calls s)) fin (\<lambda>_ s. ?J (key (obj s)) (calls s))
      (\<lambda>_ s. ?J (key (obj s)) (calls s))"
    by (rule key_keeps_log [OF assms(1,2)]) (use assms(3) in \<open>auto simp: grows_def\<close>)
qed

lemma valid_svStoreWorkload:
  "valid (\<lambda>s. key (obj s) = k) (svStoreWorkload V L E mk wl)
     (\<lambda>ob s. key (obj s) = k \<and> storedAs E mk wl ob (calls s)) (\<lambda>_ s. key (obj s) = k)"
  by (auto simp: valid_def svStoreWorkload_def askService_def step_simps svSet_def storedAs_def
      split: prod.splits option.splits)

lemma valid_svReady:
  assumes "leaves key networks" and "emits (\<lambda>_. True) networks"
  shows "valid (\<lambda>s. key (obj s) = k \<and> storedAs E mk wl ob (calls s)) (svReady V L E networks h ob)
     (\<lambda>ready s. key (obj s) = k \<and> (ready \<longrightarrow> rolledOutFor E mk wl h (calls s))) (\<lambda>_ s. key (obj s) = k)"
proof (cases "ob_Generation ob = ob_ObservedGeneration ob")
  case True
  let ?I = "\<lambda>s. key (obj s) = k \<and> storedAs E mk wl ob (calls s)"
  have set: "valid ?I (modObj (sv_setReadyCount V (ob_ReadyReplicas ob))) (\<lambda>_. ?I) (\<lambda>_ s. key (obj s) = k)"
    by (rule valid_modObj) simp
  have check: "valid ?I
      (if ob_IsReady ob then getOrFail (askService (IsReadyForInput (ob_Name ob) (ob_Namespace ob) h)
          (\<lambda>cs. on_IsReadyForInput (services E) cs (ob_Name ob) (ob_Namespace ob) h)) else ret False)
      (\<lambda>ready s. key (obj s) = k \<and> (ready \<longrightarrow> rolledOutFor E mk wl h (calls s))) (\<lambda>_ s. key (obj s) = k)"
    using True
    by (auto simp: valid_def getOrFail_def askService_def step_simps storedAs_def rolledOutFor_def
        split: sum.splits) blast
  have finish: "valid (\<lambda>s. key (obj s) = k \<and> (ready \<longrightarrow> rolledOutFor E mk wl h (calls s)))
      (thn (if ready then svTrue V L ''DeploymentReadyCondition'' ''DeploymentReadyMessage''
             else svSet V L (requestedCondition L ''DeploymentReadyCondition'' ''DeploymentReadyRunningMessage''))
            (ret ready))
      (\<lambda>ready s. key (obj s) = k \<and> (ready \<longrightarrow> rolledOutFor E mk wl h (calls s))) (\<lambda>_ s. key (obj s) = k)" for ready
    by (auto simp: valid_def step_simps svTrue_def svSet_def)
  show ?thesis
    unfolding svReady_def if_P [OF True]
    by (intro valid_thn [OF set] valid_thn [OF key_log_step [OF assms grows_storedAs]]
        valid_bnd [OF check] finish)
qed (auto simp: svReady_def valid_def step_simps)

end

text \<open>The end of a reconcile: the part \<open>x\<close> of the object is as it was, or changed
  after \<open>G\<close>, and no call with \<open>R\<close> was made before \<open>G\<close>.\<close>

definition applied :: "'k \<Rightarrow> 'k \<Rightarrow> (call \<Rightarrow> bool) \<Rightarrow> (call list \<Rightarrow> bool) \<Rightarrow> 'k \<Rightarrow> call list \<Rightarrow> bool" where
  "applied k k' R G x log \<longleftrightarrow> (x = k \<or> x = k' \<and> G log) \<and> guards R G log"

lemma quietly:
  assumes "valid P m Q (\<lambda>_ s. F (obj s) = k)" and "emits (\<lambda>c. \<not> R c) m"
  shows "valid (\<lambda>s. P s \<and> quiet R s) m (\<lambda>x s. Q x s \<and> quiet R s)
     (\<lambda>_ s. applied k k' R G (F (obj s)) (calls s))"
  by (rule valid_weaken [OF valid_conj [OF assms(1) valid_emits [OF assms(2)]]])
    (auto simp: applied_def intro: guards_quiet)

text \<open>A readier condition of the same rollout.\<close>

lemma applied_mono:
  assumes "applied k k' R G x log" and "\<And>l. G l \<Longrightarrow> G' l"
  shows "applied k k' R G' x log"
  using assms unfolding applied_def guards_def by blast

lemma quiet_step:
  assumes "leaves F m" and "emits (\<lambda>c. \<not> R c) m"
  shows "valid (\<lambda>s. F (obj s) = k \<and> quiet R s) m (\<lambda>_ s. F (obj s) = k \<and> quiet R s)
     (\<lambda>_ s. applied k k' R G (F (obj s)) (calls s))"
  by (rule quietly [OF key_step [OF assms(1)] assms(2)])

context service_view begin

text \<open>The last part of a reconcile: storing the workload, its readiness, recording
  the applied hash and what follows. Calls with \<open>R\<close> are only made at its end, and
  only when the workload is ready.\<close>

lemma advances:
  assumes store: "valid (\<lambda>s. key (obj s) = k) m
      (\<lambda>ob s. key (obj s) = k \<and> (\<exists>wl. D wl \<and> storedAs E mk wl ob (calls s))) (\<lambda>_ s. key (obj s) = k)"
    and check: "\<And>ob r G. valid (\<lambda>s. key (obj s) = k \<and> (r \<longrightarrow> G s)) (check ob r)
      (\<lambda>r s. key (obj s) = k \<and> (r \<longrightarrow> G s)) (\<lambda>_ s. key (obj s) = k)"
    and keep: "leaves key mid" "leaves key networks" "leaves key late" "\<And>ready. leaves key (fin ready)"
    and calm: "emits (\<lambda>c. \<not> R c) m" "emits (\<lambda>c. \<not> R c) mid" "emits (\<lambda>c. \<not> R c) networks"
      "\<And>ob r. emits (\<lambda>c. \<not> R c) (check ob r)" "emits (\<lambda>c. \<not> R c) late"
    and fin: "\<And>ready. emits (\<lambda>c. R c \<longrightarrow> ready) (fin ready)"
    and service: "\<And>c. \<not> R (OnService c)"
  shows "valid (\<lambda>s. key (obj s) = k \<and> quiet R s)
     (bnd m (\<lambda>ob. thn mid (bnd (svReady V L E networks h ob) (\<lambda>r. bnd (check ob r) (\<lambda>ready.
        thn late (thn (svApply V ready eh) (fin ready)))))))
     (\<lambda>_ s. applied k (withApplied eh k) R (\<lambda>log. \<exists>wl. D wl \<and> rolledOutFor E mk wl h log) (key (obj s)) (calls s))
     (\<lambda>_ s. applied k (withApplied eh k) R (\<lambda>log. \<exists>wl. D wl \<and> rolledOutFor E mk wl h log) (key (obj s)) (calls s))"
  (is "valid _ _ (\<lambda>_. ?J) (\<lambda>_. ?J)")
proof -
  let ?I = "\<lambda>s. key (obj s) = k"
  let ?G = "\<lambda>log. \<exists>wl. D wl \<and> rolledOutFor E mk wl h log"
  let ?S = "\<lambda>ob s. ?I s \<and> (\<exists>wl. D wl \<and> storedAs E mk wl ob (calls s))"
  let ?R = "\<lambda>ready s. ?I s \<and> (ready \<longrightarrow> ?G (calls s))"
  have grows: "grows ?G" "\<And>ob. grows (\<lambda>log. \<exists>wl. D wl \<and> storedAs E mk wl ob log)"
    using grows_rolledOutFor grows_storedAs unfolding grows_def by blast+
  have any: "emits (\<lambda>_. True) n" if "emits (\<lambda>c. Q c) n" for Q and n :: "('o, 'b) sact"
    using that by (rule emits_mono) simp
  have ready: "emits (\<lambda>c. \<not> R c) (svReady V L E networks h ob)" for ob
    unfolding svReady_def svTrue_def svSet_def using calm(3) by (intro keeps; simp add: service)
  have s1: "valid (?S ob) mid (\<lambda>_. ?S ob) (\<lambda>_. ?I)" for ob
    by (rule key_log_step [OF keep(1) any [OF calm(2)] grows(2)])
  have "valid (\<lambda>s. \<exists>wl. D wl \<and> ?I s \<and> storedAs E mk wl ob (calls s)) (svReady V L E networks h ob) ?R (\<lambda>_. ?I)" for ob
    by (intro valid_ex valid_imp valid_weaken [OF valid_svReady [OF keep(2) any [OF calm(3)]]]) auto
  then have s2: "valid (?S ob) (svReady V L E networks h ob) ?R (\<lambda>_. ?I)" for ob
    by (rule valid_pre) blast
  have s3: "valid (?R r) (check ob r) ?R (\<lambda>_. ?I)" for ob r
    by (rule check)
  have s4: "valid (?R ready) late (\<lambda>_. ?R ready) (\<lambda>_. ?I)" for ready
    by (rule key_log_step [OF keep(3) any [OF calm(5)], where G = "\<lambda>log. ready \<longrightarrow> ?G log"])
       (use grows(1) in \<open>auto simp: grows_def\<close>)
  have "emits (\<lambda>c. R c \<longrightarrow> ready) (thn (svApply V ready eh) (fin ready))" for ready
    unfolding svApply_def by (intro keeps fin)
  then have s5: "valid (\<lambda>s. ?R ready s \<and> quiet R s) (thn (svApply V ready eh) (fin ready)) (\<lambda>_. ?J) (\<lambda>_. ?J)" for ready
    by (intro valid_weaken [OF valid_conj [OF valid_apply [OF keep(4) any [OF fin] grows(1)] valid_guards_end [OF _ grows(1)]]])
       (auto simp: applied_def)
  show ?thesis
    by (intro valid_bnd [OF quietly [OF store calm(1)]] valid_thn [OF quietly [OF s1 calm(2)]]
        valid_bnd [OF quietly [OF s2 ready]] valid_bnd [OF quietly [OF s3 calm(4)]]
        valid_thn [OF quietly [OF s4 calm(5)]] s5)
qed

end

end
