(* ===== verification/ServiceProps.thy ===== *)
theory ServiceProps
  imports Rollout
begin

text \<open>
  The properties of the sub-resources' controllers: when the applied input hash
  advances, and when a rotated credential is released.
\<close>

section \<open>The API\<close>

text \<open>A Deployment of the API for the inputs with the given hash.\<close>

definition apiDeploymentFor :: "podLib \<Rightarrow> IronicAPI \<Rightarrow> string \<Rightarrow> workload \<Rightarrow> bool" where
  "apiDeploymentFor P i h wl \<longleftrightarrow> (\<exists>j annotations topology. api_Meta j = api_Meta i \<and> api_Spec j = api_Spec i \<and>
     api_Deployment P j h apiLabels annotations topology = Inr wl)"

lemma leaves_apiInputs [keeps]: "leaves apiKey (apiInputs L E)"
  unfolding apiInputs_def by (intro keeps; simp)

lemma leaves_apiTLS [keeps]: "leaves apiKey (apiTLS L E vars)"
  unfolding apiTLS_def by (intro keeps; simp)

lemma leaves_apiConfig [keeps]: "leaves apiKey (apiConfig L E P vars)"
  unfolding apiConfig_def apiConfigMaps_def apiGetTransportURL_def apiAuthParams_def
  by (intro keeps; simp)

lemma leaves_apiReconcileInit [keeps]: "leaves apiKey (apiReconcileInit L E P labels)"
  unfolding apiReconcileInit_def apiExpose_def by (intro keeps; simp)

lemma valid_apiDeployment:
  "valid (\<lambda>s. apiKey (obj s) = apiKey i) (apiDeployment L E P h annotations topology)
     (\<lambda>ob s. apiKey (obj s) = apiKey i \<and>
        (\<exists>wl. apiDeploymentFor P i h wl \<and> storedAs E CreateOrPatchDeployment wl ob (calls s)))
     (\<lambda>_ s. apiKey (obj s) = apiKey i)"
proof -
  have "valid (\<lambda>s. apiKey (obj s) = apiKey i)
      (case api_Deployment P j h apiLabels annotations topology of
         Inl err \<Rightarrow> svFail apiService L E ''DeploymentReadyCondition'' ''DeploymentReadyErrorMessage'' err
       | Inr depl \<Rightarrow> svStoreWorkload apiService L E CreateOrPatchDeployment depl)
     (\<lambda>ob s. apiKey (obj s) = apiKey i \<and>
        (\<exists>wl. apiDeploymentFor P i h wl \<and> storedAs E CreateOrPatchDeployment wl ob (calls s)))
     (\<lambda>_ s. apiKey (obj s) = apiKey i)" if j: "apiKey j = apiKey i" for j
  proof (cases "api_Deployment P j h apiLabels annotations topology")
    case (Inl err)
    then show ?thesis
      by (auto simp: valid_def svFail_def svSet_def step_simps)
  next
    case (Inr wl)
    then have "apiDeploymentFor P i h wl"
      using j unfolding apiDeploymentFor_def apiKey_def by blast
    with Inr show ?thesis
      by (auto intro!: valid_weaken [OF api.valid_svStoreWorkload])
  qed
  then show ?thesis
    unfolding apiDeployment_def valid_def by (simp add: step_simps)
qed

definition apiRolledOut :: "env \<Rightarrow> podLib \<Rightarrow> IronicAPI \<Rightarrow> call list \<Rightarrow> bool" where
  "apiRolledOut E P i log \<longleftrightarrow>
     (\<exists>h wl. apiDeploymentFor P i h wl \<and> rolledOutFor E CreateOrPatchDeployment wl h log)"

lemma grows_apiRolledOut: "grows (apiRolledOut E P i)"
  using grows_rolledOutFor unfolding grows_def apiRolledOut_def by blast

lemma apiRolledOutI:
  "apiDeploymentFor P i h wl \<Longrightarrow> rolledOutFor E CreateOrPatchDeployment wl h log \<Longrightarrow> apiRolledOut E P i log"
  unfolding apiRolledOut_def by blast

lemma expectedHash_apiKey: "apiKey j = apiKey i \<Longrightarrow> svExpectedHash apiService j = svExpectedHash apiService i"
  by (simp add: svExpectedHash_def apiService_def apiKey_def)

lemma calm_apiSteps [keeps]:
  "emits calm (apiInputs L E)"
  "emits calm (apiTLS L E vars)"
  "emits calm (apiConfig L E P vars)"
  "emits calm (apiReconcileInit L E P labels)"
  unfolding apiInputs_def apiTLS_def apiConfig_def apiConfigMaps_def apiGetTransportURL_def apiAuthParams_def
    apiReconcileInit_def apiExpose_def
  by (intro keeps; simp)+

lemma calm_apiDeployment [keeps]: "emits calm (apiDeployment L E P h annotations topology)"
  unfolding apiDeployment_def by (intro keeps; simp)

abbreviation apiEnd :: "env \<Rightarrow> podLib \<Rightarrow> IronicAPI \<Rightarrow> (IronicAPI, call) st \<Rightarrow> bool" where
  "apiEnd E P i s \<equiv> applied (apiKey i) (withApplied (svExpectedHash apiService i) (apiKey i)) letsGo
     (apiRolledOut E P i) (apiKey (obj s)) (calls s)"

lemma apiReconcileNormal_advances:
  "valid (\<lambda>s. apiKey (obj s) = apiKey i \<and> quiet letsGo s) (apiReconcileNormal L E P)
     (\<lambda>_. apiEnd E P i) (\<lambda>_. apiEnd E P i)"
  (is "valid ?I _ (\<lambda>_. ?J) (\<lambda>_. ?J)")
proof -
  have step: "valid ?I m (\<lambda>_. ?I) (\<lambda>_. ?J)" if "leaves apiKey m" "emits calm m" for m :: "'a aact"
    using quiet_step [OF that(1) calm_letsGo [OF that(2)]] .
  have tail: "valid ?I (bnd (apiDeployment L E P h annotations topology) (\<lambda>deploy.
       bnd (apiReady L E h deploy) (\<lambda>ready.
       thn (svApply apiService ready eh) (svFinish apiService L)))) (\<lambda>_. ?J) (\<lambda>_. ?J)"
    if "eh = svExpectedHash apiService i" for eh h annotations topology
    using api.advances [OF valid_apiDeployment, where check = "\<lambda>_. ret" and mid = "ret ()" and late = "ret ()"
        and fin = "\<lambda>_. svFinish apiService L" and R = letsGo]
    unfolding apiReady_def thn_eq bnd_ret that
    by (rule valid_weaken)
      (auto simp: keeps valid_ret calm_letsGo intro: apiRolledOutI elim!: applied_mono)
  show ?thesis
    unfolding apiReconcileNormal_def apiAccount_def apiInputHash_def apiNetworks_def apiTopology_def Let_def
    by (rule valid_thn [OF step], rule keeps, rule keeps, rule valid_bnd [OF step], rule keeps, rule keeps,
        rule valid_bnd_getObj_quiet,
        rule valid_bnd [OF step], rule keeps, rule keeps, rule valid_bnd [OF step], rule keeps, rule keeps,
        rule valid_bnd [OF step], rule keeps, rule keeps, rule valid_bnd [OF step], rule keeps, rule keeps,
        rule valid_thn [OF step], intro keeps, intro keeps, rule valid_bnd [OF step], rule keeps, rule keeps,
        rule tail, erule expectedHash_apiKey)
qed

section \<open>The conductor\<close>

definition conductorStatefulSetFor :: "podLib \<Rightarrow> IronicConductor \<Rightarrow> string \<Rightarrow> workload \<Rightarrow> bool" where
  "conductorStatefulSetFor P i h wl \<longleftrightarrow> (\<exists>j ingressDomain annotations topology.
     con_Meta j = con_Meta i \<and> con_Spec j = con_Spec i \<and>
     conductor_StatefulSet P j h (conductorLabels ConductorComponent i) ingressDomain annotations topology = Some (Inr wl))"

definition conductorRolledOut :: "env \<Rightarrow> podLib \<Rightarrow> IronicConductor \<Rightarrow> call list \<Rightarrow> bool" where
  "conductorRolledOut E P i log \<longleftrightarrow>
     (\<exists>h wl. conductorStatefulSetFor P i h wl \<and> rolledOutFor E CreateOrPatchStatefulSet wl h log)"

lemma conductorRolledOutI:
  "conductorStatefulSetFor P i h wl \<Longrightarrow> rolledOutFor E CreateOrPatchStatefulSet wl h log \<Longrightarrow> conductorRolledOut E P i log"
  unfolding conductorRolledOut_def by blast

lemma expectedHash_conductorKey:
  "conductorKey j = conductorKey i \<Longrightarrow> svExpectedHash conductorService j = svExpectedHash conductorService i"
  by (simp add: svExpectedHash_def conductorService_def conductorKey_def)

lemma labels_conductorKey:
  "conductorKey j = conductorKey i \<Longrightarrow> conductorLabels component j = conductorLabels component i"
  by (simp add: conductorLabels_def conductorKey_def)

lemma leaves_conductorInputs [keeps]: "leaves conductorKey (conductorInputs L E)"
  unfolding conductorInputs_def by (intro keeps; simp)

lemma leaves_conductorTLS [keeps]: "leaves conductorKey (conductorTLS L E vars)"
  unfolding conductorTLS_def by (intro keeps; simp)

lemma leaves_conductorConfig [keeps]: "leaves conductorKey (conductorConfig L E W maskText vars)"
  unfolding conductorConfig_def conductorConfigMaps_def conductorGetTransportURL_def conductorAuthParams_def
  by (intro keeps; simp)

lemma leaves_conductorIngress [keeps]: "leaves F (conductorIngress E)"
  unfolding conductorIngress_def by (intro keeps; simp)

lemma leaves_conductorServices [keeps]: "leaves conductorKey (conductorReconcileServices E labels)"
  unfolding conductorReconcileServices_def conductorPods_def by (intro keeps; simp)

lemma valid_conductorStatefulSet:
  "valid (\<lambda>s. conductorKey (obj s) = conductorKey i)
     (conductorStatefulSet L E P h (conductorLabels ConductorComponent i) ingressDomain annotations topology)
     (\<lambda>ob s. conductorKey (obj s) = conductorKey i \<and>
        (\<exists>wl. conductorStatefulSetFor P i h wl \<and> storedAs E CreateOrPatchStatefulSet wl ob (calls s)))
     (\<lambda>_ s. conductorKey (obj s) = conductorKey i)"
  unfolding conductorStatefulSet_def
proof (rule valid_bnd_getObj)
  fix j assume j: "conductorKey j = conductorKey i"
  show "valid (\<lambda>s. conductorKey (obj s) = conductorKey i)
     (bnd (orPanic (conductor_StatefulSet P j h (conductorLabels ConductorComponent i) ingressDomain annotations topology))
       (svStoreWorkload conductorService L E CreateOrPatchStatefulSet))
     (\<lambda>ob s. conductorKey (obj s) = conductorKey i \<and>
        (\<exists>wl. conductorStatefulSetFor P i h wl \<and> storedAs E CreateOrPatchStatefulSet wl ob (calls s)))
     (\<lambda>_ s. conductorKey (obj s) = conductorKey i)"
  proof (cases "\<exists>wl. conductor_StatefulSet P j h (conductorLabels ConductorComponent i) ingressDomain annotations topology
      = Some (Inr wl)")
    case True
    then obtain wl where wl: "conductor_StatefulSet P j h (conductorLabels ConductorComponent i) ingressDomain
      annotations topology = Some (Inr wl)" by blast
    moreover have "conductorStatefulSetFor P i h wl"
      using j wl unfolding conductorStatefulSetFor_def conductorKey_def by blast
    ultimately show ?thesis
      by (auto simp: orPanic_def step_simps intro!: valid_weaken [OF conductor.valid_svStoreWorkload])
  qed (auto simp: orPanic_def step_simps valid_def split: option.splits sum.splits)
qed

lemma calm_conductorSteps [keeps]:
  "emits calm (conductorInputs L E)"
  "emits calm (conductorTLS L E vars)"
  "emits calm (conductorConfig L E W maskText vars)"
  "emits calm (conductorIngress E)"
  "emits calm (conductorReconcileServices E labels)"
  unfolding conductorInputs_def conductorTLS_def conductorConfig_def conductorConfigMaps_def
    conductorGetTransportURL_def conductorAuthParams_def conductorIngress_def conductorReconcileServices_def
    conductorPods_def
  by (intro keeps; simp)+

lemma calm_conductorStatefulSet [keeps]:
  "emits calm (conductorStatefulSet L E P h labels ingressDomain annotations topology)"
  unfolding conductorStatefulSet_def by (intro keeps; simp)

abbreviation conductorEnd :: "env \<Rightarrow> podLib \<Rightarrow> IronicConductor \<Rightarrow> (IronicConductor, call) st \<Rightarrow> bool" where
  "conductorEnd E P i s \<equiv>
     applied (conductorKey i) (withApplied (svExpectedHash conductorService i) (conductorKey i)) letsGo
       (conductorRolledOut E P i) (conductorKey (obj s)) (calls s)"

lemma conductorReconcileNormal_advances:
  "valid (\<lambda>s. conductorKey (obj s) = conductorKey i \<and> quiet letsGo s) (conductorReconcileNormal L E P W maskText)
     (\<lambda>_. conductorEnd E P i) (\<lambda>_. conductorEnd E P i)"
  (is "valid ?I _ (\<lambda>_. ?J) (\<lambda>_. ?J)")
proof -
  have step: "valid ?I m (\<lambda>_. ?I) (\<lambda>_. ?J)" if "leaves conductorKey m" "emits calm m" for m :: "'a cact"
    using quiet_step [OF that(1) calm_letsGo [OF that(2)]] .
  have tail: "valid ?I
       (bnd (conductorStatefulSet L E P h labels ingressDomain annotations topology) (\<lambda>deploy.
        thn (checked (conductorReconcileServices E labels))
       (bnd (conductorReady L E labels h deploy) (\<lambda>ready.
        thn (svApply conductorService ready eh) (svFinish conductorService L))))) (\<lambda>_. ?J) (\<lambda>_. ?J)"
    if "eh = svExpectedHash conductorService i" and "labels = conductorLabels ConductorComponent i"
    for eh h labels ingressDomain annotations topology
    using conductor.advances [OF valid_conductorStatefulSet, where check = "\<lambda>_. ret" and late = "ret ()"
        and mid = "checked (conductorReconcileServices E labels)"
        and fin = "\<lambda>_. svFinish conductorService L" and R = letsGo]
    unfolding conductorReady_def thn_eq bnd_ret that
    by (rule valid_weaken)
      (auto simp: keeps valid_ret calm_letsGo intro: conductorRolledOutI elim!: applied_mono)
  show ?thesis
    unfolding conductorReconcileNormal_def conductorAccount_def conductorInputHash_def conductorNetworks_def
      conductorTopology_def Let_def
    by (rule valid_thn [OF step], rule keeps, rule keeps, rule valid_bnd [OF step], rule keeps, rule keeps,
        rule valid_bnd_getObj_quiet,
        rule valid_bnd [OF step], rule keeps, rule keeps, rule valid_bnd [OF step], rule keeps, rule keeps,
        rule valid_bnd [OF step], rule keeps, rule keeps, rule valid_bnd [OF step], rule keeps, rule keeps,
        rule valid_bnd [OF step], rule keeps, rule keeps, rule valid_bnd [OF step], rule keeps, rule keeps,
        rule tail, erule expectedHash_conductorKey, erule labels_conductorKey)
qed

section \<open>The neutron agent and the inspector\<close>

definition agentDeploymentFor :: "podLib \<Rightarrow> IronicNeutronAgent \<Rightarrow> string \<Rightarrow> workload \<Rightarrow> bool" where
  "agentDeploymentFor P i h wl \<longleftrightarrow> (\<exists>j topology. na_Meta j = na_Meta i \<and> na_Spec j = na_Spec i \<and>
     agent_Deployment P j h agentLabels topology = wl)"

definition inspectorStatefulSetFor :: "podLib \<Rightarrow> IronicInspector \<Rightarrow> string \<Rightarrow> workload \<Rightarrow> bool" where
  "inspectorStatefulSetFor P i h wl \<longleftrightarrow> (\<exists>j ingressDomain annotations topology.
     ins_Meta j = ins_Meta i \<and> ins_Spec j = ins_Spec i \<and>
     inspector_StatefulSet P j h inspectorLabels ingressDomain annotations topology = Inr wl)"

definition agentRolledOut :: "env \<Rightarrow> podLib \<Rightarrow> IronicNeutronAgent \<Rightarrow> call list \<Rightarrow> bool" where
  "agentRolledOut E P i log \<longleftrightarrow>
     (\<exists>h wl. agentDeploymentFor P i h wl \<and> rolledOutFor E CreateOrPatchDeployment wl h log)"

definition inspectorRolledOut :: "env \<Rightarrow> podLib \<Rightarrow> IronicInspector \<Rightarrow> call list \<Rightarrow> bool" where
  "inspectorRolledOut E P i log \<longleftrightarrow>
     (\<exists>h wl. inspectorStatefulSetFor P i h wl \<and> rolledOutFor E CreateOrPatchStatefulSet wl h log)"

lemma leaves_agentConfigMaps [keeps]: "leaves agentKey (agentReconcileConfigMapsAndSecrets L E n)"
  unfolding agentReconcileConfigMapsAndSecrets_def agentInputs_def agentServiceSecrets_def
    agentGetTransportURL_def
  by (intro keeps; simp)

lemma leaves_inspectorTransport [keeps]: "leaves inspectorKey (inspectorReconcileTransportURL L E)"
  unfolding inspectorReconcileTransportURL_def by (intro keeps; simp)

lemma leaves_inspectorDBinstance [keeps]: "leaves inspectorKey (inspectorDBinstance L E)"
  unfolding inspectorDBinstance_def inspectorDBWaiting_def by (intro keeps; simp)

lemma leaves_inspectorInputs [keeps]: "leaves inspectorKey (inspectorInputs L E n)"
  unfolding inspectorInputs_def by (intro keeps; simp)

lemma leaves_inspectorAuthParams [keeps]: "leaves F (inspectorAuthParams E vars tp)"
  unfolding inspectorAuthParams_def by (intro keeps; simp)

lemma leaves_inspectorConfigMaps [keeps]: "leaves inspectorKey (inspectorConfigMapsAndSecrets L E P W maskText db n)"
  unfolding inspectorConfigMapsAndSecrets_def inspectorServiceSecrets_def inspectorGetTransportURL_def
  by (intro keeps; simp)

lemma leaves_inspectorReconcileInit [keeps]: "leaves inspectorKey (inspectorReconcileInit L E P labels)"
  unfolding inspectorReconcileInit_def inspectorDBsync_def inspectorExpose_def inspectorUsersAndEndpoints_def
  by (intro keeps; simp)

lemma leaves_inspectorServices [keeps]: "leaves inspectorKey (inspectorReconcileServices E labels)"
  unfolding inspectorReconcileServices_def inspectorPods_def by (intro keeps; simp)

lemma leaves_inspectorReleaseAccounts [keeps]: "leaves F (inspectorReleaseAccounts E)"
  unfolding inspectorReleaseAccounts_def by (intro keeps; simp)

lemma calm_agentSteps [keeps]:
  "emits calm (agentReconcileConfigMapsAndSecrets L E n)"
  "emits calm agentReconcileInit"
  unfolding agentReconcileConfigMapsAndSecrets_def agentInputs_def agentServiceSecrets_def agentGetTransportURL_def
    agentReconcileInit_def
  by (intro keeps; simp)+

lemma calm_inspectorSteps [keeps]:
  "emits calm (inspectorDBinstance L E)"
  "emits calm (inspectorConfigMapsAndSecrets L E P W maskText db n)"
  "emits calm (inspectorReconcileInit L E P labels)"
  "emits calm (inspectorReconcileServices E labels)"
  "emits calm (inspectorReleaseAccounts E)"
  unfolding inspectorDBinstance_def inspectorDBWaiting_def inspectorConfigMapsAndSecrets_def inspectorInputs_def inspectorServiceSecrets_def inspectorAuthParams_def
    inspectorGetTransportURL_def inspectorReconcileInit_def inspectorDBsync_def inspectorExpose_def
    inspectorUsersAndEndpoints_def inspectorReconcileServices_def inspectorPods_def inspectorReleaseAccounts_def
  by (intro keeps; simp)+

lemma inspectorTransport_keeps_hold:
  "emits (\<lambda>c. \<not> letsGo c \<and> \<not> storesInstance c) (inspectorReconcileTransportURL L E)"
  unfolding inspectorReconcileTransportURL_def by (intro keeps transport_keeps_hold)

lemma calm_inspectorStatefulSet [keeps]:
  "emits calm (inspectorStatefulSet L E P h labels annotations)"
  unfolding inspectorStatefulSet_def by (intro keeps; simp)

lemma rotate_letsGo: "emits (\<lambda>c. letsGo c \<longrightarrow> ready) (tvRotate V T E new oldNotif notif ready)"
  unfolding tvRotate_def tvRotateNotif_def by (intro keeps; simp)

text \<open>A run that applies the hash of its own transport secrets.\<close>

definition appliedOwn :: "env \<Rightarrow> 'm \<times> 's \<times> string \<Rightarrow> (call list \<Rightarrow> bool) \<Rightarrow> 'm \<times> 's \<times> string \<Rightarrow> call list \<Rightarrow> bool" where
  "appliedOwn E k G x log \<longleftrightarrow>
     (x = k \<or> (\<exists>new notif h. ObjectHash E [new, notif] = Inr h \<and> x = withApplied h k) \<and> G log) \<and> guards letsGo G log"

lemma appliedOwnI:
  "applied k (withApplied h k) letsGo G x log \<Longrightarrow> ObjectHash E [new, notif] = Inr h \<Longrightarrow> appliedOwn E k G x log"
  unfolding applied_def appliedOwn_def by blast

lemma quiet_own_step:
  assumes "leaves F m" and "emits (\<lambda>c. \<not> letsGo c) m"
  shows "valid (\<lambda>s. F (obj s) = k \<and> quiet letsGo s) m (\<lambda>_ s. F (obj s) = k \<and> quiet letsGo s)
     (\<lambda>_ s. appliedOwn E k G (F (obj s)) (calls s))"
  by (rule valid_weaken [OF quiet_step [OF assms]])
    (auto simp: applied_def appliedOwn_def withApplied_def)

lemma valid_tvInputSecretHash:
  assumes "\<And>notif h. ObjectHash E [new, notif] = Inr h \<Longrightarrow> valid P (f (notif, h)) Q R"
    and "\<And>s err. P s \<Longrightarrow> R (emptyResult, Some err) s"
  shows "valid P (bnd (tvInputSecretHash T E new) f) Q R"
  using assms unfolding tvInputSecretHash_def getOrFail_def
  by (auto simp: valid_def step_simps Let_def split: sum.splits)

lemma agentRolledOutI:
  "agentDeploymentFor P i h wl \<Longrightarrow> rolledOutFor E CreateOrPatchDeployment wl h log \<Longrightarrow> agentRolledOut E P i log"
  unfolding agentRolledOut_def by blast

lemma leaves_agentReconcileInit [keeps]: "leaves F agentReconcileInit"
  unfolding agentReconcileInit_def by (rule keeps)

abbreviation agentEnd :: "env \<Rightarrow> podLib \<Rightarrow> IronicNeutronAgent \<Rightarrow> (IronicNeutronAgent, call) st \<Rightarrow> bool" where
  "agentEnd E P i s \<equiv> appliedOwn E (agentKey i) (agentRolledOut E P i) (agentKey (obj s)) (calls s)"

lemma agentTail:
  assumes "ObjectHash E [new, notif] = Inr eh" and "agentKey j = agentKey i"
  shows "valid (\<lambda>s. agentKey (obj s) = agentKey i \<and> quiet letsGo s)
     (bnd (svStoreWorkload agentService L E CreateOrPatchDeployment (agent_Deployment P j h agentLabels topology)) (\<lambda>ob.
      bnd (svReady agentService L E (ret ()) h ob) (\<lambda>ready.
      thn (svApply agentService ready eh) (thn (agentRotate E new oldNotif notif ready) (svFinish agentService L)))))
     (\<lambda>_. agentEnd E P i) (\<lambda>_. agentEnd E P i)"
proof -
  have D: "agentDeploymentFor P i h (agent_Deployment P j h agentLabels topology)"
    using assms(2) unfolding agentDeploymentFor_def agentKey_def by blast
  have store: "valid (\<lambda>s. agentKey (obj s) = agentKey i)
     (svStoreWorkload agentService L E CreateOrPatchDeployment (agent_Deployment P j h agentLabels topology))
     (\<lambda>ob s. agentKey (obj s) = agentKey i \<and>
        (\<exists>wl. agentDeploymentFor P i h wl \<and> storedAs E CreateOrPatchDeployment wl ob (calls s)))
     (\<lambda>_ s. agentKey (obj s) = agentKey i)"
    by (rule valid_weaken [OF agent.valid_svStoreWorkload]) (use D in auto)
  show ?thesis
    using agent.advances [OF store, where check = "\<lambda>_. ret" and mid = "ret ()" and late = "ret ()"
        and fin = "\<lambda>ready. thn (agentRotate E new oldNotif notif ready) (svFinish agentService L)" and R = letsGo]
    unfolding thn_eq bnd_ret
    by (rule valid_weaken)
      (auto simp: keeps valid_ret calm_letsGo agentRotate_def rotate_letsGo
        intro!: appliedOwnI [OF _ assms(1)] intro: agentRolledOutI elim!: applied_mono)
qed

lemma agentReconcileNormal_advances:
  "valid (\<lambda>s. agentKey (obj s) = agentKey i \<and> quiet letsGo s) (agentReconcileNormal L E P)
     (\<lambda>_. agentEnd E P i) (\<lambda>_. agentEnd E P i)"
  (is "valid ?I _ (\<lambda>_. ?J) (\<lambda>_. ?J)")
proof -
  have step: "valid ?I m (\<lambda>_. ?I) (\<lambda>_. ?J)" if "leaves agentKey m" "emits calm m" for m :: "'a nact"
    using quiet_own_step [OF that(1) calm_letsGo [OF that(2)]] .
  have hold: "valid ?I m (\<lambda>_. ?I) (\<lambda>_. ?J)"
    if "leaves agentKey m" "emits (\<lambda>c. \<not> letsGo c \<and> \<not> storesInstance c) m" for m :: "'a nact"
    using quiet_own_step [OF that(1) emits_mono [OF that(2)]] by simp
  have early: "?I s \<Longrightarrow> ?J s" for s
    by (simp add: appliedOwn_def guards_quiet)
  show ?thesis
    unfolding agentReconcileNormal_def agentAccount_def agentReconcileTransportURL_def agentReconcileDeployment_def
      Let_def bnd_assoc
    by (rule valid_thn [OF step], rule keeps, rule keeps, rule valid_bnd_getObj_quiet,
        rule valid_bnd [OF hold], rule keeps, rule transport_keeps_hold, rule valid_tvInputSecretHash, unfold prod.case,
        rule valid_bnd [OF step], rule keeps, rule keeps, rule valid_thn [OF step], intro keeps, intro keeps,
        rule valid_bnd [OF step], rule keeps, rule keeps, rule valid_bnd_getObj_quiet, erule agentTail, assumption,
        rule early)
qed

lemma inspectorRolledOutI:
  "inspectorStatefulSetFor P i h wl \<Longrightarrow> rolledOutFor E CreateOrPatchStatefulSet wl h log \<Longrightarrow> inspectorRolledOut E P i log"
  unfolding inspectorRolledOut_def by blast

abbreviation inspectorEnd :: "env \<Rightarrow> podLib \<Rightarrow> IronicInspector \<Rightarrow> (IronicInspector, call) st \<Rightarrow> bool" where
  "inspectorEnd E P i s \<equiv> appliedOwn E (inspectorKey i) (inspectorRolledOut E P i) (inspectorKey (obj s)) (calls s)"

lemma valid_inspectorStatefulSet:
  "valid (\<lambda>s. inspectorKey (obj s) = inspectorKey i) (inspectorStatefulSet L E P h inspectorLabels annotations)
     (\<lambda>ob s. inspectorKey (obj s) = inspectorKey i \<and>
        (\<exists>wl. inspectorStatefulSetFor P i h wl \<and> storedAs E CreateOrPatchStatefulSet wl ob (calls s)))
     (\<lambda>_ s. inspectorKey (obj s) = inspectorKey i)"
proof -
  let ?I = "\<lambda>s. inspectorKey (obj s) = inspectorKey i"
  let ?Q = "\<lambda>ob s. ?I s \<and> (\<exists>wl. inspectorStatefulSetFor P i h wl \<and> storedAs E CreateOrPatchStatefulSet wl ob (calls s))"
  have store: "valid ?I
     (case inspector_StatefulSet P j h inspectorLabels ingressDomain annotations topology of
        Inl err \<Rightarrow> svFail inspectorService L E ''DeploymentReadyCondition'' ''DeploymentReadyErrorMessage'' err
      | Inr ss \<Rightarrow> svStoreWorkload inspectorService L E CreateOrPatchStatefulSet ss) ?Q (\<lambda>_. ?I)"
    if j: "inspectorKey j = inspectorKey i" for j ingressDomain topology
  proof (cases "inspector_StatefulSet P j h inspectorLabels ingressDomain annotations topology")
    case (Inl err)
    then show ?thesis
      by (auto simp: valid_def svFail_def svSet_def step_simps)
  next
    case (Inr wl)
    then have "inspectorStatefulSetFor P i h wl"
      using j unfolding inspectorStatefulSetFor_def inspectorKey_def by blast
    with Inr show ?thesis
      by (auto intro!: valid_weaken [OF inspector.valid_svStoreWorkload])
  qed
  show ?thesis
    unfolding inspectorStatefulSet_def
    by (rule valid_bnd [OF key_step], rule keeps, rule valid_bnd [OF key_step], rule keeps,
        rule valid_bnd [OF key_step], rule keeps, rule valid_bnd_getObj, erule store)
qed

lemma inspectorTail:
  assumes "ObjectHash E [new, notif] = Inr eh"
  shows "valid (\<lambda>s. inspectorKey (obj s) = inspectorKey i \<and> quiet letsGo s)
     (bnd (inspectorReconcileStatefulSet L E P h inspectorLabels annotations) (\<lambda>ready.
      thn (checked (inspectorReconcileServices E inspectorLabels))
     (thn (inspectorReleaseAccounts E)
     (thn (svApply inspectorService ready eh)
     (thn (inspectorRotate E new oldNotif notif ready) (svFinish inspectorService L))))))
     (\<lambda>_. inspectorEnd E P i) (\<lambda>_. inspectorEnd E P i)"
proof -
  let ?check = "\<lambda>ob ready. if ob_Generation ob = ob_ObservedGeneration ob \<and> \<not> ready
     then exit (requeueAfter (seconds 10), None) else ret ready"
  let ?late = "thn (checked (inspectorReconcileServices E inspectorLabels)) (inspectorReleaseAccounts E)"
  have check: "valid (\<lambda>s. inspectorKey (obj s) = k \<and> (r \<longrightarrow> G s)) (?check ob r)
      (\<lambda>r s. inspectorKey (obj s) = k \<and> (r \<longrightarrow> G s)) (\<lambda>_ s. inspectorKey (obj s) = k)" for k r G ob
    by (simp add: valid_ret valid_exit)
  show ?thesis
    using inspector.advances [where check = ?check and mid = "ret ()" and late = ?late
        and fin = "\<lambda>ready. thn (inspectorRotate E new oldNotif notif ready) (svFinish inspectorService L)" and R = letsGo,
        OF valid_inspectorStatefulSet check]
    unfolding thn_eq bnd_ret inspectorReconcileStatefulSet_def inspectorReady_def bnd_assoc
    by (rule valid_weaken)
      (auto simp: keeps calm_letsGo inspectorRotate_def rotate_letsGo
        intro!: appliedOwnI [OF _ assms(1)] intro: inspectorRolledOutI elim!: applied_mono)
qed

lemma inspectorReconcileNormal_advances:
  "valid (\<lambda>s. inspectorKey (obj s) = inspectorKey i \<and> quiet letsGo s) (inspectorReconcileNormal L E P W maskText)
     (\<lambda>_. inspectorEnd E P i) (\<lambda>_. inspectorEnd E P i)"
  (is "valid ?I _ (\<lambda>_. ?J) (\<lambda>_. ?J)")
proof -
  have step: "valid ?I m (\<lambda>_. ?I) (\<lambda>_. ?J)" if "leaves inspectorKey m" "emits calm m" for m :: "'a insact"
    using quiet_own_step [OF that(1) calm_letsGo [OF that(2)]] .
  have hold: "valid ?I m (\<lambda>_. ?I) (\<lambda>_. ?J)"
    if "leaves inspectorKey m" "emits (\<lambda>c. \<not> letsGo c \<and> \<not> storesInstance c) m" for m :: "'a insact"
    using quiet_own_step [OF that(1) emits_mono [OF that(2)]] by simp
  have early: "?I s \<Longrightarrow> ?J s" for s
    by (simp add: appliedOwn_def guards_quiet)
  show ?thesis
    unfolding inspectorReconcileNormal_def inspectorAccount_def inspectorNetworks_def Let_def
    by (rule valid_thn [OF step], rule keeps, rule keeps, rule valid_bnd_getObj_quiet,
        rule valid_bnd [OF hold], rule keeps, rule inspectorTransport_keeps_hold, rule valid_tvInputSecretHash, unfold prod.case,
        rule valid_bnd [OF step], rule keeps, rule keeps, rule valid_bnd [OF step], rule keeps, rule keeps,
        rule valid_bnd [OF step], rule keeps, rule keeps, rule valid_thn [OF step], intro keeps, intro keeps,
        erule inspectorTail, rule early)
qed

section \<open>The properties\<close>

text \<open>C8. The conductor and the API record an input hash as applied only after their
  rollout: after any run of \<open>reconcileNormal\<close> in any environment the metadata, spec
  and applied hash are what they were, or the applied hash is the one the Ironic
  controller asked for in the annotation, and in the run the workload of this spec
  was stored, answered with its generation observed and ready, and then its pods
  were found ready for the configuration hash that workload was made with. That is a
  second hash, of the inputs the sub-resource itself has read, passed to the pods in their environment: the
  pods are never asked about the hash of the annotation, which is the one recorded.\<close>

theorem applied_hash_after_rollout:
  "(conductorKey (obj (snd (conductorReconcileNormal L E P W maskText \<lparr>obj = c, calls = []\<rparr>))) = conductorKey c \<or>
    conductorKey (obj (snd (conductorReconcileNormal L E P W maskText \<lparr>obj = c, calls = []\<rparr>)))
      = withApplied (svExpectedHash conductorService c) (conductorKey c) \<and>
    conductorRolledOut E P c (calls (snd (conductorReconcileNormal L E P W maskText \<lparr>obj = c, calls = []\<rparr>)))) \<and>
   (apiKey (obj (snd (apiReconcileNormal L E P \<lparr>obj = a, calls = []\<rparr>))) = apiKey a \<or>
    apiKey (obj (snd (apiReconcileNormal L E P \<lparr>obj = a, calls = []\<rparr>)))
      = withApplied (svExpectedHash apiService a) (apiKey a) \<and>
    apiRolledOut E P a (calls (snd (apiReconcileNormal L E P \<lparr>obj = a, calls = []\<rparr>))))"
  using valid_final [OF conductorReconcileNormal_advances, of "\<lparr>obj = c, calls = []\<rparr>" c]
    valid_final [OF apiReconcileNormal_advances, of "\<lparr>obj = a, calls = []\<rparr>" a]
  by (simp add: applied_def)


end
