(* ===== verification/Rotation.thy ===== *)
theory Rotation
  imports ServiceProps Examples
begin

text \<open>
  The transport secrets the neutron agent and the inspector track: the rotation
  at the end of a run refines a small machine on the pair of tracked names, and
  the deletion of an instance releases them.
\<close>

section \<open>Rotation as a machine on the tracked secrets\<close>

text \<open>The tracked names: the transport secret, and that of the notifications when
  there is one.\<close>

type_synonym tracked = "string \<times> string option"

definition tracks :: "'o transportView \<Rightarrow> 'o \<Rightarrow> tracked" where
  "tracks T i = (tv_Secret T i, tv_Notif T i)"

definition track :: "'o transportView \<Rightarrow> tracked \<Rightarrow> 'o \<Rightarrow> 'o" where
  "track T t i = tv_setNotif T (snd t) (tv_setSecret T (fst t) i)"

text \<open>The abstract step. \<open>rot ready old new\<close> is the name tracked after the rotation of
  \<open>old\<close> to \<open>new\<close>.\<close>

definition rotateTracked ::
  "(bool \<Rightarrow> string \<Rightarrow> string \<Rightarrow> string) \<Rightarrow> bool \<Rightarrow> string \<Rightarrow> string \<Rightarrow> string \<Rightarrow> tracked \<Rightarrow> tracked" where
  "rotateTracked rot ready new oldNotif notif t =
     (rot ready (fst t) new,
      if notif \<noteq> '''' then Some (rot ready oldNotif notif)
      else if oldNotif \<noteq> '''' \<and> \<not> ready then Some oldNotif
      else None)"

text \<open>An environment that answers rotations by \<open>rot\<close> and in which releasing, pruning
  and deleting succeed, or find nothing.\<close>

definition rotatesBy :: "env \<Rightarrow> (bool \<Rightarrow> string \<Rightarrow> string \<Rightarrow> string) \<Rightarrow> bool" where
  "rotatesBy E rot \<longleftrightarrow>
     (\<forall>cs ns old new f ready. on_FinalizeSecretRotation E cs ns old new f ready = Inr (rot ready old new)) \<and>
     (\<forall>cs c. on_Finalizer E cs c = None) \<and>
     (\<forall>cs k n ns. on_Delete E cs k n ns = None \<or> (\<exists>err. on_Delete E cs k n ns = Some err \<and> isNotFound E err))"

lemma runs_unit: "runs P m (\<lambda>_. Q) \<Longrightarrow> P s \<Longrightarrow> \<exists>s'. m s = (Continue (), s') \<and> Q s'"
  for m :: "('o, 'c, 'r, unit) act"
  by (erule runsE, assumption) auto

context transport_view begin

lemma tracks_track [simp]: "tracks T (track T t i) = t"
  by (simp add: tracks_def track_def)

lemma tvRotateNotif_refines:
  assumes "rotatesBy E rot"
  shows "runs (\<lambda>s. obj s = i) (tvRotateNotif V T E oldNotif notif ready)
     (\<lambda>_ s. obj s = tv_setNotif T (snd (rotateTracked rot ready new oldNotif notif t)) i)"
proof -
  have del: "isNotFound E err" if "on_Delete E cs k n ns = Some err" for cs k n ns err
    using assms that unfolding rotatesBy_def by (metis option.distinct(1) option.inject)
  have rot: "on_FinalizeSecretRotation E cs ns old new f ready = Inr (rot ready old new)" "on_Finalizer E cs c = None"
    for cs ns old new f ready c
    using assms by (simp_all add: rotatesBy_def)
  show ?thesis
    by (cases "notif = ''''"; cases "oldNotif = ''''"; cases ready)
      (auto simp: valid_def tvRotateNotif_def getOrFail_def finalizeRotation_def orFail_def finalizerCall_def
        rotateTracked_def rot step_simps Let_def dest: del)
qed

text \<open>The detailed rotation is the abstract step; nothing else of the instance changes.\<close>

lemma tvRotate_refines:
  assumes "rotatesBy E rot"
  shows "runs (\<lambda>s. obj s = i) (tvRotate V T E new oldNotif notif ready)
     (\<lambda>_ s. obj s = track T (rotateTracked rot ready new oldNotif notif (tracks T i)) i)"
proof -
  let ?t = "rotateTracked rot ready new oldNotif notif (tracks T i)"
  let ?main = "tv_setSecret T (rot ready (tv_Secret T i) new) i"
  have rot: "on_FinalizeSecretRotation E cs ns old new f ready = Inr (rot ready old new)" "on_Finalizer E cs c = None"
    for cs ns old new f ready c
    using assms by (simp_all add: rotatesBy_def)
  have notif: "runs (\<lambda>s. obj s = ?main) (tvRotateNotif V T E oldNotif notif ready)
      (\<lambda>_ s. obj s = track T ?t i)"
    using tvRotateNotif_refines [OF assms, where new = new and t = "tracks T i" and i = ?main]
    by (simp add: track_def tracks_def rotateTracked_def)
  have prune: "runs (\<lambda>s. obj s = track T ?t i) (bnd getObj (\<lambda>i. orFail (finalizerCall E (c i))))
      (\<lambda>_ s. obj s = track T ?t i)" for c
    by (simp add: valid_def step_simps orFail_def finalizerCall_def rot)
  show ?thesis
    unfolding tvRotate_def
    by (rule valid_bnd [OF valid_getObj [where Q = "\<lambda>j s. j = i \<and> obj s = i"]], simp, rule valid_imp, hypsubst,
        rule valid_bnd [where Q' = "\<lambda>name s. name = rot ready (tv_Secret T i) new \<and> obj s = i"],
        simp add: valid_def getOrFail_def finalizeRotation_def rot step_simps, rule valid_imp, hypsubst,
        rule valid_thn [OF valid_modObj [where Q = "\<lambda>_ s. obj s = ?main"]], simp,
        rule valid_thn [OF notif], rule prune)
qed

end

text \<open>C10. The rotation at the end of a run of the neutron agent and of the inspector refines
  the machine on the tracked names: in an environment that answers rotations by
  \<open>rot\<close> and whose removals succeed it goes on, and the instance differs only in the
  tracked names, which are those of the abstract step \<open>rotateTracked\<close>.\<close>

theorem rotation_refines_tracking:
  assumes "rotatesBy E rot"
  shows "(\<exists>s'. agentRotate E new oldNotif notif ready s = (Continue (), s') \<and>
       obj s' = track agentTransport
         (rotateTracked rot ready new oldNotif notif (tracks agentTransport (obj s))) (obj s)) \<and>
    (\<exists>t'. inspectorRotate E new oldNotif notif ready t = (Continue (), t') \<and>
       obj t' = track inspectorTransport
         (rotateTracked rot ready new oldNotif notif (tracks inspectorTransport (obj t))) (obj t))"
proof
  show "\<exists>s'. agentRotate E new oldNotif notif ready s = (Continue (), s') \<and>
       obj s' = track agentTransport
         (rotateTracked rot ready new oldNotif notif (tracks agentTransport (obj s))) (obj s)"
    unfolding agentRotate_def
    by (rule runs_unit [OF agent.tvRotate_refines [OF assms] refl])
  show "\<exists>t'. inspectorRotate E new oldNotif notif ready t = (Continue (), t') \<and>
       obj t' = track inspectorTransport
         (rotateTracked rot ready new oldNotif notif (tracks inspectorTransport (obj t))) (obj t)"
    unfolding inspectorRotate_def
    by (rule runs_unit [OF inspector.tvRotate_refines [OF assms] refl])
qed

lemma rotateTracked_example:
  "rotateTracked (\<lambda>ready old new. if ready then new else old) False ''new'' ''old'' '''' (tracks agentTransport i)
     = (tv_Secret agentTransport i, Some ''old'')"
  by (simp add: rotateTracked_def tracks_def)

theorem rotation_refines_tracking_witness:
  "(\<exists>s'. agentRotate exampleEnv ''new'' ''old'' '''' False \<lparr>obj = exampleAgentObject, calls = []\<rparr> = (Continue (), s') \<and>
      tracks agentTransport (obj s') =
        (tv_Secret agentTransport exampleAgentObject, Some ''old''))"
proof -
  have "rotatesBy exampleEnv (\<lambda>ready old new. if ready then new else old)"
    by (simp add: rotatesBy_def)
  from rotation_refines_tracking [OF this, of "''new''" "''old''" "''''" False
      "\<lparr>obj = exampleAgentObject, calls = []\<rparr>" "\<lparr>obj = exampleInspectorObject, calls = []\<rparr>", simplified st.select_convs]
  show ?thesis
    by (metis (no_types, lifting) agent.tracks_track rotateTracked_example)
qed

section \<open>What a prune spares\<close>

text \<open>The secrets a log takes hold of, and a log whose prunes spare them all.\<close>

definition taken :: "call list \<Rightarrow> string list" where
  "taken log = concat (map (\<lambda>c. case c of ManageSecretConsumerFinalizer _ n _ \<Rightarrow> [n] | _ \<Rightarrow> []) log)"

definition spared :: "call list \<Rightarrow> bool" where
  "spared log \<longleftrightarrow> list_all (\<lambda>c. case c of
       PruneSecretConsumerFinalizers _ _ keep \<Rightarrow> set (taken log) \<subseteq> set keep | _ \<Rightarrow> True) log"

text \<open>Holding at most \<open>a\<close> and \<open>b\<close>, and pruning only with both kept; holding at most
  \<open>a\<close>, and not pruning.\<close>

fun spares :: "string \<Rightarrow> string \<Rightarrow> call \<Rightarrow> bool" where
  "spares a b (ManageSecretConsumerFinalizer _ n _) \<longleftrightarrow> n = a \<or> n = b"
| "spares a b (PruneSecretConsumerFinalizers _ _ keep) \<longleftrightarrow> {a, b} \<subseteq> set keep"
| "spares a b _ \<longleftrightarrow> True"

fun holdsAtMost :: "string \<Rightarrow> call \<Rightarrow> bool" where
  "holdsAtMost a (ManageSecretConsumerFinalizer _ n _) \<longleftrightarrow> n = a"
| "holdsAtMost a (PruneSecretConsumerFinalizers _ _ _) \<longleftrightarrow> False"
| "holdsAtMost a _ \<longleftrightarrow> True"

lemma calm_spares: "\<not> takesHold c \<Longrightarrow> spares a b c"
  by (cases c) simp_all

lemma holdsAtMost_spares: "holdsAtMost a c \<Longrightarrow> spares a b c"
  by (cases c) simp_all

lemma holdsAtMost_all: "list_all (holdsAtMost a) log \<Longrightarrow> list_all (spares a b) log"
  by (erule list_all_mono, erule holdsAtMost_spares)

lemma calm_holdsAtMost: "\<not> takesHold c \<Longrightarrow> holdsAtMost a c"
  by (cases c) simp_all

lemma spares_taken: "list_all (spares a b) log \<Longrightarrow> set (taken log) \<subseteq> {a, b}"
  by (fastforce simp: taken_def list_all_iff split: call.splits)

lemma spares_spared:
  assumes "list_all (spares a b) log"
  shows "spared log"
  unfolding spared_def list_all_iff
proof
  fix c assume "c \<in> set log"
  then have "spares a b c"
    using assms by (simp add: list_all_iff)
  then show "case c of PruneSecretConsumerFinalizers _ _ keep \<Rightarrow> set (taken log) \<subseteq> set keep | _ \<Rightarrow> True"
    using spares_taken [OF assms] by (auto split: call.split)
qed

lemma spare_step:
  assumes "emits A m" and "\<And>c. A c \<Longrightarrow> spares a b c"
  shows "valid (\<lambda>s. list_all A (calls s)) m (\<lambda>_ s. list_all A (calls s)) (\<lambda>_ s. spared (calls s))"
  using valid_emits [OF assms(1)]
  by (rule valid_weaken) (auto intro: spares_spared list_all_mono assms(2))

lemma calm_step:
  assumes "emits calm m"
  shows "valid (\<lambda>s. list_all (spares a b) (calls s)) m (\<lambda>_ s. list_all (spares a b) (calls s)) (\<lambda>_ s. spared (calls s))"
  by (rule spare_step [OF emits_mono [OF assms]]) (auto intro: calm_spares)

lemma first_step:
  assumes "emits calm m"
  shows "valid (quiet takesHold) m (\<lambda>_. quiet takesHold) (\<lambda>_ s. spared (calls s))"
  by (rule spare_step [OF emits_mono [OF assms], where a = "''''" and b = "''''"]) (auto intro: calm_spares)

context transport_view begin

lemma transport_spares:
  "valid (quiet takesHold) (tvReconcileTransportURL V T L E)
     (\<lambda>new s. list_all (spares new (optText (tv_Notif T (obj s)))) (calls s)) (\<lambda>_ s. spared (calls s))"
  (is "valid ?P _ ?Q ?R")
proof -
  have first: "valid ?P m (\<lambda>_. ?P) ?R" if "emits (\<lambda>c. \<not> takesHold c) m" for m :: "('o, 'a) sact"
    by (rule spare_step [OF that, where a = "''''" and b = "''''"]) (rule calm_spares)
  have hold: "valid (\<lambda>s. list_all (holdsAtMost new) (calls s)) m (\<lambda>_ s. list_all (holdsAtMost new) (calls s)) ?R"
    if "emits (holdsAtMost new) m" for m :: "('o, 'a) sact" and new
    by (rule spare_step [OF that holdsAtMost_spares])
  have create: "emits (\<lambda>c. \<not> takesHold c) (tvCreateOrUpdate V E i suffix cfg)" for i suffix cfg
    by (intro keeps; simp)
  have notif: "emits (holdsAtMost new) (func (ensureNotificationsTransportURL L E bus (tv_setNotif T)
      (tvCreateOrUpdate V E i) (conditionsIn L (sv_updConds V))))" for new bus i
    unfolding ensureNotificationsTransportURL_def conditionsIn_def by (intro keeps; simp)
  have last: "valid (\<lambda>s. list_all (holdsAtMost new) (calls s)) (bnd getObj (\<lambda>i.
        let n = optText (tv_Notif T i) in thn (whenM (n \<noteq> '''') (tvHold V T E n)) (ret new))) ?Q ?R" for new
  proof (rule valid_bnd [where Q' = "\<lambda>i s. obj s = i \<and> list_all (holdsAtMost new) (calls s)"])
    show "valid (\<lambda>s. obj s = i \<and> list_all (holdsAtMost new) (calls s))
       (let n = optText (tv_Notif T i) in thn (whenM (n \<noteq> '''') (tvHold V T E n)) (ret new)) ?Q ?R" for i
      by (auto simp: valid_def tvHold_def orFail_def finalizerCall_def whenM_def step_simps Let_def split: option.split
          intro!: spares_spared [where a = new and b = "optText (tv_Notif T i)"] intro: holdsAtMost_all)
  qed (rule valid_getObj, simp)
  have empty: "valid ?P (thn (svSet V L cnd) (ret '''')) ?Q ?R" for cnd
    by (auto simp: valid_def svSet_def step_simps intro: list_all_mono calm_spares)
  have held: "valid ?P (thn (tvHold V T E new) (thn (modObj f) (thn (svTrue V L t msg)
      (bnd (func (ensureNotificationsTransportURL L E bus (tv_setNotif T) (tvCreateOrUpdate V E i)
          (conditionsIn L (sv_updConds V)))) (\<lambda>(result, err).
       if err \<noteq> None \<or> RequeueAfter result > 0 then exit (result, err)
       else bnd getObj (\<lambda>i. let n = optText (tv_Notif T i) in
         thn (whenM (n \<noteq> '''') (tvHold V T E n)) (ret new))))))) ?Q ?R" for new f t msg bus i
    apply (rule valid_pre [where P' = "\<lambda>s. list_all (holdsAtMost new) (calls s)"])
     apply (rule valid_thn, rule hold, unfold tvHold_def, intro keeps, simp, fold tvHold_def)
     apply (rule valid_thn, rule hold, intro keeps, rule valid_thn, rule hold, intro keeps)
     apply (rule valid_bnd, rule hold, rule notif, rule valid_prod, rule valid_if)
      apply (rule valid_exit, auto intro: spares_spared list_all_mono holdsAtMost_spares)[1]
     apply (rule last)
    apply (auto intro: list_all_mono calm_holdsAtMost)
    done
  show ?thesis
    unfolding tvReconcileTransportURL_def
    apply (rule valid_bnd, rule first, rule keeps, rule valid_bnd, rule first, rule create, rule valid_sum)
     apply (auto simp: valid_def svFail_def svSet_def step_simps intro!: spares_spared intro: list_all_mono calm_spares)[1]
    apply (rule valid_prod, rule valid_let, rule valid_if, rule empty, rule held)
    done
qed

end

context transport_view begin

lemma hash_spares:
  "valid (\<lambda>s. list_all (spares new (optText (tv_Notif T (obj s)))) (calls s)) (tvInputSecretHash T E new)
     (\<lambda>(notif, h) s. list_all (spares new notif) (calls s)) (\<lambda>_ s. spared (calls s))"
  by (auto simp: valid_def tvInputSecretHash_def getOrFail_def step_simps Let_def spares_spared split: sum.splits)

end

lemma calm_svReady [keeps]: "emits calm networks \<Longrightarrow> emits calm (svReady V L E networks h ob)"
  unfolding svReady_def by (intro keeps; simp)

lemma calm_svApply [keeps]: "emits A (svApply V ready h)"
  unfolding svApply_def by (intro keeps)

lemma rotate_spares:
  "valid (\<lambda>s. list_all (spares new notif) (calls s))
     (thn (tvRotate V T E new oldNotif notif ready) (svFinish W L)) (\<lambda>_ s. spared (calls s)) (\<lambda>_ s. spared (calls s))"
proof -
  have "emits (spares new notif) (thn (tvRotate V T E new oldNotif notif ready) (svFinish W L))"
    unfolding tvRotate_def tvRotateNotif_def by (intro keeps; simp)
  from valid_emits [OF this] show ?thesis
    by (rule valid_weaken) (auto intro: spares_spared)
qed

lemma calm_agentDeployment [keeps]: "emits calm (agentReconcileDeployment L E P h labels)"
  unfolding agentReconcileDeployment_def by (intro keeps; simp)

lemma calm_inspectorReconcileStatefulSet [keeps]:
  "emits calm (inspectorReconcileStatefulSet L E P h labels annotations)"
  unfolding inspectorReconcileStatefulSet_def inspectorReady_def by (intro keeps; simp)

lemma agentReconcileNormal_spares:
  "valid (quiet takesHold) (agentReconcileNormal L E P) (\<lambda>_ s. spared (calls s)) (\<lambda>_ s. spared (calls s))"
  unfolding agentReconcileNormal_def agentAccount_def agentReconcileTransportURL_def agentRotate_def Let_def
  by (rule valid_thn [OF first_step], rule keeps, rule valid_bnd [OF first_step], rule keeps,
      rule valid_bnd [OF agent.transport_spares], rule valid_bnd [OF agent.hash_spares], rule valid_prod,
      hypsubst, unfold prod.case, rule valid_bnd [OF calm_step], rule keeps, rule valid_thn [OF calm_step], intro keeps,
      rule valid_bnd [OF calm_step], rule keeps, rule valid_thn [OF calm_step], rule keeps, rule rotate_spares)

lemma inspectorTransport_spares:
  "valid (quiet takesHold) (inspectorReconcileTransportURL L E)
     (\<lambda>new s. list_all (spares new (optText (tv_Notif inspectorTransport (obj s)))) (calls s)) (\<lambda>_ s. spared (calls s))"
  unfolding inspectorReconcileTransportURL_def
proof (rule valid_bnd [OF first_step], rule keeps, rule valid_if [OF inspector.transport_spares])
  show "valid (quiet takesHold)
     (thn (modObj (\<lambda>i. i\<lparr>ins_Status := (ins_Status i)\<lparr>ist_TransportURLSecret := '''', ist_NotificationsURLSecret := None\<rparr>\<rparr>))
       (thn (svTrue inspectorService L t msg) (ret '''')))
     (\<lambda>new s. list_all (spares new (optText (tv_Notif inspectorTransport (obj s)))) (calls s)) (\<lambda>_ s. spared (calls s))" for t msg
    by (auto simp: valid_def svTrue_def step_simps intro: list_all_mono calm_spares)
qed

lemma inspectorReconcileNormal_spares:
  "valid (quiet takesHold) (inspectorReconcileNormal L E P W maskText) (\<lambda>_ s. spared (calls s)) (\<lambda>_ s. spared (calls s))"
  unfolding inspectorReconcileNormal_def inspectorAccount_def inspectorNetworks_def inspectorRotate_def Let_def
  by (rule valid_thn [OF first_step], rule keeps, rule valid_bnd [OF first_step], rule keeps,
      rule valid_bnd [OF inspectorTransport_spares], rule valid_bnd [OF inspector.hash_spares], rule valid_prod,
      hypsubst, unfold prod.case, rule valid_bnd [OF calm_step], rule keeps, rule valid_bnd [OF calm_step], rule keeps,
      rule valid_bnd [OF calm_step], rule keeps, rule valid_thn [OF calm_step], intro keeps,
      rule valid_bnd [OF calm_step], rule keeps, rule valid_thn [OF calm_step], intro keeps,
      rule valid_thn [OF calm_step], rule keeps, rule valid_thn [OF calm_step], rule keeps, rule rotate_spares)

text \<open>C11. A transport secret in use is never pruned: in every run of the neutron agent and
  of the inspector, whatever the environment answers, each prune of consumer
  finalizers keeps every secret the run took hold of.\<close>

theorem own_secrets_in_use_kept:
  "spared (calls (snd (agentReconcileNormal L E P \<lparr>obj = a, calls = []\<rparr>))) \<and>
   spared (calls (snd (inspectorReconcileNormal L E P W maskText \<lparr>obj = i, calls = []\<rparr>)))"
  using valid_final [OF agentReconcileNormal_spares, of "\<lparr>obj = a, calls = []\<rparr>"]
    valid_final [OF inspectorReconcileNormal_spares, of "\<lparr>obj = i, calls = []\<rparr>"]
  by simp

section \<open>Deletion\<close>

text \<open>A computation that leaves the instance alone and only ends early with an error.\<close>

definition safeStep :: "'o \<Rightarrow> ('o, 'a) sact \<Rightarrow> bool" where
  "safeStep i m \<longleftrightarrow> valid (\<lambda>s. obj s = i) m (\<lambda>_ s. obj s = i) (\<lambda>r s. obj s = i \<and> snd r \<noteq> None)"

text \<open>A transport URL was looked up, and its secret released if there was one.\<close>

definition releasedLive :: "env \<Rightarrow> string \<Rightarrow> string \<Rightarrow> call list \<Rightarrow> string \<Rightarrow> bool" where
  "releasedLive E ns fin log n \<longleftrightarrow> (\<exists>pre post. log = pre @ Fetch ''TransportURL'' n ns # post \<and>
     (case cr_Get (tus E) pre n ns of
        Inl err \<Rightarrow> isNotFound E err
      | Inr tu \<Rightarrow> RemoveSecretConsumerFinalizer ns (tu_StatusSecretName tu) fin \<in> set post))"

text \<open>Every secret the instance may hold was released: the tracked ones and those of
  its two transport URLs.\<close>

definition transportReleased :: "'o service \<Rightarrow> 'o transportView \<Rightarrow> env \<Rightarrow> 'o \<Rightarrow> call list \<Rightarrow> bool" where
  "transportReleased V T E i log \<longleftrightarrow>
     RemoveSecretConsumerFinalizer (sv_ns V i) (tv_Secret T i) (tv_finalizer T) \<in> set log \<and>
     (case tv_Notif T i of None \<Rightarrow> True
      | Some n \<Rightarrow> RemoveSecretConsumerFinalizer (sv_ns V i) n (tv_finalizer T) \<in> set log) \<and>
     list_all (releasedLive E (sv_ns V i) (tv_finalizer T) log)
       [Name (sv_Meta V i) @ ''-transport'', Name (sv_Meta V i) @ ''-transport-notifications'']"

lemma releasedLiveI:
  "log = pre @ Fetch ''TransportURL'' n ns # post \<Longrightarrow>
     (case cr_Get (tus E) pre n ns of
        Inl err \<Rightarrow> isNotFound E err
      | Inr tu \<Rightarrow> RemoveSecretConsumerFinalizer ns (tu_StatusSecretName tu) fin \<in> set post) \<Longrightarrow>
     releasedLive E ns fin log n"
  unfolding releasedLive_def by blast

lemma valid_releaseAll:
  "valid (\<lambda>s. obj s = i \<and> calls s = log) (foreach names () (\<lambda>n _. orFail (finalizerCall E (RemoveSecretConsumerFinalizer ns n fin))))
     (\<lambda>_ s. obj s = i \<and> calls s = log @ map (\<lambda>n. RemoveSecretConsumerFinalizer ns n fin) names)
     (\<lambda>r s. obj s = i \<and> snd r \<noteq> None)"
  using valid_foreach [where I = "\<lambda>ys _ s. obj s = i \<and> calls s = log @ map (\<lambda>n. RemoveSecretConsumerFinalizer ns n fin) ys"
      and xs = names and acc = "()" and R = "\<lambda>r s. obj s = i \<and> snd r \<noteq> None"
      and f = "\<lambda>n _. orFail (finalizerCall E (RemoveSecretConsumerFinalizer ns n fin))"]
  by (auto simp: valid_def orFail_def finalizerCall_def step_simps split: option.split)

lemma valid_release:
  "valid (\<lambda>s. obj s = i) (tvReleaseTransport V T E)
     (\<lambda>_ s. obj s = i \<and> transportReleased V T E i (calls s)) (\<lambda>r s. obj s = i \<and> snd r \<noteq> None)"
proof -
  let ?ns = "sv_ns V i" and ?name = "Name (sv_Meta V i)"
  let ?names = "[?name @ ''-transport'', ?name @ ''-transport-notifications'']"
  let ?live = "\<lambda>cs n. case cr_Get (tus E) cs n ?ns of Inl _ \<Rightarrow> [] | Inr tu \<Rightarrow> [tu_StatusSecretName tu]"
  let ?Fetch = "\<lambda>n. Fetch ''TransportURL'' n ?ns"
  let ?ok = "\<lambda>cs n. case cr_Get (tus E) cs n ?ns of Inl err \<Rightarrow> isNotFound E err | Inr _ \<Rightarrow> True"
  let ?c0 = "\<lambda>log. log" and ?c1 = "\<lambda>log. log @ [?Fetch (hd ?names)]"
  let ?found = "\<lambda>log. [tv_Secret T i] @ ?live log (hd ?names) @ ?live (?c1 log) (?names ! 1)"
  have fetch: "valid (\<lambda>s. obj s = i \<and> calls s = log)
      (foreach ?names [tv_Secret T i] (\<lambda>tuName acc.
        bnd (ask (?Fetch tuName) (\<lambda>cs. cr_Get (tus E) cs tuName ?ns)) (\<lambda>got.
        case got of Inl err \<Rightarrow> if isNotFound E err then ret acc else exit (emptyResult, Some err)
        | Inr tu \<Rightarrow> ret (acc @ [tu_StatusSecretName tu]))))
      (\<lambda>r s. (r = ?found log \<and> ?ok log (hd ?names) \<and> ?ok (?c1 log) (?names ! 1)) \<and>
         obj s = i \<and> calls s = ?c1 log @ [?Fetch (?names ! 1)])
      (\<lambda>r s. obj s = i \<and> snd r \<noteq> None)" for log
    by (auto simp: valid_def step_simps split: sum.splits)
  have post: "transportReleased V T E i (?c1 log @ [?Fetch (?names ! 1)] @
      map (\<lambda>n. RemoveSecretConsumerFinalizer ?ns n (tv_finalizer T))
        (?found log @ (case tv_Notif T i of None \<Rightarrow> [] | Some s \<Rightarrow> [s])))"
    if "?ok log (hd ?names)" "?ok (?c1 log) (?names ! 1)" for log
  proof -
    let ?log = "?c1 log @ [?Fetch (?names ! 1)] @ map (\<lambda>n. RemoveSecretConsumerFinalizer ?ns n (tv_finalizer T))
        (?found log @ (case tv_Notif T i of None \<Rightarrow> [] | Some s \<Rightarrow> [s]))"
    have "releasedLive E ?ns (tv_finalizer T) ?log (hd ?names)"
      by (rule releasedLiveI [where pre = log]) (use that(1) in \<open>auto split: sum.splits\<close>)
    moreover have "releasedLive E ?ns (tv_finalizer T) ?log (?names ! 1)"
      by (rule releasedLiveI [where pre = "?c1 log"]) (use that(2) in \<open>auto split: sum.splits\<close>)
    ultimately show ?thesis
      by (simp add: transportReleased_def split: option.split)
  qed
  let ?ok2 = "\<lambda>log. ?ok log (hd ?names) \<and> ?ok (?c1 log) (?names ! 1)"
  let ?notif = "case tv_Notif T i of None \<Rightarrow> [] | Some s \<Rightarrow> [s]"
  have release: "valid (\<lambda>s. (r = ?found log \<and> ?ok2 log) \<and> obj s = i \<and> calls s = ?c1 log @ [?Fetch (?names ! 1)])
      (foreach (r @ ?notif) () (\<lambda>n _. orFail (finalizerCall E (RemoveSecretConsumerFinalizer ?ns n (tv_finalizer T)))))
      (\<lambda>_ s. obj s = i \<and> transportReleased V T E i (calls s)) (\<lambda>r s. obj s = i \<and> snd r \<noteq> None)" for r log
  proof (rule valid_imp)
    assume "r = ?found log \<and> ?ok2 log"
    then show "valid (\<lambda>s. obj s = i \<and> calls s = ?c1 log @ [?Fetch (?names ! 1)])
      (foreach (r @ ?notif) () (\<lambda>n _. orFail (finalizerCall E (RemoveSecretConsumerFinalizer ?ns n (tv_finalizer T)))))
      (\<lambda>_ s. obj s = i \<and> transportReleased V T E i (calls s)) (\<lambda>r s. obj s = i \<and> snd r \<noteq> None)"
      by (intro valid_weaken [OF valid_releaseAll]) (use post [of log] in auto)
  qed
  have "valid (\<lambda>s. obj s = i \<and> calls s = log) (tvReleaseTransport V T E)
      (\<lambda>_ s. obj s = i \<and> transportReleased V T E i (calls s)) (\<lambda>r s. obj s = i \<and> snd r \<noteq> None)" for log
    unfolding tvReleaseTransport_def Let_def
    by (rule valid_bnd [OF valid_getObj [where Q = "\<lambda>j s. j = i \<and> obj s = i \<and> calls s = log"]], simp,
        rule valid_imp, hypsubst, rule valid_bnd [OF fetch], rule release)
  then have "valid (\<lambda>s. \<exists>log. obj s = i \<and> calls s = log) (tvReleaseTransport V T E)
      (\<lambda>_ s. obj s = i \<and> transportReleased V T E i (calls s)) (\<lambda>r s. obj s = i \<and> snd r \<noteq> None)"
    by (rule valid_ex)
  then show ?thesis
    by simp
qed

lemma safe_topology: "safeStep i (svReleaseTopology V E)"
  by (auto simp: safeStep_def valid_def svReleaseTopology_def askService_def step_simps Let_def split: prod.splits)

lemma safe_keystone: "safeStep i (releaseKeystone V E kind n)"
  by (auto simp: safeStep_def valid_def releaseKeystone_def askService_def whenM_def step_simps Let_def
      split: sum.splits)

lemma safe_keystoneServices: "safeStep i (inspectorDeleteKeystoneServices E)"
proof -
  have "valid (\<lambda>s. obj s = i) (thn (releaseKeystone inspectorService E k n) (releaseKeystone inspectorService E k' n))
      (\<lambda>_ s. obj s = i) (\<lambda>r s. obj s = i \<and> snd r \<noteq> None)" for k k' n
    by (rule valid_thn; rule safe_keystone [unfolded safeStep_def])
  then show ?thesis
    unfolding safeStep_def inspectorDeleteKeystoneServices_def
    by (intro valid_foreach [where I = "\<lambda>_ _ s. obj s = i"]) (auto split: prod.split)
qed

lemma safe_database: "safeStep i (inspectorDeleteDatabase E)"
  by (auto simp: safeStep_def valid_def inspectorDeleteDatabase_def orFail_def step_simps Let_def
      split: sum.splits option.splits)

lemma safe_thn:
  assumes "safeStep i m" and "valid (\<lambda>s. obj s = i) n Q (\<lambda>r s. obj s = i \<and> snd r \<noteq> None)"
  shows "valid (\<lambda>s. obj s = i) (thn m n) Q (\<lambda>r s. obj s = i \<and> snd r \<noteq> None)"
  by (rule valid_thn [OF assms(1) [unfolded safeStep_def] assms(2)])

lemma valid_at: "valid P m Q R \<Longrightarrow> P s \<Longrightarrow> case m s of (Continue x, s') \<Rightarrow> Q x s' | (Return r, s') \<Rightarrow> R r s'"
  by (simp add: valid_def)

lemma meta_views:
  "sv_Meta agentService a = na_Meta a" "sv_setMeta agentService m a = a\<lparr>na_Meta := m\<rparr>"
  "sv_Meta inspectorService i = ins_Meta i" "sv_setMeta inspectorService m i = i\<lparr>ins_Meta := m\<rparr>"
  by (simp_all add: agentService_def inspectorService_def)

text \<open>The end of a deletion: the transport secrets, then the finalizer.\<close>

lemma valid_releaseAndDrop:
  "valid (\<lambda>s. obj s = i)
     (thn (tvReleaseTransport V T E) (thn (svDropFinalizer V E) (ret (emptyResult, None))))
     (\<lambda>r s. r = (emptyResult, None) \<and> obj s = sv_setMeta V (DropFinalizer E (sv_Meta V i)) i \<and>
        transportReleased V T E i (calls s))
     (\<lambda>r s. obj s = i \<and> snd r \<noteq> None)"
  by (rule valid_thn [OF valid_release]) (auto simp: valid_def svDropFinalizer_def step_simps)

text \<open>C12. Deletion of a neutron agent and of an inspector: when \<open>reconcileDelete\<close> ends early it
  does so with an error and the instance, its finalizer included, is as it was. When
  it comes to its end it has released the tracked transport secrets and looked up
  both transport URLs and released the secrets of those it found, and only then
  dropped the finalizer.\<close>

theorem own_deletion_exact:
  "(case agentReconcileDelete E \<lparr>obj = a, calls = cs\<rparr> of
      (Continue r, s) \<Rightarrow> r = (emptyResult, None) \<and> obj s = a\<lparr>na_Meta := DropFinalizer E (na_Meta a)\<rparr> \<and>
        transportReleased agentService agentTransport E a (calls s)
    | (Return r, s) \<Rightarrow> obj s = a \<and> snd r \<noteq> None) \<and>
   (case inspectorReconcileDelete E \<lparr>obj = i, calls = cs\<rparr> of
      (Continue r, s) \<Rightarrow> r = (emptyResult, None) \<and> obj s = i\<lparr>ins_Meta := DropFinalizer E (ins_Meta i)\<rparr> \<and>
        transportReleased inspectorService inspectorTransport E i (calls s)
    | (Return r, s) \<Rightarrow> obj s = i \<and> snd r \<noteq> None)"
proof
  have "valid (\<lambda>s. obj s = a) (agentReconcileDelete E)
     (\<lambda>r s. r = (emptyResult, None) \<and> obj s = sv_setMeta agentService (DropFinalizer E (sv_Meta agentService a)) a \<and>
        transportReleased agentService agentTransport E a (calls s)) (\<lambda>r s. obj s = a \<and> snd r \<noteq> None)"
    unfolding agentReconcileDelete_def by (rule safe_thn [OF safe_topology valid_releaseAndDrop])
  then show "case agentReconcileDelete E \<lparr>obj = a, calls = cs\<rparr> of
      (Continue r, s) \<Rightarrow> r = (emptyResult, None) \<and> obj s = a\<lparr>na_Meta := DropFinalizer E (na_Meta a)\<rparr> \<and>
        transportReleased agentService agentTransport E a (calls s)
    | (Return r, s) \<Rightarrow> obj s = a \<and> snd r \<noteq> None"
    unfolding meta_views by (rule valid_at) simp
  have "valid (\<lambda>s. obj s = i) (inspectorReconcileDelete E)
     (\<lambda>r s. r = (emptyResult, None) \<and> obj s = sv_setMeta inspectorService (DropFinalizer E (sv_Meta inspectorService i)) i \<and>
        transportReleased inspectorService inspectorTransport E i (calls s)) (\<lambda>r s. obj s = i \<and> snd r \<noteq> None)"
    unfolding inspectorReconcileDelete_def
    by (rule safe_thn [OF safe_keystoneServices safe_thn [OF safe_database safe_thn [OF safe_topology valid_releaseAndDrop]]])
  then show "case inspectorReconcileDelete E \<lparr>obj = i, calls = cs\<rparr> of
      (Continue r, s) \<Rightarrow> r = (emptyResult, None) \<and> obj s = i\<lparr>ins_Meta := DropFinalizer E (ins_Meta i)\<rparr> \<and>
        transportReleased inspectorService inspectorTransport E i (calls s)
    | (Return r, s) \<Rightarrow> obj s = i \<and> snd r \<noteq> None"
    unfolding meta_views by (rule valid_at) simp
qed

end
