(* ===== verification/Entry.thy ===== *)
theory Entry
  imports Rotation
begin

text \<open>
  The entry points of the sub-resources' controllers: how a reconcile ends, and
  that the hash of its inputs settles.
\<close>

section \<open>Storing the instance\<close>

text \<open>The reconcile panicked and stored nothing, or stored the instance as it then is,
  once and after every other call.\<close>

definition endsStored :: "('o \<Rightarrow> call) \<Rightarrow> ret \<Rightarrow> ('o, call) st \<Rightarrow> bool" where
  "endsStored mk res s \<longleftrightarrow> snd res = Some ErrPanic \<and> quiet storesInstance s \<or>
     (\<exists>log. calls s = log @ [mk (obj s)] \<and> list_all (\<lambda>c. \<not> storesInstance c) log)"

lemma svPatch_stores:
  "runs (quiet storesInstance) (svPatch V L E saved res) (endsStored (sv_Store V))"
proof (cases "snd res = Some ErrPanic")
  case True
  then show ?thesis
    by (simp add: svPatch_def valid_def step_simps endsStored_def)
next
  case False
  have mirror: "runs (quiet storesInstance) (whenM b (case m of None \<Rightarrow> ret () | Some c \<Rightarrow> svSet V L c))
      (\<lambda>_. quiet storesInstance)" for b m
    by (auto simp: valid_def svSet_def whenM_def step_simps split: option.split)
  have store: "runs (\<lambda>s. obj s = i \<and> quiet storesInstance s) (bnd (ask (sv_Store V i) f) (\<lambda>r.
      case r of Inl err \<Rightarrow> ret (fst res, Some err) | Inr _ \<Rightarrow> ret res)) (endsStored (sv_Store V))"
    for i and f :: "call list \<Rightarrow> goerr + 'a \<times> opResult"
    by (auto simp: valid_def step_simps endsStored_def split: sum.split)
  show ?thesis
    unfolding svPatch_def if_not_P [OF False]
    by (rule valid_thn [OF valid_modObj [where Q = "\<lambda>_. quiet storesInstance"]], simp,
        rule valid_bnd [OF valid_getObj [where Q = "\<lambda>_. quiet storesInstance"]], simp,
        rule valid_thn [OF mirror],
        rule valid_bnd [OF valid_getObj [where Q = "\<lambda>i s. obj s = i \<and> quiet storesInstance s"]], simp, rule store)
qed

lemma svReconcile_stores:
  assumes "emits (\<lambda>c. \<not> storesInstance c) onDelete" and "emits (\<lambda>c. \<not> storesInstance c) normal"
  shows "runs (quiet storesInstance) (svReconcile V L E initial prepare onDelete normal) (endsStored (sv_Store V))"
proof -
  have "emits (\<lambda>c. \<not> storesInstance c) (svBody V L E initial prepare onDelete normal new)" for new
    unfolding svBody_def by (intro keeps assms)
  from valid_emits [OF this]
  have body: "runs (quiet storesInstance) (func (svBody V L E initial prepare onDelete normal new))
      (\<lambda>_. quiet storesInstance)" for new
    by (rule valid_func)
  show ?thesis
    unfolding svReconcile_def Let_def
    by (rule valid_bnd [OF valid_getObj [where Q = "\<lambda>_. quiet storesInstance"]], simp,
        rule valid_thn [where Q' = "quiet storesInstance"], simp add: valid_def whenM_def step_simps,
        rule valid_bnd [OF body], rule svPatch_stores)
qed

text \<open>No run and no deletion stores an instance.\<close>

lemma calm_stores: "emits calm m \<Longrightarrow> emits (\<lambda>c. \<not> storesInstance c) m"
  by (erule emits_mono) simp

lemma calm_deletion [keeps]:
  "emits calm (svReleaseTopology V E)"
  "emits calm (svDropFinalizer V E)"
  "emits calm (releaseKeystone V E kind n)"
  unfolding svReleaseTopology_def svDropFinalizer_def releaseKeystone_def by (intro keeps; simp)+

lemma conductor_noStore:
  "emits (\<lambda>c. \<not> storesInstance c) (conductorReconcileNormal L E P W maskText)"
  "emits (\<lambda>c. \<not> storesInstance c) (conductorReconcileDelete E)"
  unfolding conductorReconcileNormal_def conductorAccount_def conductorInputHash_def conductorNetworks_def
    conductorTopology_def conductorReady_def conductorReconcileDelete_def
  by (rule calm_stores, intro keeps)+

lemma api_noStore:
  "emits (\<lambda>c. \<not> storesInstance c) (apiReconcileNormal L E P)"
  "emits (\<lambda>c. \<not> storesInstance c) (apiReconcileDelete E)"
  unfolding apiReconcileNormal_def apiAccount_def apiInputHash_def apiNetworks_def
    apiTopology_def apiReady_def apiReconcileDelete_def
  by (rule calm_stores, intro keeps)+

lemma transport_noStore [keeps]:
  "emits (\<lambda>c. \<not> storesInstance c) (tvReconcileTransportURL V T L E)"
  "emits (\<lambda>c. \<not> storesInstance c) (tvRotate V T E new oldNotif notif ready)"
  "emits (\<lambda>c. \<not> storesInstance c) (tvReleaseTransport V T E)"
  subgoal by (rule emits_mono [OF transport_keeps_hold]) simp
  unfolding tvRotate_def tvRotateNotif_def tvReleaseTransport_def by (intro keeps; simp)+

lemma calm_stores' [keeps]: "emits calm m \<Longrightarrow> emits (\<lambda>c. \<not> storesInstance c) (checked m)"
  by (rule emits_checked [OF calm_stores])

lemma agent_noStore:
  "emits (\<lambda>c. \<not> storesInstance c) (agentReconcileNormal L E P)"
  "emits (\<lambda>c. \<not> storesInstance c) (agentReconcileDelete E)"
proof -
  note calm = calm_account [THEN calm_stores] calm_inputSecretHash [THEN calm_stores] calm_agentSteps [THEN calm_stores]
    calm_agentDeployment [THEN calm_stores] calm_deletion [THEN calm_stores]
  show "emits (\<lambda>c. \<not> storesInstance c) (agentReconcileNormal L E P)"
    unfolding agentReconcileNormal_def agentAccount_def agentReconcileTransportURL_def agentRotate_def
    by (intro keeps calm)
  show "emits (\<lambda>c. \<not> storesInstance c) (agentReconcileDelete E)"
    unfolding agentReconcileDelete_def by (intro keeps calm)
qed

lemma inspector_noStore:
  "emits (\<lambda>c. \<not> storesInstance c) (inspectorReconcileNormal L E P W maskText)"
  "emits (\<lambda>c. \<not> storesInstance c) (inspectorReconcileDelete E)"
proof -
  note calm = calm_account [THEN calm_stores] calm_inputSecretHash [THEN calm_stores] calm_inspectorSteps [THEN calm_stores]
    calm_inspectorReconcileStatefulSet [THEN calm_stores] calm_networks [THEN calm_stores] calm_deletion [THEN calm_stores]
  have hold: "emits (\<lambda>c. \<not> storesInstance c) (inspectorReconcileTransportURL L E)"
    by (rule emits_mono [OF inspectorTransport_keeps_hold]) simp
  have database: "emits calm (inspectorDeleteDatabase E)" "emits calm (inspectorDeleteKeystoneServices E)"
    unfolding inspectorDeleteDatabase_def inspectorDeleteKeystoneServices_def by (intro keeps; simp)+
  show "emits (\<lambda>c. \<not> storesInstance c) (inspectorReconcileNormal L E P W maskText)"
    unfolding inspectorReconcileNormal_def inspectorAccount_def inspectorNetworks_def inspectorRotate_def
    by (intro keeps calm hold)
  show "emits (\<lambda>c. \<not> storesInstance c) (inspectorReconcileDelete E)"
    unfolding inspectorReconcileDelete_def by (intro keeps calm database [THEN calm_stores])
qed

text \<open>C13. Every reconcile of a sub-resource goes to its end with a result, and stores its
  instance once, after every other call, as it then is; only a panic stores nothing.\<close>

theorem service_reconciles_store_last:
  "(\<exists>res s. conductorReconcile L E P W maskText \<lparr>obj = c, calls = []\<rparr> = (Continue res, s) \<and> endsStored StoreConductor res s) \<and>
   (\<exists>res s. apiReconcile L E P \<lparr>obj = a, calls = []\<rparr> = (Continue res, s) \<and> endsStored StoreAPI res s) \<and>
   (\<exists>res s. inspectorReconcile L E P W maskText \<lparr>obj = i, calls = []\<rparr> = (Continue res, s) \<and> endsStored StoreInspector res s) \<and>
   (\<exists>res s. agentReconcile L E P \<lparr>obj = n, calls = []\<rparr> = (Continue res, s) \<and> endsStored StoreNeutronAgent res s)"
proof -
  have runs: "\<exists>res s'. m s = (Continue res, s') \<and> endsStored mk res s'"
    if "runs (quiet storesInstance) m (endsStored mk)" and "quiet storesInstance s"
    for m :: "('a, call, ret, ret) act" and mk s
    using runsE [OF that] by metis
  have store: "sv_Store conductorService = StoreConductor" "sv_Store apiService = StoreAPI"
      "sv_Store inspectorService = StoreInspector" "sv_Store agentService = StoreNeutronAgent"
    by (simp_all add: conductorService_def apiService_def inspectorService_def agentService_def)
  show ?thesis
    unfolding conductorReconcile_def apiReconcile_def inspectorReconcile_def agentReconcile_def
    using runs [OF svReconcile_stores [OF conductor_noStore(2,1), where V = conductorService, unfolded store]]
      runs [OF svReconcile_stores [OF api_noStore(2,1), where V = apiService, unfolded store]]
      runs [OF svReconcile_stores [OF inspector_noStore(2,1), where V = inspectorService, unfolded store]]
      runs [OF svReconcile_stores [OF agent_noStore(2,1), where V = agentService, unfolded store]]
    by simp
qed

section \<open>The hash of the inputs\<close>

locale hash_view =
  fixes V :: "'o service"
  assumes Hash_setHash [simp]: "sv_Hash V (sv_setHash V h i) = h"
    and Hash_conditions [simp]: "sv_Hash V (sv_setConditions V c i) = sv_Hash V i"
begin

text \<open>Once a run has recorded the hash of its inputs, a run with the same inputs goes on.\<close>

lemma input_hash_settled:
  assumes "setHash_law E" and "EnvHash E vars = Inr h"
  shows "\<exists>s'. svInputHash V L E changed vars
     (snd (svInputHash V L E changed vars s)) = (Continue h, s')"
proof -
  have again: "SetHash E x n h = (x, False)" if "SetHash E m n h = (x, c)" for m n x c
    using assms(1) that by (auto simp: setHash_law_def split: if_splits)
  show ?thesis
    using assms(2) by (auto simp: svInputHash_def svCreateHash_def step_simps svTrue_def sv_updConds_def Let_def
        dest: again split: prod.splits)
qed

end

interpretation conductor_hash: hash_view conductorService
  by unfold_locales (simp_all add: conductorService_def)

interpretation api_hash: hash_view apiService
  by unfold_locales (simp_all add: apiService_def)

interpretation agent_hash: hash_view agentService
  by unfold_locales (simp_all add: agentService_def)

interpretation inspector_hash: hash_view inspectorService
  by unfold_locales (simp_all add: inspectorService_def)

text \<open>C17. The inputs settle: in each of the four controllers the step that compares the
  hash of the inputs with the recorded one goes on with that hash when it is run
  again on the same inputs, whatever the status was before; so at most one run is
  given up because the inputs changed.\<close>

theorem input_hash_settles:
  assumes "setHash_law E" and "EnvHash E vars = Inr h"
  shows "(\<exists>s'. conductorInputHash L E vars (snd (conductorInputHash L E vars s)) = (Continue h, s')) \<and>
    (\<exists>t'. apiInputHash L E vars (snd (apiInputHash L E vars t)) = (Continue h, t')) \<and>
    (\<exists>u'. svInputHash agentService L E d vars (snd (svInputHash agentService L E d vars u)) = (Continue h, u')) \<and>
    (\<exists>v'. svInputHash inspectorService L E d vars (snd (svInputHash inspectorService L E d vars v)) = (Continue h, v'))"
  unfolding conductorInputHash_def apiInputHash_def
  by (intro conjI conductor_hash.input_hash_settled api_hash.input_hash_settled agent_hash.input_hash_settled
      inspector_hash.input_hash_settled assms)

theorem input_hash_settles_witness:
  "\<exists>u'. svInputHash agentService exampleConds exampleEnv emptyResult Map.empty
     (snd (svInputHash agentService exampleConds exampleEnv emptyResult Map.empty
       \<lparr>obj = exampleAgentObject, calls = []\<rparr>)) = (Continue ''input-hash'', u')"
proof -
  have "setHash_law exampleEnv" "EnvHash exampleEnv Map.empty = Inr ''input-hash''"
    using exampleEnv_laws by simp_all
  from input_hash_settles [OF this] show ?thesis
    by blast
qed

end
