(* ===== verification/Handover.thy ===== *)
theory Handover
  imports ReconcileProps2 Entry
begin

text \<open>
  What a run of the Ironic controller hands to the conductors and the API: one list of
  three secret names, in the spec of each object it stores and, as a hash, in its
  annotation; and the rotations it finalizes are towards secrets of that list.
\<close>

section \<open>The secrets of a sub-resource\<close>

definition conductorSecrets :: "IronicConductor \<Rightarrow> string list" where
  "conductorSecrets c = [cs_TransportURLSecret (con_Spec c), cs_NotificationsURLSecret (con_Spec c),
     ApplicationCredentialSecret (cs_Auth (con_Spec c))]"

definition apiSecrets :: "IronicAPI \<Rightarrow> string list" where
  "apiSecrets a = [as_TransportURLSecret (api_Spec a), as_NotificationsURLSecret (api_Spec a),
     ApplicationCredentialSecret (as_Auth (api_Spec a))]"

text \<open>The environments of one cluster hash names by the same \<open>D\<close>, and change of an
  object what their documentation says.\<close>

definition lawful :: "(string list \<Rightarrow> string) \<Rightarrow> env \<Rightarrow> bool" where
  "lawful D E \<longleftrightarrow> (\<forall>xs. ObjectHash E xs = Inr (D xs)) \<and>
     ownerOnly con_Meta con_Spec (conductors E) \<and> ownerOnly api_Meta api_Spec (apis E) \<and>
     (\<forall>m m'. AddFinalizer E m = (m', False) \<longrightarrow> m' = m)"

text \<open>A call hands out the secrets \<open>sec\<close> and no others; one that hands out none.\<close>

definition hands :: "(string list \<Rightarrow> string) \<Rightarrow> string list \<Rightarrow> call \<Rightarrow> bool" where
  "hands D sec c \<longleftrightarrow> (case c of
       StoreConductor o' \<Rightarrow> conductorSecrets o' = sec \<and> askedHash (con_Meta o') = D sec
     | StoreAPI o' \<Rightarrow> apiSecrets o' = sec \<and> askedHash (api_Meta o') = D sec
     | FinalizeSecretRotation _ _ new f _ \<Rightarrow> f = InspectorACConsumerFinalizer \<or> new \<in> set sec
     | _ \<Rightarrow> True)"

definition handsNone :: "call \<Rightarrow> bool" where
  "handsNone c \<longleftrightarrow> (\<forall>D sec. hands D sec c)"

lemma before_hands:
  "emits handsNone (rbacSection E i)" "emits handsNone (transportSection L E i)"
  "emits handsNone (inputSecretSection L E i)" "emits handsNone (keystoneSection E i)" "emits handsNone (ensureDB L E i)"
  "emits handsNone (configSection L E i v ke kr db t)" "emits handsNone (acSecretSection L E i)"
  "emits handsNone (func (reconcileUpgrade L E P lbl))" "emits handsNone (modStatus f)"
  "emits handsNone (inspectInterfaceSection i)" "emits handsNone (deployInspector L E W fi r)"
  "emits handsNone (deployNeutronAgent L E fa r)"
  unfolding section_defs inspectInterfaceSection_def
    deployInspector_def inspectorDeploymentCreateOrUpdate_def inspectorDeploymentDelete_def deployNeutronAgent_def
    ironicNeutronAgentDeploymentCreateOrUpdate_def ironicNeutronAgentDeploymentDelete_def deleteSubResource_def
  by (intro keeps; simp add: handsNone_def hands_def)+

lemma finish_hands:
  assumes "sec = [ct, cn, ApplicationCredentialSecret (Auth (Spec i))]"
  shows "emits (hands D sec) (finishSection L E i ot ct on cn r)"
  unfolding finishSection_def acRotationSection_def transportRotationSection_def notifRotationSection_def
    pruneSection_def readySection_def assms
  by (intro keeps; simp add: hands_def)

section \<open>What the run keeps\<close>

text \<open>The notifications secret and the application credential of the instance, which
  the objects' specs are made from.\<close>

definition handed :: "Ironic \<Rightarrow> string \<times> string" where
  "handed i = (optText (st_NotificationsURLSecret (Status i)), ApplicationCredentialSecret (Auth (Spec i)))"

lemma handed_simps [simp]:
  "handed (Ironic_updConds f i) = handed i"
  "handed (i\<lparr>Spec := (Spec i)\<lparr>sp_IronicInspector := x\<rparr>\<rparr>) = handed i"
  by (simp_all add: handed_def Ironic_updConds_def)

lemma leaves_handed [keeps]:
  "leaves handed (setCond L c)" "leaves handed (markTrue L t m)" "leaves handed (failWith L E t msg err)"
  "leaves handed (mirrorFrom L t cs)"
  unfolding failWith_def setCond_def markTrue_def mirrorFrom_def by (intro keeps; simp)+

lemma leaves_handed_status [keeps]:
  "(\<And>st. st_NotificationsURLSecret (f st) = st_NotificationsURLSecret st) \<Longrightarrow> leaves handed (modStatus f)"
  unfolding modStatus_def by (intro keeps) (simp add: handed_def)

lemma leaves_handed_sections:
  "leaves handed (inputSecretSection L E i)" "leaves handed (keystoneSection E i)"
  "leaves handed (ensureDB L E i)" "leaves handed (configSection L E i v ke kr db t)"
  "leaves handed (acSecretSection L E i)" "leaves handed (func (reconcileUpgrade L E P lbl))"
  "leaves handed (inspectInterfaceSection i)" "leaves handed (deployInspector L E W fi r)"
  "leaves handed (deployNeutronAgent L E fa r)" "leaves handed (deployAPI L E ke kr t h r)"
  "leaves handed (deployConductor L E ke kr t h c acc)"
  unfolding inputSecretSection_def keystoneSection_def ensureDB_def configSection_def generateServiceConfigMaps_def
    getTransportURL_def authParams_def createHashOfInputHashes_def acSecretSection_def manageACSecret_def
    reconcileUpgrade_def inspectInterfaceSection_def deployInspector_def inspectorDeploymentCreateOrUpdate_def
    inspectorDeploymentDelete_def deployNeutronAgent_def ironicNeutronAgentDeploymentCreateOrUpdate_def
    ironicNeutronAgentDeploymentDelete_def deleteSubResource_def deployAPI_def apiDeploymentCreateOrUpdate_def
    deployConductor_def conductorDeploymentCreateOrUpdate_def copyEndpoints_def
  by (intro keeps; simp add: handed_def Ironic_updConds_def)+

section \<open>The objects it stores\<close>

lemma conductor_handed:
  assumes "lawful D E" and "handed inst = (cn, ac)" and "conductorMutate E inst c ke kr ct (D [ct, cn, ac]) cur = Inr o'"
  shows "conductorSecrets o' = [ct, cn, ac] \<and> askedHash (con_Meta o') = D [ct, cn, ac]"
proof
  have law: "ownerOnly con_Meta con_Spec (conductors E)"
    using assms(1) by (simp add: lawful_def)
  show "askedHash (con_Meta o') = D [ct, cn, ac]"
    by (rule asked_conductor [OF law assms(3)])
  let ?spec = "conductorSpecFor inst c ke kr ct"
  have "con_Spec o' = (if con_StorageClass ?spec = '''' then ?spec\<lparr>con_StorageClass := StorageClass (Spec inst)\<rparr> else ?spec)"
    using law assms(3) unfolding ownerOnly_def conductorMutate_def Let_def by fastforce
  then show "conductorSecrets o' = [ct, cn, ac]"
    using assms(2) by (simp add: conductorSecrets_def conductorSpecFor_def handed_def Let_def IronicConductorTemplate.defs)
qed

lemma api_handed:
  assumes "lawful D E" and "handed inst = (cn, ac)" and "apiMutate E inst ke kr ct (D [ct, cn, ac]) cur = Inr o'"
  shows "apiSecrets o' = [ct, cn, ac] \<and> askedHash (api_Meta o') = D [ct, cn, ac]"
proof
  have law: "ownerOnly api_Meta api_Spec (apis E)"
    using assms(1) by (simp add: lawful_def)
  show "askedHash (api_Meta o') = D [ct, cn, ac]"
    by (rule asked_API [OF law assms(3)])
  have "api_Spec o' = apiSpecFor inst ke kr ct"
    using law assms(3) unfolding ownerOnly_def apiMutate_def by fastforce
  then show "apiSecrets o' = [ct, cn, ac]"
    using assms(2) by (simp add: apiSecrets_def apiSpecFor_def handed_def Let_def IronicAPITemplate.defs)
qed

lemma conductor_hands:
  assumes "lawful D E" and "handed inst = (cn, ac)"
  shows "emits (hands D [ct, cn, ac]) (conductorDeploymentCreateOrUpdate E inst c ke kr ct (D [ct, cn, ac]))"
  unfolding conductorDeploymentCreateOrUpdate_def
  by (rule emits_mono [OF createOrUpdate_stores]) (auto simp: hands_def dest: conductor_handed [OF assms])

lemma api_hands:
  assumes "lawful D E" and "handed inst = (cn, ac)"
  shows "emits (hands D [ct, cn, ac]) (apiDeploymentCreateOrUpdate E inst ke kr ct (D [ct, cn, ac]))"
  unfolding apiDeploymentCreateOrUpdate_def
  by (rule emits_mono [OF createOrUpdate_stores]) (auto simp: hands_def dest: api_handed [OF assms])

text \<open>A step that keeps what is handed out, with all calls so far handing out \<open>sec\<close>.\<close>

abbreviation handing :: "(string list \<Rightarrow> string) \<Rightarrow> string \<Rightarrow> string \<Rightarrow> string \<Rightarrow> (Ironic, call) st \<Rightarrow> bool" where
  "handing D ct cn ac s \<equiv> handed (obj s) = (cn, ac) \<and> list_all (hands D [ct, cn, ac]) (calls s)"

definition agreed :: "(string list \<Rightarrow> string) \<Rightarrow> (Ironic, call) st \<Rightarrow> bool" where
  "agreed D s \<longleftrightarrow> (\<exists>sec. list_all (hands D sec) (calls s))"

lemma handing_agreed: "handing D ct cn ac s \<Longrightarrow> agreed D s"
  by (auto simp: agreed_def)

lemma handing_step:
  fixes m :: "'a iact"
  assumes "leaves handed m" and "emits (hands D [ct, cn, ac]) m"
  shows "valid (handing D ct cn ac) m (\<lambda>_. handing D ct cn ac) (\<lambda>_. agreed D)"
  by (rule valid_weaken [OF valid_conj [OF valid_leaves [OF assms(1), where G = "\<lambda>x. x = (cn, ac)"] valid_emits [OF assms(2)]]])
    (auto simp: agreed_def)

lemma handing_none:
  fixes m :: "'a iact"
  assumes "leaves handed m" and "emits handsNone m"
  shows "valid (handing D ct cn ac) m (\<lambda>_. handing D ct cn ac) (\<lambda>_. agreed D)"
  by (rule handing_step [OF assms(1) emits_mono [OF assms(2)]]) (simp add: handsNone_def)

lemma handing_getObj:
  assumes "\<And>x. handed x = (cn, ac) \<Longrightarrow> valid (handing D ct cn ac) (f x) Q R"
  shows "valid (handing D ct cn ac) (bnd getObj f) Q R"
  using assms by (simp add: valid_def step_simps)

lemma handing_services:
  assumes "lawful D E" and "ac = ApplicationCredentialSecret (Auth (Spec i))"
  shows "valid (handing D ct cn ac) (servicesSection L E W fi fa i ke kr ct) (\<lambda>_. handing D ct cn ac) (\<lambda>_. agreed D)"
proof -
  let ?H = "handing D ct cn ac" and ?h = "D [ct, cn, ac]"
  have makes: "leaves F (conductorDeploymentCreateOrUpdate E x c ke kr t h :: (Ironic, call, 'r, _) act)"
    "leaves F (apiDeploymentCreateOrUpdate E x ke kr t h :: (Ironic, call, 'r, _) act)"
    for F :: "Ironic \<Rightarrow> 'f" and x c ke kr t h
    unfolding conductorDeploymentCreateOrUpdate_def apiDeploymentCreateOrUpdate_def by (rule keeps)+
  have then_none: "emits (hands D [ct, cn, ac]) (bnd m f)"
    if "emits (hands D [ct, cn, ac]) m" and "\<And>r. emits handsNone (f r)" for m :: "'a iact" and f :: "'a \<Rightarrow> 'b iact"
    by (rule emits_bnd [OF that(1) emits_mono [OF that(2)]]) (simp add: handsNone_def)
  have conductor: "valid ?H (deployConductor L E ke kr ct ?h c acc) (\<lambda>_. ?H) (\<lambda>_. agreed D)" for c acc
    unfolding deployConductor_def
    by (rule handing_getObj, rule handing_step, (intro keeps makes; simp), rule then_none,
        rule conductor_hands [OF assms(1)], assumption, intro keeps)
  have conductors: "valid ?H (deployConductors L E i ke kr ct ?h) (\<lambda>_. ?H) (\<lambda>_. agreed D)"
    unfolding deployConductors_def
    by (rule valid_bnd, rule valid_foreach [where I = "\<lambda>_ _. ?H"], rule conductor)
       (intro valid_prod handing_none keeps)
  have api: "valid ?H (deployAPI L E ke kr ct ?h r) (\<lambda>_. ?H) (\<lambda>_. agreed D)" for r
    unfolding deployAPI_def
    by (rule handing_getObj, rule handing_step, (intro keeps makes; simp add: copyEndpoints_def), rule then_none,
        rule api_hands [OF assms(1)], assumption, intro keeps)
  have hash: "valid ?H (getOrFail (ret (ObjectHash E [ct, optText (st_NotificationsURLSecret (Status x)),
       ApplicationCredentialSecret (Auth (Spec i))]))) (\<lambda>h s. h = ?h \<and> ?H s) (\<lambda>_. agreed D)"
    if "handed x = (cn, ac)" for x
    using that assms by (simp add: getOrFail_def step_simps valid_def lawful_def handed_def)
  show ?thesis
    unfolding servicesSection_def
    by (rule handing_getObj, rule valid_bnd [OF hash], assumption, rule valid_imp, hypsubst,
        rule valid_bnd [OF conductors], rule valid_bnd [OF api],
        rule valid_thn [OF handing_none], rule leaves_handed_sections, rule before_hands,
        rule valid_bnd [OF handing_none], rule leaves_handed_sections, rule before_hands,
        rule handing_none, rule leaves_handed_sections, rule before_hands)
qed

section \<open>The whole run\<close>

text \<open>The notifications secret the transport section returns is the one it left in the status.\<close>

lemma transport_notif:
  "valid (\<lambda>_. True) (transportSection L E i)
     (\<lambda>(ct, cn) s. optText (st_NotificationsURLSecret (Status (obj s))) = cn) (\<lambda>_ _. True)" (is "valid _ _ ?Q _")
proof -
  have any: "valid (\<lambda>_. True) m (\<lambda>_ _. True) (\<lambda>_ _. True)" for m :: "'a iact"
    by (simp add: valid_def split: prod.split step.split)
  have last: "valid (\<lambda>_. True) (bnd getObj (\<lambda>i. let currentNotif = optText (st_NotificationsURLSecret (Status i)) in
      thn (whenM (currentNotif \<noteq> '''') (orFail (finalizerCall E (ManageSecretConsumerFinalizer ns currentNotif f))))
          (ret (ct, currentNotif)))) ?Q (\<lambda>_ _. True)" for ct ns f
    by (auto simp: valid_def step_simps orFail_def finalizerCall_def whenM_def Let_def split: option.split)
  have stop: "valid (\<lambda>_. True) (failWith L E t msg err) ?Q (\<lambda>_ _. True)"
    "valid (\<lambda>_. True) (thn (setCond L c) (exit res)) ?Q (\<lambda>_ _. True)" for t msg err c res
    by (simp_all add: valid_def step_simps failWith_def setCond_def modStatus_def)
  have oslo: "valid (\<lambda>_. True) (osloTransport L E i) ?Q (\<lambda>_ _. True)"
    unfolding osloTransport_def
    by (rule valid_bnd [OF any], rule valid_sum, rule stop, rule valid_prod, rule valid_if, rule stop, rule valid_let,
        rule valid_thn [OF any], rule valid_thn [OF any], rule valid_thn [OF any], rule valid_bnd [OF any],
        rule valid_prod, rule valid_if, rule valid_exit, simp, rule last)
  have "valid (\<lambda>_. True) (jsonRpcTransport L E i) ?Q (\<lambda>_ _. True)"
    unfolding jsonRpcTransport_def
    by (rule valid_bnd [OF any], rule valid_thn [OF any], rule valid_thn [OF any])
       (simp add: valid_def step_simps markTrue_def setCond_def modStatus_def Ironic_updConds_def)
  with oslo show ?thesis
    unfolding transportSection_def by (rule valid_if)
qed

lemma transport_handing:
  "valid (\<lambda>s. kept (obj s) = kept i \<and> list_all handsNone (calls s)) (transportSection L E i)
     (\<lambda>(ct, cn). handing D ct cn (ApplicationCredentialSecret (Auth (Spec i)))) (\<lambda>_. agreed D)"
proof -
  have auth: "handed x = (optText (st_NotificationsURLSecret (Status x)), ApplicationCredentialSecret (Auth (Spec i)))"
    if "kept x = kept i" for x
  proof -
    have "Auth (snd (kept x)) = Auth (snd (kept i))"
      using that by simp
    then show ?thesis
      by (simp add: handed_def kept_def specKey_def)
  qed
  have hands: "list_all (hands D sec) log" if "list_all handsNone log" for log sec
    using that by (rule list_all_mono) (simp add: handsNone_def)
  show ?thesis
    by (rule valid_weaken [OF valid_conj [OF transport_notif valid_conj [OF
          valid_leaves [OF leaves_transportSection, where G = "\<lambda>x. x = kept i"] valid_emits [OF before_hands(2)]]]])
      (auto simp: agreed_def auth intro: hands)
qed

lemma run_agreed:
  assumes "lawful D E"
  shows "agreed D (snd (reconcileNormal L E P W fi fa \<lparr>obj = i, calls = []\<rparr>))"
proof -
  let ?K = "\<lambda>s. kept (obj s) = kept i \<and> list_all handsNone (calls s)"
  have none: "list_all handsNone log \<Longrightarrow> list_all (hands D []) log" for log
    by (erule list_all_mono) (simp add: handsNone_def)
  have first: "valid ?K m (\<lambda>_. ?K) (\<lambda>_. agreed D)" if "leaves kept m" "emits handsNone m" for m :: "'a iact"
    by (rule valid_weaken [OF valid_conj [OF valid_leaves [OF that(1), where G = "\<lambda>x. x = kept i"] valid_emits [OF that(2)]]])
      (auto simp: agreed_def intro: none)
  have "valid ?K (reconcileNormalFrom L E P W fi fa i) (\<lambda>_. agreed D) (\<lambda>_. agreed D)"
    unfolding reconcileNormalFrom_def
    by (rule valid_thn [OF first], rule keeps, rule before_hands,
        rule valid_thn [OF first], rule keeps, rule before_hands, rule valid_let, rule valid_let,
        rule valid_bnd [OF transport_handing [where D = D]], rule valid_prod, hypsubst, unfold prod.case,
        rule valid_bnd [OF handing_none], rule leaves_handed_sections, rule before_hands,
        rule valid_bnd [OF handing_none], rule leaves_handed_sections, rule before_hands, rule valid_prod,
        rule valid_bnd [OF handing_none], rule leaves_handed_sections, rule before_hands,
        rule valid_thn [OF handing_none], rule leaves_handed_sections, rule before_hands,
        rule valid_thn [OF handing_none], rule leaves_handed_sections, rule before_hands,
        rule valid_bnd [OF handing_none], rule leaves_handed_sections, rule before_hands, rule valid_prod,
        rule valid_if, rule valid_exit, erule handing_agreed, rule valid_if, rule valid_exit, erule handing_agreed,
        rule valid_bnd [OF handing_services [OF assms refl]],
        rule valid_weaken [OF valid_emits [OF finish_hands [OF refl]]]) (auto simp: agreed_def)
  from valid_final [OF this, of "\<lparr>obj = i, calls = []\<rparr>"] show ?thesis
    by (simp add: reconcileNormal_def step_simps)
qed

end
