(* ===== verification/ServiceProgress.thy ===== *)
theory ServiceProgress
  imports Progress ServiceProps
begin

text \<open>
  Progress of the controllers of the conductor and of the API: in an environment that
  answers every call the steps of their runs go on.
\<close>

section \<open>Computations that go on\<close>

text \<open>\<open>goes U m\<close>: from every state the computation goes on, with a value in \<open>U\<close>.\<close>

definition goes :: "('a \<Rightarrow> bool) \<Rightarrow> ('o, 'c, 'r, 'a) act \<Rightarrow> bool" where
  "goes U m \<longleftrightarrow> (\<forall>s. \<exists>x s'. m s = (Continue x, s') \<and> U x)"

abbreviation proceeds :: "('o, 'c, 'r, 'a) act \<Rightarrow> bool" where
  "proceeds m \<equiv> goes (\<lambda>_. True) m"

named_theorems goes

lemma goesE:
  assumes "goes U m"
  obtains x s' where "m s = (Continue x, s')" "U x"
  using assms unfolding goes_def by blast

lemma goes_ret [goes]: "U x \<Longrightarrow> goes U (ret x)"
  by (simp add: goes_def step_simps)

lemma goes_ask [goes]: "(\<And>cs. U (f cs)) \<Longrightarrow> goes U (ask c f)"
  by (simp add: goes_def step_simps)

lemma goes_object [goes]: "proceeds getObj" "proceeds (modObj f)"
  by (simp_all add: goes_def step_simps)

lemma goes_mono: "goes U m \<Longrightarrow> (\<And>x. U x \<Longrightarrow> U' x) \<Longrightarrow> goes U' m"
  unfolding goes_def by metis

lemma goes_bnd: "goes U m \<Longrightarrow> (\<And>x. U x \<Longrightarrow> goes U' (f x)) \<Longrightarrow> goes U' (bnd m f)"
  unfolding goes_def bnd_def by (metis (no_types, lifting) case_prod_conv step.simps(5))

lemma goes_bnd_any [goes]: "proceeds m \<Longrightarrow> (\<And>x. goes U (f x)) \<Longrightarrow> goes U (bnd m f)"
  by (rule goes_bnd)

lemma goes_thn [goes]: "proceeds m \<Longrightarrow> goes U n \<Longrightarrow> goes U (thn m n)"
  unfolding thn_eq by (rule goes_bnd)

lemma goes_func [goes]:
  assumes "goes U m"
  shows "goes U (func m)"
  unfolding goes_def func_def
proof
  fix s
  obtain x s' where "m s = (Continue x, s')" "U x"
    using goesE [OF assms] .
  then show "\<exists>x s'. (case m s of (Continue x, s') \<Rightarrow> (Continue x, s') | (Return x, s') \<Rightarrow> (Continue x, s')) =
      (Continue x, s') \<and> U x"
    by simp
qed

lemma goes_whenM [goes]: "(b \<Longrightarrow> proceeds m) \<Longrightarrow> proceeds (whenM b m)"
  unfolding whenM_def by (cases b) (simp_all add: goes_ret)

lemma goes_foreach:
  assumes "U a" and "\<And>x acc. x \<in> set xs \<Longrightarrow> U acc \<Longrightarrow> goes U (f x acc)"
  shows "goes U (foreach xs a f)"
  using assms
proof (induction xs arbitrary: a)
  case (Cons x xs)
  then show ?case
    by (simp, intro goes_bnd [where U = U]) auto
qed (simp add: goes_ret)

lemma goes_foreach_any [goes]: "(\<And>x acc. x \<in> set xs \<Longrightarrow> proceeds (f x acc)) \<Longrightarrow> proceeds (foreach xs a f)"
  by (rule goes_foreach) simp_all

lemma goes_cases [goes]:
  "(b \<Longrightarrow> goes U m) \<Longrightarrow> (\<not> b \<Longrightarrow> goes U n) \<Longrightarrow> goes U (if b then m else n)"
  "(\<And>y z. x = (y, z) \<Longrightarrow> goes U (g y z)) \<Longrightarrow> goes U (case x of (y, z) \<Rightarrow> g y z)"
  "(\<And>x. x = a \<Longrightarrow> goes U (h x)) \<Longrightarrow> goes U (let x = a in h x)"
  by (auto split: prod.split)

lemma goes_getOrFail: "goes (\<lambda>r. \<not> isl r \<and> U (projr r)) m \<Longrightarrow> goes U (getOrFail m)"
  unfolding getOrFail_def by (erule goes_bnd) (auto simp: goes_ret split: sum.split)

lemma goes_orFail [goes]: "goes (\<lambda>r. r = None) m \<Longrightarrow> proceeds (orFail m)"
  unfolding orFail_def by (erule goes_bnd) (simp add: goes_ret)

lemma goes_checked: "goes (\<lambda>r. r = (emptyResult, None)) m \<Longrightarrow> proceeds (checked m)"
  unfolding checked_def by (rule goes_bnd [OF goes_func], assumption) (auto simp: goes_ret)

lemma goes_valid:
  fixes m :: "('o, 'c, 'r, 'a) act"
  assumes "goes U m" and "leaves F m"
  shows "runs (\<lambda>s. F (obj s) = k) m (\<lambda>x s. U x \<and> F (obj s) = k)"
  unfolding valid_def
proof (intro allI impI)
  fix s :: "('o, 'c) st" assume s: "F (obj s) = k"
  obtain x s' where m: "m s = (Continue x, s')" "U x"
    using goesE [OF assms(1)] .
  moreover have "F (obj s') = F (obj s)"
    using assms(2) m(1) unfolding leaves_def by (metis snd_conv)
  ultimately show "case m s of (Continue x, s') \<Rightarrow> U x \<and> F (obj s') = k | (Return r, s') \<Rightarrow> False"
    using s by simp
qed


section \<open>Services that answer\<close>

text \<open>Every call of the two controllers succeeds: the parent has its service account,
  the inputs are there, a workload is ready as soon as it is stored, and its pods have
  the inputs. \<open>settled\<close> covers the calls they share with the Ironic controller.\<close>

definition parentReady :: "condLib \<Rightarrow> Ironic \<Rightarrow> bool" where
  "parentReady L i \<longleftrightarrow> list_all (\<lambda>t. case cl_Get L t (conds (st_Conditions (Status i))) of
     None \<Rightarrow> False | Some c \<Rightarrow> c_status c = CondTrue) rbacConditions"

definition settledServices :: "condLib \<Rightarrow> env \<Rightarrow> bool" where
  "settledServices L E \<longleftrightarrow> (let X = services E in
     (\<forall>cs n ns. \<not> isl (cr_Get (ironics E) cs n ns) \<and> parentReady L (projr (cr_Get (ironics E) cs n ns))) \<and>
     (\<forall>cs ns n items. on_ListSecrets X cs ns n = Inr items \<longrightarrow> list_all (\<lambda>(_, h). \<not> isl h) items) \<and>
     (\<forall>cs n ns. \<not> isl (on_ValidateCACertSecret X cs n ns)) \<and>
     (\<forall>cs t ns. \<not> isl (on_ValidateCertSecrets X cs t ns)) \<and>
     (\<forall>cs n ns. \<not> isl (on_GetNAD X cs n ns)) \<and>
     (\<forall>nads. \<not> isl (NetworksAnnotation X nads)) \<and>
     (\<forall>cs. \<exists>d. GetIngressDomain (on_GetIngressController X cs) = Some (Inr d)) \<and>
     (\<forall>cs wl. \<exists>ob. on_CreateOrPatch X cs wl = (emptyResult, None, ob) \<and>
        ob_Generation ob = ob_ObservedGeneration ob \<and> ob_IsReady ob) \<and>
     (\<forall>cs a l n. \<exists>m. on_VerifyNetworkStatus X cs a l n = Inr (True, m)) \<and>
     (\<forall>cs n ns h. on_IsReadyForInput X cs n ns h = Inr True) \<and>
     (\<forall>cs ns l. \<not> isl (on_ListPods X cs ns l)) \<and>
     (\<forall>n x. \<not> isl (AddServiceOwner X n x)) \<and> (\<forall>n x. \<not> isl (AddRouteOwner X n x)) \<and>
     (\<forall>cs x. on_StoreService X cs x = None) \<and> (\<forall>cs x. on_StoreRoute X cs x = None) \<and>
     (\<forall>cs ns. \<exists>a u. GetIronicAPI (on_ListIronicAPI X cs) ns [] = Inr a \<and> IronicAPI_GetEndpoint a ''public'' = Inr u) \<and>
     (\<forall>m. \<not> isl (MarshalTraits X m)) \<and>
     (\<forall>d. \<not> isl (NewService X d)) \<and>
     (\<forall>cs d. on_CreateOrPatchService X cs d = (emptyResult, None)) \<and>
     (\<forall>cs d p. \<not> isl (GetAPIEndpoint X cs d p)) \<and>
     (\<forall>cs. fst (on_KeystoneService E cs) = (emptyResult, None)) \<and>
     (\<forall>cs. fst (on_KeystoneEndpoint E cs) = (emptyResult, None)) \<and>
     (\<forall>cs r q f. \<not> isl (on_EnsureServiceTopology E cs r q f)) \<and>
     (\<forall>cs n a ns. \<not> isl (on_GetDatabase E cs n a ns)))"

lemma settledServices_simps:
  assumes "settledServices L E"
  shows "\<not> isl (cr_Get (ironics E) cs n ns)" "parentReady L (projr (cr_Get (ironics E) cs n ns))"
    "\<not> isl (on_ValidateCACertSecret (services E) cs n ns)" "\<not> isl (on_ValidateCertSecrets (services E) cs t ns)"
    "\<not> isl (on_GetNAD (services E) cs n ns)" "\<not> isl (NetworksAnnotation (services E) nads)"
    "on_IsReadyForInput (services E) cs n ns h = Inr True" "\<not> isl (on_ListPods (services E) cs ns l)"
    "\<not> isl (AddServiceOwner (services E) n sv)" "\<not> isl (AddRouteOwner (services E) n rt)"
    "on_StoreService (services E) cs sv = None" "on_StoreRoute (services E) cs rt = None"
    "\<not> isl (MarshalTraits (services E) m)" "\<not> isl (NewService (services E) d)"
    "on_CreateOrPatchService (services E) cs d = (emptyResult, None)" "\<not> isl (GetAPIEndpoint (services E) cs d p)"
    "fst (on_KeystoneService E cs) = (emptyResult, None)" "fst (on_KeystoneEndpoint E cs) = (emptyResult, None)"
    "\<not> isl (on_EnsureServiceTopology E cs tr q f)" "\<not> isl (on_GetDatabase E cs n a ns)"
  using assms by (simp_all add: settledServices_def Let_def)

lemma settledServices_items:
  "settledServices L E \<Longrightarrow> on_ListSecrets (services E) cs ns n = Inr items \<Longrightarrow> list_all (\<lambda>(_, h). \<not> isl h) items"
  by (simp add: settledServices_def Let_def)

lemma settledServices_answers:
  assumes "settledServices L E"
  shows "\<exists>d. GetIngressDomain (on_GetIngressController (services E) cs) = Some (Inr d)"
    "\<exists>ob. on_CreateOrPatch (services E) cs wl = (emptyResult, None, ob) \<and>
       ob_Generation ob = ob_ObservedGeneration ob \<and> ob_IsReady ob"
    "\<exists>m. on_VerifyNetworkStatus (services E) cs a l n = Inr (True, m)"
    "\<exists>a u. GetIronicAPI (on_ListIronicAPI (services E) cs) ns [] = Inr a \<and> IronicAPI_GetEndpoint a ''public'' = Inr u"
  using assms by (simp_all add: settledServices_def Let_def)

lemma settledServices_example: "settledServices exampleConds exampleEnv"
  by (simp add: settledServices_def exampleServices_def parentReady_def exampleParent_def exampleStatus_def
      rbacConditions_def exampleConds_def GetIngressDomain_def GetIronicAPI_def IronicAPI_GetEndpoint_def exampleAPIObject_def
      conds_def)


section \<open>The shared steps\<close>

lemma goes_ask_eq: "(\<And>cs. U (f cs)) \<Longrightarrow> goes U (askService c f)"
  unfolding askService_def by (rule goes_ask)

lemma goes_sum: "\<not> isl x \<Longrightarrow> (\<And>y. x = Inr y \<Longrightarrow> goes U (g y)) \<Longrightarrow> goes U (case x of Inl e \<Rightarrow> f e | Inr y \<Rightarrow> g y)"
  by (cases x) simp_all

lemma goes_conditions [goes]: "proceeds (svSet V L c)" "proceeds (svTrue V L t m)"
  unfolding svSet_def svTrue_def by (rule goes)+

lemma goes_account:
  assumes "settled E" and "settledServices L E"
  shows "proceeds (svAccount V L E reason severity)"
proof -
  have found: "goes (\<lambda>got. \<not> isl got \<and> parentReady L (projr got)) (ask (Fetch ''Ironic'' n ns) (\<lambda>cs. cr_Get (ironics E) cs n ns))" for n ns
    by (rule goes_ask) (simp add: settledServices_simps [OF assms(2)])
  have exist: "goes (\<lambda>r. r = (emptyResult, None)) (checkParentResourceExist V L E reason severity)"
    unfolding checkParentResourceExist_def
    by (rule goes, rule goes, rule goes_bnd [OF found]) (auto intro: goes_sum goes_ret)
  have conditions: "goes (\<lambda>b. b) (foreach rbacConditions True (\<lambda>condType allReady.
      case cl_Get L condType (conds (st_Conditions (Status i))) of
        Some c \<Rightarrow> thn (modObj (f c)) (ret (allReady \<and> c_status c = CondTrue))
      | None \<Rightarrow> thn (modObj (g condType)) (ret False)))" if "parentReady L i" for i f g
    using that
    by (intro goes_foreach) (auto simp: parentReady_def list_all_iff split: option.split intro!: goes_thn goes)
  have rbac: "goes (\<lambda>r. r = (emptyResult, None)) (checkParentRbacConditions V L E)"
    unfolding checkParentRbacConditions_def
    by (rule goes, rule goes, rule goes_bnd [OF found], rule goes_sum, simp, rule goes_bnd [OF conditions])
       (auto intro: goes_ret)
  have own: "goes (\<lambda>r. r = (emptyResult, None)) (reconcileRbac V E)"
    unfolding reconcileRbac_def
    by (rule goes, rule goes, rule goes_bnd [OF goes_ask [where U = "\<lambda>r. fst r = (emptyResult, None)"]])
       (auto simp: settled_simps [OF assms(1)] intro!: goes)
  show ?thesis
    unfolding svAccount_def
    by (intro goes goes_checked own exist rbac)
qed


lemma goes_verifySecret: "settled E \<Longrightarrow> proceeds (svVerifySecret V L E name field waiting)"
  unfolding svVerifySecret_def
  by (rule goes, rule goes, rule goes_bnd [OF goes_ask [where U = "\<lambda>r. snd r = (emptyResult, None)"]])
     (auto simp: settled_simps intro: goes_ret)

lemma goes_inputs:
  assumes "settled E" and "settledServices L E"
  shows "proceeds (svLabelledSecrets V L E)" "proceeds (svPassword V L E vars)" "proceeds (svTransport V L E b n vars)"
    "proceeds (svCaCert V L E missing vars)" "proceeds (svCerts V L E tlsOf missing vars)"
proof -
  have items: "goes (\<lambda>r. \<forall>items. r = Inr items \<longrightarrow> list_all (\<lambda>(_, h). \<not> isl h) items)
      (askService c (\<lambda>cs. on_ListSecrets (services E) cs ns n))" for c ns n
    by (rule goes_ask_eq) (simp add: settledServices_items [OF assms(2)])
  show "proceeds (svLabelledSecrets V L E)"
    unfolding svLabelledSecrets_def
    by (rule goes, rule goes, rule goes_bnd [OF items])
       (auto split: sum.split intro!: goes_ret goes_foreach_any goes_sum simp: list_all_iff)
  show "proceeds (svPassword V L E vars)" "proceeds (svTransport V L E b n vars)"
    unfolding svPassword_def svTransport_def by (intro goes goes_verifySecret [OF assms(1)] TrueI)+
  have ca: "goes (\<lambda>r. \<not> isl r) (askService c (\<lambda>cs. on_ValidateCACertSecret (services E) cs b n))"
    and certs: "goes (\<lambda>r. \<not> isl r) (askService c (\<lambda>cs. on_ValidateCertSecrets (services E) cs t n))" for c b n t
    by (rule goes_ask_eq, simp add: settledServices_simps [OF assms(2)])+
  show "proceeds (svCaCert V L E missing vars)"
    unfolding svCaCert_def
    by (rule goes, rule goes, rule goes, rule goes, rule goes, rule goes_bnd [OF ca], rule goes_sum) (auto intro: goes_ret)
  show "proceeds (svCerts V L E tlsOf missing vars)"
    unfolding svCerts_def
    by (rule goes, rule goes, rule goes_bnd [OF certs], rule goes_sum) (auto intro: goes_ret)
qed

lemma goes_svConfig: "goes (\<lambda>r. fst r = None) m \<Longrightarrow> proceeds (svConfig V L E m)"
  unfolding svConfig_def by (rule goes_bnd [OF goes_func], assumption) (auto intro: goes_ret)

lemma goes_placement:
  assumes "settledServices L E"
  shows "proceeds (svNetworks V L E)" "proceeds (svTopology V L E)"
proof -
  have nad: "goes (\<lambda>r. \<not> isl r) (askService c (\<lambda>cs. on_GetNAD (services E) cs n ns))" for c n ns
    by (rule goes_ask_eq) (simp add: settledServices_simps [OF assms])
  show "proceeds (svNetworks V L E)"
    unfolding svNetworks_def
    by (rule goes, rule goes, rule goes, rule goes_foreach_any, rule goes_bnd [OF nad], rule goes_sum)
       (auto simp: settledServices_simps [OF assms] split: option.split intro!: goes_ret goes_sum)
  have "goes (\<lambda>r. \<not> isl r) (ensureTopology L E th fin cu)" for th :: "'a topologyHandler" and fin cu
    unfolding ensureTopology_def
    by (rule goes, rule goes, rule goes_bnd [OF goes_ask [where U = "\<lambda>r. \<not> isl r"]])
       (auto simp: settledServices_simps [OF assms] intro!: goes_sum goes)
  then show "proceeds (svTopology V L E)"
    unfolding svTopology_def by (rule goes_bnd_any [OF goes_object(1) goes_bnd [OF goes_func]]) (auto intro!: goes_ret goes_sum)
qed

lemma goes_workload:
  assumes "settledServices L E"
  shows "goes (\<lambda>ob. ob_Generation ob = ob_ObservedGeneration ob \<and> ob_IsReady ob) (svStoreWorkload V L E mk wl)"
    (is "goes ?ready _")
proof -
  have "goes (\<lambda>(res, err, ob). res = emptyResult \<and> err = None \<and> ?ready ob) (askService c (\<lambda>cs. on_CreateOrPatch (services E) cs wl))" for c
  proof (rule goes_ask_eq)
    show "case on_CreateOrPatch (services E) cs wl of (res, err, ob) \<Rightarrow> res = emptyResult \<and> err = None \<and> ?ready ob" for cs
      using settledServices_answers(2) [OF assms, of cs wl] by auto
  qed
  then show ?thesis
    unfolding svStoreWorkload_def by (rule goes_bnd) (auto intro: goes_ret)
qed

lemma goes_ready:
  assumes "settledServices L E" and "ob_Generation ob = ob_ObservedGeneration ob \<and> ob_IsReady ob"
  shows "goes (\<lambda>ready. ready) (svReady V L E (svNetworkStatus V L E labels) h ob)"
proof -
  have "goes (\<lambda>r. \<not> isl r \<and> fst (projr r)) (askService c (\<lambda>cs. on_VerifyNetworkStatus (services E) cs a l n))" for c a l n
  proof (rule goes_ask_eq)
    show "\<not> isl (on_VerifyNetworkStatus (services E) cs a l n) \<and> fst (projr (on_VerifyNetworkStatus (services E) cs a l n))" for cs
      using settledServices_answers(3) [OF assms(1), of cs a l n] by auto
  qed
  then have networks: "proceeds (svNetworkStatus V L E labels)"
    unfolding svNetworkStatus_def
    by - (rule goes_bnd_any [OF goes_object(1) goes_bnd [OF goes_getOrFail]], assumption, auto intro!: goes)
  have pods: "goes (\<lambda>r. r) (getOrFail (askService c (\<lambda>cs. on_IsReadyForInput (services E) cs n ns h)))" for c n ns
    by (rule goes_getOrFail, rule goes_ask_eq) (simp add: settledServices_simps [OF assms(1)])
  show ?thesis
    using assms(2) unfolding svReady_def
    by (auto intro!: goes_thn [OF goes_object(2)] goes_thn [OF networks] goes_bnd [OF pods] goes_conditions goes_ret goes_thn)
qed

lemma goes_finish: "goes (\<lambda>r. r = (emptyResult, None)) (svFinish V L)" "proceeds (svApply V ready h)"
  unfolding svFinish_def svApply_def by (intro goes refl)+


section \<open>The conductor\<close>

lemma goes_secret: "settled E \<Longrightarrow> goes (\<lambda>r. \<not> isl r \<and> settledSecret (projr r)) (getSecret E n ns)"
  unfolding getSecret_def by (rule goes_ask) (simp add: settled_simps)

lemma goes_credentials: "settled E \<Longrightarrow> goes (\<lambda>r. snd r = None) (setApplicationCredentialParams E n ns tp)"
  unfolding setApplicationCredentialParams_def Let_def
  by (intro goes_cases goes_bnd [OF goes_secret] goes_sum) (auto simp: settledSecret_def intro!: goes_ret)

lemma goes_quorum: "settled E \<Longrightarrow> goes (\<lambda>r. \<not> isl r) (getQuorumQueues E n ns)"
  unfolding getQuorumQueues_def
  by (intro goes_bnd [OF goes_secret] goes_sum) (auto intro!: goes_ret)

lemma goes_transportURL:
  assumes "settled E"
  shows "goes (\<lambda>r. \<not> isl r) (conductorGetTransportURL E)" "goes (\<lambda>r. \<not> isl r) (apiGetTransportURL E)"
  unfolding conductorGetTransportURL_def apiGetTransportURL_def
  by (intro goes_bnd_any goes_object goes_cases goes_bnd [OF goes_secret [OF assms]] goes_sum goes_ret;
      auto simp: settledSecret_def intro!: goes_ret)+

lemma goes_conductorAuth:
  assumes "settled E" and "settledServices L E"
  shows "proceeds (conductorAuthParams E instance envVars tp)"
proof -
  have listed: "goes (\<lambda>cs. \<exists>a u. GetIronicAPI (on_ListIronicAPI (services E) cs) ns [] = Inr a \<and>
      IronicAPI_GetEndpoint a ''public'' = Inr u) (askService c id)" for c ns
    by (rule goes_ask_eq) (simp only: id_apply settledServices_answers(4) [OF assms(2)])
  show ?thesis
    unfolding conductorAuthParams_def Let_def
    by (rule goes_cases, rule goes_bnd [OF goes_secret [OF assms(1)]], rule goes_sum, simp,
        rule goes_bnd [OF goes_credentials [OF assms(1)]])
       (auto intro!: goes_ret goes_bnd [OF listed [of "Namespace (con_Meta instance)"]])
qed

lemma goes_database:
  "settledServices L E \<Longrightarrow> goes (\<lambda>r. \<not> isl r) (ask c (\<lambda>cs. on_GetDatabase E cs n a ns))"
  by (rule goes_ask) (simp add: settledServices_simps)

lemma goes_ensure:
  "settled E \<Longrightarrow> goes (\<lambda>r. \<not> isl r) (ask c (\<lambda>cs. on_EnsureSecrets E cs ts v))"
  by (rule goes_ask) (simp add: settled_simps)

lemma goes_conductorConfig:
  assumes "settled E" and "settledServices L E"
  shows "proceeds (conductorConfig L E W maskText vars)"
proof -
  have quorum: "goes (\<lambda>r. \<not> isl r) (if b then getQuorumQueues E n ns else ret (Inr False))" for b n ns
    by (intro goes_cases goes_quorum [OF assms(1)] goes_ret) simp
  have traits: "proceeds (case MarshalTraits (services E) m of Inl err \<Rightarrow> exit (r err) | Inr y \<Rightarrow> ret (f y))" for m r f
    by (rule goes_sum) (simp_all add: settledServices_simps [OF assms(2)] goes_ret)
  have "goes (\<lambda>r. fst r = None) (conductorConfigMaps E W maskText vars)"
    unfolding conductorConfigMaps_def Let_def
    by (rule goes_bnd_any [OF goes_object(1)], rule goes_bnd [OF goes_database [OF assms(2)]], rule goes_sum, assumption,
        rule goes_bnd_any [OF goes_conductorAuth [OF assms]], rule goes_bnd [OF goes_transportURL(1) [OF assms(1)]],
        rule goes_sum, assumption, rule goes_bnd [OF quorum], rule goes_sum, assumption,
        rule goes_bnd_any [OF goes_cases(1) [OF traits goes_ret]], simp,
        rule goes_bnd [OF goes_ensure [OF assms(1)]], rule goes_sum) (simp_all add: goes_ret)
  then show ?thesis
    unfolding conductorConfig_def by (rule goes_svConfig)
qed

lemma goes_podObjects:
  assumes "settledServices L E"
  shows "proceeds (svEnsureService E pod svc)" "proceeds (svEnsureRoute E pod route)"
  unfolding svEnsureService_def svEnsureRoute_def
  by (rule goes_sum, simp add: settledServices_simps [OF assms],
      intro goes_bnd_any goes_ask_eq TrueI goes_cases goes_orFail; simp add: settledServices_simps [OF assms])+

lemma goes_conductorServices:
  assumes "settledServices L E"
  shows "goes (\<lambda>r. r = (emptyResult, None)) (conductorReconcileServices E labels)"
proof -
  have pods: "proceeds (getOrFail (conductorPods E i labels))" for i
    unfolding conductorPods_def by (rule goes_getOrFail, rule goes_ask_eq) (simp add: settledServices_simps [OF assms])
  show ?thesis
    unfolding conductorReconcileServices_def
    by (rule goes_bnd_any [OF goes_object(1)], rule goes_bnd_any [OF pods],
        intro goes_thn goes_foreach_any goes_whenM goes_podObjects [OF assms] goes_ret refl)
       (auto split: option.split intro!: goes_ret goes_podObjects [OF assms])
qed

lemma goes_conductorIngress: "settledServices L E \<Longrightarrow> proceeds (conductorIngress E)"
  unfolding conductorIngress_def
  by (rule goes_bnd [OF goes_ask_eq [where U = "\<lambda>got. \<exists>d. GetIngressDomain got = Some (Inr d)"]])
     (auto simp: settledServices_answers(1) orPanic_def intro!: goes_ret)


section \<open>The API\<close>

lemma goes_apiAuth:
  assumes "settled E"
  shows "proceeds (apiAuthParams E instance envVars tp)"
  unfolding apiAuthParams_def Let_def
  by (rule goes_cases, rule goes_bnd [OF goes_secret [OF assms]], rule goes_sum, simp,
      rule goes_bnd [OF goes_credentials [OF assms]]) (auto intro!: goes_ret)

lemma goes_apiConfig:
  assumes "settled E" and "settledServices L E"
  shows "proceeds (apiConfig L E P vars)"
proof -
  have quorum: "goes (\<lambda>r. \<not> isl r) (if b then getQuorumQueues E n ns else ret (Inr False))" for b n ns
    by (intro goes_cases goes_quorum [OF assms(1)] goes_ret) simp
  have "goes (\<lambda>r. fst r = None) (apiConfigMaps E P vars)"
    unfolding apiConfigMaps_def Let_def
    by (rule goes_bnd_any [OF goes_object(1)], rule goes_bnd [OF goes_database [OF assms(2)]], rule goes_sum, assumption,
        rule goes_bnd [OF goes_transportURL(2) [OF assms(1)]], rule goes_sum, assumption, rule goes_bnd [OF quorum],
        rule goes_sum, assumption, rule goes_bnd_any [OF goes_apiAuth [OF assms(1)]],
        rule goes_bnd [OF goes_ensure [OF assms(1)]], rule goes_sum) (simp_all add: goes_ret)
  then show ?thesis
    unfolding apiConfig_def by (rule goes_svConfig)
qed

lemma goes_exposeEndpoint:
  assumes "settledServices L E"
  shows "proceeds (exposeEndpoint V L E P tls ov n labels ep acc)"
proof -
  have made: "goes (\<lambda>r. snd r = (emptyResult, None)) (askService c (\<lambda>cs. (cs, on_CreateOrPatchService (services E) cs d)))" for c d
    by (rule goes_ask_eq) (simp add: settledServices_simps [OF assms])
  show ?thesis
    unfolding exposeEndpoint_def
    by (cases ep, hypsubst, unfold prod.case, rule goes_bnd_any [OF goes_object(1)], rule goes_sum, simp add: settledServices_simps [OF assms],
        rule goes_cases(3), rule goes_bnd [OF made])
       (auto intro!: goes_sum goes_ret simp: settledServices_simps [OF assms])
qed

lemma goes_registration:
  assumes "settledServices L E"
  shows "goes (\<lambda>r. r = (emptyResult, None)) (EnsureRegistration L E reg upd)"
proof -
  have asked: "goes (\<lambda>r. fst r = (emptyResult, None)) (ask c (on_KeystoneService E))"
    "goes (\<lambda>r. fst r = (emptyResult, None)) (ask c (on_KeystoneEndpoint E))" for c
    by (rule goes_ask, simp add: settledServices_simps [OF assms])+
  show ?thesis
    unfolding EnsureRegistration_def
    by (rule goes_bnd [OF asked(1)]) (auto intro!: goes_thn goes_object goes_bnd [OF asked(2)] goes_ret)
qed

lemma goes_apiInit:
  assumes "settledServices L E"
  shows "goes (\<lambda>r. r = (emptyResult, None)) (apiReconcileInit L E P labels)"
proof -
  have log: "proceeds getLog"
    by (simp add: goes_def getLog_def)
  have "proceeds (apiExpose L E P labels)"
    unfolding apiExpose_def
    by (intro goes_bnd_any goes_object log goes_foreach_any goes_exposeEndpoint [OF assms] goes_thn goes_conditions)
  then show ?thesis
    unfolding apiReconcileInit_def
    by (intro goes_thn goes_bnd_any goes_object goes_whenM goes_foreach_any goes_checked goes_registration [OF assms] goes_ret refl)
qed

text \<open>What the API needs of its spec: a secret for every endpoint with TLS.\<close>

definition certified :: "podLib \<Rightarrow> IronicAPI \<Rightarrow> bool" where
  "certified P a \<longleftrightarrow> list_all (\<lambda>e. tls_Enabled P (api_TLS (api_Spec a)) e \<longrightarrow>
     \<not> isl (ToService P (certSecret (api_TLS (api_Spec a)) e))) [''internal'', ''public'']"

lemma endpointCerts_certified:
  "list_all (\<lambda>e. tls_Enabled P t e \<longrightarrow> \<not> isl (ToService P (certSecret t e))) es \<Longrightarrow>
     \<exists>v m. endpointCerts P t es acc = Inr (v, m)"
  by (induction P t es acc rule: endpointCerts.induct) (auto simp: sum.case_eq_if)

end
