(* ===== verification/Settling.thy ===== *)
theory Settling
  imports ServiceProgress
begin

text \<open>
  The reconciles of a conductor and of the API settle: with the hash of its inputs
  recorded a run goes to its end and records the input it was asked for, with any other
  it records the hash and is given up; and the hash depends on metadata and spec only.
\<close>

section \<open>The contract of the inputs\<close>

text \<open>A step that goes on and leaves the key.\<close>

lemma runs_step: "proceeds m \<Longrightarrow> leaves F m \<Longrightarrow> runs (\<lambda>s. F (obj s) = k) m (\<lambda>_ s. F (obj s) = k)"
  using goes_valid [of "\<lambda>_. True" m F k] by simp

text \<open>From an instance with key \<open>k\<close> the computation ends without error or requeue, whether it
  goes on or returns early, with the key \<open>k'\<close>.\<close>

definition reaches :: "('o \<Rightarrow> 'k) \<Rightarrow> 'k \<Rightarrow> 'k \<Rightarrow> ('o, call, ret, ret) act \<Rightarrow> bool" where
  "reaches key k k' m \<longleftrightarrow> valid (\<lambda>s. key (obj s) = k) m (\<lambda>x s. x = (emptyResult, None) \<and> key (obj s) = k')
     (\<lambda>x s. x = (emptyResult, None) \<and> key (obj s) = k')"

text \<open>The key at the end of a run that the inputs' hash \<open>h\<close> lets go on, and of one it ends.\<close>

definition settledKey :: "string \<Rightarrow> string \<Rightarrow> 'm \<times> ('s \<times> string option) \<times> string \<Rightarrow> 'm \<times> ('s \<times> string option) \<times> string" where
  "settledKey h eh k = (fst k, (fst (fst (snd k)), Some h), if snd (fst (snd k)) = Some h then eh else snd (snd k))"

context service_steps begin

text \<open>The end of a run: the hash it was asked for is the applied one.\<close>

lemma runs_applied:
  assumes "goes (\<lambda>b. b) m" and "leaves key m"
  shows "runs (\<lambda>s. key (obj s) = k) (bnd m (\<lambda>ready. thn (svApply V ready h) (svFinish V L)))
     (\<lambda>r s. r = (emptyResult, None) \<and> key (obj s) = withApplied h k)"
proof -
  have set: "runs (\<lambda>s. ready \<and> key (obj s) = k) (svApply V ready h) (\<lambda>_ s. key (obj s) = withApplied h k)" for ready
    by (auto simp: valid_def svApply_def whenM_def step_simps)
  show ?thesis
    by (rule valid_bnd [OF goes_valid [OF assms]], rule valid_thn [OF set],
        rule goes_valid [OF goes_finish(1) leaves_svFinish])
qed

end

text \<open>The metadata is the first part of the key, and the applied hash the last.\<close>

locale applied_view = service_steps V key for V :: "'o service" and key :: "'o \<Rightarrow> ObjectMeta \<times> 's \<times> string" +
  assumes key_setMeta [simp]: "key (sv_setMeta V m i) = (m, snd (key i))"
    and key_Meta [simp]: "fst (key i) = sv_Meta V i"
    and key_setObservedGeneration [simp]: "key (sv_setObservedGeneration V g i) = key i"
begin

abbreviation app :: "'o \<Rightarrow> string" where
  "app i \<equiv> snd (snd (key i))"

lemma runs_modify: "(\<And>x. key (f x) = key x) \<Longrightarrow> runs (\<lambda>s. key (obj s) = k) (modObj f) (\<lambda>_ s. key (obj s) = k)"
  by (simp add: valid_def step_simps)

end

text \<open>The middle is the spec with the recorded hash of the inputs. What the inputs are read
  from is part of metadata and spec.\<close>

locale inputs_view = applied_view V key for V :: "'o service" and key :: "'o \<Rightarrow> ObjectMeta \<times> ('s \<times> string option) \<times> string" +
  assumes key_Hash [simp]: "snd (fst (snd (key i))) = recorded (sv_Hash V i)"
    and key_setHash [simp]: "key (sv_setHash V m i) = (fst (key i), (fst (fst (snd (key i))), recorded m), snd (snd (key i)))"
    and Conditions_set [simp]: "sv_Conditions V (sv_setConditions V c i) = c"
    and spec_fields: "fst (fst (snd (key i))) = fst (fst (snd (key j))) \<Longrightarrow>
      sv_Secret V i = sv_Secret V j \<and> sv_PasswordSelector V i = sv_PasswordSelector V j \<and> sv_CaBundle V i = sv_CaBundle V j"
begin

definition base :: "'o \<Rightarrow> ObjectMeta \<times> 's" where
  "base i = (fst (key i), fst (fst (snd (key i))))"

lemma base_fields:
  assumes "base i = base j"
  shows "sv_ns V i = sv_ns V j" "sv_owner V i = sv_owner V j" "sv_Secret V i = sv_Secret V j"
    "sv_PasswordSelector V i = sv_PasswordSelector V j" "sv_CaBundle V i = sv_CaBundle V j"
  using assms spec_fields [of i j] by (simp_all add: base_def sv_ns_def sv_owner_def)

lemma leaves_base: "leaves key m \<Longrightarrow> leaves base m"
  by (simp add: leaves_def base_def)

text \<open>The steps that read the inputs have a value that metadata and spec determine.\<close>

lemma steady_quiet [steady]:
  "steady F (svSet V L c)" "steady F (svTrue V L t m)" "steady F (svWarn V L t ms)" "steady F (svFail V L E t m e)"
  unfolding svFail_def svWarn_def svSet_def svTrue_def thn_eq by (simp_all add: steady_def step_simps)

lemma steady_inputs:
  assumes "atRest E"
  shows "steady base (svLabelledSecrets V L E)" "steady base (svVerifySecret V L E name field waiting)"
    "steady base (svPassword V L E vars)" "steady base (svTransport V L E needed name vars)"
    "steady base (svCaCert V L E missing vars)"
    "(\<And>i j. base i = base j \<Longrightarrow> tlsOf i = tlsOf j) \<Longrightarrow> steady base (svCerts V L E tlsOf missing vars)"
proof -
  show "steady base (svLabelledSecrets V L E)"
    unfolding svLabelledSecrets_def askService_def
    apply (rule steady_getObj)
    subgoal premises same unfolding base_fields [OF same] by (rule refl)
    by (intro steady keeps atRest_same [OF assms] leaves_base)
  show verify: "steady base (svVerifySecret V L E name field waiting)" for name field waiting
    unfolding svVerifySecret_def
    apply (rule steady_getObj)
    subgoal premises same unfolding base_fields [OF same] by (rule refl)
    by (intro steady keeps atRest_same [OF assms] leaves_base)
  show "steady base (svPassword V L E vars)"
    unfolding svPassword_def
    apply (rule steady_getObj)
    subgoal premises same unfolding base_fields [OF same] by (rule refl)
    by (intro steady keeps verify leaves_base)
  show "steady base (svTransport V L E needed name vars)"
    unfolding svTransport_def by (intro steady keeps verify leaves_base)
  show "steady base (svCaCert V L E missing vars)"
    unfolding svCaCert_def askService_def
    apply (rule steady_getObj)
    subgoal premises same unfolding base_fields [OF same] by (rule refl)
    by (intro steady keeps atRest_same [OF assms] leaves_base)
  show "steady base (svCerts V L E tlsOf missing vars)" if "\<And>i j. base i = base j \<Longrightarrow> tlsOf i = tlsOf j"
    unfolding svCerts_def askService_def
    apply (rule steady_getObj)
    subgoal premises same unfolding base_fields [OF same] that [OF same] by (rule refl)
    by (intro steady keeps atRest_same [OF assms] leaves_base)
qed

lemma steady_config: "steady base m \<Longrightarrow> leaves base m \<Longrightarrow> steady base (svConfig V L E m)"
  unfolding svConfig_def by (intro steady keeps)

text \<open>A step that is steady, goes on and leaves the key has one value.\<close>

lemma runs_value:
  assumes "valued base b m v" and "proceeds m" and "leaves key m" and "base' = b" and "(fst k, fst (fst (snd k))) = base'"
  shows "runs (\<lambda>s. key (obj s) = k) m (\<lambda>x s. x = v \<and> key (obj s) = k)"
  by (rule runs_valued [OF assms(1) runs_step [OF assms(2,3)]]) (use assms(4,5) in \<open>auto simp: base_def\<close>)

text \<open>The comparison with the recorded hash.\<close>

lemma runs_inputHash:
  assumes "setHash_law E" and "EnvHash E vars = Inr h"
  shows "runs (\<lambda>s. key (obj s) = (m, (sp, Some h), a)) (svInputHash V L E changed vars)
      (\<lambda>x s. x = h \<and> key (obj s) = (m, (sp, Some h), a))"
    and "r \<noteq> Some h \<Longrightarrow> valid (\<lambda>s. key (obj s) = (m, (sp, r), a)) (svInputHash V L E changed vars) (\<lambda>_ _. False)
      (\<lambda>x s. x = (changed, None) \<and> key (obj s) = (m, (sp, Some h), a))"
proof -
  have rec: "recorded (sv_Hash V i) = r" if "key i = (m, (sp, r), a)" for i r
    using key_Hash [of i] that by simp
  show "runs (\<lambda>s. key (obj s) = (m, (sp, Some h), a)) (svInputHash V L E changed vars)
      (\<lambda>x s. x = h \<and> key (obj s) = (m, (sp, Some h), a))"
    using setHash_same [OF assms(1) rec]
    by (simp add: valid_def svInputHash_def svCreateHash_def assms(2) act_defs svTrue_def)
  show "valid (\<lambda>s. key (obj s) = (m, (sp, r), a)) (svInputHash V L E changed vars) (\<lambda>_ _. False)
      (\<lambda>x s. x = (changed, None) \<and> key (obj s) = (m, (sp, Some h), a))" if "r \<noteq> Some h"
    unfolding valid_def
  proof (intro allI impI)
    fix s :: "('o, call) st" assume s: "key (obj s) = (m, (sp, r), a)"
    then have "recorded (sv_Hash V (obj s)) \<noteq> Some h"
      using rec that by metis
    from setHash_new [OF assms(1) this] obtain hm where
      "SetHash E (sv_Hash V (obj s)) ''InputHashName'' h = (hm, True)" "recorded hm = Some h"
      by blast
    then show "case svInputHash V L E changed vars s of (Continue _, _) \<Rightarrow> False
        | (Return x, s') \<Rightarrow> x = (changed, None) \<and> key (obj s') = (m, (sp, Some h), a)"
      using s by (simp add: svInputHash_def svCreateHash_def assms(2) step_simps whenM_def)
  qed
qed

lemma inputHash_reaches:
  assumes "setHash_law E" and "EnvHash E vars = Inr h"
    and rest: "\<And>a. runs (\<lambda>s. key (obj s) = (m, (sp, Some h), a)) (rest h)
      (\<lambda>x s. x = (emptyResult, None) \<and> key (obj s) = (m, (sp, Some h), eh))"
  shows "reaches key (m, (sp, r), a) (settledKey h eh (m, (sp, r), a)) (bnd (svInputHash V L E emptyResult vars) rest)"
proof (cases "r = Some h")
  case True
  have "runs (\<lambda>s. key (obj s) = (m, (sp, r), a)) (bnd (svInputHash V L E emptyResult vars) rest)
      (\<lambda>x s. x = (emptyResult, None) \<and> key (obj s) = (m, (sp, Some h), eh))"
    unfolding True by (rule valid_bnd [OF runs_inputHash(1) [OF assms(1,2)]], rule valid_imp, hypsubst, rule rest)
  then show ?thesis
    unfolding reaches_def by (rule valid_weaken) (simp_all add: settledKey_def True)
next
  case False
  have "valid (\<lambda>s. key (obj s) = (m, (sp, r), a)) (bnd (svInputHash V L E emptyResult vars) rest) (\<lambda>_ _. False)
      (\<lambda>x s. x = (emptyResult, None) \<and> key (obj s) = (m, (sp, Some h), a))"
    by (rule valid_bnd [OF runs_inputHash(2) [OF assms(1,2) False]]) (simp add: valid_def)
  then show ?thesis
    unfolding reaches_def by (rule valid_weaken) (simp_all add: settledKey_def False)
qed

text \<open>The entry point, on an instance that is not new and not being deleted: it ends as
  the run does.\<close>

lemma runs_patch:
  assumes "settledCrud (sv_crud V E) Q"
  shows "runs (\<lambda>s. r = (emptyResult, None) \<and> key (obj s) = k) (svPatch V L E saved r)
     (\<lambda>r s. r = (emptyResult, None) \<and> key (obj s) = k \<and> sv_Conditions V (obj s) \<noteq> None)"
proof (rule valid_imp)
  assume r: "r = (emptyResult, None)"
  have stored: "goes (\<lambda>r. \<not> isl r) (ask c (\<lambda>cs. cr_Store (sv_crud V E) cs i))" for c i
    by (rule goes_ask) (simp add: settledCrud_simps(3) [OF assms])
  have mirror: "proceeds (case x of None \<Rightarrow> ret () | Some c \<Rightarrow> svSet V L c)" for x
    by (cases x) (simp_all add: goes_ret goes_conditions)
  have "goes (\<lambda>x. x = r) (svPatch V L E saved r)"
    unfolding svPatch_def r
    by (auto intro!: goes_thn goes_object goes_bnd_any goes_whenM mirror goes_bnd [OF stored] goes_sum goes_ret)
  moreover have "leaves key (svPatch V L E saved r)"
    unfolding svPatch_def by (intro keeps; simp)
  ultimately have ends: "runs (\<lambda>s. key (obj s) = k) (svPatch V L E saved r) (\<lambda>x s. x = r \<and> key (obj s) = k)"
    by (rule goes_valid)
  have "valid (\<lambda>_. True) (svPatch V L E saved r) (\<lambda>_ s. sv_Conditions V (obj s) \<noteq> None) (\<lambda>_ _. True)"
    unfolding svPatch_def r
    by (auto simp: valid_def step_simps whenM_def svSet_def sv_updConds_def split: option.split sum.split)
  from valid_conj [OF ends this] show "runs (\<lambda>s. key (obj s) = k) (svPatch V L E saved r)
     (\<lambda>r s. r = (emptyResult, None) \<and> key (obj s) = k \<and> sv_Conditions V (obj s) \<noteq> None)"
    by (rule valid_weaken) (simp_all add: r)
qed

lemma svReconcile_reaches:
  assumes "settledCrud (sv_crud V E) Q" and "\<And>x. key (prepare x) = key x"
    and i: "sv_Conditions V i \<noteq> None" "DeletionTimestamp (sv_Meta V i) = None"
      "AddFinalizer E (sv_Meta V i) = (sv_Meta V i, False)"
    and normal: "reaches key (key i) k' normal"
  shows "runs (\<lambda>s. obj s = i) (svReconcile V L E initial prepare onDelete normal)
     (\<lambda>r s. r = (emptyResult, None) \<and> key (obj s) = k' \<and> sv_Conditions V (obj s) \<noteq> None)"
proof -
  let ?K = "\<lambda>s. key (obj s) = key i"
  let ?E = "\<lambda>r s. r = (emptyResult, None) \<and> key (obj s) = k'"
  have meta: "sv_Meta V x = sv_Meta V i" if "key x = key i" for x
    using that key_Meta by metis
  have alive: "DeletionTimestamp (sv_Meta V x) = None" if "key x = key i" for x
    using i(2) meta [OF that] by simp
  have work: "valid ?K (thn (modObj prepare) (bnd getObj (\<lambda>x.
      if DeletionTimestamp (sv_Meta V x) \<noteq> None then onDelete else normal))) ?E ?E"
    by (rule valid_thn [OF runs_valid [OF runs_modify]], rule assms(2), rule valid_bnd_getObj, drule alive)
      (use normal in \<open>simp add: reaches_def\<close>)
  have body: "valid ?K (svBody V L E initial prepare onDelete normal False) ?E ?E"
    unfolding svBody_def
  proof (rule valid_thn [OF runs_valid [OF runs_modify]], simp, rule valid_thn [OF runs_valid [OF runs_modify]], simp,
      rule valid_bnd_getObj)
    fix x assume x: "key x = key i"
    have "runs ?K (modObj (sv_setMeta V (sv_Meta V x))) (\<lambda>_. ?K)"
      using x meta [OF x] by (cases "key i") (auto simp: valid_def step_simps dest: arg_cong [where f = fst])
    from valid_thn [OF runs_valid [OF this] work]
    show "valid ?K (let (meta', added) = (if DeletionTimestamp (sv_Meta V x) = None then AddFinalizer E (sv_Meta V x)
          else (sv_Meta V x, False)) in thn (modObj (sv_setMeta V meta')) (if added \<or> False then exit (emptyResult, None)
          else thn (modObj prepare) (bnd getObj (\<lambda>x. if DeletionTimestamp (sv_Meta V x) \<noteq> None then onDelete else normal))))
        ?E ?E"
      using i(3) alive [OF x] meta [OF x] by simp
  qed
  have rest: "runs ?K (bnd (func (svBody V L E initial prepare onDelete normal False)) (svPatch V L E saved))
      (\<lambda>r s. r = (emptyResult, None) \<and> key (obj s) = k' \<and> sv_Conditions V (obj s) \<noteq> None)" for saved
    by (rule valid_bnd [OF valid_func [OF body] runs_patch [OF assms(1)]])
  show ?thesis
    unfolding svReconcile_def Let_def
    by (rule valid_bnd [OF valid_getObj [where Q = "\<lambda>x s. x = i \<and> ?K s"]], simp, rule valid_imp)
      (simp add: i(1) step_simps rest del: not_None_eq)
qed

end

context inputs_view begin

text \<open>Two runs: the first records the hash of the inputs, the second the input asked for.\<close>

lemma svReconcile_twice:
  assumes "settledCrud (sv_crud V E) Q" and "\<And>x. key (prepare x) = key x"
    and i: "sv_Conditions V i \<noteq> None" "DeletionTimestamp (sv_Meta V i) = None"
      "AddFinalizer E (sv_Meta V i) = (sv_Meta V i, False)"
    and normal: "\<forall>r a. reaches key (sv_Meta V i, (fst (fst (snd (key i))), r), a)
      (settledKey h eh (sv_Meta V i, (fst (fst (snd (key i))), r), a)) normal"
  shows "\<exists>s t. svReconcile V L E initial prepare onDelete normal \<lparr>obj = i, calls = []\<rparr> = (Continue (emptyResult, None), s) \<and>
    svReconcile V L E initial prepare onDelete normal \<lparr>obj = obj s, calls = []\<rparr> = (Continue (emptyResult, None), t) \<and>
    key (obj s) = settledKey h eh (key i) \<and> app (obj t) = eh"
proof -
  let ?run = "svReconcile V L E initial prepare onDelete normal"
  have once: "\<exists>s. ?run \<lparr>obj = j, calls = []\<rparr> = (Continue (emptyResult, None), s) \<and> key (obj s) = settledKey h eh (key j) \<and>
      sv_Conditions V (obj s) \<noteq> None"
    if "fst (key j) = fst (key i)" "fst (fst (snd (key j))) = fst (fst (snd (key i)))" "sv_Conditions V j \<noteq> None" for j
  proof -
    have same: "sv_Meta V j = sv_Meta V i" "key j = (sv_Meta V i, (fst (fst (snd (key i))), snd (fst (snd (key j)))), snd (snd (key j)))"
      using that by (simp_all add: prod_eq_iff)
    have "reaches key (key j) (settledKey h eh (key j)) normal"
      by (subst (1 2) same(2)) (use normal in blast)
    from svReconcile_reaches [OF assms(1,2) that(3) _ _ this] i(2,3) same(1)
    have "runs (\<lambda>s. obj s = j) ?run (\<lambda>r s. r = (emptyResult, None) \<and> key (obj s) = settledKey h eh (key j) \<and>
        sv_Conditions V (obj s) \<noteq> None)"
      by simp
    from runsE [OF this, of "\<lparr>obj = j, calls = []\<rparr>"] show ?thesis
      by (metis st.select_convs(1))
  qed
  obtain s where s: "?run \<lparr>obj = i, calls = []\<rparr> = (Continue (emptyResult, None), s)" "key (obj s) = settledKey h eh (key i)"
    "sv_Conditions V (obj s) \<noteq> None"
    using once [OF refl refl i(1)] by blast
  then obtain t where t: "?run \<lparr>obj = obj s, calls = []\<rparr> = (Continue (emptyResult, None), t)"
    "key (obj t) = settledKey h eh (key (obj s))"
    using once [of "obj s"] by (auto simp: settledKey_def simp del: not_None_eq)
  have "app (obj t) = eh"
    using s(2) t(2) by (simp add: settledKey_def)
  with s t show ?thesis by blast
qed

end

section \<open>The conductor\<close>

definition conductorState :: "IronicConductor \<Rightarrow> ObjectMeta \<times> (IronicConductorSpec \<times> string option) \<times> string" where
  "conductorState i = (con_Meta i, (con_Spec i, recorded (cst_Hash (con_Status i))), cst_AppliedInputSecretHash (con_Status i))"

interpretation conductor_inputs: inputs_view conductorService conductorState
  by unfold_locales
    (simp_all add: conductorService_def withApplied_def conductorState_def IronicConductor_RbacConditionsSet_def
      IronicConductor_updConds_def IronicConductor_topology_def)

lemma conductorState_eq:
  "conductorState i = (m, (sp, r), a) \<longleftrightarrow> con_Meta i = m \<and> con_Spec i = sp \<and> recorded (cst_Hash (con_Status i)) = r \<and>
     cst_AppliedInputSecretHash (con_Status i) = a"
  by (auto simp: conductorState_def)

lemma conductor_base: "conductor_inputs.base i = (con_Meta i, con_Spec i)"
  by (simp add: conductor_inputs.base_def conductorState_def)

lemma leaves_conductorState [keeps]:
  "leaves conductorState (conductorInputs L E)" "leaves conductorState (conductorTLS L E vars)"
  "leaves conductorState (conductorConfig L E W maskText vars)" "leaves conductorState (conductorReconcileServices E labels)"
  unfolding conductorInputs_def conductorTLS_def conductorConfig_def conductorConfigMaps_def conductorGetTransportURL_def
    conductorAuthParams_def conductorReconcileServices_def conductorPods_def
  by (intro keeps; simp)+

text \<open>A continuation that does not depend on the log.\<close>

lemma steady_log:
  assumes "\<And>cs. g cs = g []" and "steady F (g [])"
  shows "steady F (bnd (ask c id) g)"
proof -
  have "bnd (ask c id) g s = g [] (s\<lparr>calls := calls s @ [c]\<rparr>)" for s
    using fun_cong [OF assms(1)] by (simp add: step_simps)
  then show ?thesis
    unfolding steady_def using steadyD [OF assms(2)] by (metis st.select_convs(1) st.simps(3) st.surjective st.update_convs(2))
qed

lemma steady_secrets:
  assumes "atRest E"
  shows "steady F (getSecret E n ns)" "steady F (getQuorumQueues E n ns)" "steady F (setApplicationCredentialParams E n ns tp)"
  unfolding getQuorumQueues_def setApplicationCredentialParams_def getSecret_def by (intro steady keeps atRest_same [OF assms])+

lemma leaves_conductorParts [keeps]:
  "leaves F (conductorGetTransportURL E)" "leaves F (conductorAuthParams E i vars tp)"
  unfolding conductorGetTransportURL_def conductorAuthParams_def by (intro keeps)+

lemma steady_conductorConfig:
  assumes "atRest E"
  shows "steady conductor_inputs.base (conductorConfig L E W maskText vars)"
proof -
  note secrets = steady_secrets [OF assms]
  have url: "steady conductor_inputs.base (conductorGetTransportURL E)"
    unfolding conductorGetTransportURL_def
    apply (rule steady_getObj)
    subgoal premises same
      unfolding same [unfolded conductor_base prod.inject, THEN conjunct1] same [unfolded conductor_base prod.inject, THEN conjunct2]
      by (rule refl)
    by (intro steady keeps secrets)
  have auth: "steady conductor_inputs.base (conductorAuthParams E i vars tp)" for i tp
  proof -
    have listed: "steady conductor_inputs.base (bnd (ask c id) (\<lambda>cs. g (on_ListIronicAPI (services E) cs)))"
      if "steady conductor_inputs.base (g (on_ListIronicAPI (services E) []))"
      for c and g :: "(string \<Rightarrow> (string \<times> string) list option \<Rightarrow> goerr + IronicAPI list) \<Rightarrow>
        (IronicConductor, call, goerr option \<times> (string \<rightharpoonup> string), 'a) act"
      by (rule steady_log, rule arg_cong [where f = g], rule atRest_same(12) [OF assms], rule that)
    show ?thesis
      unfolding conductorAuthParams_def askService_def by (intro steady keeps secrets listed)
  qed
  have "steady conductor_inputs.base (conductorConfigMaps E W maskText vars)"
    unfolding conductorConfigMaps_def
    apply (rule steady_getObj)
    subgoal premises same
      unfolding conductorAuthParams_def tbnEnabled_def
        same [unfolded conductor_base prod.inject, THEN conjunct1] same [unfolded conductor_base prod.inject, THEN conjunct2]
      by (rule refl)
    by (intro steady keeps secrets url auth atRest_same [OF assms])
  moreover have "leaves conductor_inputs.base (conductorConfigMaps E W maskText vars)"
    unfolding conductorConfigMaps_def conductorGetTransportURL_def conductorAuthParams_def by (intro keeps)
  ultimately show ?thesis
    unfolding conductorConfig_def by (rule conductor_inputs.steady_config)
qed

text \<open>What a conductor needs of its spec: a storage request that is a quantity, and a
  grace period.\<close>

definition buildable :: "podLib \<Rightarrow> IronicConductor \<Rightarrow> bool" where
  "buildable P c \<longleftrightarrow> \<not> isl (ParseQuantity P (con_StorageRequest (con_Spec c))) \<and>
     con_TerminationGracePeriodSeconds (con_Spec c) \<noteq> None"

lemma runs_conductorStatefulSet:
  assumes "settledServices L E" and "buildable P c" and "fst (fst (snd k)) = con_Spec c"
  shows "runs (\<lambda>s. conductorState (obj s) = k) (conductorStatefulSet L E P h labels d ann tpl)
     (\<lambda>ob s. (ob_Generation ob = ob_ObservedGeneration ob \<and> ob_IsReady ob) \<and> conductorState (obj s) = k)"
  unfolding conductorStatefulSet_def
proof (rule valid_bnd_getObj)
  fix j assume "conductorState j = k"
  then have "con_Spec j = con_Spec c"
    using assms(3) by (auto simp: conductorState_def)
  then have "\<exists>wl. conductor_StatefulSet P j h labels d ann tpl = Some (Inr wl)"
    using assms(2) by (auto simp: buildable_def conductor_StatefulSet_def Let_def sum.case_eq_if)
  then obtain wl where "conductor_StatefulSet P j h labels d ann tpl = Some (Inr wl)"
    by blast
  then show "runs (\<lambda>s. conductorState (obj s) = k)
     (bnd (orPanic (conductor_StatefulSet P j h labels d ann tpl)) (svStoreWorkload conductorService L E CreateOrPatchStatefulSet))
     (\<lambda>ob s. (ob_Generation ob = ob_ObservedGeneration ob \<and> ob_IsReady ob) \<and> conductorState (obj s) = k)"
    using goes_valid [OF goes_workload [OF assms(1)] conductor_inputs.leaves_svStoreWorkload]
    by (simp add: orPanic_def step_simps)
qed

lemma steady_conductorInputs:
  assumes "atRest E"
  shows "steady conductor_inputs.base (conductorInputs L E)" "steady conductor_inputs.base (conductorTLS L E vars)"
proof -
  note steps = conductor_inputs.steady_inputs [OF assms]
  show "steady conductor_inputs.base (conductorInputs L E)"
    unfolding conductorInputs_def
    apply (rule steady_bnd [OF steps(1)], intro conductor_inputs.leaves_base keeps)
    apply (rule steady_bnd [OF steps(3)], intro conductor_inputs.leaves_base keeps)
    apply (rule steady_getObj)
    subgoal premises same unfolding same [unfolded conductor_base prod.inject, THEN conjunct2] by (rule refl)
    by (intro steady steps conductor_inputs.steady_quiet conductor_inputs.leaves_base keeps)
  show "steady conductor_inputs.base (conductorTLS L E vars)"
    unfolding conductorTLS_def by (intro steady steps conductor_inputs.steady_quiet conductor_inputs.leaves_base keeps)
qed

lemma expectedHash_conductorState:
  "con_Meta i = con_Meta c \<Longrightarrow> svExpectedHash conductorService i = svExpectedHash conductorService c"
  by (simp add: svExpectedHash_def conductorService_def)

lemma conductorNormal_value:
  assumes "settled E" and "settledServices L E" and "atRest E" and "setHash_law E" and "buildable P c"
  obtains h where "\<forall>r a. reaches conductorState (con_Meta c, (con_Spec c, r), a)
     (settledKey h (svExpectedHash conductorService c) (con_Meta c, (con_Spec c, r), a)) (conductorReconcileNormal L E P W maskText)"
proof -
  let ?b = "(con_Meta c, con_Spec c)" and ?eh = "svExpectedHash conductorService c"
  note step = runs_step [where F = conductorState]
  have inputs: "proceeds (conductorInputs L E)"
    unfolding conductorInputs_def by (intro goes_bnd_any goes_inputs [OF assms(1,2)] goes_object goes_thn goes_conditions goes_ret TrueI)
  have tls: "proceeds (conductorTLS L E vars)" for vars
    unfolding conductorTLS_def by (intro goes_bnd_any goes_inputs [OF assms(1,2)] goes_thn goes_conditions goes_ret TrueI)
  obtain v1 where v1: "valued conductor_inputs.base ?b (conductorInputs L E) v1"
    by (rule steady_value [OF steady_conductorInputs(1) [OF assms(3)]])
  obtain v2 where v2: "valued conductor_inputs.base ?b (conductorTLS L E v1) v2"
    by (rule steady_value [OF steady_conductorInputs(2) [OF assms(3)]])
  obtain v where v: "valued conductor_inputs.base ?b (conductorConfig L E W maskText v2) v"
    by (rule steady_value [OF steady_conductorConfig [OF assms(3)]])
  obtain h where h: "EnvHash E v = Inr h"
    using settled_simps(21) [OF assms(1), of v] by (metis sum.collapse(2))
  have services: "proceeds (checked (conductorReconcileServices E labels))" for labels
    by (rule goes_checked [OF goes_conductorServices [OF assms(2)]])
  let ?K = "\<lambda>r a s. conductorState (obj s) = (con_Meta c, (con_Spec c, r), a)"
  let ?rest = "\<lambda>labels h. bnd (conductorNetworks L E) (\<lambda>serviceAnnotations. bnd (conductorIngress E) (\<lambda>ingressDomain.
     bnd (conductorTopology L E) (\<lambda>topology.
     bnd (conductorStatefulSet L E P h labels ingressDomain serviceAnnotations topology) (\<lambda>deploy.
     thn (checked (conductorReconcileServices E labels)) (bnd (conductorReady L E labels h deploy) (\<lambda>ready.
     thn (svApply conductorService ready ?eh) (svFinish conductorService L)))))))"
  have ending: "runs (\<lambda>s. (ob_Generation ob = ob_ObservedGeneration ob \<and> ob_IsReady ob) \<and> ?K r a s)
      (thn (checked (conductorReconcileServices E labels)) (bnd (conductorReady L E labels h ob) (\<lambda>ready.
         thn (svApply conductorService ready ?eh) (svFinish conductorService L))))
      (\<lambda>x s. x = (emptyResult, None) \<and> ?K r ?eh s)" for ob labels r a
  proof (rule valid_imp)
    assume ob: "ob_Generation ob = ob_ObservedGeneration ob \<and> ob_IsReady ob"
    show "runs (?K r a) (thn (checked (conductorReconcileServices E labels)) (bnd (conductorReady L E labels h ob) (\<lambda>ready.
         thn (svApply conductorService ready ?eh) (svFinish conductorService L)))) (\<lambda>x s. x = (emptyResult, None) \<and> ?K r ?eh s)"
      unfolding conductorReady_def
      by (rule valid_thn [OF step [OF services]], intro keeps, rule valid_weaken [OF conductor_inputs.runs_applied
           [OF goes_ready [OF assms(2) ob]]], intro keeps, assumption) (simp_all add: withApplied_def)
  qed
  have go: "runs (?K (Some h) a) (?rest labels h) (\<lambda>x s. x = (emptyResult, None) \<and> ?K (Some h) ?eh s)" for a labels
    unfolding conductorNetworks_def conductorTopology_def
    by (rule valid_bnd [OF step], rule goes_placement [OF assms(2)], rule keeps,
        rule valid_bnd [OF step], rule goes_conductorIngress [OF assms(2)], rule keeps,
        rule valid_bnd [OF step], rule goes_placement [OF assms(2)], rule keeps,
        rule valid_bnd [OF runs_conductorStatefulSet [OF assms(2,5)]], simp, rule ending)
  have hash: "reaches conductorState (con_Meta c, (con_Spec c, r), a) (settledKey h ?eh (con_Meta c, (con_Spec c, r), a))
      (bnd (conductorInputHash L E v) (?rest labels))" for r a labels
    unfolding conductorInputHash_def by (rule conductor_inputs.inputHash_reaches [OF assms(4) h], rule go)
  have val: "runs (?K r a) m (\<lambda>x s. x = y \<and> ?K r a s)"
    if "valued conductor_inputs.base ?b m y" "proceeds m" "leaves conductorState m" for r a y and m :: "'x cact"
    by (rule conductor_inputs.runs_value [OF that refl]) simp
  have "reaches conductorState (con_Meta c, (con_Spec c, r), a) (settledKey h ?eh (con_Meta c, (con_Spec c, r), a))
      (conductorReconcileNormal L E P W maskText)" for r a
    unfolding conductorReconcileNormal_def conductorAccount_def Let_def reaches_def
    apply (rule valid_thn [OF runs_valid [OF step [OF goes_account [OF assms(1,2)]]]], rule keeps)
    apply (rule valid_bnd [OF runs_valid [OF val [OF v1 inputs]]], rule keeps, rule valid_imp, hypsubst)
    apply (rule valid_bnd_getObj, unfold conductorState_eq, elim conjE)
    apply (rule valid_bnd [OF runs_valid [OF val [OF v2 tls, unfolded conductorState_eq]]], rule keeps, rule valid_imp, hypsubst)
    apply (rule valid_bnd [OF runs_valid [OF val [OF v goes_conductorConfig [OF assms(1,2)], unfolded conductorState_eq]]],
        rule keeps, rule valid_imp, hypsubst)
    apply (drule expectedHash_conductorState, simp only:, rule hash [unfolded reaches_def conductorState_eq])
    done
  then show thesis
    by (intro that [of h]) blast
qed

section \<open>The API\<close>

definition apiState :: "IronicAPI \<Rightarrow> ObjectMeta \<times> (IronicAPISpec \<times> string option) \<times> string" where
  "apiState i = (api_Meta i, (api_Spec i, recorded (ast_Hash (api_Status i))), ast_AppliedInputSecretHash (api_Status i))"

interpretation api_inputs: inputs_view apiService apiState
  by unfold_locales
    (simp_all add: apiService_def withApplied_def apiState_def IronicAPI_RbacConditionsSet_def IronicAPI_updConds_def
      IronicAPI_topology_def)

lemma apiState_eq:
  "apiState i = (m, (sp, r), a) \<longleftrightarrow> api_Meta i = m \<and> api_Spec i = sp \<and> recorded (ast_Hash (api_Status i)) = r \<and>
     ast_AppliedInputSecretHash (api_Status i) = a"
  by (auto simp: apiState_def)

lemma api_base: "api_inputs.base i = (api_Meta i, api_Spec i)"
  by (simp add: api_inputs.base_def apiState_def)

lemma apiState_simps [simp]:
  "apiState (IronicAPI_updConds f i) = apiState i"
  "recorded (ast_Hash st) = recorded (ast_Hash (api_Status i)) \<Longrightarrow>
     ast_AppliedInputSecretHash st = ast_AppliedInputSecretHash (api_Status i) \<Longrightarrow> apiState (i\<lparr>api_Status := st\<rparr>) = apiState i"
  by (simp_all add: apiState_def IronicAPI_updConds_def)

lemma leaves_apiState [keeps]:
  "leaves apiState (apiInputs L E)" "leaves apiState (apiTLS L E vars)" "leaves apiState (apiConfig L E P vars)"
  "leaves apiState (apiReconcileInit L E P labels)"
  unfolding apiInputs_def apiTLS_def apiConfig_def apiConfigMaps_def apiGetTransportURL_def apiAuthParams_def
    apiReconcileInit_def apiExpose_def
  by (intro keeps; simp)+

lemma leaves_apiParts [keeps]: "leaves F (apiGetTransportURL E)" "leaves F (apiAuthParams E i vars tp)"
  unfolding apiGetTransportURL_def apiAuthParams_def by (intro keeps)+

lemma steady_apiConfig:
  assumes "atRest E"
  shows "steady api_inputs.base (apiConfig L E P vars)"
proof -
  note secrets = steady_secrets [OF assms]
  have url: "steady api_inputs.base (apiGetTransportURL E)"
    unfolding apiGetTransportURL_def
    apply (rule steady_getObj)
    subgoal premises same
      unfolding same [unfolded api_base prod.inject, THEN conjunct1] same [unfolded api_base prod.inject, THEN conjunct2]
      by (rule refl)
    by (intro steady keeps secrets)
  have auth: "steady api_inputs.base (apiAuthParams E i vars tp)" for i tp
    unfolding apiAuthParams_def by (intro steady keeps secrets)
  have "steady api_inputs.base (apiConfigMaps E P vars)"
    unfolding apiConfigMaps_def
    apply (rule steady_getObj)
    subgoal premises same
      unfolding apiAuthParams_def
        same [unfolded api_base prod.inject, THEN conjunct1] same [unfolded api_base prod.inject, THEN conjunct2]
      by (rule refl)
    by (intro steady keeps secrets url auth atRest_same [OF assms])
  moreover have "leaves api_inputs.base (apiConfigMaps E P vars)"
    unfolding apiConfigMaps_def by (intro keeps)
  ultimately show ?thesis
    unfolding apiConfig_def by (rule api_inputs.steady_config)
qed

lemma steady_apiInputs:
  assumes "atRest E"
  shows "steady api_inputs.base (apiInputs L E)" "steady api_inputs.base (apiTLS L E vars)"
proof -
  note steps = api_inputs.steady_inputs [OF assms]
  show "steady api_inputs.base (apiInputs L E)"
    unfolding apiInputs_def
    apply (rule steady_bnd [OF steps(1)], intro api_inputs.leaves_base keeps)
    apply (rule steady_bnd [OF steps(3)], intro api_inputs.leaves_base keeps)
    apply (rule steady_getObj)
    subgoal premises same unfolding same [unfolded api_base prod.inject, THEN conjunct2] by (rule refl)
    by (intro steady steps api_inputs.steady_quiet api_inputs.leaves_base keeps)
  have tls: "api_TLS (api_Spec i) = api_TLS (api_Spec j)" if "api_inputs.base i = api_inputs.base j" for i j
    using that by (simp add: api_base)
  show "steady api_inputs.base (apiTLS L E vars)"
    unfolding apiTLS_def by (intro steady steps tls api_inputs.steady_quiet api_inputs.leaves_base keeps)
qed

lemma expectedHash_apiState:
  "api_Meta i = api_Meta a \<Longrightarrow> svExpectedHash apiService i = svExpectedHash apiService a"
  by (simp add: svExpectedHash_def apiService_def)

lemma runs_apiDeployment:
  assumes "settledServices L E" and "certified P a" and "fst (fst (snd k)) = api_Spec a"
  shows "runs (\<lambda>s. apiState (obj s) = k) (apiDeployment L E P h ann tpl)
     (\<lambda>ob s. (ob_Generation ob = ob_ObservedGeneration ob \<and> ob_IsReady ob) \<and> apiState (obj s) = k)"
  unfolding apiDeployment_def
proof (rule valid_bnd_getObj)
  fix j assume "apiState j = k"
  then have "api_Spec j = api_Spec a"
    using assms(3) by (auto simp: apiState_def)
  then have "\<exists>wl. api_Deployment P j h apiLabels ann tpl = Inr wl"
    using endpointCerts_certified [OF assms(2) [unfolded certified_def], of "(api_GetVolumes P j @ caVolumes P (tls_Ca (api_TLS (api_Spec a))), api_GetVolumeMounts P j @ caMounts P (tls_Ca (api_TLS (api_Spec a))))"]
    unfolding api_Deployment_def Let_def by auto
  then obtain wl where "api_Deployment P j h apiLabels ann tpl = Inr wl"
    by blast
  then show "runs (\<lambda>s. apiState (obj s) = k)
     (case api_Deployment P j h apiLabels ann tpl of
        Inl err \<Rightarrow> svFail apiService L E ''DeploymentReadyCondition'' ''DeploymentReadyErrorMessage'' err
      | Inr depl \<Rightarrow> svStoreWorkload apiService L E CreateOrPatchDeployment depl)
     (\<lambda>ob s. (ob_Generation ob = ob_ObservedGeneration ob \<and> ob_IsReady ob) \<and> apiState (obj s) = k)"
    using goes_valid [OF goes_workload [OF assms(1)] api_inputs.leaves_svStoreWorkload] by simp
qed

lemma apiNormal_value:
  assumes "settled E" and "settledServices L E" and "atRest E" and "setHash_law E" and "certified P a"
  obtains h where "\<forall>r ap. reaches apiState (api_Meta a, (api_Spec a, r), ap)
     (settledKey h (svExpectedHash apiService a) (api_Meta a, (api_Spec a, r), ap)) (apiReconcileNormal L E P)"
proof -
  let ?b = "(api_Meta a, api_Spec a)" and ?eh = "svExpectedHash apiService a"
  note step = runs_step [where F = apiState]
  have inputs: "proceeds (apiInputs L E)"
    unfolding apiInputs_def by (intro goes_bnd_any goes_inputs [OF assms(1,2)] goes_object goes_thn goes_conditions goes_ret TrueI)
  have tls: "proceeds (apiTLS L E vars)" for vars
    unfolding apiTLS_def by (intro goes_bnd_any goes_inputs [OF assms(1,2)] goes_thn goes_conditions goes_ret TrueI)
  obtain v1 where v1: "valued api_inputs.base ?b (apiInputs L E) v1"
    by (rule steady_value [OF steady_apiInputs(1) [OF assms(3)]])
  obtain v2 where v2: "valued api_inputs.base ?b (apiTLS L E v1) v2"
    by (rule steady_value [OF steady_apiInputs(2) [OF assms(3)]])
  obtain v where v: "valued api_inputs.base ?b (apiConfig L E P v2) v"
    by (rule steady_value [OF steady_apiConfig [OF assms(3)]])
  obtain h where h: "EnvHash E v = Inr h"
    using settled_simps(21) [OF assms(1), of v] by (metis sum.collapse(2))
  let ?K = "\<lambda>r ap s. apiState (obj s) = (api_Meta a, (api_Spec a, r), ap)"
  let ?rest = "\<lambda>h. bnd (apiNetworks L E) (\<lambda>serviceAnnotations. thn (checked (apiReconcileInit L E P apiLabels))
     (bnd (apiTopology L E) (\<lambda>topology. bnd (apiDeployment L E P h serviceAnnotations topology) (\<lambda>deploy.
      bnd (apiReady L E h deploy) (\<lambda>ready. thn (svApply apiService ready ?eh) (svFinish apiService L))))))"
  have ending: "runs (\<lambda>s. (ob_Generation ob = ob_ObservedGeneration ob \<and> ob_IsReady ob) \<and> ?K r ap s)
      (bnd (apiReady L E h ob) (\<lambda>ready. thn (svApply apiService ready ?eh) (svFinish apiService L)))
      (\<lambda>x s. x = (emptyResult, None) \<and> ?K r ?eh s)" for ob r ap
  proof (rule valid_imp)
    assume ob: "ob_Generation ob = ob_ObservedGeneration ob \<and> ob_IsReady ob"
    show "runs (?K r ap) (bnd (apiReady L E h ob) (\<lambda>ready. thn (svApply apiService ready ?eh) (svFinish apiService L)))
        (\<lambda>x s. x = (emptyResult, None) \<and> ?K r ?eh s)"
      unfolding apiReady_def
      by (rule valid_weaken [OF api_inputs.runs_applied [OF goes_ready [OF assms(2) ob]]], intro keeps, assumption)
        (simp_all add: withApplied_def)
  qed
  have go: "runs (?K (Some h) ap) (?rest h) (\<lambda>x s. x = (emptyResult, None) \<and> ?K (Some h) ?eh s)" for ap
    unfolding apiNetworks_def apiTopology_def
    by (rule valid_bnd [OF step], rule goes_placement [OF assms(2)], rule keeps,
        rule valid_thn [OF step], rule goes_checked, rule goes_apiInit [OF assms(2)], intro keeps,
        rule valid_bnd [OF step], rule goes_placement [OF assms(2)], rule keeps,
        rule valid_bnd [OF runs_apiDeployment [OF assms(2,5)]], simp, rule ending)
  have hash: "reaches apiState (api_Meta a, (api_Spec a, r), ap) (settledKey h ?eh (api_Meta a, (api_Spec a, r), ap))
      (bnd (apiInputHash L E v) ?rest)" for r ap
    unfolding apiInputHash_def by (rule api_inputs.inputHash_reaches [OF assms(4) h], rule go)
  have val: "runs (?K r ap) m (\<lambda>x s. x = y \<and> ?K r ap s)"
    if "valued api_inputs.base ?b m y" "proceeds m" "leaves apiState m" for r ap y and m :: "'x aact"
    by (rule api_inputs.runs_value [OF that refl]) simp
  have "reaches apiState (api_Meta a, (api_Spec a, r), ap) (settledKey h ?eh (api_Meta a, (api_Spec a, r), ap))
      (apiReconcileNormal L E P)" for r ap
    unfolding apiReconcileNormal_def apiAccount_def Let_def reaches_def
    apply (rule valid_thn [OF runs_valid [OF step [OF goes_account [OF assms(1,2)]]]], rule keeps)
    apply (rule valid_bnd [OF runs_valid [OF val [OF v1 inputs]]], rule keeps, rule valid_imp, hypsubst)
    apply (rule valid_bnd_getObj, unfold apiState_eq, elim conjE)
    apply (rule valid_bnd [OF runs_valid [OF val [OF v2 tls, unfolded apiState_eq]]], rule keeps, rule valid_imp, hypsubst)
    apply (rule valid_bnd [OF runs_valid [OF val [OF v goes_apiConfig [OF assms(1,2)], unfolded apiState_eq]]],
        rule keeps, rule valid_imp, hypsubst)
    apply (drule expectedHash_apiState, simp only:, rule hash [unfolded reaches_def apiState_eq])
    done
  then show thesis
    by (intro that [of h]) blast
qed

section \<open>The entry points\<close>

interpretation conductor_applied: applied_view conductorService conductorKey
  by unfold_locales (simp_all add: conductorService_def conductorKey_def)

interpretation api_applied: applied_view apiService apiKey
  by unfold_locales (simp_all add: apiService_def apiKey_def)

definition conductorHash :: "IronicConductor \<Rightarrow> string" where
  "conductorHash c = cst_AppliedInputSecretHash (con_Status c)"

definition apiHash :: "IronicAPI \<Rightarrow> string" where
  "apiHash a = ast_AppliedInputSecretHash (api_Status a)"

lemma conductor_asks: "svExpectedHash conductorService c = askedHash (con_Meta c)"
  by (simp add: svExpectedHash_def askedHash_def conductorService_def)

lemma api_asks: "svExpectedHash apiService a = askedHash (api_Meta a)"
  by (simp add: svExpectedHash_def askedHash_def apiService_def)

text \<open>After the first run, whether it was given up or not, the hash of the inputs is the
  recorded one; when it was before, the run has applied what it was asked for. The second
  does in any case.\<close>

lemma conductor_settles:
  assumes "settled E" and "settledServices L E" and "atRest E" and "setHash_law E" and "buildable P c"
    and "cst_Conditions (con_Status c) \<noteq> None"
    and "DeletionTimestamp (con_Meta c) = None" and "AddFinalizer E (con_Meta c) = (con_Meta c, False)"
  shows "\<exists>h s t. conductorReconcile L E P W maskText \<lparr>obj = c, calls = []\<rparr> = (Continue (emptyResult, None), s) \<and>
    conductorReconcile L E P W maskText \<lparr>obj = obj s, calls = []\<rparr> = (Continue (emptyResult, None), t) \<and>
    con_Meta (obj s) = con_Meta c \<and> con_Spec (obj s) = con_Spec c \<and> recorded (cst_Hash (con_Status (obj s))) = Some h \<and>
    conductorHash (obj s) = (if recorded (cst_Hash (con_Status c)) = Some h then askedHash (con_Meta c) else conductorHash c) \<and>
    conductorHash (obj t) = askedHash (con_Meta c)"
proof -
  have crud: "settledCrud (sv_crud conductorService E) (\<lambda>x. conductorCurrent (askedHash (con_Meta x)))"
    using settled_cruds(2) [OF assms(1)] by (simp add: conductorService_def)
  obtain h where "\<forall>r a. reaches conductorState (con_Meta c, (con_Spec c, r), a)
     (settledKey h (svExpectedHash conductorService c) (con_Meta c, (con_Spec c, r), a)) (conductorReconcileNormal L E P W maskText)"
    by (rule conductorNormal_value [OF assms(1-5)])
  note found = this [unfolded conductor_asks]
  have view: "sv_Meta conductorService c = con_Meta c" "fst (fst (snd (conductorState c))) = con_Spec c"
    by (simp_all add: conductorService_def conductorState_def)
  have normal: "\<forall>r a. reaches conductorState (sv_Meta conductorService c, (fst (fst (snd (conductorState c))), r), a)
     (settledKey h (askedHash (con_Meta c)) (sv_Meta conductorService c, (fst (fst (snd (conductorState c))), r), a))
     (conductorReconcileNormal L E P W maskText)"
    unfolding view by (rule found)
  have prepare: "conductorState (conductorPrepare x) = conductorState x" for x
    by (simp add: conductorState_def conductorPrepare_def recorded_def split: option.split)
  have c: "sv_Conditions conductorService c \<noteq> None" "DeletionTimestamp (sv_Meta conductorService c) = None"
    "AddFinalizer E (sv_Meta conductorService c) = (sv_Meta conductorService c, False)"
    using assms(6-8) by (simp_all add: conductorService_def)
  obtain s t where run: "conductorReconcile L E P W maskText \<lparr>obj = c, calls = []\<rparr> = (Continue (emptyResult, None), s)"
      "conductorReconcile L E P W maskText \<lparr>obj = obj s, calls = []\<rparr> = (Continue (emptyResult, None), t)"
    and state: "conductorState (obj s) = settledKey h (askedHash (con_Meta c)) (conductorState c)"
      "conductor_inputs.app (obj t) = askedHash (con_Meta c)"
    using conductor_inputs.svReconcile_twice [OF crud prepare c normal] unfolding conductorReconcile_def by blast
  show ?thesis
    by (rule exI [of _ h], rule exI [of _ s], rule exI [of _ t])
      (use run state in \<open>simp add: conductorState_def settledKey_def conductorHash_def\<close>)
qed

lemma api_settles:
  assumes "settled E" and "settledServices L E" and "atRest E" and "setHash_law E" and "certified P a"
    and "ast_Conditions (api_Status a) \<noteq> None"
    and "DeletionTimestamp (api_Meta a) = None" and "AddFinalizer E (api_Meta a) = (api_Meta a, False)"
  shows "\<exists>h s t. apiReconcile L E P \<lparr>obj = a, calls = []\<rparr> = (Continue (emptyResult, None), s) \<and>
    apiReconcile L E P \<lparr>obj = obj s, calls = []\<rparr> = (Continue (emptyResult, None), t) \<and>
    api_Meta (obj s) = api_Meta a \<and> api_Spec (obj s) = api_Spec a \<and> recorded (ast_Hash (api_Status (obj s))) = Some h \<and>
    apiHash (obj s) = (if recorded (ast_Hash (api_Status a)) = Some h then askedHash (api_Meta a) else apiHash a) \<and>
    apiHash (obj t) = askedHash (api_Meta a)"
proof -
  have crud: "settledCrud (sv_crud apiService E) (\<lambda>x. apiCurrent (askedHash (api_Meta x)))"
    using settled_cruds(3) [OF assms(1)] by (simp add: apiService_def)
  obtain h where "\<forall>r ap. reaches apiState (api_Meta a, (api_Spec a, r), ap)
     (settledKey h (svExpectedHash apiService a) (api_Meta a, (api_Spec a, r), ap)) (apiReconcileNormal L E P)"
    by (rule apiNormal_value [OF assms(1-5)])
  note found = this [unfolded api_asks]
  have view: "sv_Meta apiService a = api_Meta a" "fst (fst (snd (apiState a))) = api_Spec a"
    by (simp_all add: apiService_def apiState_def)
  have normal: "\<forall>r ap. reaches apiState (sv_Meta apiService a, (fst (fst (snd (apiState a))), r), ap)
     (settledKey h (askedHash (api_Meta a)) (sv_Meta apiService a, (fst (fst (snd (apiState a))), r), ap)) (apiReconcileNormal L E P)"
    unfolding view by (rule found)
  have prepare: "apiState (apiPrepare x) = apiState x" for x
    by (simp add: apiState_def apiPrepare_def recorded_def split: option.split)
  have a: "sv_Conditions apiService a \<noteq> None" "DeletionTimestamp (sv_Meta apiService a) = None"
    "AddFinalizer E (sv_Meta apiService a) = (sv_Meta apiService a, False)"
    using assms(6-8) by (simp_all add: apiService_def)
  obtain s t where run: "apiReconcile L E P \<lparr>obj = a, calls = []\<rparr> = (Continue (emptyResult, None), s)"
      "apiReconcile L E P \<lparr>obj = obj s, calls = []\<rparr> = (Continue (emptyResult, None), t)"
    and state: "apiState (obj s) = settledKey h (askedHash (api_Meta a)) (apiState a)"
      "api_inputs.app (obj t) = askedHash (api_Meta a)"
    using api_inputs.svReconcile_twice [OF crud prepare a normal] unfolding apiReconcile_def by blast
  show ?thesis
    by (rule exI [of _ h], rule exI [of _ s], rule exI [of _ t])
      (use run state in \<open>simp add: apiState_def settledKey_def apiHash_def\<close>)
qed

end
