(* ===== verification/Protocol.thy ===== *)
theory Protocol
  imports Handover Settling
begin

text \<open>
  The rotation of credentials across controllers: histories of the runs of the Ironic
  controller and of the controllers of conductors and API on the objects they share,
  and what has happened in them when the Ironic controller lets go of a credential.
\<close>

section \<open>A reconcile of a sub-resource\<close>

context applied_view begin

lemma leaves_deletion:
  "leaves app (svReleaseTopology V E)" "leaves app (svDropFinalizer V E)" "leaves app (releaseKeystone V E kind n)"
  unfolding svReleaseTopology_def svDropFinalizer_def releaseKeystone_def by (intro keeps; simp)+

text \<open>A reconcile leaves the applied hash, or changes it as its run does.\<close>

lemma svReconcile_applies:
  assumes finalizer: "\<And>m m'. AddFinalizer E m = (m', False) \<Longrightarrow> m' = m"
    and prepare: "\<And>i. key (prepare i) = key i"
    and delete: "leaves app onDelete"
    and normal: "valid (\<lambda>s. key (obj s) = key i \<and> calls s = []) normal
       (\<lambda>_ s. app (obj s) = app i \<or> app (obj s) = eh \<and> G (calls s))
       (\<lambda>_ s. app (obj s) = app i \<or> app (obj s) = eh \<and> G (calls s))"
    and grows: "grows G"
  shows "valid (\<lambda>s. obj s = i \<and> calls s = []) (svReconcile V L E initial prepare onDelete normal)
     (\<lambda>_ s. app (obj s) = app i \<or> app (obj s) = eh \<and> G (calls s))
     (\<lambda>_ s. app (obj s) = app i \<or> app (obj s) = eh \<and> G (calls s))"
proof -
  let ?J = "\<lambda>s. app (obj s) = app i \<or> app (obj s) = eh \<and> G (calls s)"
  let ?K = "\<lambda>s. key (obj s) = key i \<and> calls s = []"
  have patch: "valid ?J (svPatch V L E saved res) (\<lambda>_. ?J) (\<lambda>_. ?J)" for saved res
  proof (rule key_keeps_log [where F = key and G = "\<lambda>x log. snd (snd x) = app i \<or> snd (snd x) = eh \<and> G log"])
    show "leaves key (svPatch V L E saved res)" "emits (\<lambda>_. True) (svPatch V L E saved res)"
      unfolding svPatch_def by (intro keeps; simp)+
  qed (use grows in \<open>auto simp: grows_def\<close>)
  have modify: "valid ?K (modObj f) (\<lambda>_. ?K) R" if "\<And>x. key (f x) = key x" for f R
    using that by (simp add: valid_def step_simps)
  have deletion: "valid ?K onDelete (\<lambda>_. ?J) (\<lambda>_. ?J)"
    by (rule valid_weaken [OF valid_leaves [OF delete, where G = "\<lambda>x. x = app i"]]) simp_all
  have work: "valid ?K (thn (modObj prepare) (bnd getObj (\<lambda>i.
      if DeletionTimestamp (sv_Meta V i) \<noteq> None then onDelete else normal))) (\<lambda>_. ?J) (\<lambda>_. ?J)"
    by (rule valid_thn [OF modify], rule prepare, rule valid_bnd_getObj_quiet, rule valid_if [OF deletion normal])
  have rest: "valid ?K (let (meta', added) = (if DeletionTimestamp (sv_Meta V x) = None then AddFinalizer E (sv_Meta V x)
        else (sv_Meta V x, False)) in thn (modObj (sv_setMeta V meta')) (if added \<or> new then exit (emptyResult, None)
        else thn (modObj prepare) (bnd getObj (\<lambda>i.
          if DeletionTimestamp (sv_Meta V i) \<noteq> None then onDelete else normal)))) (\<lambda>_. ?J) (\<lambda>_. ?J)"
    if x: "key x = key i" for x new
  proof (rule valid_let, rule valid_prod, hypsubst)
    fix meta' added
    assume choice: "(if DeletionTimestamp (sv_Meta V x) = None then AddFinalizer E (sv_Meta V x)
        else (sv_Meta V x, False)) = (meta', added)"
    have same: "(meta', snd (key i)) = key i" if "\<not> added"
      using choice that finalizer [of "sv_Meta V x" meta'] key_Meta [of x] x by (cases "key i") (auto split: if_splits)
    let ?next = "if added \<or> new then exit (emptyResult, None) else thn (modObj prepare) (bnd getObj (\<lambda>i.
          if DeletionTimestamp (sv_Meta V i) \<noteq> None then onDelete else normal))"
    have set: "valid ?K (modObj (sv_setMeta V meta')) (\<lambda>_ s. app (obj s) = app i \<and> (\<not> added \<longrightarrow> ?K s)) (\<lambda>_. ?J)"
      using same by (simp add: valid_def step_simps)
    have after: "valid (\<lambda>s. app (obj s) = app i \<and> (\<not> added \<longrightarrow> ?K s)) ?next (\<lambda>_. ?J) (\<lambda>_. ?J)"
      by (rule valid_if, rule valid_exit, simp, rule valid_pre [OF work], simp)
    show "valid ?K (thn (modObj (sv_setMeta V meta')) ?next) (\<lambda>_. ?J) (\<lambda>_. ?J)"
      by (rule valid_thn [OF set after])
  qed
  have body: "valid ?K (svBody V L E initial prepare onDelete normal new) (\<lambda>_. ?J) (\<lambda>_. ?J)" for new
    unfolding svBody_def
    by (rule valid_thn [OF modify], simp, rule valid_thn [OF modify], simp, rule valid_bnd_getObj_quiet, rule rest)
  show ?thesis
    unfolding svReconcile_def Let_def
    by (rule valid_bnd [OF valid_getObj [where Q = "\<lambda>_. ?K"]], simp, rule valid_thn [where Q' = ?K],
        simp add: valid_def whenM_def step_simps, rule valid_bnd [OF valid_func [OF body]], rule patch)
qed

end

lemma conductor_run:
  assumes "lawful D E" and "conductorReconcile L E P W maskText \<lparr>obj = c, calls = []\<rparr> = (x, s)"
  shows "conductorHash (obj s) = conductorHash c \<or>
    conductorHash (obj s) = askedHash (con_Meta c) \<and> conductorRolledOut E P c (calls s)"
proof -
  have "valid (\<lambda>s. obj s = c \<and> calls s = []) (conductorReconcile L E P W maskText)
     (\<lambda>_ s. conductor_applied.app (obj s) = conductor_applied.app c \<or>
        conductor_applied.app (obj s) = askedHash (con_Meta c) \<and> conductorRolledOut E P c (calls s))
     (\<lambda>_ s. conductor_applied.app (obj s) = conductor_applied.app c \<or>
        conductor_applied.app (obj s) = askedHash (con_Meta c) \<and> conductorRolledOut E P c (calls s))"
    unfolding conductorReconcile_def
  proof (rule conductor_applied.svReconcile_applies)
    show "AddFinalizer E m = (m', False) \<Longrightarrow> m' = m" for m m'
      using assms(1) by (simp add: lawful_def)
    show "conductorKey (conductorPrepare i) = conductorKey i" for i
      by (simp add: conductorKey_def conductorPrepare_def)
    show "leaves conductor_applied.app (conductorReconcileDelete E)"
      unfolding conductorReconcileDelete_def by (intro keeps conductor_applied.leaves_deletion)
    show "grows (conductorRolledOut E P c)"
      using grows_rolledOutFor unfolding grows_def conductorRolledOut_def by blast
    show "valid (\<lambda>s. conductorKey (obj s) = conductorKey c \<and> calls s = []) (conductorReconcileNormal L E P W maskText)
       (\<lambda>_ s. conductor_applied.app (obj s) = conductor_applied.app c \<or>
          conductor_applied.app (obj s) = askedHash (con_Meta c) \<and> conductorRolledOut E P c (calls s))
       (\<lambda>_ s. conductor_applied.app (obj s) = conductor_applied.app c \<or>
          conductor_applied.app (obj s) = askedHash (con_Meta c) \<and> conductorRolledOut E P c (calls s))"
      by (rule valid_weaken [OF conductorReconcileNormal_advances])
        (auto simp: applied_def withApplied_def conductor_asks)
  qed
  from valid_final [OF this, of "\<lparr>obj = c, calls = []\<rparr>"] show ?thesis
    using assms(2) by (simp add: conductorKey_def conductorHash_def)
qed

lemma api_run:
  assumes "lawful D E" and "apiReconcile L E P \<lparr>obj = a, calls = []\<rparr> = (x, s)"
  shows "apiHash (obj s) = apiHash a \<or> apiHash (obj s) = askedHash (api_Meta a) \<and> apiRolledOut E P a (calls s)"
proof -
  have "valid (\<lambda>s. obj s = a \<and> calls s = []) (apiReconcile L E P)
     (\<lambda>_ s. api_applied.app (obj s) = api_applied.app a \<or>
        api_applied.app (obj s) = askedHash (api_Meta a) \<and> apiRolledOut E P a (calls s))
     (\<lambda>_ s. api_applied.app (obj s) = api_applied.app a \<or>
        api_applied.app (obj s) = askedHash (api_Meta a) \<and> apiRolledOut E P a (calls s))"
    unfolding apiReconcile_def
  proof (rule api_applied.svReconcile_applies)
    show "AddFinalizer E m = (m', False) \<Longrightarrow> m' = m" for m m'
      using assms(1) by (simp add: lawful_def)
    show "apiKey (apiPrepare i) = apiKey i" for i
      by (simp add: apiKey_def apiPrepare_def)
    show "leaves api_applied.app (apiReconcileDelete E)"
      unfolding apiReconcileDelete_def by (intro keeps api_applied.leaves_deletion)
    show "grows (apiRolledOut E P a)"
      using grows_rolledOutFor unfolding grows_def apiRolledOut_def by blast
    show "valid (\<lambda>s. apiKey (obj s) = apiKey a \<and> calls s = []) (apiReconcileNormal L E P)
       (\<lambda>_ s. api_applied.app (obj s) = api_applied.app a \<or>
          api_applied.app (obj s) = askedHash (api_Meta a) \<and> apiRolledOut E P a (calls s))
       (\<lambda>_ s. api_applied.app (obj s) = api_applied.app a \<or>
          api_applied.app (obj s) = askedHash (api_Meta a) \<and> apiRolledOut E P a (calls s))"
      by (rule valid_weaken [OF apiReconcileNormal_advances]) (auto simp: applied_def withApplied_def api_asks)
  qed
  from valid_final [OF this, of "\<lparr>obj = a, calls = []\<rparr>"] show ?thesis
    using assms(2) by (simp add: apiKey_def apiHash_def)
qed

section \<open>Histories\<close>

text \<open>The objects the controllers share: their kind and name, the secrets their spec
  names, the input hash they are asked for and the one they report as applied.\<close>

datatype subResource = Conductor IronicConductor | API IronicAPI

fun ident :: "subResource \<Rightarrow> string \<times> string \<times> string" where
  "ident (Conductor c) = (''IronicConductor'', Namespace (con_Meta c), Name (con_Meta c))"
| "ident (API a) = (''IronicAPI'', Namespace (api_Meta a), Name (api_Meta a))"

fun secretsOf :: "subResource \<Rightarrow> string list" where
  "secretsOf (Conductor c) = conductorSecrets c"
| "secretsOf (API a) = apiSecrets a"

fun asks :: "subResource \<Rightarrow> string" where
  "asks (Conductor c) = askedHash (con_Meta c)"
| "asks (API a) = askedHash (api_Meta a)"

fun reports :: "subResource \<Rightarrow> string" where
  "reports (Conductor c) = conductorHash c"
| "reports (API a) = apiHash a"

fun workloadRolledOut :: "env \<Rightarrow> podLib \<Rightarrow> subResource \<Rightarrow> call list \<Rightarrow> bool" where
  "workloadRolledOut E P (Conductor c) log = conductorRolledOut E P c log"
| "workloadRolledOut E P (API a) log = apiRolledOut E P a log"

text \<open>A history, the latest event first: an object was stored by a run of the Ironic
  controller, or a run of its own controller on what it had read came to its end.\<close>

datatype event =
    Stored subResource
  | Ran env podLib subResource subResource "call list"

fun storedBy :: "call \<Rightarrow> subResource option" where
  "storedBy (StoreConductor c) = Some (Conductor c)"
| "storedBy (StoreAPI a) = Some (API a)"
| "storedBy _ = None"

text \<open>A hash is reported for an object when some run of its controller left it; an object
  starts with the empty one.\<close>

definition reported :: "event list \<Rightarrow> string \<times> string \<times> string \<Rightarrow> string \<Rightarrow> bool" where
  "reported H n h \<longleftrightarrow> h = '''' \<or> (\<exists>E P x y log. Ran E P x y log \<in> set H \<and> ident x = n \<and> reports y = h)"

text \<open>What a controller may read: spec and annotation of one earlier store, be it stale,
  and a status some earlier run has left.\<close>

definition mayRead :: "event list \<Rightarrow> subResource \<Rightarrow> bool" where
  "mayRead H x \<longleftrightarrow> (\<exists>y. Stored y \<in> set H \<and> ident y = ident x \<and> secretsOf y = secretsOf x \<and> asks y = asks x) \<and>
     reported H (ident x) (reports x)"

inductive history :: "(string list \<Rightarrow> string) \<Rightarrow> event list \<Rightarrow> bool" for D where
  start: "history D []"
| ironicStores: "history D H \<Longrightarrow> lawful D E \<Longrightarrow>
    reconcileNormal L E P W fi fa \<lparr>obj = i, calls = []\<rparr> = (r, s) \<Longrightarrow> c \<in> set (calls s) \<Longrightarrow> storedBy c = Some x \<Longrightarrow>
    history D (Stored x # H)"
| conductorRuns: "history D H \<Longrightarrow> lawful D E \<Longrightarrow> mayRead H (Conductor c) \<Longrightarrow>
    conductorReconcile L E P W maskText \<lparr>obj = c, calls = []\<rparr> = (x, s) \<Longrightarrow>
    history D (Ran E P (Conductor c) (Conductor (obj s)) (calls s) # H)"
| apiRuns: "history D H \<Longrightarrow> lawful D E \<Longrightarrow> mayRead H (API a) \<Longrightarrow>
    apiReconcile L E P \<lparr>obj = a, calls = []\<rparr> = (x, s) \<Longrightarrow>
    history D (Ran E P (API a) (API (obj s)) (calls s) # H)"

text \<open>The workload of an object was rolled out with the secrets \<open>sec\<close>.\<close>

definition rolledOutWith :: "event list \<Rightarrow> string \<times> string \<times> string \<Rightarrow> string list \<Rightarrow> bool" where
  "rolledOutWith H n sec \<longleftrightarrow> (\<exists>E P x y log. Ran E P x y log \<in> set H \<and> ident x = n \<and> secretsOf x = sec \<and>
     workloadRolledOut E P x log)"

section \<open>Invariants of histories\<close>

lemma run_stores_agreed:
  assumes "lawful D E" and "reconcileNormal L E P W fi fa \<lparr>obj = i, calls = []\<rparr> = (r, s)"
    and "c \<in> set (calls s)" and "storedBy c = Some x"
  shows "asks x = D (secretsOf x)"
proof -
  have "agreed D s"
    using run_agreed [OF assms(1), of L P W fi fa i] assms(2) by simp
  then obtain sec where "hands D sec c"
    using assms(3) by (auto simp: agreed_def list_all_iff)
  then show ?thesis
    using assms(4) by (cases c) (auto simp: hands_def)
qed

lemma stored_asks: "history D H \<Longrightarrow> Stored x \<in> set H \<Longrightarrow> asks x = D (secretsOf x)"
  by (induction rule: history.induct) (auto dest: run_stores_agreed)

lemma run_reports:
  "lawful D E \<Longrightarrow> conductorReconcile L E P W maskText \<lparr>obj = c, calls = []\<rparr> = (r, s) \<Longrightarrow>
     reports (Conductor (obj s)) = reports (Conductor c) \<or>
     reports (Conductor (obj s)) = asks (Conductor c) \<and> workloadRolledOut E P (Conductor c) (calls s)"
  "lawful D E \<Longrightarrow> apiReconcile L E P \<lparr>obj = a, calls = []\<rparr> = (r, t) \<Longrightarrow>
     reports (API (obj t)) = reports (API a) \<or>
     reports (API (obj t)) = asks (API a) \<and> workloadRolledOut E P (API a) (calls t)"
  using conductor_run api_run by auto

lemma rolledOutWith_Cons: "rolledOutWith H n sec \<Longrightarrow> rolledOutWith (e # H) n sec"
  unfolding rolledOutWith_def by (metis list.set_intros(2))

lemma reported_Cons:
  "reported (Ran E P x y log # H) n h \<longleftrightarrow> reported H n h \<or> ident x = n \<and> reports y = h"
  unfolding reported_def by (simp; blast)

text \<open>One more run keeps the invariant.\<close>

lemma run_keeps_reports:
  assumes inv: "\<And>n h. reported H n h \<Longrightarrow> h \<noteq> '''' \<Longrightarrow> \<exists>sec. D sec = h \<and> rolledOutWith H n sec"
    and asks: "\<And>z. Stored z \<in> set H \<Longrightarrow> asks z = D (secretsOf z)"
    and reads: "mayRead H x"
    and run: "reports y = reports x \<or> reports y = asks x \<and> workloadRolledOut E P x log"
    and h: "reported (Ran E P x y log # H) n h" "h \<noteq> ''''"
  shows "\<exists>sec. D sec = h \<and> rolledOutWith (Ran E P x y log # H) n sec"
proof (cases "reported H n h")
  case True
  then show ?thesis
    using inv h(2) rolledOutWith_Cons by blast
next
  case False
  then have new: "ident x = n" "reports y = h"
    using h False by (simp_all add: reported_Cons)
  have "asks x = D (secretsOf x)"
    using reads asks unfolding mayRead_def by metis
  moreover have "reports x \<noteq> h"
    using False new(1) reads by (auto simp: mayRead_def)
  ultimately have "D (secretsOf x) = h" "workloadRolledOut E P x log"
    using run new(2) by auto
  then show ?thesis
    using new(1) unfolding rolledOutWith_def by (metis list.set_intros(1))
qed

lemma reported_rolledOut:
  "history D H \<Longrightarrow> reported H n h \<Longrightarrow> h \<noteq> '''' \<Longrightarrow> \<exists>sec. D sec = h \<and> rolledOutWith H n sec"
proof (induction arbitrary: n h rule: history.induct)
  case start
  then show ?case by (simp add: reported_def)
next
  case (ironicStores H E L P W fi fa i r s c x)
  from ironicStores.prems have "reported H n h"
    by (auto simp: reported_def)
  then show ?case
    using ironicStores.IH ironicStores.prems(2) rolledOutWith_Cons by blast
next
  case (conductorRuns H E c L P W maskText x s)
  note run = run_reports(1) [OF conductorRuns.hyps(2,4)]
  show ?case
    by (rule run_keeps_reports [OF conductorRuns.IH _ conductorRuns.hyps(3) run conductorRuns.prems])
      (auto intro: stored_asks [OF conductorRuns.hyps(1)])
next
  case (apiRuns H E a L P x s)
  note run = run_reports(2) [OF apiRuns.hyps(2,4)]
  show ?case
    by (rule run_keeps_reports [OF apiRuns.IH _ apiRuns.hyps(3) run apiRuns.prems])
      (auto intro: stored_asks [OF apiRuns.hyps(1)])
qed

section \<open>Letting go of a credential\<close>

text \<open>Reading gives the object asked for, and not one that is being deleted.\<close>

definition wellNamed :: "env \<Rightarrow> bool" where
  "wellNamed E \<longleftrightarrow>
     (\<forall>cs n ns c. cr_GetOrNew (conductors E) cs n ns = Inr c \<longrightarrow>
        ident (Conductor c) = (''IronicConductor'', ns, n) \<and> DeletionTimestamp (con_Meta c) = None) \<and>
     (\<forall>cs n ns a. cr_GetOrNew (apis E) cs n ns = Inr a \<longrightarrow>
        ident (API a) = (''IronicAPI'', ns, n) \<and> DeletionTimestamp (api_Meta a) = None)"

text \<open>What a run with the calls \<open>log\<close> was told of the objects it stored: the status that
  came back is one some run of their own controller has reported.\<close>

definition truthful :: "event list \<Rightarrow> env \<Rightarrow> call list \<Rightarrow> bool" where
  "truthful H E log \<longleftrightarrow>
     (\<forall>pre c post x op. log = pre @ StoreConductor c # post \<longrightarrow> cr_Store (conductors E) pre c = Inr (x, op) \<longrightarrow>
        reported H (ident (Conductor c)) (conductorHash x)) \<and>
     (\<forall>pre a post x op. log = pre @ StoreAPI a # post \<longrightarrow> cr_Store (apis E) pre a = Inr (x, op) \<longrightarrow>
        reported H (ident (API a)) (apiHash x))"

lemma truthful_prefix:
  assumes "truthful H E (log @ rest)"
  shows "truthful H E log"
  unfolding truthful_def
proof (intro conjI allI impI)
  show "reported H (ident (Conductor c)) (conductorHash x)"
    if "log = pre @ StoreConductor c # post" "cr_Store (conductors E) pre c = Inr (x, op)" for pre c post x op
  proof -
    have "log @ rest = pre @ StoreConductor c # (post @ rest)"
      using that(1) by simp
    then show ?thesis
      using assms that(2) unfolding truthful_def by blast
  qed
  show "reported H (ident (API a)) (apiHash x)"
    if "log = pre @ StoreAPI a # post" "cr_Store (apis E) pre a = Inr (x, op)" for pre a post x op
  proof -
    have "log @ rest = pre @ StoreAPI a # (post @ rest)"
      using that(1) by simp
    then show ?thesis
      using assms that(2) unfolding truthful_def by blast
  qed
qed

lemma conductorMutate_ident:
  assumes "lawful D E" and "conductorMutate E inst c ke kr ts h cur = Inr o'"
  shows "ident (Conductor o') = ident (Conductor cur)"
proof -
  have "Name (con_Meta o') = Name (annotate inst h (con_Meta cur)) \<and>
      Namespace (con_Meta o') = Namespace (annotate inst h (con_Meta cur))"
    using assms unfolding lawful_def ownerOnly_def conductorMutate_def Let_def by fastforce
  then show ?thesis
    by (simp add: annotate_def Let_def)
qed

lemma apiMutate_ident:
  assumes "lawful D E" and "apiMutate E inst ke kr ts h cur = Inr o'"
  shows "ident (API o') = ident (API cur)"
proof -
  have "Name (api_Meta o') = Name (annotate inst h (api_Meta cur)) \<and>
      Namespace (api_Meta o') = Namespace (annotate inst h (api_Meta cur))"
    using assms unfolding lawful_def ownerOnly_def apiMutate_def by fastforce
  then show ?thesis
    by (simp add: annotate_def Let_def)
qed

text \<open>An object that came back as up to date was rolled out with the secrets of the run.\<close>

lemma current_rolledOut:
  assumes "history D H" and "inj D" and "\<And>xs. D xs \<noteq> ''''"
    and "reported H n h" and "h = D sec"
  shows "rolledOutWith H n sec"
  using reported_rolledOut [OF assms(1,4)] assms(2,3,5) by (auto dest: injD)

lemma conductor_rolledOut:
  assumes "history D H" "inj D" "\<And>xs. D xs \<noteq> ''''" "lawful D E" "wellNamed E" "truthful H E pre"
    and "conductorApplied E i c h pre" and "list_all (hands D sec) pre"
  shows "rolledOutWith H (''IronicConductor'', Namespace (Meta i), conductorName (Name (Meta i)) c) sec"
proof -
  obtain pre' post o' x op inst ke kr ts cur n ns
    where n: "n = conductorName (Name (Meta i)) c" "ns = Namespace (Meta i)"
      and log: "pre = pre' @ Fetch ''IronicConductor'' n ns # StoreConductor o' # post"
      and cur: "cr_GetOrNew (conductors E) pre' n ns = Inr cur"
      and o': "conductorMutate E inst c ke kr ts h cur = Inr o'"
      and x: "cr_Store (conductors E) (pre' @ [Fetch ''IronicConductor'' n ns]) o' = Inr (x, op)" "conductorCurrent h x"
    using assms(7) unfolding conductorApplied_def by blast
  have "askedHash (con_Meta o') = h"
    using asked_conductor [OF _ o'] assms(4) by (simp add: lawful_def)
  moreover have "askedHash (con_Meta o') = D sec"
    using assms(8) log by (simp add: hands_def)
  moreover have "ident (Conductor o') = (''IronicConductor'', ns, n)"
    using conductorMutate_ident [OF assms(4) o'] cur assms(5) unfolding wellNamed_def by metis
  moreover have "conductorHash x = h"
    using x(2) by (simp add: conductorCurrent_def conductorHash_def)
  moreover have "reported H (ident (Conductor o')) (conductorHash x)"
  proof -
    have "pre = (pre' @ [Fetch ''IronicConductor'' n ns]) @ StoreConductor o' # post"
      using log by simp
    then show ?thesis
      using assms(6) x(1) unfolding truthful_def by blast
  qed
  ultimately show ?thesis
    using current_rolledOut [OF assms(1-3)] n by metis
qed

lemma api_rolledOut:
  assumes "history D H" "inj D" "\<And>xs. D xs \<noteq> ''''" "lawful D E" "wellNamed E" "truthful H E pre"
    and "apiApplied E i h pre" and "list_all (hands D sec) pre"
  shows "rolledOutWith H (''IronicAPI'', Namespace (Meta i), Name (Meta i) @ ''-api'') sec"
proof -
  obtain pre' post o' x op inst ke kr ts cur n ns
    where n: "n = Name (Meta i) @ ''-api''" "ns = Namespace (Meta i)"
      and log: "pre = pre' @ Fetch ''IronicAPI'' n ns # StoreAPI o' # post"
      and cur: "cr_GetOrNew (apis E) pre' n ns = Inr cur"
      and o': "apiMutate E inst ke kr ts h cur = Inr o'"
      and x: "cr_Store (apis E) (pre' @ [Fetch ''IronicAPI'' n ns]) o' = Inr (x, op)" "apiCurrent h x"
    using assms(7) unfolding apiApplied_def by blast
  have "askedHash (api_Meta o') = h"
    using asked_API [OF _ o'] assms(4) by (simp add: lawful_def)
  moreover have "askedHash (api_Meta o') = D sec"
    using assms(8) log by (simp add: hands_def)
  moreover have "ident (API o') = (''IronicAPI'', ns, n)"
    using apiMutate_ident [OF assms(4) o'] cur assms(5) unfolding wellNamed_def by metis
  moreover have "apiHash x = h"
    using x(2) by (simp add: apiCurrent_def apiHash_def)
  moreover have "reported H (ident (API o')) (apiHash x)"
  proof -
    have "pre = (pre' @ [Fetch ''IronicAPI'' n ns]) @ StoreAPI o' # post"
      using log by simp
    then show ?thesis
      using assms(6) x(1) unfolding truthful_def by blast
  qed
  ultimately show ?thesis
    using current_rolledOut [OF assms(1-3)] n by metis
qed

end
