(* ===== verification/Completion.thy ===== *)
theory Completion
  imports Protocol
begin

text \<open>
  The rotation of credentials comes to its end: from every history, the controllers can
  go on so that a run of the Ironic controller lets go of the old transport secret.
\<close>

section \<open>The objects a run stores\<close>

text \<open>Every store of a conductor or of the API in a run has what \<open>Q\<close> asks.\<close>

definition stores :: "(subResource \<Rightarrow> bool) \<Rightarrow> call \<Rightarrow> bool" where
  "stores Q c \<longleftrightarrow> (\<forall>x. storedBy c = Some x \<longrightarrow> Q x)"

lemma handsNone_stores: "handsNone c \<Longrightarrow> stores Q c"
  unfolding handsNone_def stores_def hands_def by (cases c) (auto dest: spec [where x = "\<lambda>_. ''''"] spec [where x = "\<lambda>_. ''x''"])

lemma finish_stores: "emits (stores Q) (finishSection L E i ot ct on cn r)"
  unfolding finishSection_def acRotationSection_def transportRotationSection_def notifRotationSection_def
    pruneSection_def readySection_def
  by (intro keeps; simp add: stores_def)

lemma emits_foreach_elem:
  "(\<And>x a. x \<in> set xs \<Longrightarrow> emits A (f x a)) \<Longrightarrow> emits A (foreach xs a f)"
  by (induction xs arbitrary: a) (auto intro!: emits_bnd emits_ret)

lemma services_stores:
  assumes "\<And>inst c ke kr t h cs n ns cur o'. c \<in> set (sp_IronicConductors (Spec i)) \<Longrightarrow>
      cr_GetOrNew (conductors E) cs n ns = Inr cur \<Longrightarrow> conductorMutate E inst c ke kr t h cur = Inr o' \<Longrightarrow> Q (Conductor o')"
    and "\<And>inst ke kr t h cs n ns cur o'. cr_GetOrNew (apis E) cs n ns = Inr cur \<Longrightarrow>
      apiMutate E inst ke kr t h cur = Inr o' \<Longrightarrow> Q (API o')"
  shows "emits (stores Q) (servicesSection L E W fi fa i ke kr ct)"
proof -
  have none: "emits (stores Q) m" if "emits handsNone m" for m :: "'a iact"
    using that by (rule emits_mono) (rule handsNone_stores)
  have conductor: "emits (stores Q) (conductorDeploymentCreateOrUpdate E inst c ke kr t h :: (Ironic, call, 'r, _) act)"
    if "c \<in> set (sp_IronicConductors (Spec i))" for inst c ke kr t h
    unfolding conductorDeploymentCreateOrUpdate_def
    by (rule emits_mono [OF createOrUpdate_stores]) (auto simp: stores_def dest: assms(1) [OF that])
  have api: "emits (stores Q) (apiDeploymentCreateOrUpdate E inst ke kr t h :: (Ironic, call, 'r, _) act)" for inst ke kr t h
    unfolding apiDeploymentCreateOrUpdate_def
    by (rule emits_mono [OF createOrUpdate_stores]) (auto simp: stores_def dest: assms(2))
  have deploy: "emits (stores Q) (deployConductor L E ke kr t h c acc)" if "c \<in> set (sp_IronicConductors (Spec i))" for t h c acc
    unfolding deployConductor_def by (intro keeps conductor [OF that]; simp add: stores_def)
  have conductors: "emits (stores Q) (deployConductors L E i ke kr t h)" for t h
    unfolding deployConductors_def by (rule emits_bnd [OF emits_foreach_elem [OF deploy]], assumption, intro keeps)
  have apis: "emits (stores Q) (deployAPI L E ke kr t h r)" for t h r
    unfolding deployAPI_def by (intro keeps api; simp add: stores_def)
  show ?thesis
    unfolding servicesSection_def
    by (intro keeps conductors apis none [OF before_hands(10)] none [OF before_hands(11)] none [OF before_hands(12)])
qed

lemma run_stores:
  assumes "\<And>inst c ke kr t h cs n ns cur o'. c \<in> set (sp_IronicConductors (Spec i)) \<Longrightarrow>
      cr_GetOrNew (conductors E) cs n ns = Inr cur \<Longrightarrow> conductorMutate E inst c ke kr t h cur = Inr o' \<Longrightarrow> Q (Conductor o')"
    and "\<And>inst ke kr t h cs n ns cur o'. cr_GetOrNew (apis E) cs n ns = Inr cur \<Longrightarrow>
      apiMutate E inst ke kr t h cur = Inr o' \<Longrightarrow> Q (API o')"
    and "reconcileNormal L E P W fi fa \<lparr>obj = i, calls = []\<rparr> = (r, s)" and "c \<in> set (calls s)" and "storedBy c = Some x"
  shows "Q x"
proof -
  have none: "emits (stores Q) m" if "emits handsNone m" for m :: "'a iact"
    using that by (rule emits_mono) (rule handsNone_stores)
  have services: "emits (stores Q) (servicesSection L E W fi fa i ke kr ct)" for ke kr ct
    by (rule services_stores [OF assms(1,2)])
  have "emits (stores Q) (reconcileNormalFrom L E P W fi fa i)"
    unfolding reconcileNormalFrom_def
    by (intro keeps none [OF before_hands(1)] none [OF before_hands(2)] none [OF before_hands(3)] none [OF before_hands(4)]
        none [OF before_hands(5)] none [OF before_hands(6)] none [OF before_hands(7)] none [OF before_hands(8)]
        none [OF before_hands(9)] finish_stores services)
  then have "list_all (stores Q) (calls s)"
    using emitsD [of "stores Q" "reconcileNormalFrom L E P W fi fa i" "\<lparr>obj = i, calls = []\<rparr>"] assms(3)
    by (auto simp: reconcileNormal_def step_simps)
  then show ?thesis
    using assms(4,5) by (auto simp: list_all_iff stores_def)
qed


section \<open>A cluster in which every run comes to its end\<close>

definition cooperative :: "condLib \<Rightarrow> env \<Rightarrow> podLib \<Rightarrow> Ironic \<Rightarrow> bool" where
  "cooperative L E P i \<longleftrightarrow> settled E \<and> settledServices L E \<and> atRest E \<and> setHash_law E \<and> finalizer_law E \<and> wellNamed E \<and>
     (\<forall>t e. tls_Enabled P t e \<longrightarrow> \<not> isl (ToService P (certSecret t e))) \<and> deployable i \<and>
     (\<forall>c\<in>set (sp_IronicConductors (Spec i)). \<not> isl (ParseQuantity P (con_StorageRequest c)) \<and>
        con_TerminationGracePeriodSeconds c \<noteq> None)"

text \<open>Only the spec of the instance matters.\<close>

lemma cooperative_wanted: "wanted j = wanted i \<Longrightarrow> cooperative L E P i \<Longrightarrow> cooperative L E P j"
  by (simp add: cooperative_def wanted_def deployable_def)

text \<open>An object its controller can roll out.\<close>

fun startable :: "podLib \<Rightarrow> subResource \<Rightarrow> bool" where
  "startable P (Conductor c) \<longleftrightarrow> buildable P c \<and> DeletionTimestamp (con_Meta c) = None"
| "startable P (API a) \<longleftrightarrow> certified P a \<and> DeletionTimestamp (api_Meta a) = None"

lemma startable_conductor:
  assumes "lawful D E" and "cooperative L E P i" and "c \<in> set (sp_IronicConductors (Spec i))"
    and "cr_GetOrNew (conductors E) cs n ns = Inr cur" and "conductorMutate E inst c ke kr t h cur = Inr o'"
  shows "startable P (Conductor o')"
proof -
  have law: "ownerOnly con_Meta con_Spec (conductors E)"
    using assms(1) by (simp add: lawful_def)
  let ?spec = "conductorSpecFor inst c ke kr t"
  have "con_Spec o' = (if con_StorageClass ?spec = '''' then ?spec\<lparr>con_StorageClass := StorageClass (Spec inst)\<rparr> else ?spec)"
    using law assms(5) unfolding ownerOnly_def conductorMutate_def Let_def by fastforce
  moreover have "DeletionTimestamp (con_Meta o') = DeletionTimestamp (annotate inst h (con_Meta cur))"
    using law assms(5) unfolding ownerOnly_def conductorMutate_def Let_def by fastforce
  moreover have "DeletionTimestamp (con_Meta cur) = None"
    using assms(2,4) unfolding cooperative_def wellNamed_def by blast
  ultimately show ?thesis
    using assms(2,3) by (simp add: cooperative_def buildable_def conductorSpecFor_def Let_def IronicConductorTemplate.defs
        annotate_def)
qed

lemma startable_API:
  assumes "lawful D E" and "cooperative L E P i"
    and "cr_GetOrNew (apis E) cs n ns = Inr cur" and "apiMutate E inst ke kr t h cur = Inr o'"
  shows "startable P (API o')"
proof -
  have "DeletionTimestamp (api_Meta o') = DeletionTimestamp (annotate inst h (api_Meta cur))"
    using assms(1,4) unfolding lawful_def ownerOnly_def apiMutate_def by fastforce
  moreover have "DeletionTimestamp (api_Meta cur) = None"
    using assms(2,3) unfolding cooperative_def wellNamed_def by blast
  ultimately show ?thesis
    using assms(2) by (simp add: cooperative_def certified_def annotate_def Let_def)
qed

text \<open>Two runs of its controller and it has applied what it is asked for: the first, on a read
  with the finalizer in place, may be given up for a changed hash of the inputs.\<close>

lemma finalizer_in_place:
  assumes "finalizer_law E"
  obtains x where "\<And>m. x \<in> set (Finalizers m) \<Longrightarrow> AddFinalizer E m = (m, False)"
  using assms unfolding finalizer_law_def by metis

lemma finalizer_law_same: "finalizer_law E \<Longrightarrow> AddFinalizer E m = (m', False) \<Longrightarrow> m' = m"
  unfolding finalizer_law_def by (metis prod.inject)

lemma two_events: "history D (e # e' # H) \<Longrightarrow> reported (e # e' # H) n h \<Longrightarrow> \<exists>G. history D (G @ H) \<and> reported (G @ H) n h"
  by (intro exI [of _ "[e, e']"]) simp

lemma catches_up:
  assumes "history D H" and "lawful D E" and "cooperative L E P i" and "Stored x \<in> set H" and "startable P x"
  shows "\<exists>G. history D (G @ H) \<and> reported (G @ H) (ident x) (asks x)"
proof (rule finalizer_in_place)
  show "finalizer_law E"
    using assms(3) by (simp add: cooperative_def)
next
  fix fin assume fin: "\<And>m. fin \<in> set (Finalizers m) \<Longrightarrow> AddFinalizer E m = (m, False)"
  have env: "settled E" "settledServices L E" "atRest E" "setHash_law E"
    using assms(3) by (simp_all add: cooperative_def)
  show ?thesis
  proof (cases x)
    case (Conductor c)
    define c' where "c' = c\<lparr>con_Meta := (con_Meta c)\<lparr>Finalizers := fin # Finalizers (con_Meta c)\<rparr>,
      con_Status := (con_Status c)\<lparr>cst_Conditions := Some [], cst_AppliedInputSecretHash := ''''\<rparr>\<rparr>"
    have same: "ident (Conductor c') = ident x" "asks (Conductor c') = asks x" "secretsOf (Conductor c') = secretsOf x"
      "conductorHash c' = ''''"
      by (simp_all add: c'_def Conductor conductorHash_def askedHash_def conductorSecrets_def)
    have c': "buildable P c'" "cst_Conditions (con_Status c') \<noteq> None" "DeletionTimestamp (con_Meta c') = None"
      "AddFinalizer E (con_Meta c') = (con_Meta c', False)"
      using assms(5) Conductor fin by (simp_all add: buildable_def c'_def)
    obtain s t where run: "conductorReconcile L E P undefined undefined \<lparr>obj = c', calls = []\<rparr> = (Continue (emptyResult, None), s)"
        "conductorReconcile L E P undefined undefined \<lparr>obj = obj s, calls = []\<rparr> = (Continue (emptyResult, None), t)"
      and kept: "con_Meta (obj s) = con_Meta c'" "con_Spec (obj s) = con_Spec c'"
      and hash: "conductorHash (obj t) = askedHash (con_Meta c')"
      using conductor_settles [OF env c', of undefined undefined] by blast
    have keeps: "ident (Conductor (obj s)) = ident x" "asks (Conductor (obj s)) = asks x"
        "secretsOf (Conductor (obj s)) = secretsOf x"
      using same(1-3) kept by (simp_all add: conductorSecrets_def)
    have "mayRead H (Conductor c')"
      using assms(4) same unfolding mayRead_def reported_def reports.simps by metis
    from history.conductorRuns [OF assms(1,2) this run(1)]
    have first: "history D (Ran E P (Conductor c') (Conductor (obj s)) (calls s) # H)" (is "history D ?H") .
    have "mayRead ?H (Conductor (obj s))"
      using assms(4) keeps same(1) unfolding mayRead_def reported_Cons reports.simps by (metis list.set_intros(2))
    from history.conductorRuns [OF first assms(2) this run(2)] show ?thesis
      using hash same(2) keeps(1) by (auto simp: reported_Cons intro!: two_events)
  next
    case (API a)
    define a' where "a' = a\<lparr>api_Meta := (api_Meta a)\<lparr>Finalizers := fin # Finalizers (api_Meta a)\<rparr>,
      api_Status := (api_Status a)\<lparr>ast_Conditions := Some [], ast_AppliedInputSecretHash := ''''\<rparr>\<rparr>"
    have same: "ident (API a') = ident x" "asks (API a') = asks x" "secretsOf (API a') = secretsOf x" "apiHash a' = ''''"
      by (simp_all add: a'_def API apiHash_def askedHash_def apiSecrets_def)
    have a': "certified P a'" "ast_Conditions (api_Status a') \<noteq> None" "DeletionTimestamp (api_Meta a') = None"
      "AddFinalizer E (api_Meta a') = (api_Meta a', False)"
      using assms(5) API fin by (simp_all add: certified_def a'_def)
    obtain s t where run: "apiReconcile L E P \<lparr>obj = a', calls = []\<rparr> = (Continue (emptyResult, None), s)"
        "apiReconcile L E P \<lparr>obj = obj s, calls = []\<rparr> = (Continue (emptyResult, None), t)"
      and kept: "api_Meta (obj s) = api_Meta a'" "api_Spec (obj s) = api_Spec a'"
      and hash: "apiHash (obj t) = askedHash (api_Meta a')"
      using api_settles [OF env a'] by blast
    have keeps: "ident (API (obj s)) = ident x" "asks (API (obj s)) = asks x" "secretsOf (API (obj s)) = secretsOf x"
      using same(1-3) kept by (simp_all add: apiSecrets_def)
    have "mayRead H (API a')"
      using assms(4) same unfolding mayRead_def reported_def reports.simps by metis
    from history.apiRuns [OF assms(1,2) this run(1)]
    have first: "history D (Ran E P (API a') (API (obj s)) (calls s) # H)" (is "history D ?H") .
    have "mayRead ?H (API (obj s))"
      using assms(4) keeps same(1) unfolding mayRead_def reported_Cons reports.simps by (metis list.set_intros(2))
    from history.apiRuns [OF first assms(2) this run(2)] show ?thesis
      using hash same(2) keeps(1) by (auto simp: reported_Cons intro!: two_events)
  qed
qed

lemma reported_append: "reported H n h \<Longrightarrow> reported (G @ H) n h"
  unfolding reported_def set_append by blast

lemma all_stored:
  assumes "history D H" and "lawful D E" and "reconcileNormal L E P W fi fa \<lparr>obj = i, calls = []\<rparr> = (r, s)"
  shows "set cs \<subseteq> set (calls s) \<Longrightarrow>
    \<exists>G. history D (G @ H) \<and> (\<forall>c\<in>set cs. \<forall>x. storedBy c = Some x \<longrightarrow> Stored x \<in> set (G @ H))"
proof (induction cs)
  case Nil
  show ?case using assms(1) by (intro exI [of _ "[]"]) simp
next
  case (Cons c cs)
  then obtain G where G: "history D (G @ H)" "\<forall>c\<in>set cs. \<forall>x. storedBy c = Some x \<longrightarrow> Stored x \<in> set (G @ H)"
    by auto
  show ?case
  proof (cases "storedBy c")
    case None
    with G show ?thesis by (intro exI [of _ G]) simp
  next
    case (Some x)
    moreover have "c \<in> set (calls s)"
      using Cons.prems by simp
    ultimately have "history D (Stored x # G @ H)"
      by (intro history.ironicStores [OF G(1) assms(2,3)])
    with G(2) Some show ?thesis by (intro exI [of _ "Stored x # G"]) auto
  qed
qed

lemma all_catch_up:
  assumes "history D H" and "lawful D E" and "cooperative L E P i"
  shows "\<forall>x\<in>set xs. Stored x \<in> set H \<and> startable P x \<Longrightarrow>
    \<exists>G. history D (G @ H) \<and> (\<forall>x\<in>set xs. reported (G @ H) (ident x) (asks x))"
proof (induction xs)
  case Nil
  show ?case using assms(1) by (intro exI [of _ "[]"]) simp
next
  case (Cons x xs)
  then obtain G where G: "history D (G @ H)" "\<forall>x\<in>set xs. reported (G @ H) (ident x) (asks x)"
    by auto
  obtain F where F: "history D (F @ G @ H)" "reported (F @ G @ H) (ident x) (asks x)"
    using catches_up [OF G(1) assms(2,3), of x] Cons.prems by auto
  with G(2) show ?case by (intro exI [of _ "F @ G"]) (auto intro: reported_append)
qed

section \<open>The rotation\<close>

lemma settled_truthful:
  assumes "settled E" and "\<And>c x. c \<in> set log \<Longrightarrow> storedBy c = Some x \<Longrightarrow> reported H (ident x) (asks x)"
  shows "truthful H E log"
  unfolding truthful_def
proof (intro conjI allI impI)
  show "reported H (ident (Conductor c)) (conductorHash x)"
    if "log = pre @ StoreConductor c # post" "cr_Store (conductors E) pre c = Inr (x, op)" for pre c post x op
  proof -
    have "conductorHash x = asks (Conductor c)"
      using settledCrud_simps(4) [OF settled_cruds(2) [OF assms(1)], of c pre] that(2)
      by (simp add: conductorCurrent_def conductorHash_def)
    moreover have "reported H (ident (Conductor c)) (asks (Conductor c))"
      using assms(2) [of "StoreConductor c" "Conductor c"] that(1) by simp
    ultimately show ?thesis by simp
  qed
  show "reported H (ident (API a)) (apiHash x)"
    if "log = pre @ StoreAPI a # post" "cr_Store (apis E) pre a = Inr (x, op)" for pre a post x op
  proof -
    have "apiHash x = asks (API a)"
      using settledCrud_simps(4) [OF settled_cruds(3) [OF assms(1)], of a pre] that(2)
      by (simp add: apiCurrent_def apiHash_def)
    moreover have "reported H (ident (API a)) (asks (API a))"
      using assms(2) [of "StoreAPI a" "API a"] that(1) by simp
    ultimately show ?thesis by simp
  qed
qed

lemma completion_of_run:
  assumes "history D H" and "lawful D E" and "cooperative L E P i" and "completes L E P W fi fa i s"
  shows "\<exists>G. history D (G @ H) \<and> truthful (G @ H) E (calls s)"
proof -
  have run: "reconcileNormal L E P W fi fa \<lparr>obj = i, calls = []\<rparr> = (Continue (emptyResult, None), s)"
    using assms(4) by (simp add: completes_def)
  obtain G where G: "history D (G @ H)" "\<forall>c\<in>set (calls s). \<forall>x. storedBy c = Some x \<longrightarrow> Stored x \<in> set (G @ H)"
    using all_stored [OF assms(1,2) run subset_refl] by blast
  define xs where "xs = List.map_filter storedBy (calls s)"
  have xs: "x \<in> set xs \<longleftrightarrow> (\<exists>c\<in>set (calls s). storedBy c = Some x)" for x
    by (force simp: xs_def map_filter_def image_iff)
  have "startable P x" if "c \<in> set (calls s)" "storedBy c = Some x" for c x
  proof (rule run_stores [OF _ _ run that])
  qed (erule startable_conductor [OF assms(2,3)] startable_API [OF assms(2,3)], assumption+)+
  then have "\<forall>x\<in>set xs. Stored x \<in> set (G @ H) \<and> startable P x"
    using G(2) xs by blast
  then obtain F where F: "history D (F @ G @ H)" "\<forall>x\<in>set xs. reported (F @ G @ H) (ident x) (asks x)"
    using all_catch_up [OF G(1) assms(2,3)] by blast
  have "settled E"
    using assms(3) by (simp add: cooperative_def)
  then have "truthful ((F @ G) @ H) E (calls s)"
    by (rule settled_truthful) (use F(2) xs in auto)
  with F(1) show ?thesis
    by (intro exI [of _ "F @ G"]) simp
qed

text \<open>The run that completes is the next one, or the one after it.\<close>

definition nextRun ::
  "condLib \<Rightarrow> env \<Rightarrow> podLib \<Rightarrow> webhookLib \<Rightarrow> IronicInspector \<Rightarrow> IronicNeutronAgent \<Rightarrow> Ironic \<Rightarrow> Ironic \<Rightarrow> bool" where
  "nextRun L E P W fi fa i j \<longleftrightarrow> j = i \<or> (\<exists>h t. givenUp L E P W fi fa h i t \<and> j = obj t)"

lemma run_completes:
  assumes "cooperative L E P i"
  obtains j s where "nextRun L E P W fi fa i j" "wanted j = wanted i" "completes L E P W fi fa j s"
proof -
  have env: "settled E" "atRest E" "setHash_law E" "deployable i"
    using assms by (simp_all add: cooperative_def)
  obtain h where h: "\<And>j. wanted j = wanted i \<Longrightarrow>
     if recorded (st_Hash (Status j)) = Some h then \<exists>s. completes L E P W fi fa j s
     else \<exists>s. givenUp L E P W fi fa h j s"
    using settled_progress [OF env, of L P W fi fa] by blast
  show thesis
  proof (cases "recorded (st_Hash (Status i)) = Some h")
    case True
    then obtain s where "completes L E P W fi fa i s"
      using h [OF refl] by auto
    then show thesis
      by (intro that [of i s]) (simp_all add: nextRun_def)
  next
    case False
    then obtain t where t: "givenUp L E P W fi fa h i t"
      using h [OF refl] by auto
    then obtain s where "completes L E P W fi fa (obj t) s"
      using h [of "obj t"] by (auto simp: givenUp_def)
    with t show thesis
      by (intro that [of "obj t" s]) (auto simp: nextRun_def givenUp_def)
  qed
qed

text \<open>C1. The rotation is safe across the controllers, for every credential but the application
  credential of the inspector (consumer finalizer \<open>InspectorACConsumerFinalizer\<close>), which is not among
  the secrets the input hash is made of. In every history of their runs, with stale reads and any
  interleaving, when a run of the Ironic controller finalizes a rotation of such a credential towards
  a secret as ready, then for one list of secrets with that secret in it, every conductor
  of the spec and the API were reconciled with just these secrets in their spec, and in that run of
  their own controller their workload was stored, observed and found ready with them.\<close>

theorem released_after_rollout_everywhere:
  assumes "history D H" and "inj D" and "\<And>xs. D xs \<noteq> ''''" and "lawful D E" and "wellNamed E" and "truthful H E (calls s)"
    and "reconcileNormal L E P W fi fa \<lparr>obj = i, calls = []\<rparr> = (r, s)"
    and "calls s = pre @ FinalizeSecretRotation ns old new f True # post" and "f \<noteq> InspectorACConsumerFinalizer"
  shows "\<exists>sec. new \<in> set sec \<and>
    (\<forall>c\<in>set (sp_IronicConductors (Spec i)).
       rolledOutWith H (''IronicConductor'', Namespace (Meta i), conductorName (Name (Meta i)) c) sec) \<and>
    rolledOutWith H (''IronicAPI'', Namespace (Meta i), Name (Meta i) @ ''-api'') sec"
proof -
  have "guarded E i (calls s)"
    using valid_final [OF reconcileNormal_guarded, of "\<lparr>obj = i, calls = []\<rparr>" i] assms(7)
    by (metis (no_types, lifting) snd_conv st.select_convs)
  then have "rolledOut E i pre"
    using assms(8) by (simp add: guards_def finalizes_def)
  then obtain h where h: "\<forall>c\<in>set (sp_IronicConductors (Spec i)). conductorApplied E i c h pre" "apiApplied E i h pre"
    unfolding rolledOut_def by blast
  obtain sec where sec: "list_all (hands D sec) (calls s)"
    using run_agreed [OF assms(4), of L P W fi fa i] assms(7) by (auto simp: agreed_def)
  then have "new \<in> set sec" "list_all (hands D sec) pre"
    using assms(8,9) by (auto simp: hands_def)
  moreover have "truthful H E pre"
    using assms(6,8) truthful_prefix by metis
  ultimately show ?thesis
    using h conductor_rolledOut [OF assms(1-5)] api_rolledOut [OF assms(1-5)] by blast
qed


section \<open>A concrete rotation\<close>

definition exampleRotation :: Ironic where
  "exampleRotation = (exampleIronic [exampleConductor '''' []] [])
     \<lparr>Spec := (Spec (exampleIronic [exampleConductor '''' []] []))\<lparr>RPCTransport := ''oslo''\<rparr>\<rparr>"

lemma exampleRotation_simps [simp]:
  "sp_IronicConductors (Spec exampleRotation) = [exampleConductor '''' []]" "RPCTransport (Spec exampleRotation) = ''oslo''"
  "Namespace (Meta exampleRotation) = ''openstack''" "Name (Meta exampleRotation) = ''ironic''"
  "st_TransportURLSecret (Status exampleRotation) = ''''"
  by (simp_all add: exampleRotation_def exampleStatus_def)

lemma lawful_example: "lawful exampleDigest exampleEnv"
  using finalizer_law_same [OF exampleEnv_laws(2)] by (simp add: lawful_def ownerOnly_def)

lemma cooperative_example: "cooperative exampleConds exampleEnv examplePodLib exampleRotation"
proof -
  have "wellNamed exampleEnv"
    by (simp add: wellNamed_def namedConductor_def namedAPI_def)
  moreover have "\<forall>t e. tls_Enabled examplePodLib t e \<longrightarrow> \<not> isl (ToService examplePodLib (certSecret t e))"
    by (auto simp: examplePodLib_def certSecret_def split: option.split)
  moreover have "deployable exampleRotation"
    using example_deployable by (simp add: deployable_def exampleRotation_def)
  moreover have "\<forall>c\<in>set (sp_IronicConductors (Spec exampleRotation)).
      \<not> isl (ParseQuantity examplePodLib (con_StorageRequest c)) \<and> con_TerminationGracePeriodSeconds c \<noteq> None"
    by (simp add: exampleConductor_def IronicServiceTemplate.defs examplePodLib_def)
  ultimately show ?thesis
    using settled_example settledServices_example atRest_example exampleEnv_laws by (simp add: cooperative_def)
qed

lemma example_completion:
  obtains H s pre new post where "history exampleDigest H" "new \<noteq> ''''"
    "reconcileNormal exampleConds exampleEnv examplePodLib exampleLib exampleInspectorObject exampleAgentObject
       \<lparr>obj = exampleRotation, calls = []\<rparr> = (Continue (emptyResult, None), s)" "truthful H exampleEnv (calls s)"
    "calls s = pre @ FinalizeSecretRotation ''openstack'' '''' new TransportConsumerFinalizer True # post"
proof -
  have "recorded (st_Hash (Status exampleRotation)) = Some ''input-hash''" "deployable exampleRotation"
    using cooperative_example by (simp_all add: exampleRotation_def exampleStatus_def cooperative_def)
  then obtain s where s: "completes exampleConds exampleEnv examplePodLib exampleLib exampleInspectorObject exampleAgentObject
      exampleRotation s"
    using example_completes by blast
  obtain G where G: "history exampleDigest (G @ [])" "truthful (G @ []) exampleEnv (calls s)"
    using completion_of_run [OF history.start lawful_example cooperative_example s] by blast
  with s show thesis
    using that [of G _ s] by (auto simp: completes_def finished_def dest!: split_list)
qed

theorem released_after_rollout_everywhere_witness:
  "\<exists>H s pre new post sec. history exampleDigest H \<and> new \<noteq> '''' \<and>
     reconcileNormal exampleConds exampleEnv examplePodLib exampleLib exampleInspectorObject exampleAgentObject
       \<lparr>obj = exampleRotation, calls = []\<rparr> = (Continue (emptyResult, None), s) \<and>
     calls s = pre @ FinalizeSecretRotation ''openstack'' '''' new TransportConsumerFinalizer True # post \<and> new \<in> set sec \<and>
     rolledOutWith H (''IronicConductor'', ''openstack'', ''ironic-conductor'') sec \<and>
     rolledOutWith H (''IronicAPI'', ''openstack'', ''ironic-api'') sec"
proof -
  obtain H s pre new post where h: "history exampleDigest H" "new \<noteq> ''''"
    and run: "reconcileNormal exampleConds exampleEnv examplePodLib exampleLib exampleInspectorObject exampleAgentObject
       \<lparr>obj = exampleRotation, calls = []\<rparr> = (Continue (emptyResult, None), s)"
    and t: "truthful H exampleEnv (calls s)"
    and log: "calls s = pre @ FinalizeSecretRotation ''openstack'' '''' new TransportConsumerFinalizer True # post"
    by (rule example_completion)
  have digest: "inj exampleDigest" "wellNamed exampleEnv"
    using cooperative_example by (auto simp: inj_def exampleDigest_inj cooperative_def)
  have "conductorName ''ironic'' (exampleConductor '''' []) = ''ironic-conductor''"
    by (simp add: conductorName_def exampleConductor_def IronicServiceTemplate.defs ConductorComponent_def)
  then show ?thesis
    using released_after_rollout_everywhere [OF h(1) digest(1) exampleDigest_nonempty lawful_example digest(2) t run log]
      h run log by (simp add: TransportConsumerFinalizer_def InspectorACConsumerFinalizer_def) blast
qed

text \<open>C4. A rotation never gets stuck: from every history of the runs, in a cluster whose calls
  are answered and whose workloads become ready, the controllers of the conductors and of the
  API can go on so that a run of the Ironic controller is told of their rollout, ends without an
  error or requeue, tracks the secrets of the spec and the current transport secret, and finalizes the
  rotation of the transport secret as ready. It is the next run, or, when the hash of the inputs has
  changed, the one after the run that is given up for it, which keeps the old transport secret
  tracked. The environment's \<open>SetHash\<close> is lib-common's, for all three controllers.\<close>

theorem rotation_can_complete:
  assumes "history D H" and "lawful D E" and "cooperative L E P i"
  shows "\<exists>G j s. nextRun L E P W fi fa i j \<and> history D (G @ H) \<and> truthful (G @ H) E (calls s) \<and>
    completes L E P W fi fa j s"
proof (rule run_completes [OF assms(3)])
  fix j s assume j: "nextRun L E P W fi fa i j" "wanted j = wanted i" "completes L E P W fi fa j s"
  show ?thesis
    using completion_of_run [OF assms(1,2) cooperative_wanted [OF j(2) assms(3)] j(3)] j(1,3) by blast
qed

theorem rotation_can_complete_witness:
  "\<exists>G j s. nextRun exampleConds exampleEnv examplePodLib exampleLib exampleInspectorObject exampleAgentObject exampleRotation j \<and>
     history exampleDigest (G @ []) \<and> truthful (G @ []) exampleEnv (calls s) \<and>
     completes exampleConds exampleEnv examplePodLib exampleLib exampleInspectorObject exampleAgentObject j s"
  by (rule rotation_can_complete [OF history.start lawful_example cooperative_example])


definition askedConductor :: "IronicConductor" where
  "askedConductor = exampleConductorObject\<lparr>con_Meta := annotate exampleParent ''hash'' (con_Meta exampleConductorObject)\<rparr>"

definition askedAPI :: "IronicAPI" where
  "askedAPI = exampleAPIObject\<lparr>api_Meta := annotate exampleParent ''hash'' (api_Meta exampleAPIObject)\<rparr>"


end
