(* ===== verification/Superseded.thy ===== *)
theory Superseded
  imports ReconcileProps2
begin

text \<open>
  Which transport secrets a prune of the consumer finalizers keeps at most, and that the
  rotation of the notifications secret forgets the old one too early.
\<close>

section \<open>The secrets a run keeps\<close>

text \<open>The tracked secrets are in \<open>K\<close>, and so is whatever the prunes of a log keep and the
  rotations name.\<close>

definition trackedIn :: "string set \<Rightarrow> Ironic \<Rightarrow> bool" where
  "trackedIn K i \<longleftrightarrow> st_TransportURLSecret (Status i) \<in> K \<and> optText (st_NotificationsURLSecret (Status i)) \<in> K"

definition keepsIn :: "string set \<Rightarrow> call \<Rightarrow> bool" where
  "keepsIn K c \<longleftrightarrow> (case c of
       PruneSecretConsumerFinalizers ns f keep \<Rightarrow> f = TransportConsumerFinalizer \<longrightarrow> set keep \<subseteq> K
     | FinalizeSecretRotation ns old new f ready \<Rightarrow> f = TransportConsumerFinalizer \<longrightarrow> {old, new} \<subseteq> K
     | _ \<Rightarrow> True)"

definition keepingIn :: "string set \<Rightarrow> (Ironic, call) st \<Rightarrow> bool" where
  "keepingIn K s \<longleftrightarrow> trackedIn K (obj s) \<and> list_all (keepsIn K) (calls s)"

text \<open>The transport URLs refer to secrets of \<open>K\<close>, and a rotation ends with the old or the
  new name, as its documentation says.\<close>

definition answersIn :: "string set \<Rightarrow> env \<Rightarrow> bool" where
  "answersIn K E \<longleftrightarrow> '''' \<in> K \<and>
     (\<forall>cs tu x op. cr_Store (tus E) cs tu = Inr (x, op) \<longrightarrow> tu_StatusSecretName x \<in> K) \<and>
     (\<forall>cs ns old new f ready n. on_FinalizeSecretRotation E cs ns old new f ready = Inr n \<longrightarrow> n = old \<or> n = new)"

definition trackedNames :: "Ironic \<Rightarrow> string \<times> string option" where
  "trackedNames i = (st_TransportURLSecret (Status i), st_NotificationsURLSecret (Status i))"

lemma trackedIn_names: "trackedIn K i \<longleftrightarrow> (case trackedNames i of (t, n) \<Rightarrow> t \<in> K \<and> optText n \<in> K)"
  by (simp add: trackedIn_def trackedNames_def)

lemma keeping_step:
  assumes "leaves trackedNames m" and "emits (keepsIn K) m"
  shows "valid (keepingIn K) m (\<lambda>_. keepingIn K) (\<lambda>_. keepingIn K)"
  by (rule valid_weaken [OF valid_conj [OF valid_leaves [OF assms(1), of "\<lambda>(t, n). t \<in> K \<and> optText n \<in> K"]
        valid_emits [OF assms(2)]]]) (simp_all add: keepingIn_def trackedIn_names)

lemma keeping_status:
  "(\<And>i. trackedIn K i \<Longrightarrow> trackedIn K (f i)) \<Longrightarrow> valid (keepingIn K) (modObj f) (\<lambda>_. keepingIn K) R"
  by (rule valid_modObj) (simp add: keepingIn_def)

lemma trackedNames_simps [simp]:
  "trackedNames (Ironic_updConds f i) = trackedNames i"
  "trackedNames (i\<lparr>Spec := (Spec i)\<lparr>sp_IronicInspector := x\<rparr>\<rparr>) = trackedNames i"
  by (simp_all add: trackedNames_def Ironic_updConds_def)

lemma leaves_trackedNames [keeps]:
  "leaves trackedNames (setCond L c)" "leaves trackedNames (markTrue L t m)" "leaves trackedNames (failWith L E t msg err)"
  "leaves trackedNames (mirrorFrom L t cs)"
  unfolding failWith_def setCond_def markTrue_def mirrorFrom_def by (intro keeps; simp)+

lemma leaves_trackedNames_status [keeps]:
  "(\<And>st. st_NotificationsURLSecret (f st) = st_NotificationsURLSecret st \<and>
      st_TransportURLSecret (f st) = st_TransportURLSecret st) \<Longrightarrow> leaves trackedNames (modStatus f)"
  unfolding modStatus_def by (intro keeps) (simp add: trackedNames_def)

lemmas run_sections = rbacSection_def inputSecretSection_def keystoneSection_def ensureDB_def configSection_def
  generateServiceConfigMaps_def getTransportURL_def authParams_def createHashOfInputHashes_def acSecretSection_def
  manageACSecret_def reconcileUpgrade_def inspectInterfaceSection_def deployInspector_def
  inspectorDeploymentCreateOrUpdate_def inspectorDeploymentDelete_def deployNeutronAgent_def
  ironicNeutronAgentDeploymentCreateOrUpdate_def ironicNeutronAgentDeploymentDelete_def deleteSubResource_def
  deployAPI_def apiDeploymentCreateOrUpdate_def deployConductors_def deployConductor_def
  conductorDeploymentCreateOrUpdate_def copyEndpoints_def servicesSection_def acRotationSection_def readySection_def

lemma leaves_trackedNames_sections:
  "leaves trackedNames (rbacSection E i)" "leaves trackedNames (inputSecretSection L E i)"
  "leaves trackedNames (keystoneSection E i)" "leaves trackedNames (ensureDB L E i)"
  "leaves trackedNames (configSection L E i v ke kr db t)" "leaves trackedNames (acSecretSection L E i)"
  "leaves trackedNames (func (reconcileUpgrade L E P lbl))" "leaves trackedNames (servicesSection L E W fi fa i ke kr t)"
  "leaves trackedNames (acRotationSection E i r)" "leaves trackedNames (readySection L)"
  unfolding run_sections by (intro keeps; simp add: trackedNames_def Ironic_updConds_def)+

lemma emits_keepsIn_sections:
  "emits (keepsIn K) (rbacSection E i)" "emits (keepsIn K) (inputSecretSection L E i)"
  "emits (keepsIn K) (keystoneSection E i)" "emits (keepsIn K) (ensureDB L E i)"
  "emits (keepsIn K) (configSection L E i v ke kr db t)" "emits (keepsIn K) (acSecretSection L E i)"
  "emits (keepsIn K) (func (reconcileUpgrade L E P lbl))" "emits (keepsIn K) (servicesSection L E W fi fa i ke kr t)"
  "emits (keepsIn K) (acRotationSection E i r)" "emits (keepsIn K) (readySection L)"
  unfolding run_sections by (intro keeps; simp add: keepsIn_def)+


lemma keeping_sections:
  "valid (keepingIn K) (rbacSection E i) (\<lambda>_. keepingIn K) (\<lambda>_. keepingIn K)"
  "valid (keepingIn K) (inputSecretSection L E i) (\<lambda>_. keepingIn K) (\<lambda>_. keepingIn K)"
  "valid (keepingIn K) (keystoneSection E i) (\<lambda>_. keepingIn K) (\<lambda>_. keepingIn K)"
  "valid (keepingIn K) (ensureDB L E i) (\<lambda>_. keepingIn K) (\<lambda>_. keepingIn K)"
  "valid (keepingIn K) (configSection L E i v ke kr db t) (\<lambda>_. keepingIn K) (\<lambda>_. keepingIn K)"
  "valid (keepingIn K) (acSecretSection L E i) (\<lambda>_. keepingIn K) (\<lambda>_. keepingIn K)"
  "valid (keepingIn K) (func (reconcileUpgrade L E P lbl)) (\<lambda>_. keepingIn K) (\<lambda>_. keepingIn K)"
  "valid (keepingIn K) (servicesSection L E W fi fa i ke kr t) (\<lambda>_. keepingIn K) (\<lambda>_. keepingIn K)"
  "valid (keepingIn K) (acRotationSection E i r) (\<lambda>_. keepingIn K) (\<lambda>_. keepingIn K)"
  "valid (keepingIn K) (readySection L) (\<lambda>_. keepingIn K) (\<lambda>_. keepingIn K)"
  by (rule keeping_step, rule leaves_trackedNames_sections, rule emits_keepsIn_sections)+

section \<open>Transport\<close>

lemma keeping_create:
  assumes "answersIn K E"
  shows "valid (keepingIn K) (transportURLCreateOrUpdate E i suffix cfg)
     (\<lambda>r s. (\<forall>x op. r = Inr (x, op) \<longrightarrow> tu_StatusSecretName x \<in> K) \<and> keepingIn K s) (\<lambda>_. keepingIn K)"
proof -
  have "valid (\<lambda>_. True) (transportURLCreateOrUpdate E i suffix cfg)
      (\<lambda>r _. \<forall>x op. r = Inr (x, op) \<longrightarrow> tu_StatusSecretName x \<in> K) (\<lambda>_ _. True)"
    unfolding transportURLCreateOrUpdate_def
    by (rule valid_createOrUpdate) (use assms in \<open>auto simp: answersIn_def\<close>)
  moreover have "valid (keepingIn K) (transportURLCreateOrUpdate E i suffix cfg) (\<lambda>_. keepingIn K) (\<lambda>_. keepingIn K)"
    unfolding transportURLCreateOrUpdate_def by (rule keeping_step; intro keeps; simp add: keepsIn_def)
  ultimately show ?thesis
    by (rule valid_weaken [OF valid_conj]) simp_all
qed

lemma keeping_setNotif: "x \<in> K \<Longrightarrow> valid (keepingIn K) (modObj (Ironic_setNotif (Some x))) (\<lambda>_. keepingIn K) R"
  by (rule keeping_status) (simp add: trackedIn_def Ironic_setNotif_def)

lemma keeping_conditions:
  "valid (keepingIn K) (modObj (cu_Set (conditionsIn L Ironic_updConds) c)) (\<lambda>_. keepingIn K) R"
  "valid (keepingIn K) (modObj (cu_MarkTrue (conditionsIn L Ironic_updConds) t m)) (\<lambda>_. keepingIn K) R"
  "valid (keepingIn K) (modObj (cu_Remove (conditionsIn L Ironic_updConds) t)) (\<lambda>_. keepingIn K) R"
  by (rule keeping_status, simp add: trackedIn_names conditionsIn_def)+

lemma keeping_notifications:
  assumes "answersIn K E"
  shows "valid (keepingIn K) (func (ensureNotificationsTransportURL L E bus Ironic_setNotif
       (transportURLCreateOrUpdate E i) (conditionsIn L Ironic_updConds))) (\<lambda>_. keepingIn K) R"
proof -
  have empty: "'''' \<in> K"
    using assms by (simp add: answersIn_def)
  then have none: "valid (keepingIn K) (modObj (Ironic_setNotif None)) (\<lambda>_. keepingIn K) R" for R :: "'b \<Rightarrow> (Ironic, call) st \<Rightarrow> bool"
    by (intro keeping_status) (simp add: trackedIn_def Ironic_setNotif_def)
  show ?thesis
    unfolding ensureNotificationsTransportURL_def
    apply (rule valid_func, rule valid_if)
     apply (rule valid_thn [OF keeping_setNotif [OF empty]], rule valid_bnd [OF keeping_create [OF assms]], rule valid_imp,
        rule valid_sum, rule valid_thn [OF keeping_conditions(1)], rule valid_exit, assumption)
     apply (rule valid_prod, rule valid_thn [OF keeping_setNotif], simp, rule valid_if)
      apply (rule valid_thn [OF keeping_conditions(1)], rule valid_exit, assumption)
     apply (rule valid_thn [OF keeping_conditions(2)], rule valid_ret, assumption)
    apply (rule valid_thn [OF none], rule valid_thn [OF keeping_conditions(3)], rule valid_ret, assumption)
    done
qed

lemma keeping_finalizer:
  "keepsIn K c \<Longrightarrow> valid (keepingIn K) (orFail (finalizerCall E c)) (\<lambda>_. keepingIn K) (\<lambda>_. keepingIn K)"
  by (rule keeping_step; intro keeps)

lemma keeping_ends:
  "valid (keepingIn K) (failWith L E t m err) Q (\<lambda>_. keepingIn K)"
  "valid (keepingIn K) (thn (setCond L c) (exit r)) Q (\<lambda>_. keepingIn K)"
  by (simp_all add: failWith_def setCond_def valid_def step_simps keepingIn_def trackedIn_names)

lemma keeping_oslo:
  assumes "answersIn K E"
  shows "valid (keepingIn K) (osloTransport L E i) (\<lambda>(ct, cn) s. (ct \<in> K \<and> cn \<in> K) \<and> keepingIn K s) (\<lambda>_. keepingIn K)"
proof -
  have track: "valid (keepingIn K) (modStatus (\<lambda>st. if st_TransportURLSecret st = '''' \<or> st_TransportURLSecret st = ct
        then st\<lparr>st_TransportURLSecret := ct\<rparr> else st)) (\<lambda>_. keepingIn K) R" if "ct \<in> K"
    for ct and R :: "'b \<Rightarrow> (Ironic, call) st \<Rightarrow> bool"
    unfolding modStatus_def by (rule keeping_status) (simp add: trackedIn_def that)
  note create = valid_bnd [OF keeping_create [OF assms]]
  show ?thesis
    unfolding osloTransport_def
    apply (rule create, rule valid_imp, rule valid_sum, rule keeping_ends, rule valid_prod, rule valid_if, rule keeping_ends)
    apply (rule valid_let, rule valid_thn [OF track], simp, rule valid_thn [OF keeping_finalizer], simp add: keepsIn_def)
    apply (rule valid_thn [OF keeping_step], intro keeps, intro keeps, rule valid_bnd [OF keeping_notifications [OF assms]])
    apply (rule valid_prod, rule valid_if, rule valid_exit, assumption)
    apply (rule valid_bnd [where Q' = "\<lambda>j s. optText (st_NotificationsURLSecret (Status j)) \<in> K \<and> keepingIn K s"],
        rule valid_getObj, simp add: keepingIn_def trackedIn_def, rule valid_imp, rule valid_let)
    apply (rule valid_thn [OF keeping_step], intro keeps, intro keeps, simp add: keepsIn_def, rule valid_ret, simp)
    done
qed

lemma keeping_jsonRpc:
  assumes "'''' \<in> K"
  shows "valid (keepingIn K) (jsonRpcTransport L E i) (\<lambda>(ct, cn) s. (ct \<in> K \<and> cn \<in> K) \<and> keepingIn K s) (\<lambda>_. keepingIn K)"
proof -
  have clear: "valid (keepingIn K) (modStatus (\<lambda>st. st\<lparr>st_TransportURLSecret := '''', st_NotificationsURLSecret := None\<rparr>))
      (\<lambda>_. keepingIn K) R" for R :: "'b \<Rightarrow> (Ironic, call) st \<Rightarrow> bool"
    unfolding modStatus_def by (rule keeping_status) (simp add: trackedIn_def assms)
  show ?thesis
    unfolding jsonRpcTransport_def
    apply (rule valid_bnd [where Q' = "\<lambda>_. keepingIn K"], rule valid_getObj, assumption)
    apply (rule valid_thn [OF keeping_step], intro keeps, intro keeps, simp add: keepsIn_def)
    apply (rule valid_thn [OF keeping_step], intro keeps, intro keeps, simp add: keepsIn_def)
    apply (rule valid_thn [OF clear], rule valid_thn [OF keeping_step], intro keeps, intro keeps, rule valid_ret)
    apply (simp add: assms)
    done
qed

section \<open>The end of a run\<close>

lemma keeping_rotation:
  assumes "answersIn K E" and "old \<in> K" and "new \<in> K"
  shows "valid (keepingIn K) (getOrFail (finalizeRotation E ns old new f ready)) (\<lambda>n s. n \<in> K \<and> keepingIn K s) (\<lambda>_. keepingIn K)"
proof -
  have "n \<in> K" if "on_FinalizeSecretRotation E cs ns old new f ready = Inr n" for cs n
    using assms that unfolding answersIn_def by metis
  then show ?thesis
    using assms(2,3) by (auto simp: valid_def getOrFail_def finalizeRotation_def step_simps keepingIn_def keepsIn_def split: sum.split)
qed

lemma keeping_finish:
  assumes "answersIn K E" and "{ot, ct, on, cn} \<subseteq> K"
  shows "valid (keepingIn K) (finishSection L E i ot ct on cn ready) (\<lambda>_. keepingIn K) (\<lambda>_. keepingIn K)"
proof -
  have transport: "valid (keepingIn K) (transportRotationSection E i ot ct ready) (\<lambda>_. keepingIn K) (\<lambda>_. keepingIn K)"
    unfolding transportRotationSection_def
    by (rule valid_bnd [OF keeping_rotation [OF assms(1)]])
      (use assms(2) in \<open>auto simp: modStatus_def trackedIn_def intro!: valid_imp keeping_status\<close>)
  have track: "valid (keepingIn K) (modStatus (\<lambda>st. st\<lparr>st_NotificationsURLSecret := n\<rparr>)) (\<lambda>_. keepingIn K) (\<lambda>_. keepingIn K)"
    if "optText n \<in> K" for n
    unfolding modStatus_def by (rule keeping_status) (simp add: trackedIn_def that)
  have none: "optText None \<in> K"
    using assms(1) by (simp add: answersIn_def)
  have notif: "valid (keepingIn K) (notifRotationSection E i on cn ready) (\<lambda>_. keepingIn K) (\<lambda>_. keepingIn K)"
    unfolding notifRotationSection_def
    apply (rule valid_let, rule valid_if)
     apply (rule valid_bnd [OF keeping_rotation [OF assms(1)]], use assms(2) in simp, use assms(2) in simp)
     apply (rule valid_imp, rule track, simp)
    apply (rule valid_if, rule valid_if, rule valid_thn [OF keeping_finalizer], simp add: keepsIn_def)
       apply (rule valid_bnd [OF keeping_step], intro keeps, intro keeps, simp add: keepsIn_def)
       apply (rule valid_if, rule valid_exit, assumption, rule track [OF none], rule track, use assms(2) in simp)
    apply (rule track [OF none])
    done
  have prune: "valid (keepingIn K) (pruneSection E i ct cn) (\<lambda>_. keepingIn K) (\<lambda>_. keepingIn K)"
    unfolding pruneSection_def
    apply (rule valid_bnd [where Q' = "\<lambda>j s. trackedIn K j \<and> keepingIn K s"], rule valid_getObj, simp add: keepingIn_def,
        rule valid_imp, rule valid_let, rule valid_let)
    apply (rule valid_thn [OF keeping_finalizer], use assms(2) in \<open>simp add: trackedIn_def keepsIn_def\<close>)
    apply (rule valid_thn [OF keeping_finalizer], simp add: keepsIn_def, rule keeping_finalizer, simp add: keepsIn_def)
    done
  show ?thesis
    unfolding finishSection_def
    by (rule valid_thn [OF keeping_step], intro keeps, intro keeps, simp add: keepsIn_def,
        rule valid_thn [OF keeping_sections(9)], rule valid_thn [OF transport], rule valid_thn [OF notif],
        rule valid_thn [OF prune], rule keeping_sections(10))
qed


section \<open>A run\<close>

text \<open>A run keeps nothing but what was tracked before it and what its transport URLs refer to.\<close>

lemma keeping_run:
  assumes "answersIn K E" and "trackedIn K i"
  shows "list_all (keepsIn K) (calls (snd (reconcileNormal L E P W fi fa \<lparr>obj = i, calls = []\<rparr>)))"
proof -
  have old: "st_TransportURLSecret (Status i) \<in> K" "optText (st_NotificationsURLSecret (Status i)) \<in> K" "'''' \<in> K"
    using assms by (simp_all add: trackedIn_def answersIn_def)
  have transport: "valid (keepingIn K) (transportSection L E i) (\<lambda>(ct, cn) s. (ct \<in> K \<and> cn \<in> K) \<and> keepingIn K s) (\<lambda>_. keepingIn K)"
    unfolding transportSection_def by (rule valid_if [OF keeping_oslo [OF assms(1)] keeping_jsonRpc [OF old(3)]])
  have start: "valid (keepingIn K) (modStatus (\<lambda>st. st\<lparr>st_IronicConductorReadyCount := Map.empty\<rparr>)) (\<lambda>_. keepingIn K) (\<lambda>_. keepingIn K)"
    unfolding modStatus_def by (rule keeping_status) (simp add: trackedIn_def)
  have "valid (keepingIn K) (reconcileNormalFrom L E P W fi fa i) (\<lambda>_. keepingIn K) (\<lambda>_. keepingIn K)"
    unfolding reconcileNormalFrom_def
    apply (rule valid_thn [OF keeping_sections(1)], rule valid_thn [OF start], rule valid_let, rule valid_let)
    apply (rule valid_bnd [OF transport], rule valid_prod, simp only: prod.case, rule valid_imp)
    apply (rule valid_bnd [OF keeping_sections(2)], rule valid_bnd [OF keeping_sections(3)], rule valid_prod,
        rule valid_bnd [OF keeping_sections(4)], rule valid_thn [OF keeping_sections(5)], rule valid_thn [OF keeping_sections(6)],
        rule valid_bnd [OF keeping_sections(7)], rule valid_prod, rule valid_if, rule valid_exit, assumption,
        rule valid_if, rule valid_exit, assumption, rule valid_bnd [OF keeping_sections(8)])
    apply (rule keeping_finish [OF assms(1)], use old in simp)
    done
  from valid_final [OF this, of "\<lparr>obj = i, calls = []\<rparr>"] show ?thesis
    using assms(2) by (simp add: reconcileNormal_def step_simps keepingIn_def)
qed

text \<open>With a bus for the notifications the status tracks their new secret at once.\<close>

lemma oslo_tracks:
  assumes "NotificationsBus (Spec i) = Some bus" and "rmq_Cluster bus \<noteq> ''''"
  shows "valid (\<lambda>_. True) (osloTransport L E i) (\<lambda>(ct, cn) s. st_NotificationsURLSecret (Status (obj s)) = Some cn) (\<lambda>_ _. True)"
proof -
  have create: "valid P (transportURLCreateOrUpdate E i suffix cfg) (\<lambda>_ _. True) (\<lambda>_ _. True)"
    for P :: "(Ironic, call) st \<Rightarrow> bool" and suffix cfg
    by (simp add: valid_def split: prod.split step.split)
  let ?set = "\<lambda>s :: (Ironic, call) st. st_NotificationsURLSecret (Status (obj s)) \<noteq> None"
  have quiet: "valid ?set m (\<lambda>_. ?set) (\<lambda>_. ?set)" if "leaves trackedNames m" for m :: "(Ironic, call, 'b, 'c) act"
    using valid_leaves [OF that, of "\<lambda>x. snd x \<noteq> None"] by (simp add: trackedNames_def)
  have sets: "valid P (modObj (Ironic_setNotif (Some n))) (\<lambda>_. ?set) R" for P n and R :: "'b \<Rightarrow> (Ironic, call) st \<Rightarrow> bool"
    by (rule valid_modObj) (simp add: Ironic_setNotif_def)
  have notif: "valid P (func (ensureNotificationsTransportURL L E (Some bus) Ironic_setNotif
      (transportURLCreateOrUpdate E i) (conditionsIn L Ironic_updConds)))
    (\<lambda>_ s. st_NotificationsURLSecret (Status (obj s)) \<noteq> None) R" for P and R :: "'b \<Rightarrow> (Ironic, call) st \<Rightarrow> bool"
    unfolding ensureNotificationsTransportURL_def
    apply (rule valid_func, rule valid_if, rule valid_thn [OF sets], rule valid_bnd [OF quiet])
       apply (unfold transportURLCreateOrUpdate_def, rule leaves_createOrUpdate)
      apply (rule valid_sum, rule quiet, intro keeps, simp add: conditionsIn_def)
      apply (rule valid_prod, rule valid_thn [OF sets], rule quiet, intro keeps)
       apply (simp add: conditionsIn_def)
      apply (simp add: conditionsIn_def)
    using assms(2) apply simp
    done
  show ?thesis
    unfolding osloTransport_def assms(1)
    apply (rule valid_bnd [OF create], rule valid_sum, simp add: valid_def quiet_defs step_simps)
    apply (rule valid_prod, rule valid_if, simp add: valid_def quiet_defs step_simps, rule valid_let)
    apply (rule valid_thn, rule valid_True, rule valid_thn, rule valid_True, rule valid_thn, rule valid_True)
    apply (rule valid_bnd, rule notif, rule valid_prod, rule valid_if, simp add: valid_def step_simps)
    apply (auto simp: valid_def step_simps Let_def whenM_def orFail_def finalizerCall_def split: option.split)
    done
qed


section \<open>The rotation of the notifications secret\<close>

text \<open>The prune at the end of a run does not wait for the services: every run that comes to its end
  has made it.\<close>

definition pruned :: "call list \<Rightarrow> bool" where
  "pruned log \<longleftrightarrow> (\<exists>ns keep. PruneSecretConsumerFinalizers ns TransportConsumerFinalizer keep \<in> set log)"

lemma finish_prunes:
  "valid (\<lambda>_. True) (finishSection L E i ot ct on cn ready) (\<lambda>_ s. pruned (calls s)) (\<lambda>_ _. True)"
proof -
  have first: "valid (\<lambda>_. True) (orFail (finalizerCall E (PruneSecretConsumerFinalizers ns TransportConsumerFinalizer keep)))
      (\<lambda>_ s. pruned (calls s)) R" if "\<And>r s. R r s" for ns keep R
    using that by (auto simp: valid_def orFail_def finalizerCall_def step_simps pruned_def split: option.split)
  have after: "valid (\<lambda>s. pruned (calls s)) m (\<lambda>_ s. pruned (calls s)) (\<lambda>_ _. True)"
    if "emits (\<lambda>_. True) m" for m :: "'b iact"
    by (rule valid_weaken [OF valid_grows [OF that, of pruned]]) (auto simp: grows_def pruned_def)
  show ?thesis
    unfolding finishSection_def pruneSection_def
    by (rule valid_thn, rule valid_True, rule valid_thn, rule valid_True, rule valid_thn, rule valid_True,
        rule valid_thn, rule valid_True, rule valid_thn, rule valid_bnd, rule valid_True, rule valid_let, rule valid_let,
        rule valid_thn, rule first, rule TrueI, rule after, intro keeps, rule TrueI, rule TrueI, rule after,
        rule emits_mono [OF emits_keepsIn_sections(10)], rule TrueI)
qed

lemma run_prunes:
  assumes "reconcileNormal L E P W fi fa \<lparr>obj = i, calls = []\<rparr> = (Continue r, s)"
  shows "pruned (calls s)"
proof -
  have "valid (\<lambda>_. True) (reconcileNormalFrom L E P W fi fa i) (\<lambda>_ s. pruned (calls s)) (\<lambda>_ _. True)"
    unfolding reconcileNormalFrom_def
    apply (rule valid_thn, rule valid_True, rule valid_thn, rule valid_True, rule valid_let, rule valid_let,
        rule valid_bnd, rule valid_True, rule valid_prod, rule valid_bnd, rule valid_True, rule valid_bnd, rule valid_True,
        rule valid_prod, rule valid_bnd, rule valid_True, rule valid_thn, rule valid_True, rule valid_thn, rule valid_True,
        rule valid_bnd, rule valid_True, rule valid_prod, rule valid_if, rule valid_exit, rule TrueI,
        rule valid_if, rule valid_exit, rule TrueI, rule valid_bnd, rule valid_True, rule finish_prunes)
    done
  from validD_Continue [OF this TrueI] assms show ?thesis
    by (simp add: reconcileNormal_def step_simps)
qed

text \<open>C37. The rotation of the notifications secret forgets the old one before any workload is rolled
  out: the section that handles the transports replaces the tracked name at once. When the run
  ends in between, as it does whenever the input hash changed, no finalization of the next run
  names the old secret; and when that run comes to its end, be the services ready or not, it has
  pruned the consumer finalizers without keeping the old secret's.\<close>

theorem notifications_rotation_forgotten:
  assumes "RPCTransport (Spec i) = ''oslo''" and "NotificationsBus (Spec i) = Some bus" and "rmq_Cluster bus \<noteq> ''''"
    and "transportSection L E i s = (Continue (ct, cn), s')"
    and "answersIn K E'" and "{st_TransportURLSecret (Status (obj s')), cn} \<subseteq> K" and "old \<notin> K"
    and "reconcileNormal L E' P W fi fa \<lparr>obj = obj s', calls = []\<rparr> = (r, t)"
  shows "st_NotificationsURLSecret (Status (obj s')) = Some cn \<and>
    (\<forall>ns old' new ready. FinalizeSecretRotation ns old' new TransportConsumerFinalizer ready \<in> set (calls t) \<longrightarrow> old' \<noteq> old) \<and>
    (\<forall>ns keep. PruneSecretConsumerFinalizers ns TransportConsumerFinalizer keep \<in> set (calls t) \<longrightarrow> old \<notin> set keep) \<and>
    (\<forall>res. r = Continue res \<longrightarrow> pruned (calls t))"
proof (intro conjI allI impI)
  show cn: "st_NotificationsURLSecret (Status (obj s')) = Some cn"
    using validD_Continue [OF oslo_tracks [OF assms(2,3)] TrueI] assms(1,4) by (fastforce simp: transportSection_def)
  have "trackedIn K (obj s')"
    using assms(6) by (simp add: trackedIn_def cn)
  from keeping_run [OF assms(5) this, of L P W fi fa] have log: "list_all (keepsIn K) (calls t)"
    using assms(8) by simp
  show "old' \<noteq> old" if "FinalizeSecretRotation ns old' new TransportConsumerFinalizer ready \<in> set (calls t)" for ns old' new ready
    using log that assms(7) by (fastforce simp: list_all_iff keepsIn_def)
  show "old \<notin> set keep" if "PruneSecretConsumerFinalizers ns TransportConsumerFinalizer keep \<in> set (calls t)" for ns keep
    using log that assms(7) by (fastforce simp: list_all_iff keepsIn_def)
  show "pruned (calls t)" if "r = Continue res" for res
    using assms(8) that by (auto intro: run_prunes)
qed

definition exampleNotified :: Ironic where
  "exampleNotified = (let i = exampleIronic [exampleConductor '''' []] [] in
     i\<lparr>Spec := (Spec i)\<lparr>RPCTransport := ''oslo'', NotificationsBus := Some
         \<lparr>rmq_User = '''', rmq_Vhost = '''', rmq_Cluster = ''rabbitmq-notifications''\<rparr>\<rparr>,
       Status := (Status i)\<lparr>st_NotificationsURLSecret := Some ''old-secret''\<rparr>\<rparr>)"

lemma example_transport:
  obtains s' where "transportSection exampleConds exampleEnv exampleNotified \<lparr>obj = exampleNotified, calls = []\<rparr> =
      (Continue (''transport-secret'', ''transport-secret''), s')"
    "st_TransportURLSecret (Status (obj s')) = ''transport-secret''" "Spec (obj s') = Spec exampleNotified"
    "recorded (st_Hash (Status (obj s'))) = Some ''input-hash''"
  by (simp add: exampleNotified_def Let_def transportSection_def osloTransport_def transportURLCreateOrUpdate_def createOrUpdate_def
      ensureNotificationsTransportURL_def act_defs settleTransport_def modStatus_def orFail_def finalizerCall_def
      markTrue_def Ironic_setNotif_def conditionsIn_def Ironic_updConds_def exampleStatus_def emptyResult_def)

theorem notifications_rotation_forgotten_witness:
  "st_NotificationsURLSecret (Status exampleNotified) = Some ''old-secret'' \<and>
   (\<exists>r s' res t keep. transportSection exampleConds exampleEnv exampleNotified \<lparr>obj = exampleNotified, calls = []\<rparr> = (Continue r, s') \<and>
     reconcileNormal exampleConds exampleEnv examplePodLib exampleLib exampleInspectorObject exampleAgentObject
       \<lparr>obj = obj s', calls = []\<rparr> = (Continue res, t) \<and>
     (\<exists>ns. PruneSecretConsumerFinalizers ns TransportConsumerFinalizer keep \<in> set (calls t)) \<and> ''old-secret'' \<notin> set keep)"
proof
  show "st_NotificationsURLSecret (Status exampleNotified) = Some ''old-secret''"
    by (simp add: exampleNotified_def Let_def)
  obtain s' where run: "transportSection exampleConds exampleEnv exampleNotified \<lparr>obj = exampleNotified, calls = []\<rparr> =
      (Continue (''transport-secret'', ''transport-secret''), s')"
    and s': "st_TransportURLSecret (Status (obj s')) = ''transport-secret''" "Spec (obj s') = Spec exampleNotified"
      "recorded (st_Hash (Status (obj s'))) = Some ''input-hash''"
    by (rule example_transport)
  have "deployable (obj s')"
    using example_deployable [of "[exampleConductor '''' []]" "[]"] s'(2) by (simp add: deployable_def exampleNotified_def Let_def)
  from example_completes [OF this s'(3), of exampleConds examplePodLib exampleLib exampleInspectorObject exampleAgentObject]
  obtain t where next_run: "reconcileNormal exampleConds exampleEnv examplePodLib exampleLib exampleInspectorObject exampleAgentObject
       \<lparr>obj = obj s', calls = []\<rparr> = (Continue (emptyResult, None), t)"
    unfolding completes_def by blast
  have spec: "RPCTransport (Spec exampleNotified) = ''oslo''" "NotificationsBus (Spec exampleNotified) = Some
         \<lparr>rmq_User = '''', rmq_Vhost = '''', rmq_Cluster = ''rabbitmq-notifications''\<rparr>"
    by (simp_all add: exampleNotified_def Let_def)
  have "answersIn {'''', ''transport-secret''} exampleEnv"
    by (auto simp: answersIn_def settleTransport_def)
  from notifications_rotation_forgotten [OF spec _ run this _ _ next_run, of "''old-secret''"] s'(1) run next_run
  show "\<exists>r s' res t keep. transportSection exampleConds exampleEnv exampleNotified \<lparr>obj = exampleNotified, calls = []\<rparr> = (Continue r, s') \<and>
     reconcileNormal exampleConds exampleEnv examplePodLib exampleLib exampleInspectorObject exampleAgentObject
       \<lparr>obj = obj s', calls = []\<rparr> = (Continue res, t) \<and>
     (\<exists>ns. PruneSecretConsumerFinalizers ns TransportConsumerFinalizer keep \<in> set (calls t)) \<and> ''old-secret'' \<notin> set keep"
    unfolding pruned_def by (simp; metis)
qed

end
