(* ===== verification/Wiring.thy ===== *)
theory Wiring
  imports Watches Entry
begin

text \<open>
  What each controller tells the manager in \<open>SetupWithManager\<close>: the kind it
  reconciles, the kinds it owns, the sources it watches and the fields it indexes;
  and that a controller is woken by every kind of object it has created.
\<close>

section \<open>Registration\<close>

text \<open>How the requests for a watched source are found, and which of its changes count.\<close>

datatype search = FindObjectForSrc | FindObjectsForSrc | ConfigMapFn

datatype changes = AnyChange | ResourceVersionChanged | GenerationChanged | KeystoneAPIStatusChanged

record registration =
  rg_For :: string
  rg_Owns :: "string list"
  rg_Watches :: "(string \<times> search \<times> changes) list"

definition ironicRegistration :: registration where
  "ironicRegistration = \<lparr>rg_For = ''Ironic'',
     rg_Owns = [''IronicConductor'', ''IronicAPI'', ''IronicInspector'', ''IronicNeutronAgent'', ''MariaDBDatabase'',
       ''MariaDBAccount'', ''Job'', ''Secret'', ''ConfigMap'', ''TransportURL'', ''ServiceAccount'', ''Role'', ''RoleBinding''],
     rg_Watches = [(''KeystoneAPI'', FindObjectForSrc, KeystoneAPIStatusChanged)]\<rparr>"

definition apiRegistered :: registration where
  "apiRegistered = \<lparr>rg_For = ''IronicAPI'',
     rg_Owns = [''KeystoneService'', ''KeystoneEndpoint'', ''Deployment'', ''Secret'', ''Service'', ''ServiceAccount'',
       ''Role'', ''RoleBinding''],
     rg_Watches = [(''Secret'', FindObjectsForSrc, ResourceVersionChanged), (''Topology'', FindObjectsForSrc, GenerationChanged)]\<rparr>"

definition conductorRegistered :: registration where
  "conductorRegistered = \<lparr>rg_For = ''IronicConductor'',
     rg_Owns = [''StatefulSet'', ''Secret'', ''Route'', ''Service'', ''PersistentVolumeClaim'', ''ServiceAccount'', ''Role'',
       ''RoleBinding''],
     rg_Watches = [(''Secret'', FindObjectsForSrc, ResourceVersionChanged), (''Topology'', FindObjectsForSrc, GenerationChanged)]\<rparr>"

definition inspectorRegistered :: registration where
  "inspectorRegistered = \<lparr>rg_For = ''IronicInspector'',
     rg_Owns = [''KeystoneService'', ''KeystoneEndpoint'', ''Secret'', ''Route'', ''Service'', ''TransportURL'',
       ''ServiceAccount'', ''Role'', ''RoleBinding'', ''StatefulSet''],
     rg_Watches = [(''ConfigMap'', ConfigMapFn, AnyChange), (''Secret'', FindObjectsForSrc, ResourceVersionChanged),
       (''Topology'', FindObjectsForSrc, GenerationChanged), (''KeystoneAPI'', FindObjectForSrc, KeystoneAPIStatusChanged)]\<rparr>"

definition agentRegistered :: registration where
  "agentRegistered = \<lparr>rg_For = ''IronicNeutronAgent'',
     rg_Owns = [''Deployment'', ''Secret'', ''ConfigMap'', ''TransportURL'', ''ServiceAccount'', ''Role'', ''RoleBinding''],
     rg_Watches = [(''Secret'', FindObjectsForSrc, ResourceVersionChanged), (''Topology'', FindObjectsForSrc, GenerationChanged),
       (''KeystoneAPI'', FindObjectForSrc, KeystoneAPIStatusChanged)]\<rparr>"

text \<open>The fields each controller registers an index for, in the order it does.\<close>

definition apiIndexed :: "string list" where
  "apiIndexed = [''passwordSecretField'', ''caBundleSecretNameField'', ''tlsAPIInternalField'', ''tlsAPIPublicField'',
     ''transportURLSecretField'', ''topologyField'', ''authAppCredSecretField'']"

definition conductorIndexed :: "string list" where
  "conductorIndexed = [''passwordSecretField'', ''caBundleSecretNameField'', ''transportURLSecretField'', ''topologyField'',
     ''authAppCredSecretField'']"

definition inspectorIndexed :: "string list" where
  "inspectorIndexed = [''passwordSecretField'', ''caBundleSecretNameField'', ''topologyField'', ''authAppCredSecretField'']"

definition agentIndexed :: "string list" where
  "agentIndexed = [''passwordSecretField'', ''caBundleSecretNameField'', ''topologyField'', ''authAppCredSecretField'']"

section \<open>The kinds a controller creates\<close>

text \<open>The kinds of the objects a call creates with the instance as their controller. The
  services and routes of the pods are not among them: a pod is their owner.\<close>

fun createdKinds :: "call \<Rightarrow> string list" where
  "createdKinds (StoreTransportURL _) = [''TransportURL'']"
| "createdKinds (StoreConductor _) = [''IronicConductor'']"
| "createdKinds (StoreAPI _) = [''IronicAPI'']"
| "createdKinds (StoreInspector _) = [''IronicInspector'']"
| "createdKinds (StoreNeutronAgent _) = [''IronicNeutronAgent'']"
| "createdKinds (StoreIronic _) = [''Ironic'']"
| "createdKinds (EnsureSecrets _) = [''Secret'']"
| "createdKinds (DoJob _ _) = [''Job'']"
| "createdKinds (EnsureMariaDBAccount _ _ _) = [''MariaDBAccount'']"
| "createdKinds (CreateOrPatchAllDB _) = [''MariaDBDatabase'']"
| "createdKinds (ReconcileRbac _ _) = [''ServiceAccount'', ''Role'', ''RoleBinding'']"
| "createdKinds (CreateOrPatchKeystoneService _ _ _) = [''KeystoneService'']"
| "createdKinds (CreateOrPatchKeystoneEndpoint _ _ _) = [''KeystoneEndpoint'']"
| "createdKinds (OnService (CreateOrPatchDeployment _)) = [''Deployment'']"
| "createdKinds (OnService (CreateOrPatchStatefulSet _)) = [''StatefulSet'']"
| "createdKinds (OnService (CreateOrPatchService _)) = [''Service'']"
| "createdKinds _ = []"

text \<open>The controller hears of every object the call creates, or it is its own instance.\<close>

definition hears :: "registration \<Rightarrow> string list \<Rightarrow> call \<Rightarrow> bool" where
  "hears rg besides c \<longleftrightarrow> set (createdKinds c) \<subseteq> insert (rg_For rg) (set (rg_Owns rg)) \<union> set besides"

lemmas shared_step_defs = svAccount_def checkParentResourceExist_def checkParentRbacConditions_def reconcileRbac_def
  svLabelledSecrets_def svVerifySecret_def svPassword_def svTransport_def svCaCert_def svCerts_def svConfig_def
  svCreateHash_def svInputHash_def svNetworks_def svTopology_def ensureTopology_def svStoreWorkload_def svNetworkStatus_def
  svReady_def svApply_def svFinish_def svReleaseTopology_def svDropFinalizer_def svPatch_def svBody_def svReconcile_def
  svEnsureService_def svEnsureRoute_def svSet_def svTrue_def svWarn_def svFail_def

lemmas workload_step_defs = exposeEndpoint_def releaseKeystone_def EnsureRegistration_def

lemma hears_services [keeps]:
  "emits (hears ironicRegistration besides) (servicesSection L E W fi fa i ke kr t)"
  "emits (hears ironicRegistration besides) (finishSection L E i ot ct on cn r)"
  unfolding servicesSection_def deployConductors_def deployConductor_def conductorDeploymentCreateOrUpdate_def
    deployAPI_def apiDeploymentCreateOrUpdate_def inspectInterfaceSection_def deployInspector_def
    inspectorDeploymentCreateOrUpdate_def inspectorDeploymentDelete_def deployNeutronAgent_def
    ironicNeutronAgentDeploymentCreateOrUpdate_def ironicNeutronAgentDeploymentDelete_def deleteSubResource_def
    finishSection_def acRotationSection_def transportRotationSection_def notifRotationSection_def pruneSection_def readySection_def
  by (intro keeps; simp add: hears_def ironicRegistration_def)+

lemma hears_sections [keeps]:
  "emits (hears ironicRegistration besides) (rbacSection E i)" "emits (hears ironicRegistration besides) (transportSection L E i)"
  "emits (hears ironicRegistration besides) (inputSecretSection L E i)" "emits (hears ironicRegistration besides) (keystoneSection E i)"
  "emits (hears ironicRegistration besides) (ensureDB L E i)" "emits (hears ironicRegistration besides) (configSection L E i v ke kr db t)"
  "emits (hears ironicRegistration besides) (acSecretSection L E i)"
  "emits (hears ironicRegistration besides) (reconcileUpgrade L E P lbl)"
  unfolding section_defs by (intro keeps; simp add: hears_def ironicRegistration_def)+

lemma hears_ironic: "emits (hears ironicRegistration []) (Reconcile L E P W fi fa)"
proof -
  have delete: "emits (hears ironicRegistration []) (reconcileDelete E)"
    unfolding reconcileDelete_def liveTransportSecret_def removeFinalizers_def
    by (intro keeps; simp add: hears_def ironicRegistration_def)
  have normal: "emits (hears ironicRegistration []) (reconcileNormal L E P W fi fa)"
    unfolding reconcileNormal_def reconcileNormalFrom_def modStatus_def by (intro keeps)
  show ?thesis
    unfolding Reconcile_def reconcileBody_def patchDeferred_def setCond_def modStatus_def
    by (intro keeps delete normal; simp add: hears_def ironicRegistration_def)
qed

lemma hears_API: "emits (hears apiRegistered []) (apiReconcile L E P)"
proof -
  have delete: "emits (hears apiRegistered []) (apiReconcileDelete E)"
    unfolding apiReconcileDelete_def shared_step_defs workload_step_defs
    by (intro keeps; simp add: hears_def apiRegistered_def)
  have config: "emits (hears apiRegistered []) (apiConfigMaps E P vars)" for vars
    unfolding apiConfigMaps_def apiGetTransportURL_def apiAuthParams_def
    by (intro keeps; simp add: hears_def apiRegistered_def)
  have init: "emits (hears apiRegistered []) (apiReconcileInit L E P labels)" for labels
    unfolding apiReconcileInit_def apiExpose_def shared_step_defs workload_step_defs
    by (intro keeps; simp add: hears_def apiRegistered_def)
  have normal: "emits (hears apiRegistered []) (apiReconcileNormal L E P)"
    unfolding apiReconcileNormal_def apiAccount_def apiInputs_def apiTLS_def apiConfig_def apiInputHash_def apiNetworks_def
      apiTopology_def apiDeployment_def apiReady_def shared_step_defs
    by (intro keeps config init; simp add: hears_def apiRegistered_def)
  show ?thesis
    unfolding apiReconcile_def svReconcile_def svBody_def svPatch_def svSet_def
    by (intro keeps delete normal; simp add: hears_def apiRegistered_def apiService_def)
qed

lemma hears_conductor: "emits (hears conductorRegistered []) (conductorReconcile L E P W maskText)"
proof -
  have delete: "emits (hears conductorRegistered []) (conductorReconcileDelete E)"
    unfolding conductorReconcileDelete_def shared_step_defs
    by (intro keeps; simp add: hears_def conductorRegistered_def)
  have config: "emits (hears conductorRegistered []) (conductorConfigMaps E W maskText vars)" for vars
    unfolding conductorConfigMaps_def conductorGetTransportURL_def conductorAuthParams_def
    by (intro keeps; simp add: hears_def conductorRegistered_def)
  have normal: "emits (hears conductorRegistered []) (conductorReconcileNormal L E P W maskText)"
    unfolding conductorReconcileNormal_def conductorAccount_def conductorInputs_def conductorTLS_def conductorConfig_def
      conductorInputHash_def conductorNetworks_def conductorIngress_def conductorTopology_def conductorStatefulSet_def
      conductorReconcileServices_def conductorPods_def conductorReady_def shared_step_defs
    by (intro keeps config; simp add: hears_def conductorRegistered_def)
  show ?thesis
    unfolding conductorReconcile_def svReconcile_def svBody_def svPatch_def svSet_def
    by (intro keeps delete normal; simp add: hears_def conductorRegistered_def conductorService_def)
qed

lemma hears_agent: "emits (hears agentRegistered []) (agentReconcile L E P)"
proof -
  note steps = tvReconcileTransportURL_def tvCreateOrUpdate_def tvHold_def tvInputSecretHash_def tvRotate_def tvRotateNotif_def
    tvReleaseTransport_def ensureNotificationsTransportURL_def
  have delete: "emits (hears agentRegistered []) (agentReconcileDelete E)"
    unfolding agentReconcileDelete_def shared_step_defs steps removeFinalizers_def liveTransportSecret_def
    by (intro keeps; simp add: hears_def agentRegistered_def)
  have secrets: "emits (hears agentRegistered []) (agentServiceSecrets E n vars)" for n vars
    unfolding agentServiceSecrets_def agentGetTransportURL_def
    by (intro keeps; simp add: hears_def agentRegistered_def)
  have normal: "emits (hears agentRegistered []) (agentReconcileNormal L E P)"
    unfolding agentReconcileNormal_def agentAccount_def agentReconcileTransportURL_def agentReconcileConfigMapsAndSecrets_def
      agentInputs_def agentReconcileInit_def agentReconcileDeployment_def agentRotate_def shared_step_defs steps
    by (intro keeps secrets; simp add: hears_def agentRegistered_def)
  show ?thesis
    unfolding agentReconcile_def svReconcile_def svBody_def svPatch_def svSet_def
    by (intro keeps delete normal; simp add: hears_def agentRegistered_def agentService_def)
qed

text \<open>The inspector does not own its database, the account of it and its synchronization job.\<close>

definition inspectorUnowned :: "string list" where
  "inspectorUnowned = [''Job'', ''MariaDBDatabase'', ''MariaDBAccount'']"

lemma hears_inspector: "emits (hears inspectorRegistered inspectorUnowned) (inspectorReconcile L E P W maskText)"
proof -
  note simps = hears_def inspectorRegistered_def inspectorUnowned_def
  note steps = tvReconcileTransportURL_def tvCreateOrUpdate_def tvHold_def tvInputSecretHash_def tvRotate_def tvRotateNotif_def
    tvReleaseTransport_def ensureNotificationsTransportURL_def
  have delete: "emits (hears inspectorRegistered inspectorUnowned) (inspectorReconcileDelete E)"
    unfolding inspectorReconcileDelete_def inspectorDeleteKeystoneServices_def inspectorDeleteDatabase_def
      shared_step_defs workload_step_defs steps removeFinalizers_def liveTransportSecret_def
    by (intro keeps; simp add: simps)
  have secrets: "emits (hears inspectorRegistered inspectorUnowned) (inspectorServiceSecrets E P W maskText db n vars)" for db n vars
    unfolding inspectorServiceSecrets_def inspectorGetTransportURL_def inspectorAuthParams_def
    by (intro keeps; simp add: simps)
  have init: "emits (hears inspectorRegistered inspectorUnowned) (inspectorReconcileInit L E P labels)" for labels
    unfolding inspectorReconcileInit_def inspectorDBsync_def inspectorExpose_def inspectorUsersAndEndpoints_def
      shared_step_defs workload_step_defs
    by (intro keeps; simp add: simps)
  have normal: "emits (hears inspectorRegistered inspectorUnowned) (inspectorReconcileNormal L E P W maskText)"
    unfolding inspectorReconcileNormal_def inspectorAccount_def inspectorReconcileTransportURL_def inspectorDBinstance_def
      inspectorDBWaiting_def inspectorConfigMapsAndSecrets_def inspectorInputs_def inspectorNetworks_def inspectorStatefulSet_def
      inspectorReady_def inspectorReconcileStatefulSet_def inspectorReconcileServices_def inspectorPods_def
      inspectorReleaseAccounts_def inspectorRotate_def inspectorTransportURLCreateOrUpdate_def shared_step_defs steps
    by (intro keeps secrets init; simp add: simps)
  show ?thesis
    unfolding inspectorReconcile_def svReconcile_def svBody_def svPatch_def svSet_def
    by (intro keeps delete normal; simp add: simps inspectorService_def)
qed


lemma emits_calls: "emits A m \<Longrightarrow> list_all A (calls (snd (m \<lparr>obj = x, calls = []\<rparr>)))"
  using emitsD [of A m "\<lparr>obj = x, calls = []\<rparr>"] by auto

text \<open>C14. Every controller is woken by what it has made: each object a run of it creates, and each
  it stores, is its own instance or of a kind it owns. The inspector is the exception: it does
  not own the database, its account and the synchronization job it creates.\<close>

theorem created_kinds_heard:
  "list_all (hears ironicRegistration []) (calls (snd (Reconcile L E P W fi fa \<lparr>obj = i, calls = []\<rparr>))) \<and>
   list_all (hears apiRegistered []) (calls (snd (apiReconcile L E P \<lparr>obj = a, calls = []\<rparr>))) \<and>
   list_all (hears conductorRegistered []) (calls (snd (conductorReconcile L E P W maskText \<lparr>obj = c, calls = []\<rparr>))) \<and>
   list_all (hears agentRegistered []) (calls (snd (agentReconcile L E P \<lparr>obj = n, calls = []\<rparr>))) \<and>
   list_all (hears inspectorRegistered inspectorUnowned)
     (calls (snd (inspectorReconcile L E P W maskText \<lparr>obj = ins, calls = []\<rparr>))) \<and>
   set inspectorUnowned \<inter> set (rg_Owns inspectorRegistered) = {}"
  by (intro conjI emits_calls hears_ironic hears_API hears_conductor hears_agent hears_inspector)
    (simp add: inspectorUnowned_def inspectorRegistered_def)

end
