(* ===== verification/Manager.thy ===== *)
theory Manager
  imports Wiring Webhook
begin

text \<open>
  The start of the operator (\<open>cmd/main.go\<close>): the flags, the TLS options of the two
  servers, the registration of controllers, indexes, webhooks and checks with the
  manager, and its start. The answers of the libraries are a parameter: whether a call
  succeeds, given the calls before it.
\<close>

section \<open>Flags\<close>

record flags =
  fl_metricsAddr :: string
  fl_probeAddr :: string
  fl_leaderElection :: bool
  fl_secureMetrics :: bool
  fl_webhookCertPath :: string
  fl_webhookCertName :: string
  fl_webhookCertKey :: string
  fl_metricsCertPath :: string
  fl_metricsCertName :: string
  fl_metricsCertKey :: string
  fl_pprofBindAddress :: string
  fl_webhookPort :: int
  fl_enableHTTP2 :: bool

definition defaultFlags :: flags where
  "defaultFlags = \<lparr>fl_metricsAddr = ''0'', fl_probeAddr = '':8081'', fl_leaderElection = False, fl_secureMetrics = True,
     fl_webhookCertPath = '''', fl_webhookCertName = ''tls.crt'', fl_webhookCertKey = ''tls.key'',
     fl_metricsCertPath = '''', fl_metricsCertName = ''tls.crt'', fl_metricsCertKey = ''tls.key'',
     fl_pprofBindAddress = '''', fl_webhookPort = 9443, fl_enableHTTP2 = False\<rparr>"

section \<open>TLS\<close>

text \<open>A certificate watcher is known by its files; a path is kept as its two parts.\<close>

type_synonym path = "string \<times> string"

type_synonym watcher = "path \<times> path"

record tlsConfig =
  tc_MinVersion :: string
  tc_NextProtos :: "string list"
  tc_GetCertificate :: "watcher option"

datatype tlsOpt = MinTLS13 | DisableHTTP2 | GetCertificate watcher

fun runOpt :: "tlsOpt \<Rightarrow> tlsConfig \<Rightarrow> tlsConfig" where
  "runOpt MinTLS13 c = c\<lparr>tc_MinVersion := ''TLS13''\<rparr>"
| "runOpt DisableHTTP2 c = c\<lparr>tc_NextProtos := [''http/1.1'']\<rparr>"
| "runOpt (GetCertificate w) c = c\<lparr>tc_GetCertificate := Some w\<rparr>"

text \<open>A server applies its options in their order.\<close>

definition configured :: "tlsOpt list \<Rightarrow> tlsConfig \<Rightarrow> tlsConfig" where
  "configured opts c = fold runOpt opts c"

text \<open>The options of both servers. The slices the two servers append to are full, so
  that appending copies them and neither sees the other's certificate.\<close>

definition commonTLS :: "flags \<Rightarrow> tlsOpt list" where
  "commonTLS f = [MinTLS13] @ (if \<not> fl_enableHTTP2 f then [DisableHTTP2] else [])"

section \<open>The calls\<close>

datatype checker = Ping | WebhookStarted

record managerOptions =
  mo_MetricsAddr :: string
  mo_SecureServing :: bool
  mo_MetricsTLS :: "tlsOpt list"
  mo_MetricsAuthFilter :: bool
  mo_WebhookPort :: int
  mo_WebhookTLS :: "tlsOpt list"
  mo_HealthProbeAddr :: string
  mo_PprofAddr :: string
  mo_LeaderElection :: bool
  mo_LeaderElectionID :: string

datatype setupCall =
    AddToScheme string
  | NewCertWatcher watcher
  | NewManager managerOptions
  | GetConfig
  | NewClient
  | IndexField string string
  | CompleteController registration
  | CompleteWebhook string bool bool
  | AddRunnable watcher
  | AddHealthzCheck string checker
  | AddReadyzCheck string checker
  | StartManager

type_synonym answers = "setupCall list \<Rightarrow> setupCall \<Rightarrow> bool"

text \<open>The state is the package variable with the default images, unset at first; the
  status the process ends with is the value of an early return.\<close>

type_synonym 'a mact = "(IronicImages option, setupCall, nat, 'a) act"

definition attempt :: "answers \<Rightarrow> setupCall \<Rightarrow> ('o, setupCall, 'r, bool) act" where
  "attempt ok c = ask c (\<lambda>cs. ok cs c)"

text \<open>\<open>os.Exit(1)\<close> on an error, and the panic of \<open>utilruntime.Must\<close>.\<close>

definition orExit :: "(IronicImages option, setupCall, nat, bool) act \<Rightarrow> unit mact" where
  "orExit m = bnd m (\<lambda>done. if done then ret () else exit 1)"

definition must :: "answers \<Rightarrow> setupCall \<Rightarrow> unit mact" where
  "must ok c = bnd (attempt ok c) (\<lambda>done. if done then ret () else exit 2)"

section \<open>Schemes\<close>

definition initSchemes :: "answers \<Rightarrow> unit mact" where
  "initSchemes ok =
     thn (must ok (AddToScheme ''client-go''))
    (thn (must ok (AddToScheme ''ironic''))
    (thn (must ok (AddToScheme ''mariadb''))
    (thn (must ok (AddToScheme ''rabbitmq''))
    (thn (must ok (AddToScheme ''route''))
    (thn (must ok (AddToScheme ''k8s.cni.cncf.io''))
    (thn (must ok (AddToScheme ''topology''))
    (bnd (attempt ok (AddToScheme ''keystone'')) (\<lambda>_. ret ()))))))))"

section \<open>Controllers and webhooks\<close>

text \<open>\<open>SetupWithManager\<close>: the indexes first, the first error is returned.\<close>

definition setupController :: "answers \<Rightarrow> string list \<Rightarrow> registration \<Rightarrow> (IronicImages option, setupCall, bool, bool) act" where
  "setupController ok indexes rg =
     thn (foreach indexes () (\<lambda>field _.
            bnd (attempt ok (IndexField (rg_For rg) field)) (\<lambda>done. if done then ret () else exit False)))
         (attempt ok (CompleteController rg))"

definition ironicSetupWithManager :: "answers \<Rightarrow> (IronicImages option, setupCall, bool, bool) act" where
  "ironicSetupWithManager ok = setupController ok [] ironicRegistration"

definition apiSetupWithManager :: "answers \<Rightarrow> (IronicImages option, setupCall, bool, bool) act" where
  "apiSetupWithManager ok = setupController ok apiIndexed apiRegistered"

definition conductorSetupWithManager :: "answers \<Rightarrow> (IronicImages option, setupCall, bool, bool) act" where
  "conductorSetupWithManager ok = setupController ok conductorIndexed conductorRegistered"

definition inspectorSetupWithManager :: "answers \<Rightarrow> (IronicImages option, setupCall, bool, bool) act" where
  "inspectorSetupWithManager ok = setupController ok inspectorIndexed inspectorRegistered"

definition agentSetupWithManager :: "answers \<Rightarrow> (IronicImages option, setupCall, bool, bool) act" where
  "agentSetupWithManager ok = setupController ok agentIndexed agentRegistered"

text \<open>A webhook has a defaulter, and that of the Ironic a validator.\<close>

definition SetupIronicWebhookWithManager :: "answers \<Rightarrow> (IronicImages option, setupCall, 'r, bool) act" where
  "SetupIronicWebhookWithManager ok = attempt ok (CompleteWebhook ''Ironic'' True True)"

definition SetupIronicInspectorWebhookWithManager :: "answers \<Rightarrow> (IronicImages option, setupCall, 'r, bool) act" where
  "SetupIronicInspectorWebhookWithManager ok = attempt ok (CompleteWebhook ''IronicInspector'' True False)"

definition SetupIronicNeutronAgentWebhookWithManager :: "answers \<Rightarrow> (IronicImages option, setupCall, 'r, bool) act" where
  "SetupIronicNeutronAgentWebhookWithManager ok = attempt ok (CompleteWebhook ''IronicNeutronAgent'' True False)"

section \<open>main\<close>

definition certWatcher :: "answers \<Rightarrow> string \<Rightarrow> string \<Rightarrow> string \<Rightarrow> watcher option mact" where
  "certWatcher ok dir name key =
     (if length dir > 0 then
        let w = ((dir, name), (dir, key)) in
        thn (orExit (attempt ok (NewCertWatcher w))) (ret (Some w))
      else ret None)"

definition withCertificate :: "tlsOpt list \<Rightarrow> watcher option \<Rightarrow> tlsOpt list" where
  "withCertificate opts w = opts @ (case w of None \<Rightarrow> [] | Some w \<Rightarrow> [GetCertificate w])"

definition addWatcher :: "answers \<Rightarrow> watcher option \<Rightarrow> unit mact" where
  "addWatcher ok w = (case w of None \<Rightarrow> ret () | Some w \<Rightarrow> orExit (attempt ok (AddRunnable w)))"

definition newManager :: "answers \<Rightarrow> flags \<Rightarrow> watcher option \<Rightarrow> watcher option \<Rightarrow> unit mact" where
  "newManager ok f webhookCertWatcher metricsCertWatcher =
     orExit (attempt ok (NewManager
       \<lparr>mo_MetricsAddr = fl_metricsAddr f, mo_SecureServing = fl_secureMetrics f,
        mo_MetricsTLS = withCertificate (commonTLS f) metricsCertWatcher, mo_MetricsAuthFilter = fl_secureMetrics f,
        mo_WebhookPort = fl_webhookPort f, mo_WebhookTLS = withCertificate (commonTLS f) webhookCertWatcher,
        mo_HealthProbeAddr = fl_probeAddr f, mo_PprofAddr = fl_pprofBindAddress f,
        mo_LeaderElection = fl_leaderElection f, mo_LeaderElectionID = ''f92b5c2d.openstack.org''\<rparr>))"

definition setupControllers :: "answers \<Rightarrow> unit mact" where
  "setupControllers ok =
     thn (orExit (func (ironicSetupWithManager ok)))
    (thn (orExit (func (apiSetupWithManager ok)))
    (thn (orExit (func (conductorSetupWithManager ok)))
    (thn (orExit (func (inspectorSetupWithManager ok)))
         (orExit (func (agentSetupWithManager ok))))))"

text \<open>\<open>getenv\<close> gives the value of an environment variable, empty when it is not set. The
  checker of the webhooks is that of their server.\<close>

definition setupWebhooks :: "answers \<Rightarrow> (string \<Rightarrow> string) \<Rightarrow> checker mact" where
  "setupWebhooks ok getenv =
     (if getenv ''ENABLE_WEBHOOKS'' \<noteq> ''false'' then
        thn (orExit (SetupIronicWebhookWithManager ok))
       (thn (orExit (SetupIronicInspectorWebhookWithManager ok))
       (thn (orExit (SetupIronicNeutronAgentWebhookWithManager ok))
            (ret WebhookStarted)))
      else ret Ping)"

definition startManager :: "answers \<Rightarrow> watcher option \<Rightarrow> watcher option \<Rightarrow> checker \<Rightarrow> unit mact" where
  "startManager ok metricsCertWatcher webhookCertWatcher checker =
     thn (addWatcher ok metricsCertWatcher)
    (thn (addWatcher ok webhookCertWatcher)
    (thn (orExit (attempt ok (AddHealthzCheck ''healthz'' checker)))
    (thn (orExit (attempt ok (AddReadyzCheck ''readyz'' checker)))
         (orExit (attempt ok StartManager)))))"

text \<open>\<open>envOr\<close> is \<open>util.GetEnvVar\<close>: the value of an environment variable, with a fall-back.\<close>

definition main :: "answers \<Rightarrow> (string \<Rightarrow> string) \<Rightarrow> (string \<Rightarrow> string \<Rightarrow> string) \<Rightarrow> flags \<Rightarrow> unit mact" where
  "main ok getenv envOr f =
     thn (initSchemes ok)
    (bnd (certWatcher ok (fl_webhookCertPath f) (fl_webhookCertName f) (fl_webhookCertKey f)) (\<lambda>webhookCertWatcher.
     bnd (certWatcher ok (fl_metricsCertPath f) (fl_metricsCertName f) (fl_metricsCertKey f)) (\<lambda>metricsCertWatcher.
     thn (orExit (attempt ok GetConfig))
    (thn (newManager ok f webhookCertWatcher metricsCertWatcher)
    (thn (orExit (attempt ok GetConfig))
    (thn (orExit (attempt ok NewClient))
    (thn (setupControllers ok)
    (thn (modObj (\<lambda>_. Some (SetupDefaults envOr)))
    (bnd (setupWebhooks ok getenv)
         (startManager ok metricsCertWatcher webhookCertWatcher))))))))))"

section \<open>The plan of a start\<close>

text \<open>What \<open>main\<close> means to do, as a list: the calls, each with the status the process ends
  with when it fails; only the scheme of keystone may be missing.\<close>

definition schemePlan :: "(setupCall \<times> nat option) list" where
  "schemePlan = map (\<lambda>s. (AddToScheme s, Some 2))
      [''client-go'', ''ironic'', ''mariadb'', ''rabbitmq'', ''route'', ''k8s.cni.cncf.io'', ''topology''] @
    [(AddToScheme ''keystone'', None)]"

definition watcherOf :: "string \<Rightarrow> string \<Rightarrow> string \<Rightarrow> watcher option" where
  "watcherOf dir name key = (if dir \<noteq> '''' then Some ((dir, name), (dir, key)) else None)"

abbreviation webhookWatcher :: "flags \<Rightarrow> watcher option" where
  "webhookWatcher f \<equiv> watcherOf (fl_webhookCertPath f) (fl_webhookCertName f) (fl_webhookCertKey f)"

abbreviation metricsWatcher :: "flags \<Rightarrow> watcher option" where
  "metricsWatcher f \<equiv> watcherOf (fl_metricsCertPath f) (fl_metricsCertName f) (fl_metricsCertKey f)"

definition optionsFor :: "flags \<Rightarrow> managerOptions" where
  "optionsFor f =
     \<lparr>mo_MetricsAddr = fl_metricsAddr f, mo_SecureServing = fl_secureMetrics f,
      mo_MetricsTLS = withCertificate (commonTLS f) (metricsWatcher f), mo_MetricsAuthFilter = fl_secureMetrics f,
      mo_WebhookPort = fl_webhookPort f, mo_WebhookTLS = withCertificate (commonTLS f) (webhookWatcher f),
      mo_HealthProbeAddr = fl_probeAddr f, mo_PprofAddr = fl_pprofBindAddress f,
      mo_LeaderElection = fl_leaderElection f, mo_LeaderElectionID = ''f92b5c2d.openstack.org''\<rparr>"

definition controllerPlan :: "string list \<Rightarrow> registration \<Rightarrow> setupCall list" where
  "controllerPlan indexes rg = map (IndexField (rg_For rg)) indexes @ [CompleteController rg]"

definition webhooksEnabled :: "(string \<Rightarrow> string) \<Rightarrow> bool" where
  "webhooksEnabled getenv \<longleftrightarrow> getenv ''ENABLE_WEBHOOKS'' \<noteq> ''false''"

definition startCalls :: "(string \<Rightarrow> string) \<Rightarrow> flags \<Rightarrow> setupCall list" where
  "startCalls getenv f =
     map NewCertWatcher (case webhookWatcher f of None \<Rightarrow> [] | Some w \<Rightarrow> [w]) @
     map NewCertWatcher (case metricsWatcher f of None \<Rightarrow> [] | Some w \<Rightarrow> [w]) @
     [GetConfig, NewManager (optionsFor f), GetConfig, NewClient] @
     controllerPlan [] ironicRegistration @ controllerPlan apiIndexed apiRegistered @
     controllerPlan conductorIndexed conductorRegistered @ controllerPlan inspectorIndexed inspectorRegistered @
     controllerPlan agentIndexed agentRegistered @
     (if webhooksEnabled getenv then [CompleteWebhook ''Ironic'' True True, CompleteWebhook ''IronicInspector'' True False,
        CompleteWebhook ''IronicNeutronAgent'' True False] else []) @
     map AddRunnable (case metricsWatcher f of None \<Rightarrow> [] | Some w \<Rightarrow> [w]) @
     map AddRunnable (case webhookWatcher f of None \<Rightarrow> [] | Some w \<Rightarrow> [w]) @
     (let checker = (if webhooksEnabled getenv then WebhookStarted else Ping) in
      [AddHealthzCheck ''healthz'' checker, AddReadyzCheck ''readyz'' checker, StartManager])"

definition startPlan :: "(string \<Rightarrow> string) \<Rightarrow> flags \<Rightarrow> (setupCall \<times> nat option) list" where
  "startPlan getenv f = schemePlan @ map (\<lambda>c. (c, Some 1)) (startCalls getenv f)"

text \<open>Carrying out a plan from a log: up to the first call that fails and may not.\<close>

fun execute :: "answers \<Rightarrow> (setupCall \<times> nat option) list \<Rightarrow> setupCall list \<Rightarrow> nat option \<times> setupCall list" where
  "execute ok [] log = (None, log)"
| "execute ok ((c, status) # plan) log =
     (if ok log c \<or> status = None then execute ok plan (log @ [c]) else (status, log @ [c]))"

lemma execute_append:
  "execute ok (p @ q) log =
     (case execute ok p log of (None, log') \<Rightarrow> execute ok q log' | (Some n, log') \<Rightarrow> (Some n, log'))"
  by (induction ok p log rule: execute.induct) (auto split: option.split)

text \<open>A computation carries out a plan and ends with the value \<open>x\<close>.\<close>

definition plays :: "answers \<Rightarrow> (setupCall \<times> nat option) list \<Rightarrow> 'a mact \<Rightarrow> 'a \<Rightarrow> bool" where
  "plays ok plan m x \<longleftrightarrow> (\<forall>s. case m s of
       (Continue y, s') \<Rightarrow> y = x \<and> execute ok plan (calls s) = (None, calls s')
     | (Return n, s') \<Rightarrow> execute ok plan (calls s) = (Some n, calls s'))"

lemma plays_bnd:
  assumes "plays ok p m x" and "plays ok q (f x) y"
  shows "plays ok (p @ q) (bnd m f) y"
  unfolding plays_def
proof
  fix s
  show "case bnd m f s of
       (Continue z, s') \<Rightarrow> z = y \<and> execute ok (p @ q) (calls s) = (None, calls s')
     | (Return n, s') \<Rightarrow> execute ok (p @ q) (calls s) = (Some n, calls s')"
  proof (cases "m s")
    case (Pair r s')
    then show ?thesis
      using assms(1) [unfolded plays_def, rule_format, of s] assms(2) [unfolded plays_def, rule_format, of s']
      by (cases r) (auto simp: bnd_def execute_append split: prod.splits step.splits)
  qed
qed

lemma plays_thn: "plays ok p m () \<Longrightarrow> plays ok q n y \<Longrightarrow> plays ok (p @ q) (thn m n) y"
  unfolding thn_eq by (rule plays_bnd)

lemma plays_ret: "plays ok [] (ret x) x"
  by (simp add: plays_def step_simps)

lemma plays_modObj: "plays ok [] (modObj f) ()"
  by (simp add: plays_def step_simps)

lemma plays_orExit: "plays ok [(c, Some 1)] (orExit (attempt ok c)) ()"
  by (simp add: plays_def orExit_def attempt_def step_simps)

lemma plays_must: "plays ok [(c, Some 2)] (must ok c) ()"
  by (simp add: plays_def must_def attempt_def step_simps)

lemma plays_tolerate: "plays ok [(c, None)] (bnd (attempt ok c) (\<lambda>_. ret ())) ()"
  by (simp add: plays_def attempt_def step_simps)

lemma plays_schemes: "plays ok schemePlan (initSchemes ok) ()"
proof -
  have "plays ok ([(AddToScheme ''client-go'', Some 2)] @ [(AddToScheme ''ironic'', Some 2)] @ [(AddToScheme ''mariadb'', Some 2)] @
     [(AddToScheme ''rabbitmq'', Some 2)] @ [(AddToScheme ''route'', Some 2)] @ [(AddToScheme ''k8s.cni.cncf.io'', Some 2)] @
     [(AddToScheme ''topology'', Some 2)] @ [(AddToScheme ''keystone'', None)]) (initSchemes ok) ()"
    unfolding initSchemes_def by (intro plays_thn plays_must plays_tolerate)
  then show ?thesis
    by (simp add: schemePlan_def)
qed


abbreviation fatal :: "setupCall list \<Rightarrow> (setupCall \<times> nat option) list" where
  "fatal cs \<equiv> map (\<lambda>c. (c, Some 1)) cs"

lemma indexes_play:
  "case foreach indexes () (\<lambda>field _. bnd (attempt ok (IndexField k field)) (\<lambda>done. if done then ret () else exit False)) s of
     (Continue y, s') \<Rightarrow> execute ok (fatal (map (IndexField k) indexes)) (calls s) = (None, calls s')
   | (Return b, s') \<Rightarrow> \<not> b \<and> execute ok (fatal (map (IndexField k) indexes)) (calls s) = (Some 1, calls s')"
proof (induction indexes arbitrary: s)
  case (Cons x xs)
  show ?case
  proof (cases "ok (calls s) (IndexField k x)")
    case True
    then show ?thesis
      using Cons.IH [of "s\<lparr>calls := calls s @ [IndexField k x]\<rparr>"]
      by (simp add: bnd_def attempt_def ask_def ret_def exit_def split: prod.splits step.splits)
  qed (simp add: bnd_def attempt_def ask_def ret_def exit_def)
qed (simp add: step_simps)

lemma plays_controller: "plays ok (fatal (controllerPlan indexes rg)) (orExit (func (setupController ok indexes rg))) ()"
  unfolding plays_def
proof
  fix s
  show "case orExit (func (setupController ok indexes rg)) s of
       (Continue y, s') \<Rightarrow> y = () \<and> execute ok (fatal (controllerPlan indexes rg)) (calls s) = (None, calls s')
     | (Return n, s') \<Rightarrow> execute ok (fatal (controllerPlan indexes rg)) (calls s) = (Some n, calls s')"
    using indexes_play [where indexes = indexes and ok = ok and k = "rg_For rg" and s = s]
    by (auto simp: orExit_def func_def setupController_def controllerPlan_def thn_eq bnd_def attempt_def ask_def ret_def
        exit_def execute_append split: prod.splits step.splits if_splits)
qed

lemma plays_controllers:
  "plays ok (fatal (controllerPlan [] ironicRegistration @ controllerPlan apiIndexed apiRegistered @
     controllerPlan conductorIndexed conductorRegistered @ controllerPlan inspectorIndexed inspectorRegistered @
     controllerPlan agentIndexed agentRegistered)) (setupControllers ok) ()"
  unfolding setupControllers_def ironicSetupWithManager_def apiSetupWithManager_def conductorSetupWithManager_def
    inspectorSetupWithManager_def agentSetupWithManager_def map_append
  by (intro plays_thn plays_controller)

lemma plays_watchers:
  "plays ok (fatal (map NewCertWatcher (case watcherOf dir name key of None \<Rightarrow> [] | Some w \<Rightarrow> [w])))
     (certWatcher ok dir name key) (watcherOf dir name key)"
  "plays ok (fatal (map AddRunnable (case w of None \<Rightarrow> [] | Some w \<Rightarrow> [w]))) (addWatcher ok w) ()"
  by (auto simp: plays_def certWatcher_def addWatcher_def watcherOf_def Let_def orExit_def attempt_def step_simps
      split: option.split)

lemma plays_webhooks:
  "plays ok (fatal (if webhooksEnabled getenv then [CompleteWebhook ''Ironic'' True True,
       CompleteWebhook ''IronicInspector'' True False, CompleteWebhook ''IronicNeutronAgent'' True False] else []))
     (setupWebhooks ok getenv) (if webhooksEnabled getenv then WebhookStarted else Ping)"
  by (simp add: plays_def setupWebhooks_def webhooksEnabled_def SetupIronicWebhookWithManager_def SetupIronicInspectorWebhookWithManager_def
      SetupIronicNeutronAgentWebhookWithManager_def orExit_def attempt_def step_simps)

lemma plays_main: "plays ok (startPlan getenv f) (main ok getenv envOr f) ()"
proof -
  let ?w = "watcherOf (fl_webhookCertPath f) (fl_webhookCertName f) (fl_webhookCertKey f)"
  let ?m = "watcherOf (fl_metricsCertPath f) (fl_metricsCertName f) (fl_metricsCertKey f)"
  let ?checker = "if webhooksEnabled getenv then WebhookStarted else Ping"
  have "plays ok (schemePlan @ fatal (map NewCertWatcher (case ?w of None \<Rightarrow> [] | Some w \<Rightarrow> [w])) @
      fatal (map NewCertWatcher (case ?m of None \<Rightarrow> [] | Some w \<Rightarrow> [w])) @ [(GetConfig, Some 1)] @
      [(NewManager (optionsFor f), Some 1)] @ [(GetConfig, Some 1)] @ [(NewClient, Some 1)] @
      fatal (controllerPlan [] ironicRegistration @ controllerPlan apiIndexed apiRegistered @
        controllerPlan conductorIndexed conductorRegistered @ controllerPlan inspectorIndexed inspectorRegistered @
        controllerPlan agentIndexed agentRegistered) @ [] @
      fatal (if webhooksEnabled getenv then [CompleteWebhook ''Ironic'' True True,
        CompleteWebhook ''IronicInspector'' True False, CompleteWebhook ''IronicNeutronAgent'' True False] else []) @
      fatal (map AddRunnable (case ?m of None \<Rightarrow> [] | Some w \<Rightarrow> [w])) @
      fatal (map AddRunnable (case ?w of None \<Rightarrow> [] | Some w \<Rightarrow> [w])) @
      [(AddHealthzCheck ''healthz'' ?checker, Some 1)] @ [(AddReadyzCheck ''readyz'' ?checker, Some 1)] @ [(StartManager, Some 1)])
      (main ok getenv envOr f) ()"
    unfolding main_def newManager_def startManager_def optionsFor_def
    by (rule plays_thn [OF plays_schemes], rule plays_bnd [OF plays_watchers(1)], rule plays_bnd [OF plays_watchers(1)],
        rule plays_thn [OF plays_orExit], rule plays_thn [OF plays_orExit], rule plays_thn [OF plays_orExit],
        rule plays_thn [OF plays_orExit], rule plays_thn [OF plays_controllers], rule plays_thn [OF plays_modObj],
        rule plays_bnd [OF plays_webhooks], rule plays_thn [OF plays_watchers(2)], rule plays_thn [OF plays_watchers(2)],
        rule plays_thn [OF plays_orExit], rule plays_thn [OF plays_orExit], rule plays_orExit)
  then show ?thesis
    by (simp add: startPlan_def startCalls_def Let_def)
qed


section \<open>Properties of a start\<close>

lemma execute_all:
  "execute ok plan log = (None, log') \<Longrightarrow> log' = log @ map fst plan \<and>
     (\<forall>p c n q. plan = p @ (c, Some n) # q \<longrightarrow> ok (log @ map fst p) c)"
proof (induction ok plan log rule: execute.induct)
  case (2 ok c status plan log)
  then show ?case
    by (auto simp: Cons_eq_append_conv split: if_splits)
qed simp

lemma execute_within: "execute ok plan log = (r, log') \<Longrightarrow> set log' \<subseteq> set log \<union> fst ` set plan"
  by (induction ok plan log rule: execute.induct) (auto split: if_splits)

lemma main_executes:
  assumes "main ok getenv envOr f \<lparr>obj = x, calls = []\<rparr> = (r, s)"
  shows "execute ok (startPlan getenv f) [] = (case r of Continue _ \<Rightarrow> None | Return n \<Rightarrow> Some n, calls s)"
  using plays_main [of ok getenv f envOr, unfolded plays_def, rule_format, of "\<lparr>obj = x, calls = []\<rparr>"] assms
  by (cases r) simp_all

text \<open>Everything before the start itself.\<close>

definition preparation :: "(string \<Rightarrow> string) \<Rightarrow> flags \<Rightarrow> (setupCall \<times> nat option) list" where
  "preparation getenv f = schemePlan @ fatal (butlast (startCalls getenv f))"

lemma startCalls_end: "startCalls getenv f = butlast (startCalls getenv f) @ [StartManager]"
  by (simp add: startCalls_def Let_def butlast_append)

lemma startPlan_end: "startPlan getenv f = preparation getenv f @ [(StartManager, Some 1)]"
  unfolding startPlan_def preparation_def
  by (subst startCalls_end) simp

lemma start_not_prepared: "StartManager \<notin> fst ` set (preparation getenv f)"
  by (auto simp: preparation_def schemePlan_def startCalls_def butlast_append Let_def controllerPlan_def split: option.splits if_splits)

lemma started_prepared:
  assumes "main ok getenv envOr f \<lparr>obj = x, calls = []\<rparr> = (r, s)" and "StartManager \<in> set (calls s)"
  shows "calls s = map fst (preparation getenv f) @ [StartManager]"
    "\<And>p c n q. preparation getenv f = p @ (c, Some n) # q \<Longrightarrow> ok (map fst p) c"
proof -
  obtain r1 log where prep: "execute ok (preparation getenv f) [] = (r1, log)" by force
  have run: "execute ok (preparation getenv f @ [(StartManager, Some 1)]) [] = (case r of Continue _ \<Rightarrow> None | Return n \<Rightarrow> Some n, calls s)"
    using main_executes [OF assms(1)] by (simp only: startPlan_end)
  have "r1 = None"
  proof (rule ccontr)
    assume "r1 \<noteq> None"
    then have "calls s = log"
      using run prep by (auto simp: execute_append)
    then show False
      using execute_within [OF prep] assms(2) start_not_prepared by auto
  qed
  then have none: "execute ok (preparation getenv f) [] = (None, log)"
    using prep by simp
  show "calls s = map fst (preparation getenv f) @ [StartManager]"
    using execute_all [OF none] run none by (auto simp: execute_append split: if_splits)
  show "\<And>p c n q. preparation getenv f = p @ (c, Some n) # q \<Longrightarrow> ok (map fst p) c"
    using execute_all [OF none] by simp
qed


text \<open>The default images are set before the webhooks, and stay.\<close>

lemma setup_keeps [keeps]:
  "A c \<Longrightarrow> emits A (attempt ok c)" "leaves F (attempt ok c)"
  "emits A m \<Longrightarrow> emits A (orExit m)" "leaves F m \<Longrightarrow> leaves F (orExit m)"
  unfolding attempt_def orExit_def by (intro keeps; simp)+

lemma main_defaults:
  assumes "main ok getenv envOr f \<lparr>obj = x, calls = []\<rparr> = (r, s)" and "StartManager \<in> set (calls s)"
  shows "obj s = Some (SetupDefaults envOr)"
proof -
  let ?no = "\<lambda>s. list_all (\<lambda>c. c \<noteq> StartManager) (calls s)" and ?set = "\<lambda>s. obj s = Some (SetupDefaults envOr)"
  let ?J = "\<lambda>s. StartManager \<in> set (calls s) \<longrightarrow> ?set s"
  have before: "valid ?no m (\<lambda>_. ?no) (\<lambda>_. ?J)" if "emits (\<lambda>c. c \<noteq> StartManager) m" for m :: "'a mact"
    by (rule valid_weaken [OF valid_emits [OF that]]) (auto simp: list_all_iff)
  have after: "valid ?set m (\<lambda>_. ?set) (\<lambda>_. ?J)" if "leaves (\<lambda>x. x) m" for m :: "'a mact"
    by (rule valid_weaken [OF valid_leaves [OF that, where G = "\<lambda>x. x = Some (SetupDefaults envOr)"]]) simp_all
  have quiet: "emits (\<lambda>c. c \<noteq> StartManager) (initSchemes ok)" "emits (\<lambda>c. c \<noteq> StartManager) (certWatcher ok d n k)"
    "emits (\<lambda>c. c \<noteq> StartManager) (setupController ok indexes rg)" for d n k indexes rg
    unfolding initSchemes_def must_def certWatcher_def setupController_def by (intro keeps; simp)+
  have manager: "emits (\<lambda>c. c \<noteq> StartManager) (newManager ok f w m)" "emits (\<lambda>c. c \<noteq> StartManager) (setupControllers ok)"
    "emits (\<lambda>c. c \<noteq> StartManager) (orExit (attempt ok GetConfig))" "emits (\<lambda>c. c \<noteq> StartManager) (orExit (attempt ok NewClient))"
    for w m
    unfolding newManager_def setupControllers_def ironicSetupWithManager_def apiSetupWithManager_def
      conductorSetupWithManager_def inspectorSetupWithManager_def agentSetupWithManager_def
    by (intro keeps quiet; simp)+
  have rest: "valid ?set (bnd (setupWebhooks ok getenv) (startManager ok mw ww)) (\<lambda>_. ?J) (\<lambda>_. ?J)" for mw ww
    by (rule valid_weaken [OF after], unfold setupWebhooks_def startManager_def addWatcher_def
        SetupIronicWebhookWithManager_def SetupIronicInspectorWebhookWithManager_def
        SetupIronicNeutronAgentWebhookWithManager_def, intro keeps) simp_all
  have "valid ?no (main ok getenv envOr f) (\<lambda>_. ?J) (\<lambda>_. ?J)"
    unfolding main_def
    by (rule valid_thn [OF before], rule quiet, rule valid_bnd [OF before], rule quiet, rule valid_bnd [OF before], rule quiet,
        (rule valid_thn [OF before], rule manager)+,
        rule valid_thn [where Q' = ?set], simp add: valid_def step_simps, rule rest)
  from valid_final [OF this, of "\<lparr>obj = x, calls = []\<rparr>"] show ?thesis
    using assms by simp
qed


lemma indexed_before:
  assumes "log = us @ controllerPlan indexes rg @ vs" and "field \<in> set indexes"
  shows "\<exists>us vs. log = us @ IndexField (rg_For rg) field # vs \<and> CompleteController rg \<in> set vs"
proof -
  obtain a b where "indexes = a @ field # b"
    using assms(2) by (meson split_list)
  then have "log = (us @ map (IndexField (rg_For rg)) a) @ IndexField (rg_For rg) field #
      (map (IndexField (rg_For rg)) b @ [CompleteController rg] @ vs)"
    using assms(1) by (simp add: controllerPlan_def)
  then show ?thesis
    by (metis append.assoc in_set_conv_decomp append_Cons)
qed

text \<open>The calls before the start.\<close>

lemma prepared_calls:
  "\<exists>us vs. map fst (preparation getenv f) = us @ controllerPlan [] ironicRegistration @ controllerPlan apiIndexed apiRegistered @
     controllerPlan conductorIndexed conductorRegistered @ controllerPlan inspectorIndexed inspectorRegistered @
     controllerPlan agentIndexed agentRegistered @ vs \<and>
   (webhooksEnabled getenv \<longrightarrow> {CompleteWebhook ''Ironic'' True True, CompleteWebhook ''IronicInspector'' True False,
      CompleteWebhook ''IronicNeutronAgent'' True False} \<subseteq> set vs) \<and>
   (\<exists>ch. {AddHealthzCheck ''healthz'' ch, AddReadyzCheck ''readyz'' ch} \<subseteq> set vs)"
proof -
  let ?us = "map fst schemePlan @ map NewCertWatcher (case webhookWatcher f of None \<Rightarrow> [] | Some w \<Rightarrow> [w]) @
     map NewCertWatcher (case metricsWatcher f of None \<Rightarrow> [] | Some w \<Rightarrow> [w]) @
     [GetConfig, NewManager (optionsFor f), GetConfig, NewClient]"
  let ?ch = "if webhooksEnabled getenv then WebhookStarted else Ping"
  let ?vs = "(if webhooksEnabled getenv then [CompleteWebhook ''Ironic'' True True, CompleteWebhook ''IronicInspector'' True False,
        CompleteWebhook ''IronicNeutronAgent'' True False] else []) @
     map AddRunnable (case metricsWatcher f of None \<Rightarrow> [] | Some w \<Rightarrow> [w]) @
     map AddRunnable (case webhookWatcher f of None \<Rightarrow> [] | Some w \<Rightarrow> [w]) @
     [AddHealthzCheck ''healthz'' ?ch, AddReadyzCheck ''readyz'' ?ch]"
  have "map fst (preparation getenv f) = ?us @ controllerPlan [] ironicRegistration @ controllerPlan apiIndexed apiRegistered @
     controllerPlan conductorIndexed conductorRegistered @ controllerPlan inspectorIndexed inspectorRegistered @
     controllerPlan agentIndexed agentRegistered @ ?vs"
    by (simp add: preparation_def startCalls_def Let_def butlast_append comp_def)
  then show ?thesis
    by (intro exI [of _ ?us] exI [of _ ?vs]) auto
qed

lemma prepared_indexes:
  assumes "(rg, watched) \<in> {(apiRegistered, ironicAPIWatchFields), (conductorRegistered, ironicConductorWatchFields),
      (inspectorRegistered, ironicInspectorWatchFields), (agentRegistered, ironicNeutronAgentWatchFields)}"
    and "field \<in> set watched"
  shows "\<exists>us vs. map fst (preparation getenv f) = us @ IndexField (rg_For rg) field # vs \<and> CompleteController rg \<in> set vs"
proof -
  obtain us vs where "map fst (preparation getenv f) = us @ controllerPlan [] ironicRegistration @ controllerPlan apiIndexed apiRegistered @
     controllerPlan conductorIndexed conductorRegistered @ controllerPlan inspectorIndexed inspectorRegistered @
     controllerPlan agentIndexed agentRegistered @ vs"
    using prepared_calls by blast
  then have plans: "\<exists>us vs. map fst (preparation getenv f) = us @ controllerPlan apiIndexed apiRegistered @ vs"
    "\<exists>us vs. map fst (preparation getenv f) = us @ controllerPlan conductorIndexed conductorRegistered @ vs"
    "\<exists>us vs. map fst (preparation getenv f) = us @ controllerPlan inspectorIndexed inspectorRegistered @ vs"
    "\<exists>us vs. map fst (preparation getenv f) = us @ controllerPlan agentIndexed agentRegistered @ vs"
    by (metis append.assoc)+
  have "set ironicAPIWatchFields \<subseteq> set apiIndexed" "set ironicConductorWatchFields \<subseteq> set conductorIndexed"
    "set ironicInspectorWatchFields \<subseteq> set inspectorIndexed" "set ironicNeutronAgentWatchFields \<subseteq> set agentIndexed"
    by (auto simp: ironicAPIWatchFields_def apiIndexed_def ironicConductorWatchFields_def conductorIndexed_def
        ironicInspectorWatchFields_def inspectorIndexed_def ironicNeutronAgentWatchFields_def agentIndexed_def)
  then have "\<exists>indexes us vs. field \<in> set indexes \<and> map fst (preparation getenv f) = us @ controllerPlan indexes rg @ vs"
    using assms plans by (elim insertE emptyE) blast+
  then show ?thesis
    using indexed_before by blast
qed

lemma only_keystone_optional: "(c, None) \<in> set (preparation getenv f) \<Longrightarrow> c = AddToScheme ''keystone''"
  by (auto simp: preparation_def schemePlan_def)

definition exampleFlags :: flags where
  "exampleFlags = defaultFlags\<lparr>fl_webhookCertPath := ''/certs''\<rparr>"

lemma example_main:
  obtains s where "main (\<lambda>_ _. True) (\<lambda>_. '''') (\<lambda>_ d. d) exampleFlags \<lparr>obj = None, calls = []\<rparr> = (Continue (), s)"
    "calls s = map fst (startPlan (\<lambda>_. '''') exampleFlags)"
proof -
  have all: "execute (\<lambda>_ _. True) plan log = (None, log @ map fst plan)" for plan log
    by (induction plan arbitrary: log) auto
  obtain r s where run: "main (\<lambda>_ _. True) (\<lambda>_. '''') (\<lambda>_ d. d) exampleFlags \<lparr>obj = None, calls = []\<rparr> = (r, s)"
    by force
  show thesis
    using that [of s] main_executes [OF run] run all by (cases r) auto
qed

text \<open>A start follows its plan: \<open>main\<close> makes the calls of the plan in their order, up to the
  first that fails and may not, and ends with that one's status.\<close>

theorem main_carries_out_plan:
  "(case main ok getenv envOr f \<lparr>obj = x, calls = []\<rparr> of
      (Continue _, s) \<Rightarrow> execute ok (startPlan getenv f) [] = (None, calls s)
    | (Return n, s) \<Rightarrow> execute ok (startPlan getenv f) [] = (Some n, calls s))"
  using main_executes [of ok getenv envOr f x] by (auto split: prod.splits step.splits)




text \<open>C16. The TLS options the manager is created with, those of the metrics server and those of the
  webhook server, make of any TLS configuration one with the least version 1.3, with HTTP/1.1 as the
  only protocol unless the flag asks for HTTP/2, and with the certificate files of the server's own flags,
  if they name some; they change nothing else. They say nothing of the health probe server, which has no TLS,
  nor of a metrics server that \<open>--metrics-secure=false\<close> makes plain HTTP.\<close>

theorem servers_tls:
  assumes "main ok getenv envOr f \<lparr>obj = x, calls = []\<rparr> = (r, s)" and "NewManager opts \<in> set (calls s)"
  shows "\<forall>(tls, w) \<in> {(mo_MetricsTLS opts, metricsWatcher f), (mo_WebhookTLS opts, webhookWatcher f)}.
    configured tls c = c\<lparr>tc_MinVersion := ''TLS13'',
      tc_NextProtos := (if fl_enableHTTP2 f then tc_NextProtos c else [''http/1.1'']),
      tc_GetCertificate := (case w of None \<Rightarrow> tc_GetCertificate c | Some files \<Rightarrow> Some files)\<rparr>"
proof -
  have "NewManager opts \<in> fst ` set (startPlan getenv f)"
    using execute_within [OF main_executes [OF assms(1)]] assms(2) by auto
  then have "opts = optionsFor f"
    by (auto simp: startPlan_def schemePlan_def startCalls_def Let_def controllerPlan_def split: option.splits if_splits)
  then show ?thesis
    by (auto simp: optionsFor_def withCertificate_def commonTLS_def configured_def split: option.split)
qed

theorem servers_tls_witness:
  "\<exists>s opts. main (\<lambda>_ _. True) (\<lambda>_. '''') (\<lambda>_ d. d) exampleFlags \<lparr>obj = None, calls = []\<rparr> = (Continue (), s) \<and>
     NewManager opts \<in> set (calls s) \<and>
     configured (mo_WebhookTLS opts) \<lparr>tc_MinVersion = '''', tc_NextProtos = [''h2''], tc_GetCertificate = None\<rparr> =
       \<lparr>tc_MinVersion = ''TLS13'', tc_NextProtos = [''http/1.1''],
        tc_GetCertificate = Some ((''/certs'', ''tls.crt''), (''/certs'', ''tls.key''))\<rparr>"
proof -
  obtain s where run: "main (\<lambda>_ _. True) (\<lambda>_. '''') (\<lambda>_ d. d) exampleFlags \<lparr>obj = None, calls = []\<rparr> = (Continue (), s)"
    and log: "calls s = map fst (startPlan (\<lambda>_. '''') exampleFlags)"
    by (rule example_main)
  have "NewManager (optionsFor exampleFlags) \<in> set (calls s)"
    unfolding log by (simp add: startPlan_def startCalls_def)
  moreover from servers_tls [OF run this, of "\<lparr>tc_MinVersion = '''', tc_NextProtos = [''h2''], tc_GetCertificate = None\<rparr>"]
  have "configured (mo_WebhookTLS (optionsFor exampleFlags)) \<lparr>tc_MinVersion = '''', tc_NextProtos = [''h2''], tc_GetCertificate = None\<rparr> =
       \<lparr>tc_MinVersion = ''TLS13'', tc_NextProtos = [''http/1.1''],
        tc_GetCertificate = Some ((''/certs'', ''tls.crt''), (''/certs'', ''tls.key''))\<rparr>"
    by (simp add: exampleFlags_def defaultFlags_def watcherOf_def)
  ultimately show ?thesis
    using run by blast
qed

end
