(* ===== verification/Costs.thy ===== *)
theory Costs
  imports Entry
begin

text \<open>
  How many calls to the outside a computation makes, whatever is answered: rules
  that add up the calls of its steps, and the bounds of the agent's run and of the
  Ironic controller's run.
\<close>

section \<open>How many calls a run makes\<close>

text \<open>\<open>upTo n m\<close>: the computation makes at most \<open>n\<close> calls, whatever is answered.\<close>

definition upTo :: "nat \<Rightarrow> ('o, 'c, 'r, 'a) act \<Rightarrow> bool" where
  "upTo n m \<longleftrightarrow> (\<forall>s. length (calls (snd (m s))) \<le> length (calls s) + n)"

named_theorems costs \<open>introduction rules for upTo\<close>

lemma upTo_basic [costs]:
  "upTo 0 (ret x)" "upTo 0 (exit r)" "upTo 0 getObj" "upTo 0 (modObj f)" "upTo 0 getLog"
  by (simp_all add: upTo_def ret_def exit_def getObj_def modObj_def getLog_def)

lemma upTo_ask [costs]: "upTo 1 (ask c f)"
  by (simp add: upTo_def ask_def)

lemma upTo_bnd [costs]:
  assumes "upTo a m" and "\<And>x. upTo b (f x)"
  shows "upTo (a + b) (bnd m f)"
  unfolding upTo_def
proof
  fix s
  obtain r s' where m: "m s = (r, s')" by force
  have first: "length (calls s') \<le> length (calls s) + a"
    using assms(1) m unfolding upTo_def by (metis snd_conv)
  moreover have "length (calls (snd (f x s'))) \<le> length (calls s') + b" for x
    using assms(2) by (simp add: upTo_def)
  ultimately have "length (calls (snd (f x s'))) \<le> length (calls s) + (a + b)" for x
    by (metis add.assoc add_le_mono1 le_trans)
  with first show "length (calls (snd (bnd m f s))) \<le> length (calls s) + (a + b)"
    by (cases r) (auto simp: bnd_def m)
qed

lemma upTo_thn [costs]: "upTo a m \<Longrightarrow> upTo b n \<Longrightarrow> upTo (a + b) (thn m n)"
  by (simp add: thn_def upTo_bnd)

lemma upTo_mono: "upTo a m \<Longrightarrow> a \<le> b \<Longrightarrow> upTo b m"
  unfolding upTo_def by (meson add_left_mono order_trans)

lemma upTo_cases [costs]:
  "upTo a m \<Longrightarrow> upTo b n \<Longrightarrow> upTo (max a b) (if c then m else n)"
  "upTo a n \<Longrightarrow> (\<And>y. upTo b (f y)) \<Longrightarrow> upTo (max a b) (case x of None \<Rightarrow> n | Some y \<Rightarrow> f y)"
  by (cases c; fastforce intro: upTo_mono) (cases x; fastforce intro: upTo_mono)

lemma upTo_sum [costs]:
  "(\<And>y. upTo a (f y)) \<Longrightarrow> (\<And>y. upTo b (g y)) \<Longrightarrow> upTo (max a b) (case x of Inl y \<Rightarrow> f y | Inr y \<Rightarrow> g y)"
  by (cases x; fastforce intro: upTo_mono)

lemma upTo_prod [costs]: "(\<And>y z. upTo a (f y z)) \<Longrightarrow> upTo a (case x of (y, z) \<Rightarrow> f y z)"
  by (cases x) simp

lemma upTo_prod_app [costs]: "(\<And>y z. upTo a (f y z w)) \<Longrightarrow> upTo a ((case x of (y, z) \<Rightarrow> f y z) w)"
  by (cases x) simp

lemma upTo_let [costs]: "(\<And>x. upTo a (f x)) \<Longrightarrow> upTo a (let x = e in f x)"
  by simp

lemma upTo_whenM [costs]: "upTo a m \<Longrightarrow> upTo a (whenM b m)"
  by (simp add: whenM_def upTo_def ret_def)

lemma upTo_func [costs]: "upTo a m \<Longrightarrow> upTo a (func m)"
  unfolding upTo_def func_def by (auto split: prod.splits step.splits) (metis snd_conv)+

lemma upTo_foreach [costs]: "(\<And>x a. upTo k (f x a)) \<Longrightarrow> upTo (length xs * k) (foreach xs acc f)"
  by (induction xs arbitrary: acc) (auto intro: costs)

text \<open>The shared steps.\<close>

lemma upTo_steps [costs]:
  "upTo 0 (svSet V L c)" "upTo 0 (svTrue V L t txt)" "upTo 0 (svWarn V L t txts)"
  "upTo 0 (svFail V L E t txt err)" "upTo 0 (svApply V ready h)" "upTo 0 (svFinish V L)"
  unfolding svFail_def svWarn_def svTrue_def svSet_def svApply_def svFinish_def
  by - ((rule upTo_mono, (rule costs)+, simp)+)

lemma upTo_calls [costs]:
  "upTo 1 (askService c f)" "upTo 1 (getSecret E n ns)"
  "upTo 1 (finalizerCall E fc)" "upTo 1 (finalizeRotation E ns old new fin ready)"
  unfolding askService_def getSecret_def finalizerCall_def finalizeRotation_def by - ((rule costs)+)

lemma upTo_checked [costs]:
  assumes "upTo a m"
  shows "upTo a (checked m)"
  unfolding checked_def by (rule upTo_mono, (rule costs assms)+, simp)

lemma upTo_orFail [costs]:
  assumes "upTo a m"
  shows "upTo a (orFail m)"
  unfolding orFail_def by (rule upTo_mono, (rule costs assms)+, simp)

lemma upTo_getOrFail [costs]:
  assumes "upTo a m"
  shows "upTo a (getOrFail m)"
  unfolding getOrFail_def by (rule upTo_mono, (rule costs assms)+, simp)

lemma upTo_account [costs]: "upTo 2 (svAccount V L E reason severity)"
  unfolding svAccount_def checkParentResourceExist_def checkParentRbacConditions_def reconcileRbac_def
  by (rule upTo_mono, (rule costs)+, simp)

lemma upTo_inputs [costs]:
  "upTo 1 (svPassword V L E vars)"
  "upTo 1 (svTransport V L E needed n vars)"
  "upTo 1 (svCaCert V L E missing vars)"
  "upTo 0 (svInputHash V L E changed vars)"
  unfolding svPassword_def svTransport_def svVerifySecret_def svCaCert_def svInputHash_def svCreateHash_def
  by - ((rule upTo_mono, (rule costs)+, simp)+)

lemma upTo_config [costs]:
  assumes "upTo a m"
  shows "upTo a (svConfig V L E m)"
  unfolding svConfig_def by (rule upTo_mono, (rule costs assms)+, simp)

lemma upTo_orErr [costs]:
  assumes "upTo a m" and "\<And>x. upTo b (f x)"
  shows "upTo (a + b) (orErr vars m f)"
  unfolding orErr_def by (rule upTo_mono, (rule costs assms)+, simp)

lemma upTo_topology [costs]: "upTo 1 (svTopology V L E)"
  unfolding svTopology_def ensureTopology_def conditionsIn_def by (rule upTo_mono, (rule costs)+, simp)

lemma upTo_workload [costs]:
  "upTo 1 (svStoreWorkload V L E mk wl)"
  "upTo 1 (svReady V L E (ret ()) h ob)"
  unfolding svStoreWorkload_def svReady_def
  by - ((rule upTo_mono, (rule costs)+, simp)+)

lemma upTo_createOrUpdate [costs]: "upTo 2 (createOrUpdate C kind mk n ns f)"
  unfolding createOrUpdate_def by (rule upTo_mono, (rule costs)+, simp)

lemma upTo_transport [costs]:
  "upTo 6 (tvReconcileTransportURL V T L E)"
  "upTo 0 (tvInputSecretHash T E n)"
  "upTo 4 (tvRotate V T E new oldNotif notif ready)"
  unfolding tvReconcileTransportURL_def tvCreateOrUpdate_def tvHold_def ensureNotificationsTransportURL_def conditionsIn_def
    tvInputSecretHash_def tvRotate_def tvRotateNotif_def
  by - ((rule upTo_mono, (rule costs)+, simp)+)

lemma upTo_params [costs]:
  "upTo 1 (getQuorumQueues E n ns)"
  "upTo 1 (setApplicationCredentialParams E n ns tp)"
  "upTo 1 (getNotificationsTransportURL E notif url ns tp)"
  unfolding getQuorumQueues_def setApplicationCredentialParams_def getNotificationsTransportURL_def
  by - ((rule upTo_mono, (rule costs)+, simp)+)

lemma upTo_agentSecrets [costs]: "upTo 7 (agentServiceSecrets E n vars)"
  unfolding agentServiceSecrets_def agentGetTransportURL_def
  by (rule upTo_mono, (rule costs)+, simp)

lemma upTo_agent: "upTo 25 (agentReconcileNormal L E P)"
  unfolding agentReconcileNormal_def agentAccount_def agentReconcileTransportURL_def
    agentReconcileConfigMapsAndSecrets_def agentInputs_def agentReconcileInit_def agentReconcileDeployment_def
    agentRotate_def
  by (rule upTo_mono, (rule costs)+, simp)

section \<open>The Ironic controller\<close>

lemma upTo_ironicSteps [costs]:
  "upTo 0 (modStatus f)" "upTo 0 (setCond L c)" "upTo 0 (markTrue L t msgs)" "upTo 0 (failWith L E t msg err)"
  "upTo 0 (mirrorFrom L t cs)"
  unfolding failWith_def markTrue_def setCond_def modStatus_def mirrorFrom_def
  by - ((rule upTo_mono, (rule costs)+, simp)+)

lemma upTo_sections [costs]:
  "upTo 1 (rbacSection E i)"
  "upTo 6 (transportSection L E i)"
  "upTo 1 (inputSecretSection L E i)"
  "upTo 1 (keystoneSection E i)"
  "upTo 4 (ensureDB L E i)"
  "upTo 6 (configSection L E i v ke kr db t)"
  "upTo 2 (acSecretSection L E i)"
  "upTo 1 (reconcileUpgrade L E P lbl)"
  "upTo 9 (finishSection L E i ot ct on cn ready)"
  unfolding section_defs finishSection_def acRotationSection_def transportRotationSection_def notifRotationSection_def
    pruneSection_def readySection_def
  by - ((rule upTo_mono, (rule costs)+, simp)+)

lemma upTo_conductors [costs]:
  "upTo (length (sp_IronicConductors (Spec i)) * 2) (deployConductors L E i ke kr t h)"
  unfolding deployConductors_def deployConductor_def conductorDeploymentCreateOrUpdate_def
  by (rule upTo_mono, (rule costs)+, simp)

lemma upTo_services [costs]:
  "upTo (length (sp_IronicConductors (Spec i)) * 2 + 6) (servicesSection L E W fi fa i ke kr t)"
  unfolding servicesSection_def deployAPI_def apiDeploymentCreateOrUpdate_def inspectInterfaceSection_def
    deployInspector_def inspectorDeploymentCreateOrUpdate_def inspectorDeploymentDelete_def deployNeutronAgent_def
    ironicNeutronAgentDeploymentCreateOrUpdate_def ironicNeutronAgentDeploymentDelete_def deleteSubResource_def
  by (rule upTo_mono, (rule costs)+, simp)

lemma upTo_ironic: "upTo (length (sp_IronicConductors (Spec i)) * 2 + 37) (reconcileNormalFrom L E P W fi fa i)"
  unfolding reconcileNormalFrom_def
  by (rule upTo_mono, (rule costs)+, simp)

section \<open>The bounds\<close>

text \<open>C18. A run of the Ironic controller makes at most two calls per conductor and 37 more,
  a run of the neutron agent's at most 25, whatever the calls are answered.\<close>

theorem calls_bounded:
  "length (calls (snd (reconcileNormal L E P W fi fa \<lparr>obj = i, calls = []\<rparr>)))
     \<le> length (sp_IronicConductors (Spec i)) * 2 + 37 \<and>
   length (calls (snd (agentReconcileNormal L E P \<lparr>obj = a, calls = []\<rparr>))) \<le> 25"
  using upTo_ironic [of i L E P W fi fa, unfolded upTo_def, rule_format, of "\<lparr>obj = i, calls = []\<rparr>"]
    upTo_agent [of L E P, unfolded upTo_def, rule_format, of "\<lparr>obj = a, calls = []\<rparr>"]
  by (simp add: reconcileNormal_def step_simps)

end
