(* ===== verification/WorkloadProps.thy ===== *)
theory WorkloadProps
  imports Examples
begin

text \<open>
  The workloads are well formed: every mount of every container, init containers
  included, names a volume of the pod or a volume claim of the workload.
\<close>

section \<open>Well-formed workloads\<close>

definition mountable :: "workload \<Rightarrow> string set" where
  "mountable wl = vol_Name ` set (pt_Volumes (wl_Template wl)) \<union> vc_Name ` set (wl_VolumeClaimTemplates wl)"

definition workloadMountsResolved :: "workload \<Rightarrow> bool" where
  "workloadMountsResolved wl \<longleftrightarrow>
     list_all (\<lambda>c. vm_Name ` set (ct_VolumeMounts c) \<subseteq> mountable wl) (pt_InitContainers (wl_Template wl)) \<and>
     list_all (\<lambda>c. vm_Name ` set (ct_VolumeMounts c) \<subseteq> mountable wl) (pt_Containers (wl_Template wl))"

lemma InitContainer_workMounts: "c \<in> set (InitContainer P d) \<Longrightarrow> ct_VolumeMounts c = ad_VolumeMounts d"
  by (auto simp: InitContainer_def)

lemma inspector_InitContainer_mounts:
  "c \<in> set (inspector_InitContainer P d) \<Longrightarrow> ct_VolumeMounts c = id_VolumeMounts d"
  by (auto simp: inspector_InitContainer_def)

lemma workContainer_of_mounts [simp]:
  "ct_VolumeMounts (workContainer_of n img cmd args ctx env ms res ready live start) = ms"
  by (simp add: workContainer_of_def)

lemma mount_name [simp]: "vm_Name (mount n p ro) = n" "vm_Name (secretFile n p sub) = n"
  "vm_Name (GetMergedConfVolumeMount p sub) = ''config-data-merged''"
  by (simp_all add: mount_def secretFile_def GetMergedConfVolumeMount_def)

text \<open>The CA bundle and the certificates bring the volumes of their mounts.\<close>

lemma library_names:
  assumes "podLib_laws P"
  shows "vol_Name (WritableDirVolume P n) = n" "vm_Name (WritableDirVolumeMount P n p) = n"
    "m \<in> set (CreateVolumeMounts P t q) \<Longrightarrow> vm_Name m = vol_Name (CreateVolume P t)"
  using assms by (simp_all add: podLib_laws_def)

lemma endpointCerts_names:
  assumes "podLib_laws P"
    and "endpointCerts P t es (vols, mounts) = Inr (vols', mounts')"
    and "vm_Name ` set mounts \<subseteq> vol_Name ` set vols"
  shows "vol_Name ` set vols \<subseteq> vol_Name ` set vols' \<and> vm_Name ` set mounts' \<subseteq> vol_Name ` set vols'"
  using assms(2,3)
proof (induction es arbitrary: vols mounts)
  case (Cons e es)
  show ?case
  proof (cases "tls_Enabled P t e")
    case True
    then obtain svc where svc: "ToService P (certSecret t e) = Inr svc"
      using Cons.prems by (auto split: sum.splits)
    let ?vols = "vols @ [CertVolume P svc e]"
    let ?mounts = "mounts @ CertVolumeMounts P svc (''/etc/pki/tls/certs/'' @ e @ ''.crt'') (''/etc/pki/tls/private/'' @ e @ ''.key'') e"
    have "endpointCerts P t es (?vols, ?mounts) = Inr (vols', mounts')"
      using Cons.prems True svc by simp
    moreover have "vm_Name ` set ?mounts \<subseteq> vol_Name ` set ?vols"
      using Cons.prems(2) assms(1) by (auto simp: podLib_laws_def)
    ultimately have "vol_Name ` set ?vols \<subseteq> vol_Name ` set vols' \<and> vm_Name ` set mounts' \<subseteq> vol_Name ` set vols'"
      by (rule Cons.IH)
    then show ?thesis
      by simp
  next
    case False
    then show ?thesis
      using Cons by simp
  qed
qed simp

lemmas mount_defs = conductor_GetInitVolumeMounts_def conductor_GetConductorVolumeMounts_def
  conductor_GetHttpbootVolumeMounts_def conductor_GetDnsmasqVolumeMounts_def conductor_GetRamdiskLogsVolumeMounts_def
  varLibIronicVolumeMount_def ironic_GetInitVolumeMounts_def ironic_GetVolumeMounts_def
  api_GetInitVolumeMounts_def api_GetVolumeMounts_def api_GetLogVolumeMount_def api_GetRunHttpdVolumeMount_def
  agent_GetVolumeMounts_def inspector_GetInitVolumeMounts_def inspector_getCommonVolumeMounts_def
  inspector_GetRunHttpdVolumeMount_def inspector_GetHttpdVolumeMounts_def inspector_GetInspectorVolumeMounts_def
  inspector_GetHttpbootVolumeMounts_def inspector_GetDnsmasqVolumeMounts_def inspector_GetRamdiskLogsVolumeMounts_def

lemmas volume_defs = ironic_GetVolumes_def conductor_GetVolumes_def configDataCustom_def api_GetVolumes_def
  agent_GetVolumes_def inspector_GetVolumes_def

text \<open>Mounts that find their volumes still do with the CA bundle.\<close>

lemma with_ca:
  assumes "podLib_laws P" and "vm_Name ` set ms \<subseteq> K"
  shows "vm_Name ` set (ms @ caMounts P ca) \<subseteq> K \<union> vol_Name ` set (caVolumes P ca)"
proof -
  have "vm_Name ` set (caMounts P ca) \<subseteq> vol_Name ` set (caVolumes P ca)"
    using library_names [OF assms(1)] by (auto simp: caMounts_def caVolumes_def)
  with assms(2) show ?thesis
    by (simp add: image_Un) blast
qed

section \<open>The four workloads\<close>

definition conductorVolumeNames :: "podLib \<Rightarrow> IronicConductor \<Rightarrow> string set" where
  "conductorVolumeNames P c = insert ''var-lib-ironic'' (vol_Name ` set (conductor_GetVolumes P c))"

lemma conductor_mounts:
  assumes "podLib_laws P"
  shows "vm_Name ` set (conductor_GetConductorVolumeMounts c) \<subseteq> conductorVolumeNames P c"
    "vm_Name ` set (conductor_GetHttpbootVolumeMounts P) \<subseteq> conductorVolumeNames P c"
    "vm_Name ` set conductor_GetDnsmasqVolumeMounts \<subseteq> conductorVolumeNames P c"
    "vm_Name ` set conductor_GetRamdiskLogsVolumeMounts \<subseteq> conductorVolumeNames P c"
    "vm_Name ` set (conductor_GetInitVolumeMounts c) \<subseteq> conductorVolumeNames P c"
  by (cases "GetOwningIronicName (OwnerReferences (con_Meta c)) = ''''"; cases "tbnEnabled c";
      simp add: conductorVolumeNames_def mount_defs volume_defs library_names [OF assms])+

lemma conductor_resolved:
  assumes "podLib_laws P" and "conductor_StatefulSet P c h labels ingressDomain annotations topology = Some (Inr wl)"
  shows "workloadMountsResolved wl"
proof -
  have m: "mountable wl = conductorVolumeNames P c \<union> vol_Name ` set (caVolumes P (cs_TLS (con_Spec c)))"
    and i: "pt_InitContainers (wl_Template wl) = InitContainer P (conductor_initDetails P c ingressDomain)"
    and cs: "pt_Containers (wl_Template wl) = conductor_containers P c h"
    using assms(2)
    by (auto simp: conductor_StatefulSet_def mountable_def conductorVolumeNames_def Let_def split: sum.splits option.splits)
  note mounts = conductor_mounts [OF assms(1), THEN with_ca [OF assms(1)]]
  have "list_all (\<lambda>k. vm_Name ` set (ct_VolumeMounts k) \<subseteq> mountable wl) (conductor_containers P c h)"
    unfolding m conductor_containers_def Let_def using mounts(1-4) by simp
  moreover have "vm_Name ` set (ad_VolumeMounts (conductor_initDetails P c ingressDomain)) \<subseteq> mountable wl"
    unfolding m conductor_initDetails_def Let_def using mounts(5) by simp
  ultimately show ?thesis
    unfolding workloadMountsResolved_def i cs by (simp add: list_all_iff InitContainer_workMounts)
qed

lemma agent_resolved:
  assumes "podLib_laws P"
  shows "workloadMountsResolved (agent_Deployment P a h labels topology)"
proof -
  have "vm_Name ` set (agent_GetVolumeMounts P) \<subseteq> vol_Name ` set (agent_GetVolumes P (Name (na_Meta a)))"
    by (simp add: mount_defs volume_defs library_names [OF assms])
  from with_ca [OF assms this] show ?thesis
    by (simp add: workloadMountsResolved_def mountable_def agent_Deployment_def Let_def image_Un)
qed

lemma api_resolved:
  assumes "podLib_laws P" and "api_Deployment P a h labels annotations topology = Inr wl"
  shows "workloadMountsResolved wl"
proof -
  let ?ca = "tls_Ca (api_TLS (api_Spec a))"
  let ?vols = "api_GetVolumes P a @ caVolumes P ?ca" and ?mounts = "api_GetVolumeMounts P a @ caMounts P ?ca"
  obtain vols mounts where certs: "endpointCerts P (api_TLS (api_Spec a)) [''internal'', ''public''] (?vols, ?mounts) = Inr (vols, mounts)"
    and m: "mountable wl = vol_Name ` set vols"
    and i: "pt_InitContainers (wl_Template wl) = InitContainer P (api_initDetails P a)"
    and cs: "pt_Containers (wl_Template wl) = api_containers P a h mounts"
    using assms(2) by (auto simp: api_Deployment_def mountable_def Let_def split: sum.splits)
  have "vm_Name ` set (api_GetVolumeMounts P a) \<subseteq> vol_Name ` set (api_GetVolumes P a)"
    "vm_Name ` set (api_GetInitVolumeMounts a) \<subseteq> vol_Name ` set (api_GetVolumes P a)"
    by (cases "GetOwningIronicName (OwnerReferences (api_Meta a)) = ''''";
        simp add: mount_defs volume_defs library_names [OF assms(1)])+
  from this [THEN with_ca [OF assms(1), where ca = ?ca]]
  have main: "vm_Name ` set ?mounts \<subseteq> vol_Name ` set ?vols"
    and init: "vm_Name ` set (ad_VolumeMounts (api_initDetails P a)) \<subseteq> vol_Name ` set ?vols"
    by (simp_all add: image_Un api_initDetails_def Let_def)
  have "''logs'' \<in> vol_Name ` set ?vols"
    by (simp add: volume_defs library_names [OF assms(1)])
  moreover note endpointCerts_names [OF assms(1) certs main]
  ultimately show ?thesis
    unfolding workloadMountsResolved_def i cs m using init
    by (simp add: list_all_iff InitContainer_workMounts api_containers_def Let_def api_GetLogVolumeMount_def subset_iff)
qed

definition inspectorVolumeNames :: "podLib \<Rightarrow> string set" where
  "inspectorVolumeNames P = vol_Name ` set (inspector_GetVolumes P inspectorName)"

lemma inspector_mounts:
  assumes "podLib_laws P"
  shows "vm_Name ` set (inspector_GetHttpdVolumeMounts P) \<subseteq> inspectorVolumeNames P"
    "vm_Name ` set inspector_GetInspectorVolumeMounts \<subseteq> inspectorVolumeNames P"
    "vm_Name ` set (inspector_GetHttpbootVolumeMounts P) \<subseteq> inspectorVolumeNames P"
    "vm_Name ` set inspector_GetRamdiskLogsVolumeMounts \<subseteq> inspectorVolumeNames P"
    "vm_Name ` set inspector_GetDnsmasqVolumeMounts \<subseteq> inspectorVolumeNames P"
    "vm_Name ` set inspector_GetInitVolumeMounts \<subseteq> inspectorVolumeNames P"
  by (simp_all add: inspectorVolumeNames_def mount_defs volume_defs library_names [OF assms])

lemma inspector_resolved:
  assumes "podLib_laws P" and "inspector_StatefulSet P a h labels ingressDomain annotations topology = Inr wl"
  shows "workloadMountsResolved wl"
proof -
  let ?ca = "tls_Ca (ins_TLS (ins_Spec a))"
  let ?vols = "inspector_GetVolumes P inspectorName @ caVolumes P ?ca"
    and ?mounts = "inspector_GetHttpdVolumeMounts P @ caMounts P ?ca"
  let ?K = "inspectorVolumeNames P \<union> vol_Name ` set (caVolumes P ?ca)"
  obtain vols mounts where certs: "endpointCerts P (ins_TLS (ins_Spec a)) [''internal'', ''public''] (?vols, ?mounts) = Inr (vols, mounts)"
    and m: "mountable wl = vol_Name ` set vols"
    and i: "pt_InitContainers (wl_Template wl) = inspector_InitContainer P (inspector_initDetails P a ingressDomain)"
    and cs: "pt_Containers (wl_Template wl) = inspector_containers P a h mounts"
    using assms(2) by (auto simp: inspector_StatefulSet_def mountable_def Let_def split: sum.splits)
  note covered = inspector_mounts [OF assms(1), THEN with_ca [OF assms(1), where ca = ?ca]]
  have K: "vol_Name ` set ?vols = ?K"
    by (simp add: inspectorVolumeNames_def image_Un)
  have "vm_Name ` set ?mounts \<subseteq> vol_Name ` set ?vols"
    unfolding K by (rule covered(1))
  from endpointCerts_names [OF assms(1) certs this]
  have sub: "?K \<subseteq> mountable wl" "vm_Name ` set mounts \<subseteq> mountable wl"
    unfolding m K by simp_all
  have init: "vm_Name ` set (id_VolumeMounts (inspector_initDetails P a ingressDomain)) \<subseteq> mountable wl"
    using subset_trans [OF covered(6) sub(1)] by (simp add: inspector_initDetails_def Let_def)
  have "list_all (\<lambda>k. vm_Name ` set (ct_VolumeMounts k) \<subseteq> mountable wl) (inspector_containers P a h mounts)"
    using covered(2-5) [THEN subset_trans, OF sub(1)] sub(2)
    by (simp add: inspector_containers_def Let_def)
  then show ?thesis
    unfolding workloadMountsResolved_def i cs using init
    by (simp add: list_all_iff inspector_InitContainer_mounts)
qed

section \<open>The property\<close>

text \<open>C19. The StatefulSets and Deployments the four controllers store are well formed: every
  volume mount, of init containers and containers, with and without a CA bundle,
  endpoint certificates, an owner, networks or traits, names a volume of the pod or
  a volume claim of the workload.\<close>

theorem workload_mounts_resolved:
  assumes "podLib_laws P"
  shows "(case conductor_StatefulSet P c h labels ingressDomain annotations topology of
       Some (Inr wl) \<Rightarrow> workloadMountsResolved wl | _ \<Rightarrow> True) \<and>
    (case api_Deployment P a h labels annotations topology of
       Inr wl \<Rightarrow> workloadMountsResolved wl | Inl _ \<Rightarrow> True) \<and>
    (case inspector_StatefulSet P i h labels ingressDomain annotations topology of
       Inr wl \<Rightarrow> workloadMountsResolved wl | Inl _ \<Rightarrow> True) \<and>
    workloadMountsResolved (agent_Deployment P n h labels topology)"
  using conductor_resolved [OF assms] api_resolved [OF assms] inspector_resolved [OF assms] agent_resolved [OF assms]
  by (simp split: option.split sum.split)

theorem workload_mounts_resolved_witness:
  "workloadMountsResolved (agent_Deployment examplePodLib exampleAgentObject ''hash'' Map.empty None)"
  using workload_mounts_resolved [OF examplePodLib_laws] by blast

end
