(* ===== verification/Mounts.thy ===== *)
theory Mounts
  imports WorkloadProps ServiceLemmas
begin

text \<open>
  The secrets a controller writes are the ones the pods of its workload mount, but
  for the inspector, whose pods mount secrets of a fixed name.
\<close>

section \<open>Writing and mounting secrets\<close>

text \<open>Every write of secrets writes exactly those with the names \<open>N\<close>.\<close>

definition writes :: "string set \<Rightarrow> call \<Rightarrow> bool" where
  "writes N c \<longleftrightarrow> (case c of EnsureSecrets cms \<Rightarrow> tm_Name ` set cms = N | _ \<Rightarrow> True)"

lemma writes_simps [simp]:
  "writes N (EnsureSecrets cms) \<longleftrightarrow> tm_Name ` set cms = N"
  "writes N (GetDatabaseByNameAndAccount a b c)" "writes N (GetSecret n ns)" "writes N (GetKeystoneAPI ns)"
  "writes N (OnService sc)"
  by (simp_all add: writes_def)

text \<open>The volume \<open>v\<close> is a secret, and its name is \<open>n\<close>.\<close>

definition mountsSecret :: "volume list \<Rightarrow> string \<Rightarrow> string \<Rightarrow> bool" where
  "mountsSecret vols v n \<longleftrightarrow> (\<exists>mode. map_of (map (\<lambda>x. (vol_Name x, vol_Source x)) vols) v = Some (SecretSource mode n))"

lemma run_writes: "emits A (f i) \<Longrightarrow> list_all A (calls (snd (bnd getObj f \<lparr>obj = i, calls = []\<rparr>)))"
  by (auto simp: step_simps dest: emitsD [where s = "\<lparr>obj = i, calls = []\<rparr>"])

section \<open>Conductor, API and neutron agent\<close>

lemma conductor_writes:
  "list_all (writes {Name (con_Meta c) @ ''-scripts'', Name (con_Meta c) @ ''-config-data''})
     (calls (snd (conductorConfigMaps E W maskText vars \<lparr>obj = c, calls = []\<rparr>)))"
  unfolding conductorConfigMaps_def Let_def conductorAuthParams_def conductorGetTransportURL_def
  by (rule run_writes) (intro keeps; simp)

lemma api_writes:
  "list_all (writes {Name (api_Meta a) @ ''-scripts'', Name (api_Meta a) @ ''-config-data''})
     (calls (snd (apiConfigMaps E P vars \<lparr>obj = a, calls = []\<rparr>)))"
  unfolding apiConfigMaps_def Let_def apiAuthParams_def apiGetTransportURL_def
  by (rule run_writes) (intro keeps; simp)

lemma agent_writes:
  "list_all (writes {Name (na_Meta n) @ ''-config-data''})
     (calls (snd (agentServiceSecrets E t vars \<lparr>obj = n, calls = []\<rparr>)))"
  unfolding agentServiceSecrets_def Let_def agentGetTransportURL_def
  by (rule run_writes) (intro keeps; simp)

lemma inspector_writes:
  "list_all (writes {Name (ins_Meta i) @ ''-scripts'', Name (ins_Meta i) @ ''-config-data''})
     (calls (snd (inspectorServiceSecrets E P W maskText db t vars \<lparr>obj = i, calls = []\<rparr>)))"
  unfolding inspectorServiceSecrets_def Let_def inspectorAuthParams_def inspectorGetTransportURL_def
  by (rule run_writes) (intro keeps; simp)

text \<open>The secrets that conductor, API and neutron agent write for themselves are the ones their
  pods mount: in any environment a write of the controller names exactly the
  secrets with the instance's name, and the volumes of its workload are those secrets.\<close>

theorem mounted_secrets_written:
  "list_all (writes {Name (con_Meta c) @ ''-scripts'', Name (con_Meta c) @ ''-config-data''})
     (calls (snd (conductorConfigMaps E W maskText vars \<lparr>obj = c, calls = []\<rparr>))) \<and>
   mountsSecret (conductor_GetVolumes P c) ''scripts'' (Name (con_Meta c) @ ''-scripts'') \<and>
   mountsSecret (conductor_GetVolumes P c) ''config-data'' (Name (con_Meta c) @ ''-config-data'') \<and>
   list_all (writes {Name (api_Meta a) @ ''-scripts'', Name (api_Meta a) @ ''-config-data''})
     (calls (snd (apiConfigMaps E P vars \<lparr>obj = a, calls = []\<rparr>))) \<and>
   mountsSecret (api_GetVolumes P a) ''scripts'' (Name (api_Meta a) @ ''-scripts'') \<and>
   mountsSecret (api_GetVolumes P a) ''config-data'' (Name (api_Meta a) @ ''-config-data'') \<and>
   list_all (writes {Name (na_Meta n) @ ''-config-data''})
     (calls (snd (agentServiceSecrets E t vars \<lparr>obj = n, calls = []\<rparr>))) \<and>
   mountsSecret (agent_GetVolumes P (Name (na_Meta n))) ''config'' (Name (na_Meta n) @ ''-config-data'')"
  using conductor_writes api_writes agent_writes
  by (simp add: mountsSecret_def conductor_GetVolumes_def api_GetVolumes_def agent_GetVolumes_def ironic_GetVolumes_def)

section \<open>The inspector\<close>

lemma endpointCerts_extends:
  "endpointCerts P tls es (vols, ms) = Inr (vols', ms') \<Longrightarrow> \<exists>vs. vols' = vols @ vs"
  by (induction P tls es "(vols, ms)" arbitrary: vols ms rule: endpointCerts.induct)
    (auto split: if_splits sum.splits)

text \<open>C20. The inspector writes secrets with its instance's name, while the pods of its
  StatefulSet and of its database job mount those named \<open>ironic-inspector\<close>: what is
  written is what is mounted exactly when the instance has that name.\<close>

theorem inspector_mounts_fixed_secrets:
  "list_all (writes {Name (ins_Meta i) @ ''-scripts'', Name (ins_Meta i) @ ''-config-data''})
     (calls (snd (inspectorServiceSecrets E P W maskText db t vars \<lparr>obj = i, calls = []\<rparr>))) \<and>
   mountsSecret (pod_Volumes (job_Pod (inspector_DbSyncJob P i labels))) ''config'' ''ironic-inspector-config-data'' \<and>
   (case inspector_StatefulSet P i h labels ingressDomain annotations topology of
      Inl _ \<Rightarrow> True
    | Inr wl \<Rightarrow> mountsSecret (pt_Volumes (wl_Template wl)) ''config'' ''ironic-inspector-config-data'') \<and>
   (Name (ins_Meta i) @ ''-config-data'' = ''ironic-inspector-config-data'' \<longleftrightarrow> Name (ins_Meta i) = ''ironic-inspector'')"
proof -
  have name: "inspectorName = ''ironic-inspector''"
    by (simp add: inspectorName_def ServiceName_def InspectorComponent_def)
  have base: "mountsSecret (inspector_GetVolumes P inspectorName @ vs) ''config'' ''ironic-inspector-config-data''" for vs
    by (simp add: mountsSecret_def inspector_GetVolumes_def name)
  have "mountsSecret (pt_Volumes (wl_Template wl)) ''config'' ''ironic-inspector-config-data''"
    if "inspector_StatefulSet P i h labels ingressDomain annotations topology = Inr wl" for wl
  proof -
    let ?vols = "inspector_GetVolumes P inspectorName @ caVolumes P (tls_Ca (ins_TLS (ins_Spec i)))"
    let ?mounts = "inspector_GetHttpdVolumeMounts P @ caMounts P (tls_Ca (ins_TLS (ins_Spec i)))"
    have "\<exists>mounts. endpointCerts P (ins_TLS (ins_Spec i)) [''internal'', ''public''] (?vols, ?mounts)
        = Inr (pt_Volumes (wl_Template wl), mounts)"
      using that by (auto simp: inspector_StatefulSet_def Let_def simp del: endpointCerts.simps split: sum.splits)
    then obtain vs where "pt_Volumes (wl_Template wl) = ?vols @ vs"
      using endpointCerts_extends by blast
    then show ?thesis
      using base by simp
  qed
  moreover have "Name (ins_Meta i) @ ''-config-data'' = ''ironic-inspector-config-data'' \<longleftrightarrow> Name (ins_Meta i) = ''ironic-inspector''"
    using append_same_eq [of "Name (ins_Meta i)" "''-config-data''" "''ironic-inspector''"] by simp
  ultimately show ?thesis
    using inspector_writes by (auto split: sum.split simp: inspector_DbSyncJob_def Let_def mountsSecret_def inspector_GetVolumes_def name)
qed

end
