(* ===== verification/Spec2Isabelle.thy ===== *)
theory Spec2Isabelle
  imports Completion Superseded Manager Costs Mounts
begin

text \<open>
  Verification development of the OpenStack ironic operator: a Kubernetes operator
  in Go that runs the bare metal service. A user creates one \<open>Ironic\<close> resource; its
  controller creates the sub-resources \<open>IronicConductor\<close> (one per conductor group),
  \<open>IronicAPI\<close>, \<open>IronicInspector\<close> and \<open>IronicNeutronAgent\<close>, whose controllers run the
  workloads. Secrets (database accounts, application credentials, transport URLs)
  may be rotated at any time; an old secret keeps a consumer finalizer until every
  workload runs with the new one. That protocol, run by run and across the controllers,
  the admission webhooks, the objects the controllers create, what wakes them and the
  start of the operator are what is verified here.

  \<^bold>\<open>How the code is modelled.\<close> A struct is a record, a string-typed enum a string or a
  datatype, a Go map a partial map, an optional pointer an option, an error a value
  \<open>goerr\<close> in a sum type. A function of a controller is a computation (\<open>Actions\<close>): it
  threads the instance it reconciles (\<open>obj\<close>) and the log of the calls it made to the
  outside (\<open>calls\<close>), and it goes on with a value (\<open>Continue\<close>) or returns early
  (\<open>Return\<close>), as each \<open>return ctrl.Result{}, err\<close> of the source does. What the
  outside answers is a function of the log so far, collected in a record of
  functions: \<open>env\<close> for the Kubernetes API and the calls of lib-common and the other
  operators, \<open>condLib\<close> for the condition library, \<open>podLib\<close> for the builders of volumes
  and security contexts, \<open>webhookLib\<close> for the validation helpers and the order in which
  Go ranges over a map. These are parameters of every definition that uses them.
  A theorem holds for all of them, or names the law it needs: \<open>condLib_laws\<close>,
  \<open>setShared_law\<close>, \<open>mirror_law\<close>, \<open>podLib_laws\<close>, \<open>k8snet_laws\<close>, \<open>StringInSlice_law\<close>,
  \<open>rangeMap_law\<close>, \<open>DefaultRabbitMqConfig_law\<close>, \<open>setHash_law\<close> and \<open>finalizer_law\<close> (what lib-common's
  \<open>SetHash\<close> and controller-runtime's \<open>AddFinalizer\<close> do), \<open>settled\<close> and \<open>settledServices\<close> (every call is answered and
  the workloads become ready), \<open>atRest\<close> (the answers the inputs are read from do not depend on the calls made before),
  \<open>rotatesBy\<close>, \<open>answersIn\<close> (the secrets of the transport URLs), \<open>lawful\<close> (a hash is a function of what is hashed; an owner reference changes
  only the owners of an object), \<open>wellNamed\<close> (reading gives the object asked for), \<open>truthful\<close>
  (a status that comes back is one its controller has left), \<open>cooperative\<close>. Each of those
  has an instance, used by the witness of the theorem. Loops run over
  lists by \<open>foreach\<close> or structural recursion, so every function is total; no fuel is
  used anywhere. Integers the operator computes with are replica counts, ports and
  timeouts, far inside their width, and are \<open>int\<close>; bytes of addresses are \<open>8 word\<close>.

  \<^bold>\<open>The theories and the code they model.\<close>
  \<^item> \<open>Prelude\<close>: collections of hints, numbers as text. \<open>Actions\<close>: the computations above
    and their proof rules. \<open>step_simps\<close> runs a step; \<open>emits A m\<close> bounds the calls \<open>m\<close>
    can log, \<open>leaves F m\<close> the fields it can change (collected in \<open>keeps\<close>); \<open>valid\<close> is a
    triple with a postcondition for going on and one for returning; \<open>runs\<close>, \<open>gives\<close> and
    \<open>yields\<close> state that a computation goes on; \<open>guards\<close> that certain calls come only
    after a condition on the log. \<open>Steady\<close>: two runs from instances that agree on a view
    end with the same value (\<open>steady F m\<close>), so the inputs of a run are a function of the view.
  \<^item> \<open>GoNet\<close>: \<open>net\<close>, \<open>netip\<close> and \<open>bytes\<close> of the Go standard library as far as used.
  \<^item> \<open>Kube\<close>: object metadata, results, conditions, field errors.
  \<^item> \<open>ApiTypes\<close>: api/v1beta1/*_types.go, common_types.go, funcs.go, ironicapi.go.
  \<^item> \<open>Webhook\<close>, \<open>WebhookProps\<close>: api/v1beta1/ironic_webhook.go and
    internal/webhook/v1beta1. The exact values defaulting gives; DHCP ranges against an
    arithmetic specification on addresses as numbers; the exact condition under which
    a create or an update is admitted; uniqueness of conductor groups; route
    annotations.
  \<^item> \<open>IronicLib\<close>, \<open>IronicLibProps\<close>: internal/ironic (volumes, init containers, database
    job, prefixes and netmasks). \<open>Workloads\<close> and \<open>InspectorWorkloads\<close>:
    internal/ironicconductor, ironicapi, ironicneutronagent, ironicinspector (the
    StatefulSets, Deployments, services, routes, jobs and their volumes).
    \<open>WorkloadProps\<close>: every volume mount of the four workloads resolves.
  \<^item> \<open>Cluster\<close>: the calls to the outside and their environment. \<open>ControllerFuncs\<close>:
    internal/controller/funcs.go and internal/keystone/keystone_registration.go.
  \<^item> \<open>IronicController\<close>: internal/controller/ironic_controller.go. \<open>Reconcile\<close> and
    \<open>reconcileNormal\<close> as the code composes them, cut at the comments of the source into
    sections (\<open>transportSection\<close>, \<open>keystoneSection\<close>, \<open>servicesSection\<close>, \<open>finishSection\<close>
    and others). \<open>IronicProps\<close>, \<open>Progress\<close>, \<open>ReconcileProps\<close>, \<open>ReconcileProps2\<close>:
    rollout before release of a credential, progress in a settled environment (a run that finds
    the hash of its inputs recorded completes, any other records it, is given up, and the next completes),
    secrets in use are kept, exact deletion, which calls are made and which fields
    change, names and specs of sub-resources, the readiness reported. \<open>Superseded\<close>: which
    secrets a run keeps at most (\<open>keeping_run\<close>), and that a rotation of the notifications
    secret is forgotten when the run ends before its last section.
  \<^item> \<open>ServiceController\<close>: the steps the controllers of the four sub-resources repeat with
    the type of their instance, written once over a record of accessors (\<open>service\<close>);
    \<open>EndpointService\<close> those of the services with endpoints; \<open>TransportService\<close> those of
    the services that own their transport. \<open>ConductorController\<close>, \<open>ApiController\<close>,
    \<open>InspectorController\<close>, \<open>AgentController\<close>: internal/controller/ironicconductor_controller.go,
    ironicapi_controller.go, ironicinspector_controller.go and
    ironicneutronagent_controller.go, \<open>Reconcile\<close> and everything it calls. \<open>Watches\<close>:
    the field indexes and searches of their \<open>SetupWithManager\<close>; \<open>Wiring\<close>: what each of the
    five controllers registers there, and that it hears of every kind of object it creates.
  \<^item> \<open>Manager\<close>: cmd/main.go and the registration of the webhooks. \<open>main\<close> carries out a plan
    (\<open>startPlan\<close>); the manager starts last and prepared; the TLS options of the servers.
  \<^item> \<open>ServiceLemmas\<close>: what the shared steps keep. \<open>Rollout\<close> and \<open>ServiceProps\<close>: the applied
    input hash advances, and an owned credential is let go, only after the rollout in
    the same run. \<open>Rotation\<close>: the rotation of transport secrets refines a machine on the
    two tracked names, prunes spare every secret taken hold of, deletion releases all
    that is tracked or live. \<open>Entry\<close>: a reconcile stores its instance last and once; the
    hash of the inputs settles. \<open>Costs\<close>: bounds on the number of calls of a run.
    \<open>Mounts\<close>: the secrets written are those mounted.
  \<^item> \<open>Handover\<close>: in one run the Ironic controller hands one list of secrets to every
    conductor and the API, and asks for its hash. \<open>ServiceProgress\<close>: in an environment that
    answers, the steps of their controllers go on (\<open>goes\<close>). \<open>Settling\<close>: their first run records the hash
    of its inputs, be it given up for it or not, and the second applies what was asked for. \<open>Protocol\<close> and \<open>Completion\<close>: histories of the runs of all three.
  \<^item> \<open>Examples\<close>: a condition library and an environment for the witnesses.

  \<^bold>\<open>Interfaces.\<close> \<open>topology_handler\<close> and \<open>topology_conditions\<close> (the accessors
  \<open>ensureTopology\<close> works through) are interpreted by the four sub-resources;
  \<open>transport_creator\<close> (a function that creates a transport URL) by the Ironic
  controller's and by the shared one; \<open>service_steps\<close> and its extensions
  \<open>service_view\<close> and \<open>transport_view\<close> (get and set laws of the accessor records, and which part of the
  instance stays as it is) by conductor, API, agent and inspector, as is \<open>hash_view\<close>
  (the laws for the recorded hash); \<open>applied_view\<close> (an applied hash that follows the
  annotation) and its extension \<open>inputs_view\<close> (the inputs are read from metadata and spec) by
  conductor and API.

  \<^bold>\<open>How the parts meet.\<close> The Ironic controller asks for a rollout by the annotation with
  the hash of the input secrets; the sub-resource records it in \<open>AppliedInputSecretHash\<close>
  only after its workload was rolled out (\<open>applied_hash_after_rollout\<close>); the Ironic
  controller finalizes a rotation only after every sub-resource shows that hash at its
  current generation (\<open>rollout_before_release\<close>). \<open>history\<close> puts these runs together: an
  inductive predicate on the objects stored and the runs that ended, in any order, each
  controller reading any earlier version of its object. In every history a credential is
  let go only when conductors and API run with the new one
  (\<open>released_after_rollout_everywhere\<close>; the inspector's own application credential is not among
  those the hash is made of, and excepted), and from every history the rotation can come to
  its end (\<open>rotation_can_complete\<close>), where each of the three controllers may first give up a run
  because the hash of its inputs has changed.

  \<^bold>\<open>The start.\<close> A path is kept as its directory and file name, an option function of the TLS
  configuration as a constructor that \<open>runOpt\<close> applies; appending to the option slices copies
  them, as they are full. What the libraries answer is one function from the calls so far.

  \<^bold>\<open>Not modelled.\<close> The generated deep copies and the scheme registration of the API group,
  which are generated or declare types; the parsing of the command line and the logger; log
  lines; templates and manifests, which libraries outside the repository render. Two runs
  of one controller for one object do not overlap (controller-runtime's work queue), so
  a run is a sequence of steps; what others do in between is in the environment's
  answers, which may depend on every call made so far.
\<close>

end
